(* ===== verification/Prelude.thy ===== *)
theory Prelude
  imports Complex_Main "HOL-Library.Word" "HOL-Library.AList"
    "HOL-Library.List_Lexorder" "HOL-Library.Char_ord" "HOL-Library.Multiset"
begin

text \<open>
  Rust strings and the parts of the Rust standard library the program uses on
  them. A Rust \<^verbatim>\<open>str\<close> is the list of its UTF-8 bytes, one \<open>char\<close> of
  Isabelle per byte, so \<^verbatim>\<open>len()\<close> is \<open>length\<close>, a byte slice is
  \<open>take\<close>/\<open>drop\<close>, and literals are written as they are in the source. Every
  character-wise test of the program compares with ASCII characters only, and no
  byte of a longer UTF-8 sequence is an ASCII byte, so the byte-wise test gives
  the same answer. Only the white-space functions look at characters beyond
  ASCII: they recognise the UTF-8 encodings of Unicode's White-Space characters.
  The theory also declares the collections of simplification rules the
  components share.
\<close>

named_theorems rust_str \<open>unfolding rules for the string predicates\<close>
named_theorems wp_simps \<open>evaluation of handler programs\<close>
named_theorems exec_defs \<open>definitions of the command handlers\<close>

type_synonym u8 = "8 word"
type_synonym u16 = "16 word"
type_synonym u32 = "32 word"
type_synonym u64 = "64 word"
type_synonym i32 = "32 word"

text \<open>The characters a string literal cannot hold.\<close>

abbreviation backslash :: string where
  "backslash \<equiv> [CHR 0x5C]"

abbreviation squote :: string where
  "squote \<equiv> [CHR 0x27]"

abbreviation newline :: string where
  "newline \<equiv> [CHR 0x0A]"

abbreviation carriage_return :: string where
  "carriage_return \<equiv> [CHR 0x0D]"

section \<open>ASCII character classes\<close>

definition byte_of :: "char \<Rightarrow> nat" where
  "byte_of c = of_char c"

definition is_ascii_digit :: "char \<Rightarrow> bool" where
  "is_ascii_digit c \<longleftrightarrow> 48 \<le> byte_of c \<and> byte_of c \<le> 57"

definition is_ascii_alphabetic :: "char \<Rightarrow> bool" where
  "is_ascii_alphabetic c \<longleftrightarrow>
     (65 \<le> byte_of c \<and> byte_of c \<le> 90) \<or> (97 \<le> byte_of c \<and> byte_of c \<le> 122)"

definition is_ascii_alphanumeric :: "char \<Rightarrow> bool" where
  "is_ascii_alphanumeric c \<longleftrightarrow> is_ascii_alphabetic c \<or> is_ascii_digit c"

definition is_ascii :: "char \<Rightarrow> bool" where
  "is_ascii c \<longleftrightarrow> byte_of c < 128"

definition to_ascii_lower :: "char \<Rightarrow> char" where
  "to_ascii_lower c =
     (if 65 \<le> byte_of c \<and> byte_of c \<le> 90 then char_of (byte_of c + 32) else c)"

definition to_ascii_lowercase :: "string \<Rightarrow> string" where
  "to_ascii_lowercase s = map to_ascii_lower s"

definition eq_ignore_ascii_case :: "string \<Rightarrow> string \<Rightarrow> bool" where
  "eq_ignore_ascii_case a b \<longleftrightarrow> to_ascii_lowercase a = to_ascii_lowercase b"

lemmas char_class_defs [rust_str] = is_ascii_digit_def is_ascii_alphabetic_def
  is_ascii_alphanumeric_def is_ascii_def byte_of_def

lemma alphanumeric_is_ascii: "is_ascii_alphanumeric c \<Longrightarrow> is_ascii c"
  by (auto simp: char_class_defs)

lemma digit_is_alphanumeric: "is_ascii_digit c \<Longrightarrow> is_ascii_alphanumeric c"
  by (simp add: is_ascii_alphanumeric_def)

section \<open>Searching, splitting and joining\<close>

definition starts_with :: "string \<Rightarrow> string \<Rightarrow> bool" where
  "starts_with s p \<longleftrightarrow> take (length p) s = p"

definition ends_with :: "string \<Rightarrow> string \<Rightarrow> bool" where
  "ends_with s p \<longleftrightarrow> length p \<le> length s \<and> drop (length s - length p) s = p"

definition strip_suffix :: "string \<Rightarrow> string \<Rightarrow> string option" where
  "strip_suffix s p = (if ends_with s p then Some (take (length s - length p) s) else None)"

fun contains_str :: "string \<Rightarrow> string \<Rightarrow> bool" where
  "contains_str [] p \<longleftrightarrow> p = []"
| "contains_str (c # s) p \<longleftrightarrow> starts_with (c # s) p \<or> contains_str s p"

text \<open>\<^verbatim>\<open>s.split(c)\<close>: never empty, \<^verbatim>\<open>"".split(c)\<close> is one empty piece.\<close>

fun split_on :: "char \<Rightarrow> string \<Rightarrow> string list" where
  "split_on d [] = [[]]"
| "split_on d (c # s) =
     (if c = d then [] # split_on d s
      else (case split_on d s of p # ps \<Rightarrow> (c # p) # ps | [] \<Rightarrow> [[c]]))"

text \<open>\<^verbatim>\<open>s.split_once(c)\<close>: at the first occurrence.\<close>

fun split_once :: "char \<Rightarrow> string \<Rightarrow> (string \<times> string) option" where
  "split_once d [] = None"
| "split_once d (c # s) =
     (if c = d then Some ([], s)
      else (case split_once d s of None \<Rightarrow> None | Some (a, b) \<Rightarrow> Some (c # a, b)))"

fun join :: "string \<Rightarrow> string list \<Rightarrow> string" where
  "join sep [] = []"
| "join sep [p] = p"
| "join sep (p # q # ps) = p @ sep @ join sep (q # ps)"

lemma split_on_nonempty [simp]: "split_on d s \<noteq> []"
  by (induction s) (auto split: list.splits)

lemma split_on_absent: "d \<notin> set s \<Longrightarrow> split_on d s = [s]"
  by (induction s) auto

lemma split_on_pieces: "p \<in> set (split_on d s) \<Longrightarrow> d \<notin> set p"
proof (induction s arbitrary: p)
  case (Cons c s)
  obtain q qs where q: "split_on d s = q # qs" by (cases "split_on d s") auto
  with Cons.prems have "p = [] \<or> p \<in> set (q # qs) \<or> (c \<noteq> d \<and> p = c # q)"
    by (auto split: if_splits)
  moreover have "d \<notin> set r" if "r \<in> set (q # qs)" for r
    using Cons.IH [of r] that q by simp
  ultimately show ?case by auto
qed simp

lemma split_on_append: "d \<notin> set p \<Longrightarrow> split_on d (p @ d # s) = p # split_on d s"
  by (induction p) auto

lemma join_split_on: "join [d] (split_on d s) = s"
proof (induction s)
  case (Cons c s)
  obtain p ps where p: "split_on d s = p # ps" by (cases "split_on d s") auto
  with Cons.IH show ?case by (cases ps) auto
qed simp

lemma split_on_join:
  "ps \<noteq> [] \<Longrightarrow> \<forall>p \<in> set ps. d \<notin> set p \<Longrightarrow> split_on d (join [d] ps) = ps"
  by (induction "[d]" ps rule: join.induct) (auto simp: split_on_absent split_on_append)

lemma split_once_Some: "split_once d s = Some (a, b) \<longleftrightarrow> s = a @ d # b \<and> d \<notin> set a"
proof (induction s arbitrary: a)
  case (Cons c s)
  show ?case
  proof (cases a)
    case Nil
    then show ?thesis by (auto split: option.splits)
  next
    case (Cons x a')
    with Cons.IH [of a'] show ?thesis by (auto split: option.splits)
  qed
qed simp

lemma split_once_None: "split_once d s = None \<longleftrightarrow> d \<notin> set s"
  by (induction s) (auto split: option.splits)

lemma starts_with_iff: "starts_with s p \<longleftrightarrow> (\<exists>r. s = p @ r)"
  by (metis append_eq_conv_conj append_take_drop_id starts_with_def)

lemma starts_with_append [simp]: "starts_with (p @ s) p"
  by (simp add: starts_with_def)

lemma starts_with_Nil [simp]: "starts_with s []"
  by (simp add: starts_with_def)

lemma ends_with_iff: "ends_with s p \<longleftrightarrow> (\<exists>r. s = r @ p)"
proof
  assume "ends_with s p"
  then have "s = take (length s - length p) s @ p"
    unfolding ends_with_def by (metis append_take_drop_id)
  then show "\<exists>r. s = r @ p" ..
qed (auto simp: ends_with_def)

lemma strip_suffix_Some: "strip_suffix s p = Some r \<longleftrightarrow> s = r @ p"
  by (auto simp: strip_suffix_def ends_with_iff)

lemma contains_str_iff: "contains_str s p \<longleftrightarrow> (\<exists>a b. s = a @ p @ b)"
proof (induction s)
  case (Cons c s)
  note IH = Cons.IH
  show ?case
  proof
    assume "contains_str (c # s) p"
    then consider "starts_with (c # s) p" | "contains_str s p" by auto
    then show "\<exists>a b. c # s = a @ p @ b"
    proof cases
      case 1
      then obtain r where "c # s = [] @ p @ r" by (auto simp: starts_with_iff)
      then show ?thesis by blast
    next
      case 2
      then obtain a b where "s = a @ p @ b" using Cons.IH by blast
      then have "c # s = (c # a) @ p @ b" by simp
      then show ?thesis by blast
    qed
  next
    assume "\<exists>a b. c # s = a @ p @ b"
    then obtain a b where ab: "c # s = a @ p @ b" by blast
    show "contains_str (c # s) p"
    proof (cases a)
      case Nil
      with ab have "starts_with (c # s) p" unfolding starts_with_iff by simp
      then show ?thesis by simp
    next
      case (Cons x a')
      with ab have "s = a' @ p @ b" by simp
      then have "contains_str s p" using IH by blast
      then show ?thesis by simp
    qed
  qed
qed auto

lemma join_Nil_iff: "\<forall>p \<in> set ps. p \<noteq> [] \<Longrightarrow> join sep ps = [] \<longleftrightarrow> ps = []"
  by (induction sep ps rule: join.induct) auto

lemma hd_join: "ps \<noteq> [] \<Longrightarrow> hd ps \<noteq> [] \<Longrightarrow> hd (join sep ps) = hd (hd ps)"
  by (induction sep ps rule: join.induct) auto

lemma split_on_covers: "c \<in> set s \<Longrightarrow> c = d \<or> (\<exists>p \<in> set (split_on d s). c \<in> set p)"
proof (induction s)
  case (Cons x s)
  obtain p ps where p: "split_on d s = p # ps" by (cases "split_on d s") auto
  with Cons show ?case by auto
qed simp

lemma set_join_subset: "set (join sep ps) \<subseteq> set sep \<union> (\<Union>p \<in> set ps. set p)"
  by (induction sep ps rule: join.induct) auto

section \<open>White space\<close>

text \<open>
  The number of bytes of the White-Space character a string begins with, 0 when it
  begins with none: U+0009 to U+000D and the space, then U+0085, U+00A0, U+1680,
  U+2000 to U+200A, U+2028, U+2029, U+202F, U+205F and U+3000 in UTF-8.
\<close>

definition ws_prefix :: "string \<Rightarrow> nat" where
  "ws_prefix s = (case map byte_of (take 3 s) of
       [] \<Rightarrow> 0
     | x # r \<Rightarrow>
        if (9 \<le> x \<and> x \<le> 13) \<or> x = 32 then 1
        else (case r of
            [] \<Rightarrow> 0
          | y # r' \<Rightarrow>
             if x = 194 \<and> (y = 133 \<or> y = 160) then 2
             else (case r' of
                 [] \<Rightarrow> 0
               | z # _ \<Rightarrow>
                  if (x = 225 \<and> y = 154 \<and> z = 128)
                     \<or> (x = 226 \<and> y = 128 \<and>
                         ((128 \<le> z \<and> z \<le> 138) \<or> z = 168 \<or> z = 169 \<or> z = 175))
                     \<or> (x = 226 \<and> y = 129 \<and> z = 159)
                     \<or> (x = 227 \<and> y = 128 \<and> z = 128)
                  then 3 else 0)))"

lemma ws_prefix_Nil [simp]: "ws_prefix [] = 0"
  by (simp add: ws_prefix_def)

definition ws_suffix :: "string \<Rightarrow> nat" where
  "ws_suffix s = (let n = length s in
     if 1 \<le> n \<and> ws_prefix (drop (n - 1) s) = 1 then 1
     else if 2 \<le> n \<and> ws_prefix (drop (n - 2) s) = 2 then 2
     else if 3 \<le> n \<and> ws_prefix (drop (n - 3) s) = 3 then 3
     else 0)"

lemma ws_suffix_pos: "0 < ws_suffix s \<Longrightarrow> s \<noteq> []"
  by (auto simp: ws_suffix_def Let_def split: if_splits)

function trim_start :: "string \<Rightarrow> string" where
  "trim_start s = (if ws_prefix s = 0 then s else trim_start (drop (ws_prefix s) s))"
  by pat_completeness auto
termination
proof (relation "measure length")
  fix s :: string
  assume "ws_prefix s \<noteq> 0"
  then show "(drop (ws_prefix s) s, s) \<in> measure length"
    by (cases s) auto
qed simp

function trim_end :: "string \<Rightarrow> string" where
  "trim_end s =
     (if ws_suffix s = 0 then s else trim_end (take (length s - ws_suffix s) s))"
  by pat_completeness auto
termination
proof (relation "measure length")
  fix s :: string
  assume "ws_suffix s \<noteq> 0"
  then show "(take (length s - ws_suffix s) s, s) \<in> measure length"
    using ws_suffix_pos [of s] by (cases s) auto
qed simp

declare trim_start.simps [simp del] trim_end.simps [simp del]

definition trim :: "string \<Rightarrow> string" where
  "trim s = trim_end (trim_start s)"

lemma trim_start_noop: "ws_prefix s = 0 \<Longrightarrow> trim_start s = s"
  by (subst trim_start.simps) simp

lemma trim_end_noop: "ws_suffix s = 0 \<Longrightarrow> trim_end s = s"
  by (subst trim_end.simps) simp

lemma trim_start_space: "trim_start (CHR '' '' # s) = trim_start s"
  by (subst trim_start.simps) (simp add: ws_prefix_def Let_def byte_of_def)

lemma set_trim_start: "set (trim_start s) \<subseteq> set s"
proof (induction s rule: trim_start.induct)
  case (1 s)
  then show ?case
    by (subst trim_start.simps) (auto dest!: in_set_dropD)
qed

lemma set_trim_end: "set (trim_end s) \<subseteq> set s"
proof (induction s rule: trim_end.induct)
  case (1 s)
  then show ?case
    by (subst trim_end.simps) (auto dest!: in_set_takeD)
qed

lemma set_trim: "set (trim s) \<subseteq> set s"
  using set_trim_start set_trim_end unfolding trim_def by blast

lemma length_trim_start: "length (trim_start s) \<le> length s"
proof (induction s rule: trim_start.induct)
  case (1 s)
  then show ?case by (subst trim_start.simps) auto
qed

lemma length_trim_end: "length (trim_end s) \<le> length s"
proof (induction s rule: trim_end.induct)
  case (1 s)
  then show ?case by (subst trim_end.simps) auto
qed

lemma length_trim: "length (trim s) \<le> length s"
  using length_trim_start length_trim_end le_trans unfolding trim_def by blast

lemma trim_Nil [simp]: "trim [] = []"
  using length_trim [of "[]"] by simp

text \<open>\<^verbatim>\<open>s.split(d).map(str::trim).filter(|p| !p.is_empty())\<close>\<close>

definition split_trimmed :: "char \<Rightarrow> string \<Rightarrow> string list" where
  "split_trimmed d s = filter (\<lambda>p. p \<noteq> []) (map trim (split_on d s))"

lemma split_trimmed_nonempty: "p \<in> set (split_trimmed d s) \<Longrightarrow> p \<noteq> []"
  by (simp add: split_trimmed_def)

lemma Nil_notin_split_trimmed [simp]: "[] \<notin> set (split_trimmed d s)"
  by (simp add: split_trimmed_def)

text \<open>A separator never survives inside a piece, so joining and splitting again is stable.\<close>

lemma split_trimmed_absent: "p \<in> set (split_trimmed d s) \<Longrightarrow> d \<notin> set p"
  using set_trim split_on_pieces by (fastforce simp: split_trimmed_def)

lemma split_on_join_trimmed:
  "split_trimmed d s \<noteq> [] \<Longrightarrow> split_on d (join [d] (split_trimmed d s)) = split_trimmed d s"
  by (rule split_on_join) (auto dest: split_trimmed_absent)

text \<open>\<^verbatim>\<open>s.split_whitespace()\<close>: the maximal pieces between white space.\<close>

function split_ws_from :: "string \<Rightarrow> string \<Rightarrow> string list" where
  "split_ws_from acc [] = (if acc = [] then [] else [acc])"
| "split_ws_from acc (c # s) =
     (if ws_prefix (c # s) = 0 then split_ws_from (acc @ [c]) s
      else (if acc = [] then [] else [acc]) @ split_ws_from [] (drop (ws_prefix (c # s)) (c # s)))"
  by pat_completeness auto
termination
  by (relation "measure (\<lambda>(acc, s). length s)") auto

definition split_whitespace :: "string \<Rightarrow> string list" where
  "split_whitespace s = split_ws_from [] s"

text \<open>
  \<^verbatim>\<open>s.lines()\<close>: the pieces ended by a line feed, without it and without a carriage
  return before it, then the unterminated rest when there is one.
\<close>

definition strip_cr :: "string \<Rightarrow> string" where
  "strip_cr s = (case strip_suffix s [CHR 13] of Some r \<Rightarrow> r | None \<Rightarrow> s)"

definition lines_of :: "string \<Rightarrow> string list" where
  "lines_of s = (let ps = split_on (CHR 10) s in
     map strip_cr (butlast ps) @ (if last ps = [] then [] else [last ps]))"

lemma strip_cr_noop: "CHR 0x0D \<notin> set s \<Longrightarrow> strip_cr s = s"
  by (auto simp: strip_cr_def strip_suffix_Some split: option.split)

text \<open>Lines without line breaks survive joining and reading back.\<close>

lemma lines_of_join:
  assumes "ls \<noteq> []" and "\<forall>l \<in> set ls. l \<noteq> [] \<and> CHR 0x0A \<notin> set l \<and> CHR 0x0D \<notin> set l"
  shows "lines_of (join newline ls) = ls"
proof -
  have "split_on (CHR 0x0A) (join newline ls) = ls"
    using assms by (intro split_on_join) auto
  moreover have "map strip_cr (butlast ls) = butlast ls"
    using assms by (intro map_idI) (auto intro: strip_cr_noop dest: in_set_butlastD)
  moreover have "last ls \<noteq> []" using assms by simp
  ultimately show ?thesis using assms(1) by (simp add: lines_of_def)
qed

section \<open>Numbers\<close>

definition digits_val :: "string \<Rightarrow> nat" where
  "digits_val ds = foldl (\<lambda>n c. 10 * n + (byte_of c - 48)) 0 ds"

text \<open>
  \<^verbatim>\<open>str::parse\<close> at an unsigned type of \<open>w\<close> bits: one optional plus sign, at least one
  decimal digit, no overflow.
\<close>

definition parse_uint :: "nat \<Rightarrow> string \<Rightarrow> nat option" where
  "parse_uint w s =
     (let ds = (case s of c # r \<Rightarrow> (if c = CHR ''+'' \<and> r \<noteq> [] then r else s) | [] \<Rightarrow> [])
      in if ds \<noteq> [] \<and> list_all is_ascii_digit ds \<and> digits_val ds < 2 ^ w
         then Some (digits_val ds) else None)"

text \<open>\<^verbatim>\<open>Ipv4Addr::from_str\<close>: four dot-separated decimal octets without leading zeros.\<close>

definition ipv4_octet :: "string \<Rightarrow> bool" where
  "ipv4_octet p \<longleftrightarrow> p \<noteq> [] \<and> length p \<le> 3 \<and> list_all is_ascii_digit p
     \<and> (hd p = CHR ''0'' \<longrightarrow> length p = 1) \<and> digits_val p < 256"

definition ipv4_parse_ok :: "string \<Rightarrow> bool" where
  "ipv4_parse_ok s \<longleftrightarrow> length (split_on (CHR ''.'') s) = 4
     \<and> list_all ipv4_octet (split_on (CHR ''.'') s)"

text \<open>\<^verbatim>\<open>to_string\<close> and \<^verbatim>\<open>Display\<close> of the integer types.\<close>

fun show_nat :: "nat \<Rightarrow> string" where
  "show_nat n = (if n < 10 then [char_of (48 + n)]
                 else show_nat (n div 10) @ [char_of (48 + n mod 10)])"

declare show_nat.simps [simp del]

definition show_i32 :: "i32 \<Rightarrow> string" where
  "show_i32 w = (let i = sint w in
     if i < 0 then ''-'' @ show_nat (nat (- i)) else show_nat (nat i))"

lemma parse_uint_bound: "parse_uint w s = Some n \<Longrightarrow> n < 2 ^ w"
  by (auto simp: parse_uint_def Let_def split: if_splits)

lemma digit_char: "n < 10 \<Longrightarrow> byte_of (char_of (48 + n)) = 48 + n"
  by (simp add: byte_of_def)

lemma show_nat_digits: "list_all is_ascii_digit (show_nat n)"
proof (induction n rule: show_nat.induct)
  case (1 n)
  have d: "is_ascii_digit (char_of (48 + m))" if "m < 10" for m :: nat
    using that by (simp add: is_ascii_digit_def digit_char)
  show ?case
  proof (cases "n < 10")
    case True
    then show ?thesis by (subst show_nat.simps) (simp add: d)
  next
    case False
    then show ?thesis using 1 by (subst show_nat.simps) (simp add: d)
  qed
qed

lemma show_nat_nonempty [simp]: "show_nat n \<noteq> []"
  by (subst show_nat.simps) simp

lemma digits_val_snoc: "digits_val (ds @ [c]) = 10 * digits_val ds + (byte_of c - 48)"
  by (simp add: digits_val_def)

lemma digits_val_show: "digits_val (show_nat n) = n"
proof (induction n rule: show_nat.induct)
  case (1 n)
  show ?case
  proof (cases "n < 10")
    case True
    then show ?thesis by (subst show_nat.simps) (simp add: digits_val_def digit_char)
  next
    case False
    then have "digits_val (show_nat (n div 10)) = n div 10" using 1 by blast
    with False show ?thesis
      by (subst show_nat.simps) (simp add: digits_val_snoc digit_char)
  qed
qed

lemma parse_uint_show: "n < 2 ^ w \<Longrightarrow> parse_uint w (show_nat n) = Some n"
proof -
  assume n: "n < 2 ^ w"
  obtain c r where s: "show_nat n = c # r" by (cases "show_nat n") auto
  with show_nat_digits [of n] have "is_ascii_digit c" by simp
  then have "c \<noteq> CHR ''+''" by (auto simp: char_class_defs)
  then have "(case show_nat n of c # r \<Rightarrow> (if c = CHR ''+'' \<and> r \<noteq> [] then r else show_nat n)
      | [] \<Rightarrow> []) = show_nat n"
    by (simp add: s)
  with n show ?thesis
    by (simp add: parse_uint_def show_nat_digits digits_val_show)
qed

end
