(* ===== verification/Authz.thy ===== *)
theory Authz
  imports Prelude
begin

text \<open>
  \<^verbatim>\<open>authz.rs\<close>: the capabilities, the two roles and the role's capability set, with
  the strings both types have on the wire. \<open>Capability\<close> is made an instance of
  \<open>enum\<close> with the list \<^verbatim>\<open>Capability::ALL\<close>, so that a statement about every
  capability is decided by evaluation, and \<open>Role\<close> is ordered by what a role may do.
\<close>

datatype Capability =
    VmList | VmRead | VmClone | VmUpdate | VmPower | VmDelete | VmProvision
  | ConfigGenerate | VmExecArbitrary | Deploy

definition Capability_ALL :: "Capability list" where
  "Capability_ALL = [VmList, VmRead, VmClone, VmUpdate, VmPower, VmDelete, VmProvision,
     ConfigGenerate, VmExecArbitrary, Deploy]"

fun wire_value :: "Capability \<Rightarrow> string" where
  "wire_value VmList = ''vm:list''"
| "wire_value VmRead = ''vm:read''"
| "wire_value VmClone = ''vm:clone''"
| "wire_value VmUpdate = ''vm:update''"
| "wire_value VmPower = ''vm:power''"
| "wire_value VmDelete = ''vm:delete''"
| "wire_value VmProvision = ''vm:provision''"
| "wire_value ConfigGenerate = ''config:generate''"
| "wire_value VmExecArbitrary = ''vm:exec-arbitrary''"
| "wire_value Deploy = ''deploy''"

text \<open>The \<^verbatim>\<open>serde(rename)\<close> attributes of the enum, which the derived code reads and writes.\<close>

fun Capability_serde_name :: "Capability \<Rightarrow> string" where
  "Capability_serde_name VmList = ''vm:list''"
| "Capability_serde_name VmRead = ''vm:read''"
| "Capability_serde_name VmClone = ''vm:clone''"
| "Capability_serde_name VmUpdate = ''vm:update''"
| "Capability_serde_name VmPower = ''vm:power''"
| "Capability_serde_name VmDelete = ''vm:delete''"
| "Capability_serde_name VmProvision = ''vm:provision''"
| "Capability_serde_name ConfigGenerate = ''config:generate''"
| "Capability_serde_name VmExecArbitrary = ''vm:exec-arbitrary''"
| "Capability_serde_name Deploy = ''deploy''"

text \<open>The derived \<^verbatim>\<open>Debug\<close> text, which \<^verbatim>\<open>DispatchError\<close> prints.\<close>

fun Capability_debug :: "Capability \<Rightarrow> string" where
  "Capability_debug VmList = ''VmList''"
| "Capability_debug VmRead = ''VmRead''"
| "Capability_debug VmClone = ''VmClone''"
| "Capability_debug VmUpdate = ''VmUpdate''"
| "Capability_debug VmPower = ''VmPower''"
| "Capability_debug VmDelete = ''VmDelete''"
| "Capability_debug VmProvision = ''VmProvision''"
| "Capability_debug ConfigGenerate = ''ConfigGenerate''"
| "Capability_debug VmExecArbitrary = ''VmExecArbitrary''"
| "Capability_debug Deploy = ''Deploy''"

instantiation Capability :: enum
begin

definition enum_Capability :: "Capability list" where
  "enum_Capability = Capability_ALL"

definition enum_all_Capability :: "(Capability \<Rightarrow> bool) \<Rightarrow> bool" where
  "enum_all_Capability P = list_all P Capability_ALL"

definition enum_ex_Capability :: "(Capability \<Rightarrow> bool) \<Rightarrow> bool" where
  "enum_ex_Capability P = list_ex P Capability_ALL"

instance
proof
  have all: "UNIV = set Capability_ALL"
    by (auto simp: Capability_ALL_def) (metis Capability.exhaust)
  show "(UNIV :: Capability set) = set enum_class.enum"
    by (simp add: enum_Capability_def all)
  show "distinct (enum_class.enum :: Capability list)"
    by (simp add: enum_Capability_def Capability_ALL_def)
  show "enum_class.enum_all P \<longleftrightarrow> Ball UNIV P" for P :: "Capability \<Rightarrow> bool"
    by (simp add: enum_all_Capability_def all list_all_iff)
  show "enum_class.enum_ex P \<longleftrightarrow> Bex UNIV P" for P :: "Capability \<Rightarrow> bool"
    by (simp add: enum_ex_Capability_def all list_ex_iff)
qed

end

lemma Capability_ALL_complete: "c \<in> set Capability_ALL"
  by (cases c) (auto simp: Capability_ALL_def)

section \<open>Roles\<close>

datatype Role = Operator | Guest

fun Role_serde_name :: "Role \<Rightarrow> string" where
  "Role_serde_name Operator = ''operator''"
| "Role_serde_name Guest = ''guest''"

fun Role_debug :: "Role \<Rightarrow> string" where
  "Role_debug Operator = ''Operator''"
| "Role_debug Guest = ''Guest''"

text \<open>Reading a role back from its wire string, as the derived \<^verbatim>\<open>Deserialize\<close> does.\<close>

definition Role_from_str :: "string \<Rightarrow> Role option" where
  "Role_from_str s = find (\<lambda>r. Role_serde_name r = s) [Operator, Guest]"

definition Capability_from_str :: "string \<Rightarrow> Capability option" where
  "Capability_from_str s = find (\<lambda>c. Capability_serde_name c = s) Capability_ALL"

fun capabilities :: "Role \<Rightarrow> Capability list" where
  "capabilities Operator = Capability_ALL"
| "capabilities Guest = [VmList, VmRead, VmClone, VmDelete, VmProvision, Deploy]"

definition role_has :: "Role \<Rightarrow> Capability \<Rightarrow> bool" where
  "role_has r c \<longleftrightarrow> c \<in> set (capabilities r)"

lemma operator_has_all [simp]: "role_has Operator c"
  by (simp add: role_has_def Capability_ALL_complete)

lemma guest_has_iff:
  "role_has Guest c \<longleftrightarrow> c \<notin> {VmUpdate, VmPower, ConfigGenerate, VmExecArbitrary}"
  by (cases c) (auto simp: role_has_def)

text \<open>A role is below another when the other may do everything it may do.\<close>

instantiation Role :: linorder
begin

definition less_eq_Role :: "Role \<Rightarrow> Role \<Rightarrow> bool" where
  "r \<le> r' \<longleftrightarrow> set (capabilities r) \<subseteq> set (capabilities r')"

definition less_Role :: "Role \<Rightarrow> Role \<Rightarrow> bool" where
  "(r :: Role) < r' \<longleftrightarrow> r \<le> r' \<and> \<not> r' \<le> r"

instance
proof
  fix x y z :: Role
  show "x < y \<longleftrightarrow> x \<le> y \<and> \<not> y \<le> x" by (simp add: less_Role_def)
  show "x \<le> x" by (simp add: less_eq_Role_def)
  show "x \<le> y \<Longrightarrow> y \<le> z \<Longrightarrow> x \<le> z" by (auto simp: less_eq_Role_def)
  show "x \<le> y \<Longrightarrow> y \<le> x \<Longrightarrow> x = y"
    by (cases x; cases y) (auto simp: less_eq_Role_def Capability_ALL_def)
  show "x \<le> y \<or> y \<le> x"
    by (cases x; cases y) (auto simp: less_eq_Role_def Capability_ALL_def)
qed

end

lemma role_has_mono: "r \<le> r' \<Longrightarrow> role_has r c \<Longrightarrow> role_has r' c"
  by (auto simp: less_eq_Role_def role_has_def)

lemma Guest_le_Operator: "Guest < Operator"
  by (simp add: less_Role_def less_eq_Role_def Capability_ALL_def)

lemma Role_roundtrip: "Role_from_str (Role_serde_name r) = Some r"
  by (cases r) (simp_all add: Role_from_str_def)

lemma wire_value_is_serde_name: "wire_value c = Capability_serde_name c"
  by (cases c) simp_all

lemma Capability_roundtrip: "Capability_from_str (wire_value c) = Some c"
  by (cases c) (simp_all add: Capability_from_str_def Capability_ALL_def)

lemma Capability_from_str_Some:
  "Capability_from_str s = Some c \<Longrightarrow> wire_value c = s"
  by (auto simp: Capability_from_str_def find_Some_iff wire_value_is_serde_name)

end
