(* ===== verification/Json.thy ===== *)
theory Json
  imports Prelude
begin

text \<open>
  \<^verbatim>\<open>serde_json::Value\<close> as the handlers use it: the constructors, the reads
  (\<^verbatim>\<open>v["k"]\<close>, \<^verbatim>\<open>as_str\<close>, \<^verbatim>\<open>as_array\<close>, \<^verbatim>\<open>is_object\<close>, comparison with a
  boolean) and the objects the \<^verbatim>\<open>json!\<close> macro builds. An object is kept sorted by
  key, as the \<^verbatim>\<open>BTreeMap\<close> behind \<^verbatim>\<open>serde_json::Map\<close> keeps it. Parsing JSON text is
  third-party code and stays a parameter of the handlers.
\<close>

datatype json_number = PosInt u64 | NegInt u64 | Float rat

datatype Value =
    JNull
  | JBool bool
  | JNumber json_number
  | JString string
  | JArray "Value list"
  | JObject "(string \<times> Value) list"

fun obj_insert :: "string \<Rightarrow> Value \<Rightarrow> (string \<times> Value) list \<Rightarrow> (string \<times> Value) list" where
  "obj_insert k v [] = [(k, v)]"
| "obj_insert k v ((k', v') # m) =
     (if k = k' then (k, v) # m
      else if k < k' then (k, v) # (k', v') # m
      else (k', v') # obj_insert k v m)"

definition json_obj :: "(string \<times> Value) list \<Rightarrow> Value" where
  "json_obj kvs = JObject (foldl (\<lambda>m (k, v). obj_insert k v m) [] kvs)"

definition json_nat :: "nat \<Rightarrow> Value" where
  "json_nat n = JNumber (PosInt (of_nat n))"

text \<open>\<^verbatim>\<open>v["k"]\<close>: \<^verbatim>\<open>Null\<close> for a missing key and for a value that is no object.\<close>

fun json_index :: "Value \<Rightarrow> string \<Rightarrow> Value" where
  "json_index (JObject m) k = (case map_of m k of Some v \<Rightarrow> v | None \<Rightarrow> JNull)"
| "json_index _ k = JNull"

fun json_as_str :: "Value \<Rightarrow> string option" where
  "json_as_str (JString s) = Some s"
| "json_as_str _ = None"

fun json_as_array :: "Value \<Rightarrow> Value list option" where
  "json_as_array (JArray vs) = Some vs"
| "json_as_array _ = None"

fun json_is_object :: "Value \<Rightarrow> bool" where
  "json_is_object (JObject m) = True"
| "json_is_object _ = False"

text \<open>\<^verbatim>\<open>if s.is_empty() { Null } else { json!(s) }\<close>\<close>

definition null_if_empty :: "string \<Rightarrow> Value" where
  "null_if_empty s = (if s = [] then JNull else JString s)"

text \<open>\<^verbatim>\<open>json!\<close> of an \<^verbatim>\<open>Option<String>\<close>.\<close>

fun json_opt_str :: "string option \<Rightarrow> Value" where
  "json_opt_str None = JNull"
| "json_opt_str (Some s) = JString s"

lemma map_of_obj_insert: "map_of (obj_insert k v m) = (map_of m)(k \<mapsto> v)"
  by (induction m) (auto simp: fun_eq_iff)

lemma map_of_json_fold:
  "map_of (foldl (\<lambda>m (k, v). obj_insert k v m) m kvs) = map_of m ++ map_of (rev kvs)"
proof (induction kvs arbitrary: m)
  case (Cons kv kvs)
  obtain k v where "kv = (k, v)" by (cases kv)
  then show ?case
    by (simp add: Cons.IH map_of_obj_insert map_add_def fun_eq_iff split: option.splits)
qed simp

lemma json_index_obj:
  "json_index (json_obj kvs) k = (case map_of (rev kvs) k of Some v \<Rightarrow> v | None \<Rightarrow> JNull)"
  by (simp add: json_obj_def map_of_json_fold)

lemma json_obj_is_object [simp]: "json_is_object (json_obj kvs)"
  by (simp add: json_obj_def)

text \<open>The keys of an object stay strictly increasing: the order the \<^verbatim>\<open>BTreeMap\<close> keeps.\<close>

lemma keys_obj_insert: "fst ` set (obj_insert k v m) = insert k (fst ` set m)"
  using map_of_obj_insert [of k v m, THEN arg_cong [where f = dom]]
  by (simp add: dom_map_of_conv_image_fst)

lemma obj_insert_sorted:
  "sorted_wrt (<) (map fst m) \<Longrightarrow> sorted_wrt (<) (map fst (obj_insert k v m))"
proof (induction m)
  case (Cons kv m)
  obtain k' v' where kv: "kv = (k', v')" by (cases kv)
  have tail: "\<forall>x \<in> fst ` set m. k' < x" using Cons.prems kv by auto
  show ?case
  proof (cases "k = k' \<or> k < k'")
    case True
    with Cons.prems kv tail show ?thesis by auto
  next
    case False
    then have "k' < k" by auto
    with tail have "\<forall>x \<in> fst ` set (obj_insert k v m). k' < x"
      by (simp add: keys_obj_insert)
    with False Cons kv show ?thesis by auto
  qed
qed simp

end
