(* ===== verification/Report.thy ===== *)
theory Report
  imports Json
begin

text \<open>
  \<^verbatim>\<open>report.rs\<close>: the progress states a command reports, their JSON shape and the
  sinks that receive them. The interface \<^verbatim>\<open>ProgressSink\<close> is a locale; a sink that
  keeps what it is told is an instance. Percentages are the finite doubles the
  program writes, as rationals.
\<close>

datatype OpStatus = Pending | Running | Done | Error | Cancelled

fun OpStatus_serde_name :: "OpStatus \<Rightarrow> string" where
  "OpStatus_serde_name Pending = ''pending''"
| "OpStatus_serde_name Running = ''running''"
| "OpStatus_serde_name Done = ''done''"
| "OpStatus_serde_name Error = ''error''"
| "OpStatus_serde_name Cancelled = ''cancelled''"

record OpRunState =
  status :: OpStatus
  percent :: "rat option"
  phase :: "string option"
  detail :: "string option"
  op_result :: "Value option"

definition OpRunState_running :: "string \<Rightarrow> rat \<Rightarrow> OpRunState" where
  "OpRunState_running ph pc = \<lparr>status = Running, percent = Some pc, phase = Some ph,
     detail = None, op_result = None\<rparr>"

definition OpRunState_done :: "Value \<Rightarrow> OpRunState" where
  "OpRunState_done v = \<lparr>status = Done, percent = Some 100, phase = None,
     detail = None, op_result = Some v\<rparr>"

definition OpRunState_error :: "string \<Rightarrow> OpRunState" where
  "OpRunState_error d = \<lparr>status = Error, percent = None, phase = None,
     detail = Some d, op_result = None\<rparr>"

text \<open>The terminal states of the job protocol, after which no further frame is expected.\<close>

definition is_terminal :: "OpRunState \<Rightarrow> bool" where
  "is_terminal st \<longleftrightarrow> status st \<in> {Done, Error, Cancelled}"

lemma OpRunState_constructors_simps [simp]:
  "status (OpRunState_running ph pc) = Running"
  "percent (OpRunState_running ph pc) = Some pc"
  "phase (OpRunState_running ph pc) = Some ph"
  "detail (OpRunState_running ph pc) = None"
  "op_result (OpRunState_running ph pc) = None"
  "status (OpRunState_done v) = Done"
  "percent (OpRunState_done v) = Some 100"
  "phase (OpRunState_done v) = None"
  "detail (OpRunState_done v) = None"
  "op_result (OpRunState_done v) = Some v"
  "status (OpRunState_error d) = Error"
  "percent (OpRunState_error d) = None"
  "phase (OpRunState_error d) = None"
  "detail (OpRunState_error d) = Some d"
  "op_result (OpRunState_error d) = None"
  by (simp_all add: OpRunState_running_def OpRunState_done_def OpRunState_error_def)

lemma is_terminal_constructors [simp]:
  "\<not> is_terminal (OpRunState_running ph pc)"
  "is_terminal (OpRunState_done v)"
  "is_terminal (OpRunState_error d)"
  by (simp_all add: is_terminal_def)

section \<open>The JSON shape\<close>

text \<open>
  The derived \<^verbatim>\<open>Serialize\<close>: a field marked \<^verbatim>\<open>skip_serializing_if = "Option::is_none"\<close>
  is left out when it is \<^verbatim>\<open>None\<close>.
\<close>

fun opt_field :: "string \<Rightarrow> ('a \<Rightarrow> Value) \<Rightarrow> 'a option \<Rightarrow> (string \<times> Value) list" where
  "opt_field k f None = []"
| "opt_field k f (Some x) = [(k, f x)]"

definition OpRunState_to_value :: "OpRunState \<Rightarrow> Value" where
  "OpRunState_to_value st = json_obj (
     [(''status'', JString (OpStatus_serde_name (status st)))]
     @ opt_field ''percent'' (\<lambda>p. JNumber (Float p)) (percent st)
     @ opt_field ''phase'' JString (phase st)
     @ opt_field ''detail'' JString (detail st)
     @ opt_field ''result'' (\<lambda>v. v) (op_result st))"

lemma OpRunState_to_value_status:
  "json_index (OpRunState_to_value st) ''status'' = JString (OpStatus_serde_name (status st))"
  by (cases "percent st"; cases "phase st"; cases "detail st"; cases "op_result st")
    (simp_all add: OpRunState_to_value_def json_index_obj)

lemma OpRunState_to_value_result:
  "json_index (OpRunState_to_value st) ''result'' =
     (case op_result st of Some v \<Rightarrow> v | None \<Rightarrow> JNull)"
  by (cases "percent st"; cases "phase st"; cases "detail st"; cases "op_result st")
    (simp_all add: OpRunState_to_value_def json_index_obj)

section \<open>Progress sinks\<close>

locale progress_sink =
  fixes report_to :: "'k \<Rightarrow> OpRunState \<Rightarrow> 'k"
    and received :: "'k \<Rightarrow> OpRunState list"
  assumes received_report: "received (report_to k st) = received k @ [st]"
begin

text \<open>A sink that keeps each report keeps a whole sequence of them, in order.\<close>

lemma received_all: "received (foldl report_to k sts) = received k @ sts"
  by (induction sts arbitrary: k) (simp_all add: received_report)

end

definition NullProgressSink_report :: "unit \<Rightarrow> OpRunState \<Rightarrow> unit" where
  "NullProgressSink_report k st = k"

record RecordingProgressSink =
  states :: "OpRunState list"

definition RecordingProgressSink_report ::
  "RecordingProgressSink \<Rightarrow> OpRunState \<Rightarrow> RecordingProgressSink" where
  "RecordingProgressSink_report k st = k\<lparr>states := states k @ [st]\<rparr>"

interpretation recording: progress_sink RecordingProgressSink_report states
  by unfold_locales (simp add: RecordingProgressSink_report_def)

end
