(* ===== verification/Shell.thy ===== *)
theory Shell
  imports Prelude
begin

text \<open>
  \<^verbatim>\<open>powershell.rs\<close>: the trait \<^verbatim>\<open>PowerShellExecutor\<close>, its two implementations that
  run a real interpreter, the choice between them, and the queue-backed mock. An
  executor is a state transformer over a state of its own (the machine for the
  real ones, the queue and the call log for the mock). What the operating system
  and the \<^verbatim>\<open>tempfile\<close> crate do is a record of operations the real executors use.
\<close>

record PowerShellOutput =
  stdout :: string
  stderr :: string
  exit_code :: i32

definition succeeded :: "PowerShellOutput \<Rightarrow> bool" where
  "succeeded out \<longleftrightarrow> exit_code out = 0"

text \<open>An \<^verbatim>\<open>io::Error\<close> is the text it displays.\<close>

datatype PowerShellError =
    Spawn string string
  | TempScript string
  | NonZeroExit i32 string

fun PowerShellError_display :: "PowerShellError \<Rightarrow> string" where
  "PowerShellError_display (Spawn binary src) =
     ''failed to spawn '' @ squote @ binary @ squote @ '': '' @ src"
| "PowerShellError_display (TempScript src) = ''failed to write temp script file: '' @ src"
| "PowerShellError_display (NonZeroExit code err) =
     ''script exited with code '' @ show_i32 code @ '': '' @ err"

type_synonym 's executor =
  "string \<Rightarrow> string list \<Rightarrow> 's \<Rightarrow> (PowerShellError + PowerShellOutput) \<times> 's"

section \<open>The interface\<close>

text \<open>
  What a caller relies on: every run is recorded, after the runs before it. The
  record of an executor is the list of scripts it was asked to run.
\<close>

fun run_all :: "'s executor \<Rightarrow> (string \<times> string list) list \<Rightarrow> 's \<Rightarrow> 's" where
  "run_all run [] s = s"
| "run_all run (c # cs) s = run_all run cs (snd (run (fst c) (snd c) s))"

locale logging_executor =
  fixes run :: "'s executor" and runs :: "'s \<Rightarrow> string list"
  assumes runs_run: "runs (snd (run script args s)) = runs s @ [script]"
begin

text \<open>A sequence of runs leaves exactly its scripts in the record, in order.\<close>

lemma runs_run_all: "runs (run_all run cs s) = runs s @ map fst cs"
  by (induction cs arbitrary: s) (simp_all add: runs_run)

end

section \<open>The mock\<close>

record mock =
  responses :: "(PowerShellError + PowerShellOutput) list"
  calls :: "string list"

definition MockPowerShell_new :: mock where
  "MockPowerShell_new = \<lparr>responses = [], calls = []\<rparr>"

definition push_response :: "PowerShellError + PowerShellOutput \<Rightarrow> mock \<Rightarrow> mock" where
  "push_response r m = m\<lparr>responses := responses m @ [r]\<rparr>"

definition push_success :: "string \<Rightarrow> mock \<Rightarrow> mock" where
  "push_success out = push_response (Inr \<lparr>stdout = out, stderr = [], exit_code = 0\<rparr>)"

definition push_failure :: "i32 \<Rightarrow> string \<Rightarrow> mock \<Rightarrow> mock" where
  "push_failure code err = push_response (Inr \<lparr>stdout = [], stderr = err, exit_code = code\<rparr>)"

definition MockPowerShell_run :: "mock executor" where
  "MockPowerShell_run script args m =
     (let m' = m\<lparr>calls := calls m @ [script]\<rparr> in
      case responses m of
        [] \<Rightarrow> (Inr \<lparr>stdout = [], stderr = [], exit_code = 0\<rparr>, m')
      | r # rs \<Rightarrow> (r, m'\<lparr>responses := rs\<rparr>))"

interpretation mock_log: logging_executor MockPowerShell_run calls
  by unfold_locales (simp add: MockPowerShell_run_def Let_def split: list.splits)

text \<open>The mock answers in the order the responses were pushed: first in, first out.\<close>

lemma mock_fifo:
  "responses m = r # rs \<Longrightarrow>
     fst (MockPowerShell_run script args m) = r
     \<and> responses (snd (MockPowerShell_run script args m)) = rs"
  by (simp add: MockPowerShell_run_def)

section \<open>Lossy UTF-8 decoding\<close>

text \<open>
  \<^verbatim>\<open>String::from_utf8_lossy\<close>: each maximal invalid sequence becomes one U+FFFD. The
  next sequence of a byte string: whether it is a character and how many bytes it
  takes.
\<close>

definition is_cont :: "nat \<Rightarrow> bool" where
  "is_cont b \<longleftrightarrow> 128 \<le> b \<and> b \<le> 191"

definition second_ok :: "nat \<Rightarrow> nat \<Rightarrow> bool" where
  "second_ok x y \<longleftrightarrow>
     (if x = 224 then 160 \<le> y \<and> y \<le> 191
      else if x = 237 then 128 \<le> y \<and> y \<le> 159
      else if x = 240 then 144 \<le> y \<and> y \<le> 191
      else if x = 244 then 128 \<le> y \<and> y \<le> 143
      else is_cont y)"

definition utf8_next :: "string \<Rightarrow> bool \<times> nat" where
  "utf8_next s = (case map byte_of (take 4 s) of
       [] \<Rightarrow> (False, 1)
     | x # r \<Rightarrow>
        if x < 128 then (True, 1)
        else if x < 194 \<or> 244 < x then (False, 1)
        else (case r of
            [] \<Rightarrow> (False, 1)
          | y # r2 \<Rightarrow>
             if \<not> second_ok x y then (False, 1)
             else if x < 224 then (True, 2)
             else (case r2 of
                 [] \<Rightarrow> (False, 2)
               | z # r3 \<Rightarrow>
                  if \<not> is_cont z then (False, 2)
                  else if x < 240 then (True, 3)
                  else (case r3 of
                      [] \<Rightarrow> (False, 3)
                    | w # _ \<Rightarrow> if is_cont w then (True, 4) else (False, 3)))))"

lemma utf8_next_pos: "0 < snd (utf8_next s)"
  by (auto simp: utf8_next_def split: list.splits)

definition replacement_char :: string where
  "replacement_char = [CHR 0xEF, CHR 0xBF, CHR 0xBD]"

function from_utf8_lossy :: "string \<Rightarrow> string" where
  "from_utf8_lossy s =
     (if s = [] then []
      else (if fst (utf8_next s) then take (snd (utf8_next s)) s else replacement_char)
           @ from_utf8_lossy (drop (snd (utf8_next s)) s))"
  by pat_completeness auto
termination
proof (relation "measure length")
  fix s :: string
  assume "s \<noteq> []"
  then show "(drop (snd (utf8_next s)) s, s) \<in> measure length"
    using utf8_next_pos [of s] by (cases s) auto
qed simp

declare from_utf8_lossy.simps [simp del]

text \<open>ASCII output is passed through unchanged.\<close>

lemma from_utf8_lossy_ascii: "list_all is_ascii s \<Longrightarrow> from_utf8_lossy s = s"
proof (induction s)
  case Nil
  then show ?case by (subst from_utf8_lossy.simps) simp
next
  case (Cons c s)
  then have "utf8_next (c # s) = (True, 1)"
    by (simp add: utf8_next_def is_ascii_def)
  with Cons show ?case by (subst from_utf8_lossy.simps) simp
qed

section \<open>The real executors\<close>

record 'o os_ops =
  os_tempfile :: "string \<Rightarrow> string \<Rightarrow> 'o \<Rightarrow> (string + string) \<times> 'o"
  os_write_all :: "string \<Rightarrow> string \<Rightarrow> 'o \<Rightarrow> (string + unit) \<times> 'o"
  os_output :: "string \<Rightarrow> string list \<Rightarrow> 'o \<Rightarrow> (string + string \<times> string \<times> i32 option) \<times> 'o"
  os_remove :: "string \<Rightarrow> 'o \<Rightarrow> 'o"

text \<open>
  Both implementations write the script to a temporary file, run the interpreter on
  it with the arguments after the file, and drop the file on every path once it
  exists. A process without an exit code counts as -1.
\<close>

definition output_of :: "string \<times> string \<times> i32 option \<Rightarrow> PowerShellOutput" where
  "output_of o3 = (case o3 of (out, err, code) \<Rightarrow>
     \<lparr>stdout = from_utf8_lossy out, stderr = from_utf8_lossy err,
      exit_code = (case code of Some c \<Rightarrow> c | None \<Rightarrow> - 1)\<rparr>)"

definition RealPowerShell_run :: "'o os_ops \<Rightarrow> string \<Rightarrow> 'o executor" where
  "RealPowerShell_run os binary script args s =
     (case os_tempfile os ''pki-executor-'' ''.ps1'' s of
        (Inl e, s1) \<Rightarrow> (Inl (TempScript e), s1)
      | (Inr path, s1) \<Rightarrow>
         (case os_write_all os path script s1 of
            (Inl e, s2) \<Rightarrow> (Inl (TempScript e), os_remove os path s2)
          | (Inr _, s2) \<Rightarrow>
             (case os_output os binary
                ([''-NoProfile'', ''-NonInteractive'', ''-ExecutionPolicy'', ''Bypass'', ''-File'']
                  @ [path] @ args) s2 of
                (Inl e, s3) \<Rightarrow> (Inl (Spawn binary e), os_remove os path s3)
              | (Inr o3, s3) \<Rightarrow> (Inr (output_of o3), os_remove os path s3))))"

definition RealPosixShell_run :: "'o os_ops \<Rightarrow> string \<Rightarrow> 'o executor" where
  "RealPosixShell_run os binary script args s =
     (case os_tempfile os ''pki-executor-'' ''.sh'' s of
        (Inl e, s1) \<Rightarrow> (Inl (TempScript e), s1)
      | (Inr path, s1) \<Rightarrow>
         (case os_write_all os path script s1 of
            (Inl e, s2) \<Rightarrow> (Inl (TempScript e), os_remove os path s2)
          | (Inr _, s2) \<Rightarrow>
             (case os_output os binary ([path] @ args) s2 of
                (Inl e, s3) \<Rightarrow> (Inl (Spawn binary e), os_remove os path s3)
              | (Inr o3, s3) \<Rightarrow> (Inr (output_of o3), os_remove os path s3))))"

section \<open>Choosing the executor\<close>

text \<open>
  \<^verbatim>\<open>Path::file_stem\<close>, for the separators of the platform: the last component,
  which \<^verbatim>\<open>..\<close> is none of, up to its last dot unless that dot begins it.
\<close>

definition path_separators :: "bool \<Rightarrow> char list" where
  "path_separators windows = (if windows then [CHR ''/'', CHR 0x5C] else [CHR ''/''])"

fun split_seps :: "char list \<Rightarrow> string \<Rightarrow> string list" where
  "split_seps ds [] = [[]]"
| "split_seps ds (c # s) =
     (if c \<in> set ds then [] # split_seps ds s
      else (case split_seps ds s of p # ps \<Rightarrow> (c # p) # ps | [] \<Rightarrow> [[c]]))"

definition path_file_name :: "bool \<Rightarrow> string \<Rightarrow> string option" where
  "path_file_name windows p =
     (case filter (\<lambda>q. q \<noteq> [] \<and> q \<noteq> ''.'') (split_seps (path_separators windows) p) of
        [] \<Rightarrow> None
      | q # qs \<Rightarrow> if last (q # qs) = ''..'' then None else Some (last (q # qs)))"

definition stem_of :: "string \<Rightarrow> string" where
  "stem_of name = (let ps = split_on (CHR ''.'') name in
     if length ps = 1 then name
     else (case join ''.'' (butlast ps) of [] \<Rightarrow> name | c # r \<Rightarrow> c # r))"

definition path_file_stem :: "bool \<Rightarrow> string \<Rightarrow> string option" where
  "path_file_stem windows p = map_option stem_of (path_file_name windows p)"

datatype shell_kind = PowerShellKind | PosixKind

definition shell_kind_of :: "bool \<Rightarrow> string \<Rightarrow> shell_kind" where
  "shell_kind_of windows binary =
     (let stem = to_ascii_lowercase
        (case path_file_stem windows binary of Some st \<Rightarrow> st | None \<Rightarrow> binary)
      in if stem = ''powershell'' \<or> stem = ''pwsh'' then PowerShellKind else PosixKind)"

definition build_shell :: "bool \<Rightarrow> 'o os_ops \<Rightarrow> string \<Rightarrow> 'o executor" where
  "build_shell windows os binary =
     (case shell_kind_of windows binary of
        PowerShellKind \<Rightarrow> RealPowerShell_run os binary
      | PosixKind \<Rightarrow> RealPosixShell_run os binary)"

section \<open>Temporary files\<close>

text \<open>
  What the \<^verbatim>\<open>tempfile\<close> crate and the machine do with the files it made (\<open>files\<close>): a new
  one has a fresh name, writing and running leave them alone, dropping removes one.
\<close>

definition temp_laws :: "'o os_ops \<Rightarrow> ('o \<Rightarrow> string set) \<Rightarrow> bool" where
  "temp_laws os files \<longleftrightarrow>
     (\<forall>pre suf s. case os_tempfile os pre suf s of
          (Inl e, s') \<Rightarrow> files s' = files s
        | (Inr path, s') \<Rightarrow> path \<notin> files s \<and> files s' = insert path (files s))
   \<and> (\<forall>path txt s. files (snd (os_write_all os path txt s)) = files s)
   \<and> (\<forall>binary args s. files (snd (os_output os binary args s)) = files s)
   \<and> (\<forall>path s. files (os_remove os path s) = files s - {path})"

lemma temp_lawsD:
  assumes "temp_laws os files"
  shows "os_tempfile os pre suf s = (Inl e, s') \<Longrightarrow> files s' = files s"
    and "os_tempfile os pre suf s = (Inr path, s') \<Longrightarrow>
      path \<notin> files s \<and> files s' = insert path (files s)"
    and "os_write_all os path txt s = (w, s') \<Longrightarrow> files s' = files s"
    and "os_output os binary args s = (out, s') \<Longrightarrow> files s' = files s"
    and "files (os_remove os path s) = files s - {path}"
proof -
  note laws = assms [unfolded temp_laws_def]
  have t: "case os_tempfile os pre suf s of (Inl e, s') \<Rightarrow> files s' = files s
      | (Inr path, s') \<Rightarrow> path \<notin> files s \<and> files s' = insert path (files s)"
    by (rule laws [THEN conjunct1, THEN spec, THEN spec, THEN spec])
  have w: "files (snd (os_write_all os path txt s)) = files s"
    by (rule laws [THEN conjunct2, THEN conjunct1, THEN spec, THEN spec, THEN spec])
  have o': "files (snd (os_output os binary args s)) = files s"
    by (rule laws [THEN conjunct2, THEN conjunct2, THEN conjunct1, THEN spec, THEN spec, THEN spec])
  have r: "files (os_remove os path s) = files s - {path}"
    by (rule laws [THEN conjunct2, THEN conjunct2, THEN conjunct2, THEN spec, THEN spec])
  show "os_tempfile os pre suf s = (Inl e, s') \<Longrightarrow> files s' = files s"
    and "os_tempfile os pre suf s = (Inr path, s') \<Longrightarrow>
      path \<notin> files s \<and> files s' = insert path (files s)"
    using t by simp_all
  show "os_write_all os path txt s = (w, s') \<Longrightarrow> files s' = files s" using w by simp
  show "os_output os binary args s = (out, s') \<Longrightarrow> files s' = files s" using o' by simp
  show "files (os_remove os path s) = files s - {path}" by (rule r)
qed

text \<open>Both executors are this: make the file, write it, run on it, drop it.\<close>

definition with_temp ::
  "'o os_ops \<Rightarrow> string \<Rightarrow> string \<Rightarrow> (string \<Rightarrow> string list) \<Rightarrow> string \<Rightarrow> 'o \<Rightarrow>
     (PowerShellError + PowerShellOutput) \<times> 'o" where
  "with_temp os suffix binary argv script s =
     (case os_tempfile os ''pki-executor-'' suffix s of
        (Inl e, s1) \<Rightarrow> (Inl (TempScript e), s1)
      | (Inr path, s1) \<Rightarrow>
         (case os_write_all os path script s1 of
            (Inl e, s2) \<Rightarrow> (Inl (TempScript e), os_remove os path s2)
          | (Inr _, s2) \<Rightarrow>
             (case os_output os binary (argv path) s2 of
                (Inl e, s3) \<Rightarrow> (Inl (Spawn binary e), os_remove os path s3)
              | (Inr o3, s3) \<Rightarrow> (Inr (output_of o3), os_remove os path s3))))"

lemma with_temp_files:
  assumes laws: "temp_laws os files"
  shows "files (snd (with_temp os suffix binary argv script s)) = files s"
proof (cases "os_tempfile os ''pki-executor-'' suffix s")
  case (Pair r s1)
  show ?thesis
  proof (cases r)
    case (Inl e)
    with Pair temp_lawsD(1) [OF laws] show ?thesis by (simp add: with_temp_def)
  next
    case (Inr path)
    with Pair temp_lawsD(2) [OF laws] have f1: "path \<notin> files s" "files s1 = insert path (files s)"
      by blast+
    obtain w s2 where w: "os_write_all os path script s1 = (w, s2)" by (metis prod.exhaust)
    obtain r3 s3 where o': "os_output os binary (argv path) s2 = (r3, s3)" by (metis prod.exhaust)
    have "files s2 = files s1" "files s3 = files s2"
      using temp_lawsD(3) [OF laws w] temp_lawsD(4) [OF laws o'] by simp_all
    then show ?thesis
      using f1 Pair Inr w o' temp_lawsD(5) [OF laws]
      by (simp add: with_temp_def split: sum.split)
  qed
qed

lemma real_executors_with_temp:
  "RealPowerShell_run os binary script args =
     with_temp os ''.ps1'' binary (\<lambda>path. [''-NoProfile'', ''-NonInteractive'',
       ''-ExecutionPolicy'', ''Bypass'', ''-File''] @ [path] @ args) script"
  "RealPosixShell_run os binary script args =
     with_temp os ''.sh'' binary (\<lambda>path. [path] @ args) script"
  by (rule ext, simp only: RealPowerShell_run_def RealPosixShell_run_def with_temp_def)+

lemma build_shell_files:
  "temp_laws os files \<Longrightarrow> files (snd (build_shell windows os binary script args s)) = files s"
  by (simp add: build_shell_def real_executors_with_temp with_temp_files split: shell_kind.split)

end
