(* ===== verification/Command.thy ===== *)
theory Command
  imports Authz Report Shell
begin

text \<open>
  The handler side of \<^verbatim>\<open>registry.rs\<close>. A handler reads its context and runs as a
  program over the executor's state. It can report progress, run a script and stop
  with an error; a run returns the outcome, the events in the order they happened and
  the new executor state. Handlers never read the sink they report to, so collecting
  the reports in the event list loses nothing. The theory has the operations the
  handlers are written with, the weakest-precondition rules their proofs use and the
  protocol every handler keeps.
\<close>

section \<open>Context, errors and events\<close>

record 's CommandContext =
  params :: "string \<rightharpoonup> string"
  shell :: "'s executor"

datatype CommandError =
    MissingParam string
  | InvalidParam string string
  | ShellError PowerShellError

fun CommandError_display :: "CommandError \<Rightarrow> string" where
  "CommandError_display (MissingParam p) =
     ''missing required parameter '' @ squote @ p @ squote"
| "CommandError_display (InvalidParam n r) =
     ''invalid parameter '' @ squote @ n @ squote @ '': '' @ r"
| "CommandError_display (ShellError e) =
     ''powershell execution failed: '' @ PowerShellError_display e"

datatype event = EReport OpRunState | EShell string "string list"

fun reports :: "event list \<Rightarrow> OpRunState list" where
  "reports [] = []"
| "reports (EReport st # t) = st # reports t"
| "reports (EShell sc args # t) = reports t"

fun shell_runs :: "event list \<Rightarrow> (string \<times> string list) list" where
  "shell_runs [] = []"
| "shell_runs (EReport st # t) = shell_runs t"
| "shell_runs (EShell sc args # t) = (sc, args) # shell_runs t"

lemma reports_append [simp]: "reports (t @ t') = reports t @ reports t'"
  by (induction t rule: reports.induct) auto

lemma shell_runs_append [simp]: "shell_runs (t @ t') = shell_runs t @ shell_runs t'"
  by (induction t rule: shell_runs.induct) auto

section \<open>Handler programs\<close>

type_synonym ('s, 'a) cmd = "'s \<Rightarrow> (CommandError + 'a) \<times> event list \<times> 's"

definition ret :: "'a \<Rightarrow> ('s, 'a) cmd" where
  "ret x s = (Inr x, [], s)"

definition throw :: "CommandError \<Rightarrow> ('s, 'a) cmd" where
  "throw e s = (Inl e, [], s)"

text \<open>\<^verbatim>\<open>let x = m?; ...\<close>\<close>

definition bindE :: "('s, 'a) cmd \<Rightarrow> ('a \<Rightarrow> ('s, 'b) cmd) \<Rightarrow> ('s, 'b) cmd" where
  "bindE m f s = (case m s of
       (Inl e, t, s1) \<Rightarrow> (Inl e, t, s1)
     | (Inr x, t, s1) \<Rightarrow> (case f x s1 of (r, t', s2) \<Rightarrow> (r, t @ t', s2)))"

text \<open>\<^verbatim>\<open>let x = r?; ...\<close> for a plain \<^verbatim>\<open>Result\<close>.\<close>

definition tryE :: "CommandError + 'a \<Rightarrow> ('a \<Rightarrow> ('s, 'b) cmd) \<Rightarrow> ('s, 'b) cmd" where
  "tryE r f = (case r of Inl e \<Rightarrow> throw e | Inr x \<Rightarrow> f x)"

text \<open>\<^verbatim>\<open>if bad { return Err(e); } ...\<close>\<close>

definition reject :: "bool \<Rightarrow> CommandError \<Rightarrow> ('s, 'a) cmd \<Rightarrow> ('s, 'a) cmd" where
  "reject bad e k = (if bad then throw e else k)"

text \<open>\<^verbatim>\<open>ctx.progress.report(st); ...\<close>\<close>

definition report :: "OpRunState \<Rightarrow> ('s, 'a) cmd \<Rightarrow> ('s, 'a) cmd" where
  "report st k s = (case k s of (r, t, s1) \<Rightarrow> (r, EReport st # t, s1))"

text \<open>\<^verbatim>\<open>ctx.shell.run(script, args)?\<close>\<close>

definition shell_run ::
  "'s CommandContext \<Rightarrow> string \<Rightarrow> string list \<Rightarrow> ('s, PowerShellOutput) cmd" where
  "shell_run ctx script args s = (case shell ctx script args s of
       (Inl e, s1) \<Rightarrow> (Inl (ShellError e), [EShell script args], s1)
     | (Inr out, s1) \<Rightarrow> (Inr out, [EShell script args], s1))"

text \<open>
  The last two statements of every handler: report the result as done and return it.
\<close>

definition finish :: "Value \<Rightarrow> ('s, Value) cmd" where
  "finish v = report (OpRunState_done v) (ret v)"

section \<open>Weakest preconditions\<close>

text \<open>
  \<open>wp m Q\<close>: whatever the executor answers, the outcome and the events of \<open>m\<close>
  satisfy \<open>Q\<close>. The rules follow the handlers' statements, so one pass of
  \<open>intro!: wp_intros\<close> reduces a statement about a handler to its branches.
\<close>

definition wp ::
  "('s, 'a) cmd \<Rightarrow> (CommandError + 'a \<Rightarrow> event list \<Rightarrow> bool) \<Rightarrow> bool" where
  "wp m Q \<longleftrightarrow> (\<forall>s. case m s of (r, t, s') \<Rightarrow> Q r t)"

lemma wp_iff: "wp m Q \<longleftrightarrow> (\<forall>s r t s'. m s = (r, t, s') \<longrightarrow> Q r t)"
proof
  assume Q: "wp m Q"
  show "\<forall>s r t s'. m s = (r, t, s') \<longrightarrow> Q r t"
  proof (intro allI impI)
    fix s r t s' assume "m s = (r, t, s')"
    with Q [unfolded wp_def, rule_format, of s] show "Q r t" by simp
  qed
qed (auto simp: wp_def split: prod.split)

lemma wp_run: "wp m Q \<Longrightarrow> m s = (r, t, s') \<Longrightarrow> Q r t"
  by (auto simp: wp_iff)

lemma wp_mono: "wp m Q \<Longrightarrow> (\<And>r t. Q r t \<Longrightarrow> Q' r t) \<Longrightarrow> wp m Q'"
  unfolding wp_iff by blast

lemma wp_conj: "wp m Q \<Longrightarrow> wp m Q' \<Longrightarrow> wp m (\<lambda>r t. Q r t \<and> Q' r t)"
  unfolding wp_iff by blast

lemma wp_ret: "Q (Inr x) [] \<Longrightarrow> wp (ret x) Q"
  by (simp add: wp_def ret_def)

lemma wp_throw: "Q (Inl e) [] \<Longrightarrow> wp (throw e) Q"
  by (simp add: wp_def throw_def)

lemma wp_tryE:
  "(\<And>e. r = Inl e \<Longrightarrow> Q (Inl e) []) \<Longrightarrow> (\<And>x. r = Inr x \<Longrightarrow> wp (f x) Q) \<Longrightarrow> wp (tryE r f) Q"
  by (cases r) (auto simp: tryE_def intro: wp_throw)

lemma wp_reject:
  "(bad \<Longrightarrow> Q (Inl e) []) \<Longrightarrow> (\<not> bad \<Longrightarrow> wp k Q) \<Longrightarrow> wp (reject bad e k) Q"
  by (auto simp: reject_def intro: wp_throw)

lemma wp_report: "wp k (\<lambda>r t. Q r (EReport st # t)) \<Longrightarrow> wp (report st k) Q"
  by (auto simp: wp_def report_def split: prod.splits)

lemma wp_finish: "Q (Inr v) [EReport (OpRunState_done v)] \<Longrightarrow> wp (finish v) Q"
  by (simp add: finish_def wp_report wp_ret)

lemma wp_bindE:
  assumes "wp m (\<lambda>r t. case r of Inl e \<Rightarrow> Q (Inl e) t
                   | Inr x \<Rightarrow> wp (f x) (\<lambda>r' t'. Q r' (t @ t')))"
  shows "wp (bindE m f) Q"
  unfolding wp_def
proof
  fix s
  obtain r t s1 where m: "m s = (r, t, s1)" by (metis prod_cases3)
  from wp_run [OF assms m]
  show "case bindE m f s of (r, t, s') \<Rightarrow> Q r t"
    by (cases r) (auto simp: bindE_def m wp_def split: prod.splits)
qed

lemma wp_shell_run:
  assumes "\<And>e. Q (Inl (ShellError e)) [EShell script args]"
    and "\<And>out. wp (f out) (\<lambda>r t. Q r (EShell script args # t))"
  shows "wp (bindE (shell_run ctx script args) f) Q"
  by (rule wp_bindE)
    (use assms in \<open>auto simp: wp_def [of "shell_run ctx script args"] shell_run_def
       split: prod.splits sum.splits\<close>)

lemma wp_if: "(b \<Longrightarrow> wp m Q) \<Longrightarrow> (\<not> b \<Longrightarrow> wp m' Q) \<Longrightarrow> wp (if b then m else m') Q"
  by simp

lemma wp_Let: "(\<And>x. x = v \<Longrightarrow> wp (f x) Q) \<Longrightarrow> wp (Let v f) Q"
  by (simp add: Let_def)

lemma wp_prod: "(\<And>a b. x = (a, b) \<Longrightarrow> wp (f a b) Q) \<Longrightarrow> wp (case x of (a, b) \<Rightarrow> f a b) Q"
  by (cases x) simp

lemmas wp_intros = wp_prod wp_ret wp_throw wp_tryE wp_reject wp_report wp_finish wp_shell_run
  wp_if wp_Let

text \<open>Running a handler on a known executor answer, for witnesses.\<close>

lemmas cmd_run_simps [wp_simps] = ret_def throw_def bindE_def tryE_def reject_def report_def
  shell_run_def finish_def

section \<open>Programs\<close>

text \<open>
  The values the statements above build: a program returns, stops with an error,
  reports and goes on, or runs a script through the context's executor and goes on
  with its output, which it must check first: \<open>checks f\<close> says that a script that exits
  with another code than 0 stops the handler with that code and the error text. What
  holds of every program (a handler's script events are what its executor saw, a failing
  script fails the command) is proved once, by induction.
\<close>

definition checks :: "(PowerShellOutput \<Rightarrow> ('s, 'a) cmd) \<Rightarrow> bool" where
  "checks f \<longleftrightarrow> (\<forall>out. \<not> succeeded out \<longrightarrow>
     f out = throw (ShellError (NonZeroExit (exit_code out) (stderr out))))"

lemma checks_reject:
  "checks (\<lambda>out. reject (\<not> succeeded out)
     (ShellError (NonZeroExit (exit_code out) (stderr out))) (f out))"
  by (simp add: checks_def reject_def)

inductive program :: "'s CommandContext \<Rightarrow> ('s, Value) cmd \<Rightarrow> bool" for ctx where
  program_ret: "program ctx (ret v)"
| program_throw: "program ctx (throw e)"
| program_report: "program ctx k \<Longrightarrow> program ctx (report st k)"
| program_shell: "checks f \<Longrightarrow> (\<And>out. program ctx (f out)) \<Longrightarrow>
     program ctx (bindE (shell_run ctx script args) f)"

lemma program_tryE: "(\<And>x. r = Inr x \<Longrightarrow> program ctx (f x)) \<Longrightarrow> program ctx (tryE r f)"
  by (cases r) (auto simp: tryE_def intro: program_throw)

lemma program_reject: "(\<not> bad \<Longrightarrow> program ctx k) \<Longrightarrow> program ctx (reject bad e k)"
  by (simp add: reject_def program_throw)

lemma program_finish: "program ctx (finish v)"
  by (simp add: finish_def program_report program_ret)

lemma program_if:
  "(b \<Longrightarrow> program ctx m) \<Longrightarrow> (\<not> b \<Longrightarrow> program ctx m') \<Longrightarrow> program ctx (if b then m else m')"
  by simp

lemma program_Let: "(\<And>x. program ctx (f x)) \<Longrightarrow> program ctx (Let v f)"
  by (simp add: Let_def)

lemma program_prod:
  "(\<And>a b. program ctx (f a b)) \<Longrightarrow> program ctx (case x of (a, b) \<Rightarrow> f a b)"
  by (cases x) simp

text \<open>Without a script event nothing was run.\<close>

lemma program_quiet:
  assumes "program ctx m" and "m s = (r, t, s')" and "shell_runs t = []"
  shows "s' = s"
  using assms
proof (induction arbitrary: s r t s')
  case (program_report k st)
  then show ?case by (auto simp: report_def split: prod.splits)
next
  case (program_shell f script args)
  from program_shell.prems show ?case
    by (auto simp: bindE_def shell_run_def split: prod.splits sum.splits)
qed (auto simp: ret_def throw_def)

text \<open>The one script of a run decides it: its failure is the run's error.\<close>

lemma program_failure:
  assumes "program ctx m" and "m s = (r, t, s')" and "shell_runs t = [(script, args)]"
  shows "case shell ctx script args s of (a, s1) \<Rightarrow> s' = s1 \<and>
    (case a of Inl e \<Rightarrow> r = Inl (ShellError e)
     | Inr out \<Rightarrow> \<not> succeeded out \<longrightarrow>
         r = Inl (ShellError (NonZeroExit (exit_code out) (stderr out))))"
  using assms
proof (induction arbitrary: s r t s')
  case (program_report k st)
  obtain r' t' s1 where k: "k s = (r', t', s1)" by (metis prod_cases3)
  with program_report.prems have "r = r'" "shell_runs t' = [(script, args)]" "s' = s1"
    by (auto simp: report_def)
  with program_report.IH k show ?case by simp
next
  case (program_shell f sc as)
  obtain a s1 where a: "shell ctx sc as s = (a, s1)" by (cases "shell ctx sc as s")
  show ?case
  proof (cases a)
    case (Inl e)
    with program_shell.prems a show ?thesis by (auto simp: bindE_def shell_run_def)
  next
    case (Inr out)
    obtain r' t' s2 where f: "f out s1 = (r', t', s2)" by (metis prod_cases3)
    from program_shell.prems a Inr f
    have e: "sc = script" "as = args" "shell_runs t' = []" "r = r'" "s' = s2"
      by (auto simp: bindE_def shell_run_def)
    have "s2 = s1" by (rule program_quiet [OF program_shell.hyps(2) f e(3)])
    moreover have "r' = Inl (ShellError (NonZeroExit (exit_code out) (stderr out)))"
      if "\<not> succeeded out"
      using program_shell.hyps(1) that f by (auto simp: checks_def throw_def)
    ultimately show ?thesis using a Inr e by simp
  qed
qed (auto simp: ret_def throw_def)

lemmas program_intros = checks_reject program_prod program_throw program_report program_shell program_tryE
  program_reject program_finish program_if program_Let

section \<open>The protocol of a handler\<close>

text \<open>
  What the phone-home side relies on: a handler that fails has reported nothing
  terminal; one that succeeds has reported its result as done, once and last, and
  everything before that was a running state; it runs at most one script, and only
  after its first report.
\<close>

fun keeps_protocol :: "CommandError + Value \<Rightarrow> event list \<Rightarrow> bool" where
  "keeps_protocol (Inl e) [] \<longleftrightarrow> True"
| "keeps_protocol (Inl e) [EReport st, EShell sc args] \<longleftrightarrow> status st = Running"
| "keeps_protocol (Inr v) [EReport st, EReport st'] \<longleftrightarrow>
     status st = Running \<and> st' = OpRunState_done v"
| "keeps_protocol (Inr v) [EReport st, EShell sc args, EReport st'] \<longleftrightarrow>
     status st = Running \<and> st' = OpRunState_done v"
| "keeps_protocol _ _ \<longleftrightarrow> False"

lemma keeps_protocol_Inl:
  "keeps_protocol (Inl e) t \<longleftrightarrow>
     t = [] \<or> (\<exists>st sc args. t = [EReport st, EShell sc args] \<and> status st = Running)"
  by (cases "(Inl e :: CommandError + Value, t)" rule: keeps_protocol.cases) auto

lemma keeps_protocol_Inr:
  "keeps_protocol (Inr v) t \<longleftrightarrow>
     (\<exists>st. status st = Running \<and>
        (t = [EReport st, EReport (OpRunState_done v)]
         \<or> (\<exists>sc args. t = [EReport st, EShell sc args, EReport (OpRunState_done v)])))"
  by (cases "(Inr v :: CommandError + Value, t)" rule: keeps_protocol.cases) auto

locale command_contract =
  fixes execute :: "'s CommandContext \<Rightarrow> ('s, Value) cmd"
  assumes protocol: "wp (execute ctx) keeps_protocol"
    and built: "program ctx (execute ctx)"
begin

lemma run_protocol: "execute ctx s = (r, t, s') \<Longrightarrow> keeps_protocol r t"
  using protocol by (rule wp_run)

text \<open>An error is never preceded by a terminal report.\<close>

lemma error_reports_running:
  "execute ctx s = (Inl e, t, s') \<Longrightarrow> st \<in> set (reports t) \<Longrightarrow> status st = Running"
  by (drule run_protocol) (auto simp: keeps_protocol_Inl)

text \<open>A result is reported as done exactly once, after every other report.\<close>

lemma result_reported_last:
  "execute ctx s = (Inr v, t, s') \<Longrightarrow>
     \<exists>st. reports t = [st, OpRunState_done v] \<and> status st = Running"
  by (drule run_protocol) (auto simp: keeps_protocol_Inr)

text \<open>A script that fails fails the command, with its own error.\<close>

lemma failed_script:
  "execute ctx s = (r, t, s') \<Longrightarrow> shell_runs t = [(script, args)] \<Longrightarrow>
    case shell ctx script args s of (a, s1) \<Rightarrow> s' = s1 \<and>
    (case a of Inl e \<Rightarrow> r = Inl (ShellError e)
     | Inr out \<Rightarrow> \<not> succeeded out \<longrightarrow>
         r = Inl (ShellError (NonZeroExit (exit_code out) (stderr out))))"
  by (rule program_failure [OF built])

lemma one_script: "execute ctx s = (r, t, s') \<Longrightarrow> length (shell_runs t) \<le> 1"
  by (drule run_protocol, cases r) (auto simp: keeps_protocol_Inl keeps_protocol_Inr)

end

section \<open>What a handler runs\<close>

text \<open>
  \<open>runs_only tab P m\<close>: every script \<open>m\<close> runs is an entry of \<open>tab\<close>, with the number of
  arguments the entry gives, and its arguments satisfy \<open>P\<close>.
\<close>

definition runs_only ::
  "(string \<times> nat) list \<Rightarrow> (string list \<Rightarrow> bool) \<Rightarrow> ('s, 'a) cmd \<Rightarrow> bool" where
  "runs_only tab P m \<longleftrightarrow>
     wp m (\<lambda>r t. \<forall>(sc, args) \<in> set (shell_runs t). (sc, length args) \<in> set tab \<and> P args)"

lemma runs_onlyD:
  "runs_only tab P m \<Longrightarrow> m s = (r, t, s') \<Longrightarrow> (sc, args) \<in> set (shell_runs t) \<Longrightarrow>
     (sc, length args) \<in> set tab \<and> P args"
  unfolding runs_only_def by (drule (1) wp_run) auto

lemma runs_only_mono:
  "runs_only tab P m \<Longrightarrow> set tab \<subseteq> set tab' \<Longrightarrow> (\<And>args. P args \<Longrightarrow> P' args) \<Longrightarrow> runs_only tab' P' m"
  unfolding runs_only_def by (erule wp_mono) fastforce

section \<open>Secrets\<close>

text \<open>
  A handler runs at most one script, so an executor that always gives one answer
  stands for whatever the shell said. \<open>hides good key execute\<close>: for a given answer,
  neither the outcome nor any report depends on which of two equally acceptable
  values the parameter \<open>key\<close> has.
\<close>

definition answering :: "PowerShellError + PowerShellOutput \<Rightarrow> 's executor" where
  "answering a script args s = (a, s)"

definition observed ::
  "('s CommandContext \<Rightarrow> ('s, Value) cmd) \<Rightarrow> (string \<rightharpoonup> string) \<Rightarrow>
     PowerShellError + PowerShellOutput \<Rightarrow> 's \<Rightarrow> (CommandError + Value) \<times> OpRunState list" where
  "observed execute ps a s =
     (case execute \<lparr>params = ps, shell = answering a\<rparr> s of (r, t, s') \<Rightarrow> (r, reports t))"

definition hides ::
  "(string \<Rightarrow> bool) \<Rightarrow> string \<Rightarrow> ('s CommandContext \<Rightarrow> ('s, Value) cmd) \<Rightarrow> bool" where
  "hides good key execute \<longleftrightarrow>
     (\<forall>ps x y a s. good x = good y \<longrightarrow>
        observed execute (ps(key \<mapsto> x)) a s = observed execute (ps(key \<mapsto> y)) a s)"

text \<open>
  What an observer of one run sees, and congruences that compare two runs statement by
  statement.
\<close>

definition obs :: "('s, 'a) cmd \<Rightarrow> 's \<Rightarrow> (CommandError + 'a) \<times> OpRunState list" where
  "obs m s = (case m s of (r, t, s') \<Rightarrow> (r, reports t))"

lemma observed_obs: "observed execute ps a s = obs (execute \<lparr>params = ps, shell = answering a\<rparr>) s"
  by (simp add: observed_def obs_def)

lemma obs_tryE:
  "(\<And>x. r = Inr x \<Longrightarrow> obs (f x) s = obs (g x) s) \<Longrightarrow> obs (tryE r f) s = obs (tryE r g) s"
  by (cases r) (simp_all add: tryE_def)

lemma obs_reject:
  "(\<not> bad \<Longrightarrow> obs m s = obs m' s) \<Longrightarrow> obs (reject bad e m) s = obs (reject bad e m') s"
  by (simp add: reject_def)

lemma obs_report:
  "obs m s = obs m' s \<Longrightarrow> obs (report st m) s = obs (report st m') s"
  by (auto simp: obs_def report_def split: prod.splits)

lemma obs_Let: "(\<And>x. obs (f x) s = obs (g x) s) \<Longrightarrow> obs (Let v f) s = obs (Let v g) s"
  by simp

lemma obs_if:
  "(b \<Longrightarrow> obs m s = obs m' s) \<Longrightarrow> (\<not> b \<Longrightarrow> obs k s = obs k' s) \<Longrightarrow>
     obs (if b then m else k) s = obs (if b then m' else k') s"
  by simp

text \<open>Only the answer matters, not the arguments, for the executor that gives one answer.\<close>

lemma obs_shell_answering:
  assumes "\<And>out. obs (f out) s = obs (g out) s"
  shows "obs (bindE (shell_run \<lparr>params = ps, shell = answering a\<rparr> script args) f) s
    = obs (bindE (shell_run \<lparr>params = ps', shell = answering a\<rparr> script args') g) s"
proof (cases a)
  case (Inl e)
  then show ?thesis by (simp add: obs_def bindE_def shell_run_def answering_def)
next
  case (Inr out)
  with assms [of out] show ?thesis
    by (auto simp: obs_def bindE_def shell_run_def answering_def split: prod.splits)
qed

lemmas obs_congs = obs_tryE obs_reject obs_report obs_Let obs_if obs_shell_answering

section \<open>Executors that keep a log\<close>

text \<open>
  With an executor that records its runs, the script events of a run are the
  entries it added: the event list says what really reached the shell.
\<close>

context logging_executor
begin

lemma program_log:
  assumes "program ctx m" and "shell ctx = run" and "m s = (r, t, s')"
  shows "runs s' = runs s @ map fst (shell_runs t)"
  using assms
proof (induction arbitrary: s r t s')
  case (program_report k st)
  then show ?case by (auto simp: report_def split: prod.splits)
next
  case (program_shell f script args)
  obtain a s1 where a: "run script args s = (a, s1)" by (cases "run script args s")
  with runs_run [of script args s] have s1: "runs s1 = runs s @ [script]" by simp
  show ?case
  proof (cases a)
    case (Inl e)
    with program_shell.prems a s1 show ?thesis by (auto simp: bindE_def shell_run_def)
  next
    case (Inr out)
    obtain r' t' s2 where f: "f out s1 = (r', t', s2)" by (metis prod_cases3)
    from program_shell.IH [OF program_shell.prems(1) f] program_shell.prems(1,2) Inr a f s1
    show ?thesis by (auto simp: bindE_def shell_run_def)
  qed
qed (auto simp: ret_def throw_def)

end

end
