(* ===== verification/Util.thy ===== *)
theory Util
  imports Command
begin

text \<open>
  \<^verbatim>\<open>commands/util.rs\<close>: parameter access, the exit-code check and the validators the
  handlers share, with what an accepted value is guaranteed to look like. \<open>no_dash\<close>
  is the rule the positional binding of \<^verbatim>\<open>-File\<close> needs: an argument that began with
  a dash would be read as a parameter name.
\<close>

section \<open>Parameters and results\<close>

definition param :: "'s CommandContext \<Rightarrow> string \<Rightarrow> string option" where
  "param ctx key = params ctx key"

definition param_or :: "'s CommandContext \<Rightarrow> string \<Rightarrow> string \<Rightarrow> string" where
  "param_or ctx key d = (case param ctx key of Some v \<Rightarrow> v | None \<Rightarrow> d)"

definition required :: "'s CommandContext \<Rightarrow> string \<Rightarrow> CommandError + string" where
  "required ctx key = (case param ctx key of Some v \<Rightarrow> Inr v | None \<Rightarrow> Inl (MissingParam key))"

definition invalid :: "string \<Rightarrow> string \<Rightarrow> CommandError" where
  "invalid name reason = InvalidParam name reason"

definition require_success :: "PowerShellOutput \<Rightarrow> CommandError + PowerShellOutput" where
  "require_success out =
     (if succeeded out then Inr out
      else Inl (ShellError (NonZeroExit (exit_code out) (stderr out))))"

text \<open>\<^verbatim>\<open>serde_json::from_str\<close> at \<^verbatim>\<open>Value\<close> is the parameter \<open>from_str\<close>.\<close>

definition parse_json :: "(string \<Rightarrow> Value option) \<Rightarrow> string \<Rightarrow> Value" where
  "parse_json from_str out = (case from_str (trim out) of Some v \<Rightarrow> v | None \<Rightarrow> JNull)"

text \<open>
  \<^verbatim>\<open>for (name, value) in [...] { if bad(value) { return Err(invalid(name, reason)); } }\<close>
\<close>

definition reject_each ::
  "(string \<Rightarrow> bool) \<Rightarrow> string \<Rightarrow> (string \<times> string) list \<Rightarrow> ('s, 'a) cmd \<Rightarrow> ('s, 'a) cmd" where
  "reject_each bad reason kvs k =
     (case find (\<lambda>(n, v). bad v) kvs of
        Some (n, v) \<Rightarrow> throw (invalid n reason) | None \<Rightarrow> k)"

lemma wp_reject_each:
  assumes "\<And>n. Q (Inl (invalid n reason)) []"
    and "(\<forall>(n, v) \<in> set kvs. \<not> bad v) \<Longrightarrow> wp k Q"
  shows "wp (reject_each bad reason kvs k) Q"
proof (cases "find (\<lambda>(n, v). bad v) kvs")
  case None
  then have "\<forall>(n, v) \<in> set kvs. \<not> bad v" by (auto simp: find_None_iff)
  with None assms(2) show ?thesis by (simp add: reject_each_def)
next
  case (Some nv)
  then show ?thesis by (cases nv) (simp add: reject_each_def wp_throw assms(1))
qed

lemma program_reject_each: "program ctx k \<Longrightarrow> program ctx (reject_each bad reason kvs k)"
  by (auto simp: reject_each_def program_throw split: option.split)

lemma checks_require_success: "checks (\<lambda>out. tryE (require_success out) (f out))"
  by (simp add: checks_def tryE_def require_success_def)

lemmas handler_wp = wp_intros wp_reject_each
lemmas handler_program = checks_require_success program_intros program_reject_each

lemma required_Inr: "required ctx k = Inr v \<longleftrightarrow> params ctx k = Some v"
  by (auto simp: required_def param_def split: option.splits)

lemma required_Inl: "required ctx k = Inl e \<longleftrightarrow> params ctx k = None \<and> e = MissingParam k"
  by (auto simp: required_def param_def split: option.splits)

lemma require_success_Inr: "require_success out = Inr o' \<longleftrightarrow> o' = out \<and> exit_code out = 0"
  by (auto simp: require_success_def succeeded_def)

lemma require_success_Inl:
  "require_success out = Inl e \<longleftrightarrow>
     exit_code out \<noteq> 0 \<and> e = ShellError (NonZeroExit (exit_code out) (stderr out))"
  by (auto simp: require_success_def succeeded_def)

section \<open>Validators\<close>

definition valid_windows_path :: "string \<Rightarrow> bool" where
  "valid_windows_path path =
     (case path of
        drive # colon # slash # rest \<Rightarrow>
          colon = CHR '':'' \<and> slash = CHR 0x5C \<and> is_ascii_alphabetic drive
          \<and> length path \<le> 200
          \<and> list_all (\<lambda>c. is_ascii_alphanumeric c \<or> c \<in> set ('' ._-'' @ backslash @ ''()'')) rest
      | _ \<Rightarrow> False)"

definition valid_secret :: "string \<Rightarrow> bool" where
  "valid_secret v \<longleftrightarrow> v \<noteq> [] \<and> \<not> starts_with v ''-'' \<and> length v \<le> 127"

definition valid_username :: "string \<Rightarrow> bool" where
  "valid_username v \<longleftrightarrow> 1 \<le> length v \<and> length v \<le> 104
     \<and> list_all (\<lambda>c. is_ascii_alphanumeric c \<or> c \<in> set (backslash @ ''@.-_'')) v
     \<and> \<not> starts_with v ''-''"

definition valid_dns_label :: "string \<Rightarrow> bool" where
  "valid_dns_label label \<longleftrightarrow> label \<noteq> [] \<and> length label \<le> 63
     \<and> list_all (\<lambda>c. is_ascii_alphanumeric c \<or> c = CHR ''-'') label
     \<and> \<not> starts_with label ''-'' \<and> \<not> ends_with label ''-''"

definition valid_dns_name :: "string \<Rightarrow> bool" where
  "valid_dns_name name0 \<longleftrightarrow>
     (let name = (case strip_suffix name0 ''.'' of Some n \<Rightarrow> n | None \<Rightarrow> name0) in
        name \<noteq> [] \<and> length name \<le> 253
        \<and> list_all valid_dns_label (split_on (CHR ''.'') name))"

definition valid_posix_path :: "string \<Rightarrow> bool" where
  "valid_posix_path path =
     (case path of
        [] \<Rightarrow> False
      | c # rest \<Rightarrow>
          c = CHR ''/'' \<and> length path \<le> 200
          \<and> list_all (\<lambda>c. is_ascii_alphanumeric c \<or> c \<in> set '' ._-/'') rest)"

text \<open>
  The character sets most name validators are built from: a length range and a set
  of extra characters next to letters and digits.
\<close>

definition name_of :: "nat \<Rightarrow> nat \<Rightarrow> string \<Rightarrow> string \<Rightarrow> bool" where
  "name_of lo hi extra v \<longleftrightarrow> lo \<le> length v \<and> length v \<le> hi
     \<and> list_all (\<lambda>c. is_ascii_alphanumeric c \<or> c \<in> set extra) v"

section \<open>What the validators guarantee\<close>

definition no_dash :: "string \<Rightarrow> bool" where
  "no_dash a \<longleftrightarrow> \<not> starts_with a ''-''"

lemma no_dash_Nil [simp]: "no_dash []"
  by (simp add: no_dash_def starts_with_def)

lemma no_dash_Cons [simp]: "no_dash (c # s) \<longleftrightarrow> c \<noteq> CHR ''-''"
  by (auto simp: no_dash_def starts_with_def)

lemma valid_windows_path_cases:
  assumes "valid_windows_path p"
  obtains d rest where "p = d # CHR '':'' # CHR 0x5C # rest" "is_ascii_alphabetic d"
    "length p \<le> 200"
    "\<forall>c \<in> set rest. is_ascii_alphanumeric c \<or> c \<in> set ('' ._-'' @ backslash @ ''()'')"
  using assms by (auto simp: valid_windows_path_def list_all_iff split: list.splits)

lemma valid_windows_path_ascii: "valid_windows_path p \<Longrightarrow> c \<in> set p \<Longrightarrow> is_ascii c"
  by (erule valid_windows_path_cases) (auto simp: char_class_defs)

lemma valid_windows_path_no_dash: "valid_windows_path p \<Longrightarrow> no_dash p"
  by (erule valid_windows_path_cases) (auto simp: char_class_defs)

lemma valid_windows_path_nonempty: "valid_windows_path p \<Longrightarrow> p \<noteq> []"
  by (auto simp: valid_windows_path_def)

lemma valid_posix_path_ascii: "valid_posix_path p \<Longrightarrow> c \<in> set p \<Longrightarrow> is_ascii c"
  by (auto simp: valid_posix_path_def char_class_defs list_all_iff split: list.splits)

lemma valid_posix_path_no_dash: "valid_posix_path p \<Longrightarrow> no_dash p"
  by (auto simp: valid_posix_path_def split: list.splits)

text \<open>No path is accepted by both validators: the two relay allowlists stay apart.\<close>

lemma windows_posix_disjoint: "\<not> (valid_windows_path p \<and> valid_posix_path p)"
  by (auto simp: valid_windows_path_def valid_posix_path_def char_class_defs split: list.splits)

lemma valid_secret_no_dash: "valid_secret v \<Longrightarrow> no_dash v"
  by (simp add: valid_secret_def no_dash_def)

lemma valid_username_no_dash: "valid_username v \<Longrightarrow> no_dash v"
  by (simp add: valid_username_def no_dash_def)

lemma valid_dns_name_no_dash: "valid_dns_name n \<Longrightarrow> no_dash n"
proof -
  assume n: "valid_dns_name n"
  define m where "m = (case strip_suffix n ''.'' of Some n \<Rightarrow> n | None \<Rightarrow> n)"
  from n have m: "m \<noteq> []" and labels: "list_all valid_dns_label (split_on (CHR ''.'') m)"
    by (simp_all add: valid_dns_name_def Let_def m_def)
  obtain c m' where c: "m = c # m'" using m by (cases m) auto
  obtain l ls where l: "split_on (CHR ''.'') m = l # ls" by (cases "split_on (CHR ''.'') m") auto
  with labels have "valid_dns_label l" by simp
  then have "c \<noteq> CHR ''-''"
    using l by (auto simp: c valid_dns_label_def starts_with_def split: if_splits list.splits)
  moreover have "\<exists>r. n = m @ r"
  proof (cases "strip_suffix n ''.''")
    case None
    then show ?thesis by (simp add: m_def)
  next
    case (Some a)
    then have "n = a @ ''.''" by (simp add: strip_suffix_Some)
    with Some show ?thesis by (simp add: m_def)
  qed
  ultimately show ?thesis by (auto simp: c)
qed

lemma ipv4_no_dash: "ipv4_parse_ok s \<Longrightarrow> no_dash s"
proof (cases s)
  case (Cons c r)
  assume ok: "ipv4_parse_ok s"
  obtain p ps where p: "split_on (CHR ''.'') s = p # ps" by (cases "split_on (CHR ''.'') s") auto
  with ok have "ipv4_octet p" by (simp add: ipv4_parse_ok_def)
  with p show ?thesis
    by (auto simp: Cons ipv4_octet_def is_ascii_digit_def byte_of_def split: if_splits list.splits)
qed simp

lemma parse_uint_no_dash: "parse_uint w s = Some n \<Longrightarrow> no_dash s"
  by (cases s) (auto simp: parse_uint_def Let_def is_ascii_digit_def byte_of_def split: if_splits)

lemma no_dash_join:
  "ps \<noteq> [] \<Longrightarrow> \<forall>p \<in> set ps. p \<noteq> [] \<and> no_dash p \<Longrightarrow> no_dash (join sep ps)"
proof -
  assume ps: "ps \<noteq> []" "\<forall>p \<in> set ps. p \<noteq> [] \<and> no_dash p"
  then have h: "hd ps \<noteq> []" "no_dash (hd ps)" by (auto simp: neq_Nil_conv)
  have "join sep ps \<noteq> []" using ps join_Nil_iff [of ps sep] by blast
  then obtain c r where c: "join sep ps = c # r" by (cases "join sep ps") auto
  with hd_join [of ps sep] ps(1) h(1) have "c = hd (hd ps)" by simp
  with h c show ?thesis by (cases "hd ps") auto
qed

lemma no_dash_alnum_first:
  "s \<noteq> [] \<Longrightarrow> is_ascii_alphanumeric (hd s) \<Longrightarrow> no_dash s"
  by (cases s) (auto simp: char_class_defs)

lemma no_dash_starts_http:
  "starts_with s ''http://'' \<or> starts_with s ''https://'' \<Longrightarrow> no_dash s"
  by (auto simp: starts_with_iff)

lemma name_of_no_dash: "name_of lo hi extra v \<Longrightarrow> CHR ''-'' \<notin> set extra \<Longrightarrow> no_dash v"
  by (cases v) (auto simp: name_of_def char_class_defs)

lemmas no_dash_rules = valid_windows_path_no_dash valid_posix_path_no_dash valid_secret_no_dash
  valid_username_no_dash valid_dns_name_no_dash ipv4_no_dash parse_uint_no_dash

end
