(* ===== verification/Registry.thy ===== *)
theory Registry
  imports Util
begin

text \<open>
  \<^verbatim>\<open>registry.rs\<close>: the command table and the role gate in front of it. The hash map
  from names to handlers is an association list with distinct keys; nothing the
  program does depends on its order (\<open>commands\<close> sorts by name, byte by byte).
\<close>

record 's handler =
  h_name :: string
  h_capability :: Capability
  h_execute :: "'s CommandContext \<Rightarrow> ('s, Value) cmd"

type_synonym 's CommandRegistry = "(string \<times> 's handler) list"

datatype DispatchError =
    UnknownCommand string
  | Forbidden string Role Capability
  | CommandFailed CommandError

fun DispatchError_display :: "DispatchError \<Rightarrow> string" where
  "DispatchError_display (UnknownCommand n) =
     ''unknown command '' @ squote @ n @ squote"
| "DispatchError_display (Forbidden n r c) =
     ''role '' @ Role_debug r @ '' lacks capability '' @ Capability_debug c
     @ '' required by '' @ squote @ n @ squote"
| "DispatchError_display (CommandFailed e) = CommandError_display e"

definition registry_new :: "'s CommandRegistry" where
  "registry_new = []"

definition register :: "'s CommandRegistry \<Rightarrow> 's handler \<Rightarrow> 's CommandRegistry" where
  "register reg h = AList.update (h_name h) h reg"

definition registry_len :: "'s CommandRegistry \<Rightarrow> nat" where
  "registry_len reg = length reg"

definition registry_is_empty :: "'s CommandRegistry \<Rightarrow> bool" where
  "registry_is_empty reg \<longleftrightarrow> reg = []"

definition commands :: "'s CommandRegistry \<Rightarrow> (string \<times> Capability) list" where
  "commands reg = sort_key fst (map (\<lambda>(k, h). (h_name h, h_capability h)) reg)"

definition dispatch ::
  "'s CommandRegistry \<Rightarrow> string \<Rightarrow> Role \<Rightarrow> (string \<rightharpoonup> string) \<Rightarrow> 's executor
     \<Rightarrow> 's \<Rightarrow> (DispatchError + Value) \<times> event list \<times> 's" where
  "dispatch reg name role ps sh s =
     (case map_of reg name of
        None \<Rightarrow> (Inl (UnknownCommand name), [], s)
      | Some handler \<Rightarrow>
          (let required_cap = h_capability handler in
           if \<not> role_has role required_cap
           then (Inl (Forbidden name role required_cap), [], s)
           else (case h_execute handler \<lparr>params = ps, shell = sh\<rparr> s of
                   (Inl e, t, s') \<Rightarrow> (Inl (CommandFailed e), t, s')
                 | (Inr v, t, s') \<Rightarrow> (Inr v, t, s'))))"

section \<open>The table\<close>

definition well_keyed :: "'s CommandRegistry \<Rightarrow> bool" where
  "well_keyed reg \<longleftrightarrow> distinct (map fst reg) \<and> (\<forall>(k, h) \<in> set reg. h_name h = k)"

lemma well_keyed_new [simp]: "well_keyed registry_new"
  by (simp add: well_keyed_def registry_new_def)

lemma set_update_subset: "set (AList.update k v m) \<subseteq> insert (k, v) (set m)"
  by (induction m) auto

lemma well_keyed_register: "well_keyed reg \<Longrightarrow> well_keyed (register reg h)"
  using set_update_subset [of "h_name h" h reg]
  by (fastforce simp: well_keyed_def register_def distinct_update)

lemma lookup_register:
  "map_of (register reg h) name = (if name = h_name h then Some h else map_of reg name)"
  by (simp add: register_def update_conv')

text \<open>Registering under a known name replaces the handler and keeps every name.\<close>

lemma registry_len_overwrite:
  "h_name h \<in> fst ` set reg \<Longrightarrow> registry_len (register reg h) = registry_len reg"
  unfolding registry_len_def register_def by (induction reg) auto

lemma commands_perm:
  "mset (commands reg) = mset (map (\<lambda>(k, h). (h_name h, h_capability h)) reg)"
  by (simp add: commands_def)

lemma commands_sorted: "sorted (map fst (commands reg))"
  by (simp add: commands_def)

lemma commands_member:
  assumes "well_keyed reg"
  shows "(n, c) \<in> set (commands reg) \<longleftrightarrow> (\<exists>h. map_of reg n = Some h \<and> h_capability h = c)"
proof -
  have "(n, c) \<in> set (commands reg) \<longleftrightarrow> (\<exists>h. (n, h) \<in> set reg \<and> h_capability h = c)"
    using assms by (force simp: commands_def well_keyed_def)
  then show ?thesis
    using assms by (simp add: well_keyed_def map_of_eq_Some_iff)
qed

section \<open>The gate\<close>

lemma dispatch_unknown:
  "map_of reg name = None \<Longrightarrow> dispatch reg name role ps sh s = (Inl (UnknownCommand name), [], s)"
  by (simp add: dispatch_def)

lemma dispatch_forbidden:
  "map_of reg name = Some h \<Longrightarrow> \<not> role_has role (h_capability h) \<Longrightarrow>
     dispatch reg name role ps sh s = (Inl (Forbidden name role (h_capability h)), [], s)"
  by (simp add: dispatch_def Let_def)

lemma dispatch_allowed:
  "map_of reg name = Some h \<Longrightarrow> role_has role (h_capability h) \<Longrightarrow>
     dispatch reg name role ps sh s =
       (case h_execute h \<lparr>params = ps, shell = sh\<rparr> s of
          (Inl e, t, s') \<Rightarrow> (Inl (CommandFailed e), t, s')
        | (Inr v, t, s') \<Rightarrow> (Inr v, t, s'))"
  by (simp add: dispatch_def Let_def)

text \<open>
  An event means the gate was open: a handler was found and the role has its
  capability.
\<close>

lemma dispatch_event_gate:
  assumes "dispatch reg name role ps sh s = (r, t, s')" and "t \<noteq> [] \<or> s' \<noteq> s"
  shows "\<exists>h. map_of reg name = Some h \<and> role_has role (h_capability h)"
  using assms by (auto simp: dispatch_def Let_def split: option.splits if_splits)

section \<open>Registries whose handlers keep the protocol\<close>

locale protocol_registry =
  fixes reg :: "'s CommandRegistry"
  assumes handlers_keep: "map_of reg name = Some h \<Longrightarrow> command_contract (h_execute h)"
begin

lemma dispatch_protocol:
  assumes d: "dispatch reg name role ps sh s = (r, t, s')"
  shows "case r of Inr v \<Rightarrow> keeps_protocol (Inr v) t
         | Inl (CommandFailed e) \<Rightarrow> keeps_protocol (Inl e) t
         | Inl _ \<Rightarrow> t = []"
proof (cases "map_of reg name")
  case None
  with d show ?thesis by (auto simp: dispatch_unknown)
next
  case (Some h)
  note keep = command_contract.run_protocol [OF handlers_keep [OF Some]]
  show ?thesis
  proof (cases "role_has role (h_capability h)")
    case True
    with d Some show ?thesis
      by (auto simp: dispatch_allowed split: prod.splits sum.splits dest: keep)
  next
    case False
    with d Some show ?thesis by (auto simp: dispatch_forbidden)
  qed
qed

text \<open>A failing script fails its command: the answer of the shell decides the outcome.\<close>

lemma dispatch_failed_script:
  assumes d: "dispatch reg name role ps sh s = (r, t, s')"
    and t: "(script, args) \<in> set (shell_runs t)"
  shows "case sh script args s of (a, s1) \<Rightarrow> s' = s1 \<and>
    (case a of Inl e \<Rightarrow> r = Inl (CommandFailed (ShellError e))
     | Inr out \<Rightarrow> \<not> succeeded out \<longrightarrow>
         r = Inl (CommandFailed (ShellError (NonZeroExit (exit_code out) (stderr out)))))"
proof -
  from t have "t \<noteq> []" by auto
  with dispatch_event_gate [OF d] obtain h
    where h: "map_of reg name = Some h" "role_has role (h_capability h)" by blast
  obtain r' t' s1 where e: "h_execute h \<lparr>params = ps, shell = sh\<rparr> s = (r', t', s1)"
    by (metis prod_cases3)
  with d h have r: "t = t'" "s' = s1" "r = (case r' of Inl e \<Rightarrow> Inl (CommandFailed e) | Inr v \<Rightarrow> Inr v)"
    by (auto simp: dispatch_allowed split: sum.splits)
  note c = handlers_keep [OF h(1)]
  from command_contract.one_script [OF c e] t r have "shell_runs t' = [(script, args)]"
    by (cases "shell_runs t'") auto
  from command_contract.failed_script [OF c e this] r show ?thesis
    by (auto split: prod.splits sum.splits)
qed

text \<open>
  With an executor that keeps a log, the scripts of a dispatch are exactly the
  entries it added.
\<close>

lemma dispatch_log:
  assumes d: "dispatch reg name role ps run s = (r, t, s')"
    and ex: "logging_executor run runs"
  shows "runs s' = runs s @ map fst (shell_runs t)"
proof (cases "\<exists>h. map_of reg name = Some h \<and> role_has role (h_capability h)")
  case True
  then obtain h where h: "map_of reg name = Some h" "role_has role (h_capability h)" by blast
  obtain r' t' s1 where e: "h_execute h \<lparr>params = ps, shell = run\<rparr> s = (r', t', s1)"
    by (metis prod_cases3)
  with d h have "t = t'" "s' = s1" by (auto simp: dispatch_allowed split: sum.splits)
  moreover have "runs s1 = runs s @ map fst (shell_runs t')"
    by (rule logging_executor.program_log [OF ex command_contract.built [OF handlers_keep [OF h(1)]] _ e])
      simp
  ultimately show ?thesis by simp
next
  case False
  with dispatch_event_gate [OF d] have "t = []" "s' = s" by auto
  then show ?thesis by simp
qed

end

end
