(* ===== verification/Scripts.thy ===== *)
theory Scripts
  imports Main
begin

text \<open>
  The PowerShell and POSIX shell scripts the command handlers hand to the
  executor, one constant per handler, with the text the compiled program has:
  a Rust continuation line (a backslash before the line break) is one list
  element here, a raw string has one element per line with its line break.
  The characters a literal cannot hold (backslash, line break, back quote,
  some quotes, the brace of a hash table) are written as \<open>CHR\<close> codes.
  The interpreter that runs them is not part of the repository: the model
  never reads a script except to count the positional parameters it declares.
\<close>

text \<open>\<^verbatim>\<open>commands/hostname_rename.rs\<close>, the script of \<^verbatim>\<open>HostnameRename\<close>.\<close>

definition script_HostnameRename :: string where
  "script_HostnameRename = concat [
    ''param([string]$NewName) Rename-Computer -NewName $NewName -Restart:$false -Force'']"

text \<open>\<^verbatim>\<open>commands/hostname_read.rs\<close>, the script of \<^verbatim>\<open>HostnameRead\<close>.\<close>

definition script_HostnameRead :: string where
  "script_HostnameRead = concat [
    ''[System.Net.Dns]::GetHostName()'']"

text \<open>\<^verbatim>\<open>commands/ip.rs\<close>, the script of \<^verbatim>\<open>IpRead\<close>.\<close>

definition script_IpRead :: string where
  "script_IpRead = concat [
    ''ConvertTo-Json @(Get-NetIPAddress -AddressFamily IPv4 | Where-Object { $_.InterfaceAlias -notmatch 'Loopback' } | Select-Object InterfaceAlias, IPAddress, PrefixLength)'']"

text \<open>\<^verbatim>\<open>commands/ip.rs\<close>, the script of \<^verbatim>\<open>IpWrite\<close>.\<close>

definition script_IpWrite :: string where
  "script_IpWrite = concat [
    ''param([string]$Address,[string]$Prefix,[string]$Gateway,[string]$Alias) '',
    ''if (-not $Alias) { $Alias = Get-NetAdapter | Where-Object Status -eq 'Up' | Sort-Object ifIndex | Select-Object -First 1 -ExpandProperty Name }; '',
    ''Set-NetIPInterface -InterfaceAlias $Alias -AddressFamily IPv4 -Dhcp Disabled; '',
    ''Get-NetIPAddress -InterfaceAlias $Alias -AddressFamily IPv4 -ErrorAction SilentlyContinue | Remove-NetIPAddress -Confirm:$false -ErrorAction SilentlyContinue; '',
    ''if ($Gateway) { '',
    ''Remove-NetRoute -InterfaceAlias $Alias -DestinationPrefix '0.0.0.0/0' -Confirm:$false -ErrorAction SilentlyContinue; '',
    ''New-NetIPAddress -InterfaceAlias $Alias -IPAddress $Address -PrefixLength $Prefix -DefaultGateway $Gateway '',
    ''} else { '',
    ''New-NetIPAddress -InterfaceAlias $Alias -IPAddress $Address -PrefixLength $Prefix '',
    ''}'']"

text \<open>\<^verbatim>\<open>commands/system.rs\<close>, the script of \<^verbatim>\<open>SystemReboot\<close>.\<close>

definition script_SystemReboot :: string where
  "script_SystemReboot = concat [
    ''param([string]$Delay) '',
    ''shutdown /r /t $Delay /c 'pki-executor plan reboot'; '',
    ''exit $LASTEXITCODE'']"

text \<open>\<^verbatim>\<open>commands/system_identity.rs\<close>, the script of \<^verbatim>\<open>SystemIdentity\<close>.\<close>

definition script_SystemIdentity :: string where
  "script_SystemIdentity = concat [
    ''$ErrorActionPreference = 'Stop'; '',
    ''$os = Get-CimInstance Win32_OperatingSystem; '',
    ''@'', [CHR 0x7B], '' hostname = $env:COMPUTERNAME; operating_system = $os.Caption; version = $os.Version; product_type = [int]$os.ProductType; server = ([int]$os.ProductType -ne 1) } | ConvertTo-Json -Compress'']"

text \<open>\<^verbatim>\<open>commands/file.rs\<close>, the script of \<^verbatim>\<open>FileRead\<close>.\<close>

definition script_FileRead :: string where
  "script_FileRead = concat [
    ''param([string]$Path,[string]$Cap) '',
    ''$ErrorActionPreference = 'Stop'; '',
    ''$bytes = [System.IO.File]::ReadAllBytes($Path); '',
    ''if ($bytes.Length -gt [int]$Cap) { throw \"file exceeds the relay cap\" }; '',
    ''$sha = [System.Security.Cryptography.SHA256]::Create(); '',
    ''$hash = ($sha.ComputeHash($bytes) | ForEach-Object { $_.ToString('x2') }) -join '', [CHR 0x27], [CHR 0x27], ''; '',
    ''@'', [CHR 0x7B], '' contentB64 = [Convert]::ToBase64String($bytes); sha256 = $hash; size = $bytes.Length } | ConvertTo-Json'']"

text \<open>\<^verbatim>\<open>commands/file.rs\<close>, the script of \<^verbatim>\<open>FileWrite\<close>.\<close>

definition script_FileWrite :: string where
  "script_FileWrite = concat [
    ''param([string]$Path,[string]$ContentB64) '',
    ''$ErrorActionPreference = 'Stop'; '',
    ''$bytes = [Convert]::FromBase64String($ContentB64); '',
    ''New-Item -ItemType Directory -Force -Path (Split-Path $Path) | Out-Null; '',
    ''[System.IO.File]::WriteAllBytes($Path, $bytes); '',
    ''$sha = [System.Security.Cryptography.SHA256]::Create(); '',
    ''($sha.ComputeHash($bytes) | ForEach-Object { $_.ToString('x2') }) -join '', [CHR 0x27], [CHR 0x27]]"

text \<open>\<^verbatim>\<open>commands/linux.rs\<close>, the script of \<^verbatim>\<open>LinuxSystemIdentity\<close>.\<close>

definition script_LinuxSystemIdentity :: string where
  "script_LinuxSystemIdentity = concat [
    ''set -eu'', [CHR 0x0A],
    ''. /etc/os-release'', [CHR 0x0A],
    ''printf '', [CHR 0x27], ''{\"hostname\":\"%s\",\"operating_system\":\"%s\",\"version\":\"%s\",\"product_type\":3,\"server\":true}' '', [CHR 0x5C], [CHR 0x0A],
    ''  \"$(uname -n)\" \"${PRETTY_NAME:-${NAME:-Linux}}\" \"$(uname -r)\"'', [CHR 0x0A]]"

text \<open>\<^verbatim>\<open>commands/linux.rs\<close>, the script of \<^verbatim>\<open>LinuxSystemReboot\<close>.\<close>

definition script_LinuxSystemReboot :: string where
  "script_LinuxSystemReboot = concat [
    ''set -eu'', [CHR 0x0A],
    ''delay=\"$1\"'', [CHR 0x0A],
    ''if command -v systemd-run >/dev/null 2>&1; then'', [CHR 0x0A],
    ''  systemd-run --quiet --on-active=\"${delay}s\" /usr/bin/systemctl reboot'', [CHR 0x0A],
    ''else'', [CHR 0x0A],
    ''  # Detached from this shell so the executor's wait on it returns immediately'', [CHR 0x0A],
    ''  # and the reboot still happens after the grace window.'', [CHR 0x0A],
    ''  nohup sh -c \"sleep ${delay}; /sbin/shutdown -r now\" >/dev/null 2>&1 &'', [CHR 0x0A],
    ''fi'', [CHR 0x0A]]"

text \<open>\<^verbatim>\<open>commands/linux.rs\<close>, the script of \<^verbatim>\<open>LinuxFileRead\<close>.\<close>

definition script_LinuxFileRead :: string where
  "script_LinuxFileRead = concat [
    ''set -eu'', [CHR 0x0A],
    ''path=\"$1\"'', [CHR 0x0A],
    ''cap=\"$2\"'', [CHR 0x0A],
    ''size=$(stat -c %s \"$path\")'', [CHR 0x0A],
    ''if [ \"$size\" -gt \"$cap\" ]; then'', [CHR 0x0A],
    ''  echo \"file exceeds the relay cap\" >&2'', [CHR 0x0A],
    ''  exit 1'', [CHR 0x0A],
    ''fi'', [CHR 0x0A],
    ''printf '', [CHR 0x27], ''{\"contentB64\":\"%s\",\"sha256\":\"%s\",\"size\":%s}' '', [CHR 0x5C], [CHR 0x0A],
    ''  \"$(base64 -w0 \"$path\")\" \"$(sha256sum \"$path\" | cut -d' ' -f1)\" \"$size\"'', [CHR 0x0A]]"

text \<open>\<^verbatim>\<open>commands/linux.rs\<close>, the script of \<^verbatim>\<open>LinuxFileWrite\<close>.\<close>

definition script_LinuxFileWrite :: string where
  "script_LinuxFileWrite = concat [
    ''set -eu'', [CHR 0x0A],
    ''path=\"$1\"'', [CHR 0x0A],
    ''mkdir -p \"$(dirname \"$path\")\"'', [CHR 0x0A],
    ''printf '%s' \"$2\" | base64 -d > \"$path\"'', [CHR 0x0A],
    ''sha256sum \"$path\" | cut -d' ' -f1'', [CHR 0x0A]]"

text \<open>\<^verbatim>\<open>commands/domain.rs\<close>, the script of \<^verbatim>\<open>DomainJoin\<close>.\<close>

definition script_DomainJoin :: string where
  "script_DomainJoin = concat [
    ''param([string]$DomainName,[string]$Username,[string]$Password) '',
    ''$ErrorActionPreference = 'Stop'; '',
    ''$secure = ConvertTo-SecureString $Password -AsPlainText -Force; '',
    ''$cred = New-Object System.Management.Automation.PSCredential($Username, $secure); '',
    ''Add-Computer -DomainName $DomainName -Credential $cred'']"

text \<open>\<^verbatim>\<open>commands/domain.rs\<close>, the script of \<^verbatim>\<open>DomainVerify\<close>.\<close>

definition script_DomainVerify :: string where
  "script_DomainVerify = concat [
    ''$ErrorActionPreference = 'Stop'; '',
    ''Get-CimInstance Win32_ComputerSystem | Select-Object PartOfDomain, Domain, DNSHostName | ConvertTo-Json'']"

text \<open>\<^verbatim>\<open>commands/dc.rs\<close>, the script of \<^verbatim>\<open>DcInstallForest\<close>.\<close>

definition script_DcInstallForest :: string where
  "script_DcInstallForest = concat [
    ''param([string]$DomainName,[string]$Netbios,[string]$ForestMode,[string]$SafeModePassword) '',
    ''$ErrorActionPreference = 'Stop'; '',
    ''Install-WindowsFeature AD-Domain-Services -IncludeManagementTools | Out-Null; '',
    ''$secure = ConvertTo-SecureString $SafeModePassword -AsPlainText -Force; '',
    ''Import-Module ADDSDeployment; '',
    ''Install-ADDSForest -DomainName $DomainName -DomainNetbiosName $Netbios '',
    ''-ForestMode $ForestMode -DomainMode $ForestMode -InstallDns '',
    ''-SafeModeAdministratorPassword $secure '',
    ''-NoRebootOnCompletion -Force | Out-Null'']"

text \<open>\<^verbatim>\<open>commands/dc.rs\<close>, the script of \<^verbatim>\<open>DcVerify\<close>.\<close>

definition script_DcVerify :: string where
  "script_DcVerify = concat [
    ''$ErrorActionPreference = 'Stop'; '',
    ''Import-Module ActiveDirectory; '',
    ''Get-ADDomain -Server $env:COMPUTERNAME | '',
    ''Select-Object DNSRoot, NetBIOSName, DomainMode | ConvertTo-Json'']"

text \<open>\<^verbatim>\<open>commands/dns.rs\<close>, the script of \<^verbatim>\<open>DnsSetClient\<close>.\<close>

definition script_DnsSetClient :: string where
  "script_DnsSetClient = concat [
    ''param([string]$Servers,[string]$Alias) '',
    ''$ErrorActionPreference = 'Stop'; '',
    ''if (-not $Alias) { $Alias = Get-NetAdapter | Where-Object Status -eq 'Up' | Sort-Object ifIndex | Select-Object -First 1 -ExpandProperty Name }; '',
    ''Set-DnsClientServerAddress -InterfaceAlias $Alias -ServerAddresses ($Servers -split ','); '',
    ''(Get-DnsClientServerAddress -InterfaceAlias $Alias -AddressFamily IPv4).ServerAddresses -join ','', [CHR 0x27]]"

text \<open>\<^verbatim>\<open>commands/dns.rs\<close>, the script of \<^verbatim>\<open>DnsCreateRecord\<close>.\<close>

definition script_DnsCreateRecord :: string where
  "script_DnsCreateRecord = concat [
    ''param([string]$Zone,[string]$Name,[string]$Target) '',
    ''$ErrorActionPreference = 'Stop'; '',
    ''$existing = Get-DnsServerResourceRecord -ZoneName $Zone -Name $Name -RRType CName -ErrorAction SilentlyContinue; '',
    ''if ($existing) { $existing | Remove-DnsServerResourceRecord -ZoneName $Zone -Force }; '',
    ''Add-DnsServerResourceRecordCName -ZoneName $Zone -Name $Name -HostNameAlias $Target; '',
    ''(Get-DnsServerResourceRecord -ZoneName $Zone -Name $Name -RRType CName).RecordData.HostNameAlias'']"

text \<open>\<^verbatim>\<open>commands/dns.rs\<close>, the script of \<^verbatim>\<open>DnsApplyResources\<close>.\<close>

definition script_DnsApplyResources :: string where
  "script_DnsApplyResources = concat [
    ''param([string]$RecordsJson)'', [CHR 0x0A],
    ''$ErrorActionPreference = 'Stop'', [CHR 0x27], [CHR 0x0A],
    ''Import-Module DnsServer'', [CHR 0x0A],
    ''# Windows PowerShell 5.1 writes a decoded JSON array to the pipeline as one'', [CHR 0x0A],
    ''# object, so wrapping the decode in an array subexpression nests it and the'', [CHR 0x0A],
    ''# loop below would bind every record at once. Assign first, then normalise.'', [CHR 0x0A],
    ''$records = $RecordsJson | ConvertFrom-Json'', [CHR 0x0A],
    ''$records = @($records)'', [CHR 0x0A],
    ''$results = foreach ($record in $records) {'', [CHR 0x0A],
    ''    $zone = [string]$record.zone'', [CHR 0x0A],
    ''    $name = [string]$record.name'', [CHR 0x0A],
    ''    $value = [string]$record.value'', [CHR 0x0A],
    ''    if ($record.kind -eq 'PTR') {'', [CHR 0x0A],
    ''        $existingZone = Get-DnsServerZone -Name $zone -ErrorAction SilentlyContinue'', [CHR 0x0A],
    ''        if (-not $existingZone) {'', [CHR 0x0A],
    ''            $prefixLabels = @($zone.ToLowerInvariant().Replace('.in-addr.arpa','', [CHR 0x27], [CHR 0x27], '').Split('.'))'', [CHR 0x0A],
    ''            [array]::Reverse($prefixLabels)'', [CHR 0x0A],
    ''            $networkOctets = @($prefixLabels)'', [CHR 0x0A],
    ''            while ($networkOctets.Count -lt 4) { $networkOctets += '0' }'', [CHR 0x0A],
    ''            $networkId = ($networkOctets -join '.') + '/' + ($prefixLabels.Count * 8)'', [CHR 0x0A],
    ''            Add-DnsServerPrimaryZone -NetworkId $networkId -ReplicationScope Forest | Out-Null'', [CHR 0x0A],
    ''        }'', [CHR 0x0A],
    ''        $prefixCount = @($zone.ToLowerInvariant().Replace('.in-addr.arpa','', [CHR 0x27], [CHR 0x27], '').Split('.')).Count'', [CHR 0x0A],
    ''        $remaining = @($name.Split('.')[$prefixCount..3])'', [CHR 0x0A],
    ''        [array]::Reverse($remaining)'', [CHR 0x0A],
    ''        $relativeName = $remaining -join '.'', [CHR 0x27], [CHR 0x0A],
    ''        $existing = @(Get-DnsServerResourceRecord -ZoneName $zone -Name $relativeName -RRType PTR -ErrorAction SilentlyContinue)'', [CHR 0x0A],
    ''        $actual = @($existing | ForEach-Object { $_.RecordData.PtrDomainName.TrimEnd('.') })'', [CHR 0x0A],
    ''        $expected = $value.TrimEnd('.')'', [CHR 0x0A],
    ''        if ($existing.Count -gt 0 -and -not ($actual.Count -eq 1 -and $actual[0] -ieq $expected)) {'', [CHR 0x0A],
    ''            throw \"DNS conflict for PTR ${name}: expected $value; found $($actual -join ',')\"'', [CHR 0x0A],
    ''        }'', [CHR 0x0A],
    ''        if ($existing.Count -eq 0) {'', [CHR 0x0A],
    ''            Add-DnsServerResourceRecordPtr -ZoneName $zone -Name $relativeName -PtrDomainName $value | Out-Null'', [CHR 0x0A],
    ''            $status = 'created'', [CHR 0x27], [CHR 0x0A],
    ''        } else { $status = 'retained' }'', [CHR 0x0A],
    ''    } elseif ($record.kind -eq 'A') {'', [CHR 0x0A],
    ''        $existing = @(Get-DnsServerResourceRecord -ZoneName $zone -Name $name -RRType A -ErrorAction SilentlyContinue)'', [CHR 0x0A],
    ''        $actual = @($existing | ForEach-Object { $_.RecordData.IPv4Address.IPAddressToString })'', [CHR 0x0A],
    ''        if ($existing.Count -gt 0 -and -not ($actual.Count -eq 1 -and $actual[0] -eq $value)) {'', [CHR 0x0A],
    ''            throw \"DNS conflict for A $name.${zone}: expected $value; found $($actual -join ',')\"'', [CHR 0x0A],
    ''        }'', [CHR 0x0A],
    ''        if ($existing.Count -eq 0) {'', [CHR 0x0A],
    ''            Add-DnsServerResourceRecordA -ZoneName $zone -Name $name -IPv4Address $value | Out-Null'', [CHR 0x0A],
    ''            $status = 'created'', [CHR 0x27], [CHR 0x0A],
    ''        } else { $status = 'retained' }'', [CHR 0x0A],
    ''    } elseif ($record.kind -eq 'CNAME') {'', [CHR 0x0A],
    ''        $existing = @(Get-DnsServerResourceRecord -ZoneName $zone -Name $name -RRType CNAME -ErrorAction SilentlyContinue)'', [CHR 0x0A],
    ''        $actual = @($existing | ForEach-Object { $_.RecordData.HostNameAlias.TrimEnd('.') })'', [CHR 0x0A],
    ''        $expected = $value.TrimEnd('.')'', [CHR 0x0A],
    ''        if ($existing.Count -gt 0 -and -not ($actual.Count -eq 1 -and $actual[0] -ieq $expected)) {'', [CHR 0x0A],
    ''            throw \"DNS conflict for CNAME $name.${zone}: expected $value; found $($actual -join ',')\"'', [CHR 0x0A],
    ''        }'', [CHR 0x0A],
    ''        if ($existing.Count -eq 0) {'', [CHR 0x0A],
    ''            Add-DnsServerResourceRecordCName -ZoneName $zone -Name $name -HostNameAlias $value | Out-Null'', [CHR 0x0A],
    ''            $status = 'created'', [CHR 0x27], [CHR 0x0A],
    ''        } else { $status = 'retained' }'', [CHR 0x0A],
    ''    } else { throw \"Unsupported DNS resource kind '$($record.kind)'\" }'', [CHR 0x0A],
    ''    [pscustomobject]@'', [CHR 0x7B], '' id = [string]$record.id; kind = [string]$record.kind; status = $status }'', [CHR 0x0A],
    ''}'', [CHR 0x0A],
    ''[pscustomobject]@'', [CHR 0x7B], '' applied = @($results).Count; records = @($results) } | ConvertTo-Json -Depth 5 -Compress'']"

text \<open>\<^verbatim>\<open>commands/dns.rs\<close>, the script of \<^verbatim>\<open>DnsVerify\<close>.\<close>

definition script_DnsVerify :: string where
  "script_DnsVerify = concat [
    ''param([string]$RecordsJson,[string]$Server,[string]$RequireAdSrv,[string]$Domain,[string]$HttpUrl)'', [CHR 0x0A],
    ''$ErrorActionPreference = 'Stop'', [CHR 0x27], [CHR 0x0A],
    ''# See dns.apply_resources: wrapping the decode in an array subexpression nests'', [CHR 0x0A],
    ''# it on Windows PowerShell 5.1, binding $record to every record at once.'', [CHR 0x0A],
    ''$records = $RecordsJson | ConvertFrom-Json'', [CHR 0x0A],
    ''$records = @($records)'', [CHR 0x0A],
    ''$checks = foreach ($record in $records) {'', [CHR 0x0A],
    ''    if ($record.kind -eq 'PTR') {'', [CHR 0x0A],
    ''        $answer = @(Resolve-DnsName -Name ([string]$record.name) -Type PTR -Server $Server -DnsOnly -NoHostsFile)'', [CHR 0x0A],
    ''        $actual = @($answer | Where-Object Type -eq PTR | ForEach-Object { $_.NameHost.TrimEnd('.') })'', [CHR 0x0A],
    ''        $expected = ([string]$record.value).TrimEnd('.')'', [CHR 0x0A],
    ''    } else {'', [CHR 0x0A],
    ''        $fqdn = ([string]$record.name) + '.' + ([string]$record.zone)'', [CHR 0x0A],
    ''        $answer = @(Resolve-DnsName -Name $fqdn -Type ([string]$record.kind) -Server $Server -DnsOnly -NoHostsFile)'', [CHR 0x0A],
    ''        if ($record.kind -eq 'A') { $actual = @($answer | Where-Object Type -eq A | ForEach-Object IPAddress); $expected = [string]$record.value }'', [CHR 0x0A],
    ''        else { $actual = @($answer | Where-Object Type -eq CNAME | ForEach-Object { $_.NameHost.TrimEnd('.') }); $expected = ([string]$record.value).TrimEnd('.') }'', [CHR 0x0A],
    ''    }'', [CHR 0x0A],
    ''    $ok = @($actual | Where-Object { $_ -ieq $expected }).Count -gt 0'', [CHR 0x0A],
    ''    [pscustomobject]@'', [CHR 0x7B], '' id = [string]$record.id; kind = [string]$record.kind; ok = $ok; expected = $expected; actual = @($actual) }'', [CHR 0x0A],
    ''}'', [CHR 0x0A],
    ''$adSrvOk = $true'', [CHR 0x0A],
    ''$srvChecks = @()'', [CHR 0x0A],
    ''if ($RequireAdSrv -eq 'true') {'', [CHR 0x0A],
    ''    $srvNames = @(\"_ldap._tcp.$Domain\", \"_kerberos._tcp.$Domain\", \"_ldap._tcp.dc._msdcs.$Domain\")'', [CHR 0x0A],
    ''    $srvChecks = @($srvNames | ForEach-Object {'', [CHR 0x0A],
    ''        $answers = @(Resolve-DnsName -Name $_ -Type SRV -Server $Server -DnsOnly -NoHostsFile)'', [CHR 0x0A],
    ''        [pscustomobject]@'', [CHR 0x7B], '' name = $_; ok = @($answers | Where-Object Type -eq SRV).Count -gt 0 }'', [CHR 0x0A],
    ''    })'', [CHR 0x0A],
    ''    $adSrvOk = @($srvChecks | Where-Object { -not $_.ok }).Count -eq 0'', [CHR 0x0A],
    ''}'', [CHR 0x0A],
    ''$httpOk = $true'', [CHR 0x0A],
    ''if ($HttpUrl) {'', [CHR 0x0A],
    ''    $response = Invoke-WebRequest -Uri $HttpUrl -UseBasicParsing -TimeoutSec 30'', [CHR 0x0A],
    ''    $httpOk = [int]$response.StatusCode -ge 200 -and [int]$response.StatusCode -lt 400'', [CHR 0x0A],
    ''}'', [CHR 0x0A],
    ''$allVerified = @($checks | Where-Object { -not $_.ok }).Count -eq 0'', [CHR 0x0A],
    ''if (-not $allVerified -or -not $adSrvOk -or -not $httpOk) { throw 'DNS verification failed' }'', [CHR 0x0A],
    ''[pscustomobject]@'', [CHR 0x7B], '' all_verified = $allVerified; ad_srv_ok = $adSrvOk; http_ok = $httpOk; records = @($checks); srv = @($srvChecks) } | ConvertTo-Json -Depth 6 -Compress'']"

text \<open>\<^verbatim>\<open>commands/cert_store.rs\<close>, the script of \<^verbatim>\<open>CertAddStore\<close>.\<close>

definition script_CertAddStore :: string where
  "script_CertAddStore = concat [
    ''param([string]$Store,[string]$Path,[string]$Kind) '',
    ''$out = certutil -addstore -f $Store $Path 2>&1 | Out-String; '',
    ''if ($LASTEXITCODE -ne 0) { [Console]::Error.WriteLine($out); exit $LASTEXITCODE }; '',
    ''if ($Kind -eq 'crl') { '', [CHR 0x27], [CHR 0x27], '' } '',
    ''else { (New-Object System.Security.Cryptography.X509Certificates.X509Certificate2($Path)).Thumbprint }'']"

text \<open>\<^verbatim>\<open>commands/cert_store.rs\<close>, the script of \<^verbatim>\<open>CertDsPublish\<close>.\<close>

definition script_CertDsPublish :: string where
  "script_CertDsPublish = concat [
    ''param([string]$Path,[string]$Attribute) '',
    ''certutil -f -dspublish $Path $Attribute; '',
    ''exit $LASTEXITCODE'']"

text \<open>\<^verbatim>\<open>commands/cert_enroll.rs\<close>, the script of \<^verbatim>\<open>CertEnroll\<close>.\<close>

definition script_CertEnroll :: string where
  "script_CertEnroll = concat [
    ''param([string]$Template,[string]$ExportPath,[string]$Refresh) '',
    ''$ErrorActionPreference = 'Stop'; '',
    ''if ($Refresh -eq 'true') { gpupdate /target:computer /force | Out-Null; certutil -pulse | Out-Null }; '',
    ''$req = Get-Certificate -Template $Template -CertStoreLocation Cert:'', [CHR 0x5C], ''LocalMachine'', [CHR 0x5C], ''My; '',
    ''if (\"$($req.Status)\" -ne 'Issued') { throw \"enrollment status: $($req.Status)\" }; '',
    ''$cert = $req.Certificate; '',
    ''if ($ExportPath) { '',
    ''New-Item -ItemType Directory -Force -Path (Split-Path $ExportPath) | Out-Null; '',
    ''Export-Certificate -Cert $cert -FilePath $ExportPath -Type CERT | Out-Null '',
    ''}; '',
    ''@'', [CHR 0x7B], '' thumbprint = $cert.Thumbprint; subject = $cert.Subject } | ConvertTo-Json'']"

text \<open>\<^verbatim>\<open>commands/cert_verify.rs\<close>, the script of \<^verbatim>\<open>CertVerify\<close>.\<close>

definition script_CertVerify :: string where
  "script_CertVerify = concat [
    ''param([string]$Path,[string]$RootPath,[string]$IssuingPath,[string]$ExpectedOid) '',
    ''$ErrorActionPreference = 'Stop'; '',
    ''$raw = (certutil -verify -urlfetch $Path 2>&1) -join \"'', [CHR 0x60], ''n\"; '',
    ''$verifyExit = $LASTEXITCODE; '',
    ''$chainOk = ($verifyExit -eq 0) -and ($raw -match 'CertUtil: -verify command completed successfully'); '',
    ''$aiaCount = [regex]::Matches($raw, '(?im)^'', [CHR 0x5C], ''s*Verified'', [CHR 0x5C], ''s+\"Certificate'', [CHR 0x5C], ''s*'', [CHR 0x5C], ''(').Count; '',
    ''$baseCrlCount = [regex]::Matches($raw, '(?im)^'', [CHR 0x5C], ''s*Verified'', [CHR 0x5C], ''s+\"Base CRL'', [CHR 0x5C], ''s*'', [CHR 0x5C], ''(').Count; '',
    ''$deltaCrlCount = [regex]::Matches($raw, '(?im)^'', [CHR 0x5C], ''s*Verified'', [CHR 0x5C], ''s+\"Delta CRL'', [CHR 0x5C], ''s*'', [CHR 0x5C], ''(').Count; '',
    ''$ocspCount = [regex]::Matches($raw, '(?im)^'', [CHR 0x5C], ''s*Verified'', [CHR 0x5C], ''s+\"OCSP').Count; '',
    ''$urls = @([regex]::Matches($raw, 'https?://[^'', [CHR 0x5C], ''s\"<>]+') | ForEach-Object { $_.Value.TrimEnd('.', ',', ')') } | Sort-Object -Unique); '',
    ''$now = [DateTime]::UtcNow; '',
    ''$certificates = @(); '',
    ''foreach ($item in @(@'', [CHR 0x7B], '' role = 'probe'; path = $Path }, @'', [CHR 0x7B], '' role = 'issuing'; path = $IssuingPath }, @'', [CHR 0x7B], '' role = 'root'; path = $RootPath })) { '',
    ''if (-not $item.path) { continue }; '',
    ''$cert = [System.Security.Cryptography.X509Certificates.X509Certificate2]::new($item.path); '',
    ''$validNow = $now -ge $cert.NotBefore.ToUniversalTime() -and $now -le $cert.NotAfter.ToUniversalTime(); '',
    ''$certificates += @'', [CHR 0x7B], '' role = $item.role; subject = $cert.Subject; thumbprint = $cert.Thumbprint; signature_oid = $cert.SignatureAlgorithm.Value; not_before = $cert.NotBefore.ToUniversalTime().ToString('o'); not_after = $cert.NotAfter.ToUniversalTime().ToString('o'); valid_now = $validNow } '',
    ''}; '',
    ''$expectedCertCount = 1 + [int][bool]$IssuingPath + [int][bool]$RootPath; '',
    ''$mlDsaOk = $certificates.Count -eq $expectedCertCount -and @($certificates | Where-Object { $_.signature_oid -ne $ExpectedOid }).Count -eq 0; '',
    ''$validityOk = $certificates.Count -eq $expectedCertCount -and @($certificates | Where-Object { -not $_.valid_now }).Count -eq 0; '',
    ''$aiaOk = $aiaCount -ge 2; '',
    ''$cdpOk = $baseCrlCount -ge 2 -and $deltaCrlCount -ge 1; '',
    ''$ocspOk = $ocspCount -ge 1; '',
    ''$fresh = $chainOk -and $cdpOk -and $ocspOk; '',
    ''@'', [CHR 0x7B], '' healthy = ($chainOk -and $aiaOk -and $cdpOk -and $ocspOk -and $mlDsaOk -and $validityOk -and $fresh); chain_ok = $chainOk; chain = @'', [CHR 0x7B], '' ok = $chainOk }; aia = @'', [CHR 0x7B], '' ok = $aiaOk; verified_certificates = $aiaCount }; cdp = @'', [CHR 0x7B], '' ok = $cdpOk; verified_base_crls = $baseCrlCount; verified_delta_crls = $deltaCrlCount }; ocsp = @'', [CHR 0x7B], '' ok = $ocspOk; verified_responses = $ocspCount }; ml_dsa = @'', [CHR 0x7B], '' ok = $mlDsaOk; expected_oid = $ExpectedOid }; validity = @'', [CHR 0x7B], '' ok = $validityOk }; revocation_freshness = @'', [CHR 0x7B], '' ok = $fresh }; certificates = $certificates; urls = $urls; raw = $raw } | ConvertTo-Json -Depth 6 -Compress'']"

text \<open>\<^verbatim>\<open>commands/pki_verify.rs\<close>, the script of \<^verbatim>\<open>PkiVerify\<close>.\<close>

definition script_PkiVerify :: string where
  "script_PkiVerify = concat [
    ''param([string]$RootCa,[string]$IssuingCa,[string]$Templates,[string]$HttpUrls) '',
    ''$ErrorActionPreference = 'Stop'; '',
    ''Import-Module ActiveDirectory; '',
    ''$configDn = (Get-ADRootDSE).configurationNamingContext; '',
    ''$pkiBase = \"CN=Public Key Services,CN=Services,$configDn\"; '',
    ''function Child-Names([string]$Container) { @(Get-ADObject -SearchBase \"CN=$Container,$pkiBase\" -SearchScope OneLevel -Filter * | Select-Object -ExpandProperty Name) }; '',
    ''$ntAuth = Get-ADObject -Identity \"CN=NTAuthCertificates,$pkiBase\" -Properties cACertificate; '',
    ''$ntAuthOk = @($ntAuth.cACertificate).Count -gt 0; '',
    ''$aiaNames = Child-Names 'AIA'; '',
    ''$cdpNames = Child-Names 'CDP'; '',
    ''$caNames = Child-Names 'Certification Authorities'; '',
    ''$enrollmentNames = Child-Names 'Enrollment Services'; '',
    ''$templateNames = Child-Names 'Certificate Templates'; '',
    ''$aiaOk = $aiaNames -contains $RootCa -and $aiaNames -contains $IssuingCa; '',
    ''$cdpOk = $cdpNames -contains $RootCa -and $cdpNames -contains $IssuingCa; '',
    ''$caOk = $caNames -contains $RootCa; '',
    ''$enrollmentOk = $enrollmentNames -contains $IssuingCa; '',
    ''$requiredTemplates = @($Templates -split ',' | ForEach-Object { $_.Trim() }); '',
    ''$missingTemplates = @($requiredTemplates | Where-Object { $templateNames -notcontains $_ }); '',
    ''$http = @(); '',
    ''$publicationUrls = $HttpUrls | ConvertFrom-Json; '',
    ''foreach ($url in @($publicationUrls)) { '',
    ''$status = 0; '',
    ''try { $status = [int](Invoke-WebRequest -Uri $url -UseBasicParsing -Method Head -TimeoutSec 20).StatusCode } catch { if ($_.Exception.Response) { $status = [int]$_.Exception.Response.StatusCode } }; '',
    ''$http += @'', [CHR 0x7B], '' url = $url; status = $status; ok = ($status -ge 200 -and $status -lt 300) } '',
    ''}; '',
    ''$httpOk = @($http | Where-Object { -not $_.ok }).Count -eq 0; '',
    ''$templatesOk = $missingTemplates.Count -eq 0; '',
    ''@'', [CHR 0x7B], '' healthy = ($ntAuthOk -and $aiaOk -and $cdpOk -and $caOk -and $enrollmentOk -and $templatesOk -and $httpOk); containers = @'', [CHR 0x7B], '' nt_auth = $ntAuthOk; aia = $aiaOk; cdp = $cdpOk; certification_authorities = $caOk; enrollment_services = $enrollmentOk }; templates = @'', [CHR 0x7B], '' ok = $templatesOk; required = $requiredTemplates; missing = $missingTemplates }; http_artifacts = @'', [CHR 0x7B], '' ok = $httpOk; results = $http }; observed = @'', [CHR 0x7B], '' aia = $aiaNames; cdp = $cdpNames; certification_authorities = $caNames; enrollment_services = $enrollmentNames } } | ConvertTo-Json -Depth 6 -Compress'']"

text \<open>\<^verbatim>\<open>commands/template.rs\<close>, the script of \<^verbatim>\<open>TemplateGrantAccess\<close>.\<close>

definition script_TemplateGrantAccess :: string where
  "script_TemplateGrantAccess = concat [
    ''param([string]$Template,[string]$Computer,[string]$EnrollGuid,[string]$Username,[string]$Password) '',
    ''$ErrorActionPreference = 'Stop'; '',
    ''Import-Module ActiveDirectory; '',
    ''$rootDse = Get-ADRootDSE; '',
    ''$dn = \"CN=$Template,CN=Certificate Templates,CN=Public Key Services,CN=Services,$($rootDse.configurationNamingContext)\"; '',
    ''$account = Get-ADComputer -Identity $Computer; '',
    ''$sid = [System.Security.Principal.SecurityIdentifier]$account.SID; '',
    ''$entry = New-Object System.DirectoryServices.DirectoryEntry(\"LDAP://$dn\", $Username, $Password); '',
    ''$acl = $entry.ObjectSecurity; '',
    ''$read = New-Object System.DirectoryServices.ActiveDirectoryAccessRule($sid, [System.DirectoryServices.ActiveDirectoryRights]::GenericRead, [System.Security.AccessControl.AccessControlType]::Allow); '',
    ''$enroll = New-Object System.DirectoryServices.ActiveDirectoryAccessRule($sid, [System.DirectoryServices.ActiveDirectoryRights]::ExtendedRight, [System.Security.AccessControl.AccessControlType]::Allow, [Guid]$EnrollGuid); '',
    ''$acl.AddAccessRule($read); '',
    ''$acl.AddAccessRule($enroll); '',
    ''$entry.ObjectSecurity = $acl; '',
    ''$entry.CommitChanges(); '',
    ''$entry.RefreshCache(); '',
    ''ConvertTo-Json @($entry.ObjectSecurity.Access | Where-Object { $_.IdentityReference.Value -match ('', [CHR 0x27], [CHR 0x5C], [CHR 0x5C], [CHR 0x27], '' + [regex]::Escape($Computer) + '', [CHR 0x27], [CHR 0x5C], ''$$') } | Select-Object @'', [CHR 0x7B], ''n='identity';e={$_.IdentityReference.Value}}, @'', [CHR 0x7B], ''n='rights';e={$_.ActiveDirectoryRights.ToString()}}, @'', [CHR 0x7B], ''n='objectType';e={$_.ObjectType.ToString()}})'']"

text \<open>\<^verbatim>\<open>commands/iis.rs\<close>, the script of \<^verbatim>\<open>IisSetupCertEnroll\<close>.\<close>

definition script_IisSetupCertEnroll :: string where
  "script_IisSetupCertEnroll = concat [
    ''param([string]$Path,[string]$Netbios,[string]$Scope) '',
    ''$ErrorActionPreference = 'Stop'; '',
    ''if ($Scope -ne 'web') { '',
    ''New-Item -Path $Path -ItemType Directory -Force | Out-Null; '',
    ''if (-not (Get-SmbShare -Name 'CertEnroll' -ErrorAction SilentlyContinue)) { '',
    ''New-SmbShare -Name 'CertEnroll' -Path $Path -ChangeAccess \"$Netbios'', [CHR 0x5C], ''Cert Publishers\" | Out-Null '',
    ''}; '',
    ''icacls $Path /grant \"${Netbios}'', [CHR 0x5C], ''Cert Publishers:(OI)(CI)M\" | Out-Null; '',
    ''if ($LASTEXITCODE -ne 0) { throw 'icacls grant failed' } '',
    ''}; '',
    ''if ($Scope -ne 'share') { '',
    ''Install-WindowsFeature Web-Server -IncludeManagementTools | Out-Null; '',
    ''Import-Module WebAdministration; '',
    ''if (-not (Get-WebVirtualDirectory -Site 'Default Web Site' -Name 'CertEnroll')) { '',
    ''New-WebVirtualDirectory -Site 'Default Web Site' -Name 'CertEnroll' -PhysicalPath $Path | Out-Null '',
    ''}; '',
    ''Set-WebConfigurationProperty -PSPath 'IIS:'', [CHR 0x5C], ''Sites'', [CHR 0x5C], ''Default Web Site'', [CHR 0x5C], ''CertEnroll' -Filter '/system.webServer/directoryBrowse' -Name enabled -Value $true; '',
    ''Set-WebConfigurationProperty -PSPath 'IIS:'', [CHR 0x5C], ''Sites'', [CHR 0x5C], ''Default Web Site' -Filter '/system.webServer/security/requestFiltering' -Name allowDoubleEscaping -Value $true; '',
    ''iisreset | Out-Null '',
    ''}'']"

text \<open>\<^verbatim>\<open>commands/ocsp.rs\<close>, the script of \<^verbatim>\<open>OcspInstall\<close>.\<close>

definition script_OcspInstall :: string where
  "script_OcspInstall = concat [
    ''$ErrorActionPreference = 'Stop'; '',
    ''Install-WindowsFeature ADCS-Online-Cert -IncludeManagementTools | Out-Null; '',
    ''Import-Module ADCSDeployment; '',
    ''try { Install-AdcsOnlineResponder -Force | Out-Null } '',
    ''catch { if ($_.Exception.Message -notmatch 'already') { throw } }; '',
    ''(Get-Service ocspsvc).Status.ToString()'']"

text \<open>\<^verbatim>\<open>commands/ocsp.rs\<close>, the script of \<^verbatim>\<open>OcspConfigureRevocation\<close>.\<close>

definition script_OcspConfigureRevocation :: string where
  "script_OcspConfigureRevocation = concat [
    ''param([string]$Name,[string]$CaConfig,[string]$CaCertPath,[string]$Template,[string]$RefreshMinutes,[string]$BaseCrlUrls,[string]$DeltaCrlUrls,[string]$SigningFlags,[string]$ProviderClsid) '',
    ''$ErrorActionPreference = 'Stop'; '',
    ''if (-not (Test-Path -LiteralPath $CaCertPath)) { throw \"CA certificate not found at $CaCertPath\" }; '',
    ''$caCertBytes = [System.IO.File]::ReadAllBytes($CaCertPath); '',
    ''$stage = 'opening the responder configuration'; '',
    ''try { '',
    ''$ocsp = New-Object -ComObject CertAdm.OCSPAdmin; '',
    ''$ocsp.GetConfiguration($env:COMPUTERNAME, $true); '',
    ''$stage = 'creating the revocation configuration'; '',
    ''$existing = @($ocsp.OCSPCAConfigurationCollection | Where-Object { $_.Identifier -eq $Name }); '',
    ''if ($existing.Count -gt 0) { $ocsp.OCSPCAConfigurationCollection.DeleteCAConfiguration($Name) }; '',
    ''$cfg = $ocsp.OCSPCAConfigurationCollection.CreateCAConfiguration($Name, $caCertBytes); '',
    ''$stage = 'setting revocation configuration properties'; '',
    ''$cfg.CAConfig = $CaConfig; '',
    ''$cfg.SigningCertificateTemplate = $Template; '',
    ''$cfg.HashAlgorithm = 'SHA256'; '',
    ''$cfg.SigningFlags = [int]$SigningFlags; '',
    ''$props = New-Object -ComObject CertAdm.OCSPPropertyCollection; '',
    ''[void]$props.CreateProperty('BaseCrlUrls', [string[]]@($BaseCrlUrls -split ',')); '',
    ''if ($DeltaCrlUrls) { [void]$props.CreateProperty('DeltaCrlUrls', [string[]]@($DeltaCrlUrls -split ',')) }; '',
    ''[void]$props.CreateProperty('RefreshTimeOut', [int]$RefreshMinutes * 60000); '',
    ''$cfg.ProviderProperties = $props.GetAllProperties(); '',
    ''$cfg.ProviderCLSID = $ProviderClsid; '',
    ''$stage = 'saving the responder configuration'; '',
    ''$ocsp.SetConfiguration($env:COMPUTERNAME, $true) '',
    ''} catch { throw \"$stage failed: $($_.Exception.Message)\" }; '',
    ''$Name'']"

text \<open>\<^verbatim>\<open>commands/ocsp.rs\<close>, the script of \<^verbatim>\<open>OcspVerify\<close>.\<close>

definition script_OcspVerify :: string where
  "script_OcspVerify = concat [
    ''$ErrorActionPreference = 'Stop'; '',
    ''$ocsp = New-Object -ComObject CertAdm.OCSPAdmin; '',
    ''$ocsp.GetConfiguration($env:COMPUTERNAME, $true); '',
    ''$configs = @($ocsp.OCSPCAConfigurationCollection | ForEach-Object { @'', [CHR 0x7B], '' identifier = $_.Identifier; caConfig = $_.CAConfig; template = $_.SigningCertificateTemplate; hashAlgorithm = $_.HashAlgorithm; errorCode = [int]$_.ErrorCode; signingCertificate = [bool]$_.SigningCertificate } }); '',
    ''@'', [CHR 0x7B], '' configurations = $configs } | ConvertTo-Json -Depth 4'']"

text \<open>\<^verbatim>\<open>commands/ca.rs\<close>, the script of \<^verbatim>\<open>CaInstall_root\<close>.\<close>

definition script_CaInstall_root :: string where
  "script_CaInstall_root = concat [
    ''param([string]$CommonName,[string]$Provider,[string]$KeyLength,[string]$HashAlgorithm,[string]$ValidityYears) '',
    ''$ErrorActionPreference = 'Stop'; '',
    ''$capolicy = @( '',
    [CHR 0x27], ''[Version]', '',
    [CHR 0x27], ''Signature=\"$Windows NT$\"', '',
    [CHR 0x27], [CHR 0x27], '', '',
    [CHR 0x27], ''[Certsrv_Server]', '',
    [CHR 0x27], ''RenewalKeyLength=2048', '',
    [CHR 0x27], ''RenewalValidityPeriod=Years', '',
    ''\"RenewalValidityPeriodUnits=$ValidityYears\", '',
    [CHR 0x27], ''AlternateSignatureAlgorithm=0' '',
    '') -join \"'', [CHR 0x60], ''r'', [CHR 0x60], ''n\"; '',
    ''Set-Content -Path (Join-Path $env:SystemRoot 'CAPolicy.inf') -Value $capolicy -Encoding ASCII; '',
    ''Install-WindowsFeature ADCS-Cert-Authority -IncludeManagementTools | Out-Null; '',
    ''Import-Module ADCSDeployment; '',
    ''$caParams = @'', [CHR 0x7B], '' '',
    ''CAType = 'StandaloneRootCA'; '',
    ''CACommonName = $CommonName; '',
    ''CryptoProviderName = $Provider; '',
    ''ValidityPeriod = 'Years'; '',
    ''ValidityPeriodUnits = [int]$ValidityYears; '',
    ''Force = $true '',
    ''}; '',
    ''if ($KeyLength) { $caParams['KeyLength'] = [int]$KeyLength }; '',
    ''if ($HashAlgorithm) { $caParams['HashAlgorithmName'] = $HashAlgorithm }; '',
    ''Install-AdcsCertificationAuthority @caParams | Out-Null'']"

text \<open>\<^verbatim>\<open>commands/ca.rs\<close>, the script of \<^verbatim>\<open>CaInstall_issuing\<close>.\<close>

definition script_CaInstall_issuing :: string where
  "script_CaInstall_issuing = concat [
    ''param([string]$CommonName,[string]$Provider,[string]$KeyLength,[string]$HashAlgorithm,[string]$ValidityYears,[string]$CpsOid,[string]$CpsUrl,[string]$CsrPath,[string]$Username,[string]$Password) '',
    ''$ErrorActionPreference = 'Stop'; '',
    ''$lines = @('[Version]', 'Signature=\"$Windows NT$\"'); '',
    ''if ($CpsUrl) { $lines += @('[PolicyStatementExtension]', 'Policies=InternalPolicy', '[InternalPolicy]', \"OID=$CpsOid\", \"URL=$CpsUrl\") }; '',
    ''$lines += @( '',
    [CHR 0x27], ''[Certsrv_Server]', '',
    [CHR 0x27], ''RenewalKeyLength=2048', '',
    [CHR 0x27], ''RenewalValidityPeriod=Years', '',
    ''\"RenewalValidityPeriodUnits=$ValidityYears\", '',
    [CHR 0x27], ''LoadDefaultTemplates=0', '',
    [CHR 0x27], ''AlternateSignatureAlgorithm=0' '',
    ''); '',
    ''Set-Content -Path (Join-Path $env:SystemRoot 'CAPolicy.inf') -Value ($lines -join \"'', [CHR 0x60], ''r'', [CHR 0x60], ''n\") -Encoding ASCII; '',
    ''Install-WindowsFeature ADCS-Cert-Authority, ADCS-Web-Enrollment -IncludeManagementTools | Out-Null; '',
    ''Import-Module ADCSDeployment; '',
    ''New-Item -ItemType Directory -Force -Path (Split-Path $CsrPath) | Out-Null; '',
    ''$secure = ConvertTo-SecureString $Password -AsPlainText -Force; '',
    ''$cred = New-Object System.Management.Automation.PSCredential($Username, $secure); '',
    ''$caParams = @'', [CHR 0x7B], '' '',
    ''CAType = 'EnterpriseSubordinateCA'; '',
    ''CACommonName = $CommonName; '',
    ''CryptoProviderName = $Provider; '',
    ''OutputCertRequestFile = $CsrPath; '',
    ''Credential = $cred; '',
    ''Force = $true '',
    ''}; '',
    ''if ($KeyLength) { $caParams['KeyLength'] = [int]$KeyLength }; '',
    ''if ($HashAlgorithm) { $caParams['HashAlgorithmName'] = $HashAlgorithm }; '',
    ''$res = Install-AdcsCertificationAuthority @caParams -WarningAction SilentlyContinue; '',
    ''if ($res.ErrorString -and $res.ErrorString -notmatch 'incomplete') { throw $res.ErrorString }; '',
    ''$CsrPath'']"

text \<open>\<^verbatim>\<open>commands/ca.rs\<close>, the script of \<^verbatim>\<open>CaConfigureSettings\<close>.\<close>

definition script_CaConfigureSettings :: string where
  "script_CaConfigureSettings = concat [
    ''param([string]$DsConfigDn,[string]$CrlPeriodUnits,[string]$CrlPeriod,[string]$CrlDeltaPeriodUnits,[string]$CrlDeltaPeriod,[string]$CrlOverlapUnits,[string]$CrlOverlapPeriod,[string]$ValidityPeriodUnits,[string]$ValidityPeriod,[string]$AuditFilter) '',
    ''$ErrorActionPreference = 'Stop'; '',
    ''function Set-CaReg([string]$Key,[string]$Value) { certutil -setreg $Key $Value | Out-Null; if ($LASTEXITCODE -ne 0) { throw \"certutil -setreg $Key failed\" } }; '',
    ''if ($DsConfigDn) { Set-CaReg 'CA'', [CHR 0x5C], ''DSConfigDN' $DsConfigDn }; '',
    ''if ($CrlPeriodUnits) { Set-CaReg 'CA'', [CHR 0x5C], ''CRLPeriodUnits' $CrlPeriodUnits }; '',
    ''if ($CrlPeriod) { Set-CaReg 'CA'', [CHR 0x5C], ''CRLPeriod' $CrlPeriod }; '',
    ''if ($CrlDeltaPeriodUnits) { Set-CaReg 'CA'', [CHR 0x5C], ''CRLDeltaPeriodUnits' $CrlDeltaPeriodUnits }; '',
    ''if ($CrlDeltaPeriod) { Set-CaReg 'CA'', [CHR 0x5C], ''CRLDeltaPeriod' $CrlDeltaPeriod }; '',
    ''if ($CrlOverlapUnits) { Set-CaReg 'CA'', [CHR 0x5C], ''CRLOverlapPeriodUnits' $CrlOverlapUnits }; '',
    ''if ($CrlOverlapPeriod) { Set-CaReg 'CA'', [CHR 0x5C], ''CRLOverlapPeriod' $CrlOverlapPeriod }; '',
    ''if ($ValidityPeriodUnits) { Set-CaReg 'CA'', [CHR 0x5C], ''ValidityPeriodUnits' $ValidityPeriodUnits }; '',
    ''if ($ValidityPeriod) { Set-CaReg 'CA'', [CHR 0x5C], ''ValidityPeriod' $ValidityPeriod }; '',
    ''if ($AuditFilter) { '',
    ''Set-CaReg 'CA'', [CHR 0x5C], ''AuditFilter' $AuditFilter; '',
    ''auditpol /set /category:'Object Access' /success:enable /failure:enable | Out-Null '',
    ''}; '',
    ''Restart-Service certsvc'']"

text \<open>\<^verbatim>\<open>commands/ca.rs\<close>, the script of \<^verbatim>\<open>CaConfigureCdpAia\<close>.\<close>

definition script_CaConfigureCdpAia :: string where
  "script_CaConfigureCdpAia = concat [
    ''param([string]$AiaUrls,[string]$CdpUrls) '',
    ''$ErrorActionPreference = 'Stop'; '',
    ''if ($AiaUrls) { certutil -setreg CA'', [CHR 0x5C], ''CACertPublicationURLs $AiaUrls | Out-Null; if ($LASTEXITCODE -ne 0) { throw 'certutil -setreg CACertPublicationURLs failed' } }; '',
    ''if ($CdpUrls) { certutil -setreg CA'', [CHR 0x5C], ''CRLPublicationURLs $CdpUrls | Out-Null; if ($LASTEXITCODE -ne 0) { throw 'certutil -setreg CRLPublicationURLs failed' } }; '',
    ''klist -li 0x3e7 purge | Out-Null; '',
    ''Restart-Service certsvc'']"

text \<open>\<^verbatim>\<open>commands/ca.rs\<close>, the script of \<^verbatim>\<open>CaPublishCrl\<close>.\<close>

definition script_CaPublishCrl :: string where
  "script_CaPublishCrl = concat [
    ''param([string]$CertEnroll) '',
    ''$ErrorActionPreference = 'Stop'; '',
    ''$probeDir = Join-Path $env:TEMP ('pki-executor-' + [guid]::NewGuid().ToString('N')); '',
    ''New-Item -ItemType Directory -Force -Path $probeDir | Out-Null; '',
    ''function Invoke-CertUtil([string[]]$Arguments) { '',
    ''& certutil @Arguments 2>&1 | Out-Null; '',
    ''if ($LASTEXITCODE -ne 0) { throw ('certutil ' + ($Arguments -join ' ') + ' failed') } '',
    ''}; '',
    ''function Find-Certificate([string]$ProbePath) { '',
    ''$thumbprint = (Get-PfxCertificate -FilePath $ProbePath).Thumbprint; '',
    ''$match = Get-ChildItem -LiteralPath $certEnroll -File -Filter '*.crt' | '',
    ''Where-Object { '',
    ''try { (Get-PfxCertificate -FilePath $_.FullName).Thumbprint -eq $thumbprint } '',
    ''catch { $false } '',
    ''} | Select-Object -First 1; '',
    ''if (-not $match) { throw 'current CA certificate is missing from CertEnroll' }; '',
    ''$match.Name '',
    ''}; '',
    ''function Find-Crl([string]$ProbePath) { '',
    ''$hash = (Get-FileHash -LiteralPath $ProbePath -Algorithm SHA256).Hash; '',
    ''$match = Get-ChildItem -LiteralPath $certEnroll -File -Filter '*.crl' | '',
    ''Where-Object { (Get-FileHash -LiteralPath $_.FullName -Algorithm SHA256).Hash -eq $hash } | '',
    ''Select-Object -First 1; '',
    ''if (-not $match) { throw 'current CRL is missing from CertEnroll' }; '',
    ''$match.Name '',
    ''}; '',
    ''try { '',
    ''Invoke-CertUtil @('-crl'); '',
    ''$certificateProbe = Join-Path $probeDir 'ca.crt'; '',
    ''$baseProbe = Join-Path $probeDir 'base.crl'; '',
    ''Invoke-CertUtil @('-f', '-ca.cert', $certificateProbe); '',
    ''Invoke-CertUtil @('-f', '-GetCRL', $baseProbe); '',
    ''$certificateFileName = Find-Certificate $certificateProbe; '',
    ''$baseCrlFileName = Find-Crl $baseProbe; '',
    ''$certificateContentB64 = [Convert]::ToBase64String([IO.File]::ReadAllBytes((Join-Path $certEnroll $certificateFileName))); '',
    ''$baseCrlContentB64 = [Convert]::ToBase64String([IO.File]::ReadAllBytes((Join-Path $certEnroll $baseCrlFileName))); '',
    ''$deltaCrlFileName = $null; '',
    ''$deltaCrlContentB64 = $null; '',
    ''$configurationKey = 'HKLM:'', [CHR 0x5C], ''SYSTEM'', [CHR 0x5C], ''CurrentControlSet'', [CHR 0x5C], ''Services'', [CHR 0x5C], ''CertSvc'', [CHR 0x5C], ''Configuration'; '',
    ''$active = (Get-ItemProperty -LiteralPath $configurationKey).Active; '',
    ''$caKey = Join-Path $configurationKey $active; '',
    ''$deltaUnits = (Get-ItemProperty -LiteralPath $caKey -Name CRLDeltaPeriodUnits -ErrorAction SilentlyContinue).CRLDeltaPeriodUnits; '',
    ''if ([int]$deltaUnits -gt 0) { '',
    ''$deltaProbe = Join-Path $probeDir 'delta.crl'; '',
    ''Invoke-CertUtil @('-f', '-GetCRL', $deltaProbe, '0', 'delta'); '',
    ''$deltaCrlFileName = Find-Crl $deltaProbe; '',
    ''$deltaCrlContentB64 = [Convert]::ToBase64String([IO.File]::ReadAllBytes((Join-Path $certEnroll $deltaCrlFileName))) '',
    ''}; '',
    ''[pscustomobject]@'', [CHR 0x7B], '' '',
    ''certificateFileName = $certificateFileName; '',
    ''baseCrlFileName = $baseCrlFileName; '',
    ''deltaCrlFileName = $deltaCrlFileName; '',
    ''certificateContentB64 = $certificateContentB64; '',
    ''baseCrlContentB64 = $baseCrlContentB64; '',
    ''deltaCrlContentB64 = $deltaCrlContentB64 '',
    ''} | ConvertTo-Json -Compress '',
    ''} finally { '',
    ''Remove-Item -LiteralPath $probeDir -Recurse -Force -ErrorAction SilentlyContinue '',
    ''}'']"

text \<open>\<^verbatim>\<open>commands/ca.rs\<close>, the script of \<^verbatim>\<open>CaSignRequest\<close>.\<close>

definition script_CaSignRequest :: string where
  "script_CaSignRequest = concat [
    ''param([string]$CsrPath,[string]$CertPath) '',
    ''$ErrorActionPreference = 'Stop'; '',
    ''$active = (Get-ItemProperty 'HKLM:'', [CHR 0x5C], ''SYSTEM'', [CHR 0x5C], ''CurrentControlSet'', [CHR 0x5C], ''Services'', [CHR 0x5C], ''CertSvc'', [CHR 0x5C], ''Configuration').Active; '',
    ''$config = \"$env:COMPUTERNAME'', [CHR 0x5C], ''$active\"; '',
    ''$submit = certreq -submit -config $config $CsrPath 2>&1 | Out-String; '',
    ''if ($submit -notmatch 'RequestId:'', [CHR 0x5C], ''s*('', [CHR 0x5C], ''d+)') { throw \"certreq -submit did not return a RequestId: $submit\" }; '',
    ''$requestId = $Matches[1]; '',
    ''certutil -resubmit $requestId | Out-Null; '',
    ''if ($LASTEXITCODE -ne 0) { throw \"certutil -resubmit $requestId failed\" }; '',
    ''New-Item -ItemType Directory -Force -Path (Split-Path $CertPath) | Out-Null; '',
    ''certreq -retrieve -config $config $requestId $CertPath | Out-Null; '',
    ''if ($LASTEXITCODE -ne 0) { throw \"certreq -retrieve $requestId failed\" }; '',
    ''$requestId'']"

text \<open>\<^verbatim>\<open>commands/ca.rs\<close>, the script of \<^verbatim>\<open>CaPublishTemplate\<close>.\<close>

definition script_CaPublishTemplate :: string where
  "script_CaPublishTemplate = concat [
    ''param([string]$Templates) '',
    ''$ErrorActionPreference = 'Stop'; '',
    ''foreach ($t in ($Templates -split ',')) { '',
    ''try { Add-CATemplate -Name $t.Trim() -Force } '',
    ''catch { if ($_.Exception.Message -notmatch 'already') { throw } } '',
    ''}; '',
    ''(Get-CATemplate | Select-Object -ExpandProperty Name) -join ','', [CHR 0x27]]"

text \<open>\<^verbatim>\<open>commands/ca.rs\<close>, the script of \<^verbatim>\<open>CaVerify\<close>.\<close>

definition script_CaVerify :: string where
  "script_CaVerify = concat [
    ''$svc = Get-Service certsvc -ErrorAction SilentlyContinue; '',
    ''$service = if ($svc) { $svc.Status.ToString() } else { 'NotInstalled' }; '',
    ''$ping = (certutil -ping 2>&1) -join \"'', [CHR 0x60], ''n\"; '',
    ''$pingOk = ($LASTEXITCODE -eq 0); '',
    ''@'', [CHR 0x7B], '' service = $service; pingOk = $pingOk; ping = $ping } | ConvertTo-Json'']"

text \<open>\<^verbatim>\<open>commands/ca.rs\<close>, the script of \<^verbatim>\<open>CaInstallCert\<close>.\<close>

definition script_CaInstallCert :: string where
  "script_CaInstallCert = concat [
    ''param([string]$CertPath,[string]$Username,[string]$Password) '',
    ''$ErrorActionPreference = 'Stop'; '',
    ''$work = Join-Path $env:SystemRoot ('SystemTemp'', [CHR 0x5C], ''pki-installcert-' + [guid]::NewGuid().ToString('N')); '',
    ''New-Item -ItemType Directory -Force -Path $work | Out-Null; '',
    ''$log = Join-Path $work 'out.txt'; '',
    ''$task = 'PkiExecutor-InstallCert-' + [guid]::NewGuid().ToString('N'); '',
    ''try { '',
    ''$action = New-ScheduledTaskAction -Execute 'cmd.exe' -Argument \"/c certutil -installcert '', [CHR 0x60], ''\"$CertPath'', [CHR 0x60], ''\" > '', [CHR 0x60], ''\"$log'', [CHR 0x60], ''\" 2>&1\"; '',
    ''Register-ScheduledTask -TaskName $task -Action $action -User $Username -Password $Password -RunLevel Highest | Out-Null; '',
    ''Start-ScheduledTask -TaskName $task; '',
    ''$deadline = (Get-Date).AddMinutes(4); '',
    ''do { Start-Sleep -Seconds 2 } while ((Get-ScheduledTask -TaskName $task).State -eq 'Running' -and (Get-Date) -lt $deadline); '',
    ''$rc = (Get-ScheduledTaskInfo -TaskName $task).LastTaskResult; '',
    ''$out = if (Test-Path -LiteralPath $log) { Get-Content -Raw -LiteralPath $log } else { '', [CHR 0x27], [CHR 0x27], '' }; '',
    ''if ($rc -ne 0) { throw \"certutil -installcert failed (0x$('', [CHR 0x27], ''{0:x8}' -f $rc)): $out\" }; '',
    ''} finally { '',
    ''Unregister-ScheduledTask -TaskName $task -Confirm:$false -ErrorAction SilentlyContinue; '',
    ''Remove-Item -LiteralPath $work -Recurse -Force -ErrorAction SilentlyContinue; '',
    ''}; '',
    ''Start-Service CertSvc; '',
    ''(Get-Service CertSvc).Status.ToString()'']"

text \<open>\<^verbatim>\<open>commands/certsecure.rs\<close>, the script of \<^verbatim>\<open>AptRefresh\<close>.\<close>

definition script_AptRefresh :: string where
  "script_AptRefresh = concat [
    ''set -eu'', [CHR 0x0A],
    ''export DEBIAN_FRONTEND=noninteractive'', [CHR 0x0A],
    ''apt-get update'', [CHR 0x0A]]"

text \<open>\<^verbatim>\<open>commands/certsecure.rs\<close>, the script of \<^verbatim>\<open>CertSecureWriteHosts\<close>.\<close>

definition script_CertSecureWriteHosts :: string where
  "script_CertSecureWriteHosts = concat [
    ''set -eu'', [CHR 0x0A],
    ''begin=\"$1\"'', [CHR 0x0A],
    ''end=\"$2\"'', [CHR 0x0A],
    ''block=\"$3\"'', [CHR 0x0A],
    ''tmp=\"$(mktemp)\"'', [CHR 0x0A],
    ''# Drop any previous managed block, then append the current one. sed's range'', [CHR 0x0A],
    ''# form deletes an unterminated block to EOF too, so a half-written file from an'', [CHR 0x0A],
    ''# interrupted run converges rather than accumulating.'', [CHR 0x0A],
    ''sed \"/^${begin}'', [CHR 0x5C], ''$/,/^${end}'', [CHR 0x5C], ''$/d\" /etc/hosts > \"$tmp\"'', [CHR 0x0A],
    ''{'', [CHR 0x0A],
    ''  printf '%s'', [CHR 0x5C], ''n' \"$begin\"'', [CHR 0x0A],
    ''  printf '%s'', [CHR 0x5C], ''n' \"$block\"'', [CHR 0x0A],
    ''  printf '%s'', [CHR 0x5C], ''n' \"$end\"'', [CHR 0x0A],
    ''} >> \"$tmp\"'', [CHR 0x0A],
    ''# Preserve /etc/hosts' own mode and ownership rather than mktemp's 0600, which'', [CHR 0x0A],
    ''# would make the file unreadable to every non-root resolver on the box.'', [CHR 0x0A],
    ''chmod 0644 \"$tmp\"'', [CHR 0x0A],
    ''chown root:root \"$tmp\"'', [CHR 0x0A],
    ''cat \"$tmp\" > /etc/hosts'', [CHR 0x0A],
    ''rm -f \"$tmp\"'', [CHR 0x0A],
    ''grep -c . /etc/hosts'', [CHR 0x0A]]"

text \<open>\<^verbatim>\<open>commands/certsecure.rs\<close>, the script of \<^verbatim>\<open>CertSecureMakeCert\<close>.\<close>

definition script_CertSecureMakeCert :: string where
  "script_CertSecureMakeCert = concat [
    ''set -eu'', [CHR 0x0A],
    ''cert_path=\"$1\"'', [CHR 0x0A],
    ''key_path=\"$2\"'', [CHR 0x0A],
    ''subject_cn=\"$3\"'', [CHR 0x0A],
    ''san=\"$4\"'', [CHR 0x0A],
    ''days=\"$5\"'', [CHR 0x0A],
    ''mkdir -p \"$(dirname \"$cert_path\")\" \"$(dirname \"$key_path\")\"'', [CHR 0x0A],
    ''openssl req -x509 -newkey rsa:2048 -sha256 -nodes '', [CHR 0x5C], [CHR 0x0A],
    ''  -days \"$days\" '', [CHR 0x5C], [CHR 0x0A],
    ''  -keyout \"$key_path\" -out \"$cert_path\" '', [CHR 0x5C], [CHR 0x0A],
    ''  -subj \"/CN=${subject_cn}\" '', [CHR 0x5C], [CHR 0x0A],
    ''  -addext \"subjectAltName=${san}\" '', [CHR 0x5C], [CHR 0x0A],
    ''  -addext \"basicConstraints=critical,CA:FALSE\" '', [CHR 0x5C], [CHR 0x0A],
    ''  -addext \"keyUsage=critical,digitalSignature,keyEncipherment\" '', [CHR 0x5C], [CHR 0x0A],
    ''  -addext \"extendedKeyUsage=serverAuth\" >/dev/null 2>&1'', [CHR 0x0A],
    ''chmod 0600 \"$key_path\"'', [CHR 0x0A],
    ''chmod 0644 \"$cert_path\"'', [CHR 0x0A],
    ''printf '', [CHR 0x27], ''{\"contentB64\":\"%s\",\"sha256\":\"%s\",\"notAfter\":\"%s\"}' '', [CHR 0x5C], [CHR 0x0A],
    ''  \"$(openssl x509 -in \"$cert_path\" -outform DER | base64 -w0)\" '', [CHR 0x5C], [CHR 0x0A],
    ''  \"$(openssl x509 -in \"$cert_path\" -outform DER | sha256sum | cut -d' ' -f1)\" '', [CHR 0x5C], [CHR 0x0A],
    ''  \"$(openssl x509 -in \"$cert_path\" -noout -enddate | cut -d= -f2)\"'', [CHR 0x0A]]"

text \<open>\<^verbatim>\<open>commands/certsecure.rs\<close>, the script of \<^verbatim>\<open>CertSecureInstall\<close>.\<close>

definition script_CertSecureInstall :: string where
  "script_CertSecureInstall = concat [
    ''set -eu'', [CHR 0x0A],
    ''install_dir=\"$1\"'', [CHR 0x0A],
    ''cd \"$install_dir\"'', [CHR 0x0A],
    ''chmod +x ./install-linux.sh'', [CHR 0x0A],
    ''# The six read_inputs prompts, in order: frontend host, backend host, SSL'', [CHR 0x0A],
    ''# certificate path, SSL private key path, Keycloak host, Keycloak realm.'', [CHR 0x0A],
    ''printf '%s'', [CHR 0x5C], ''n%s'', [CHR 0x5C], ''n%s'', [CHR 0x5C], ''n%s'', [CHR 0x5C], ''n%s'', [CHR 0x5C], ''n%s'', [CHR 0x5C], ''n' \"$2\" \"$3\" \"$4\" \"$5\" \"$6\" \"$7\" '', [CHR 0x5C], [CHR 0x0A],
    ''  | ./install-linux.sh'', [CHR 0x0A],
    ''# The installer's own log is the record of what happened; echo its tail so a'', [CHR 0x0A],
    ''# failed step carries something diagnosable in the op error.'', [CHR 0x0A],
    ''tail -n 5 \"${install_dir}/installation-logs.log\" 2>/dev/null || true'', [CHR 0x0A]]"

text \<open>\<^verbatim>\<open>commands/certsecure.rs\<close>, the script of \<^verbatim>\<open>CertSecureVerify\<close>.\<close>

definition script_CertSecureVerify :: string where
  "script_CertSecureVerify = concat [
    ''set -eu'', [CHR 0x0A],
    ''probe() {'', [CHR 0x0A],
    ''  [ -z \"$1\" ] && { printf '0'; return; }'', [CHR 0x0A],
    ''  curl -sk -o /dev/null -m 10 -w '%{http_code}' \"$1\" 2>/dev/null || printf '000'', [CHR 0x27], [CHR 0x0A],
    ''}'', [CHR 0x0A],
    ''printf '', [CHR 0x27], ''{\"frontendStatus\":\"%s\",\"keycloakStatus\":\"%s\"}'   \"$(probe \"$1\")\" \"$(probe \"${2:-}\")\"'', [CHR 0x0A]]"

text \<open>\<^verbatim>\<open>commands/certsecure.rs\<close>, the script of \<^verbatim>\<open>CertSecureHarden\<close>.\<close>

definition script_CertSecureHarden :: string where
  "script_CertSecureHarden = concat [
    ''set -eu'', [CHR 0x0A],
    ''install_dir=\"$1\"'', [CHR 0x0A],
    ''shift'', [CHR 0x0A],
    ''changed=\"\"'', [CHR 0x0A],
    ''while [ \"$#\" -gt 0 ]; do'', [CHR 0x0A],
    ''  rel=\"$1\"'', [CHR 0x0A],
    ''  mode=\"$2\"'', [CHR 0x0A],
    ''  shift 2'', [CHR 0x0A],
    ''  path=\"${install_dir}/${rel}\"'', [CHR 0x0A],
    ''  if [ -f \"$path\" ]; then'', [CHR 0x0A],
    ''    chown root:root \"$path\"'', [CHR 0x0A],
    ''    chmod \"$mode\" \"$path\"'', [CHR 0x0A],
    ''    changed=\"${changed}${rel} \"'', [CHR 0x0A],
    ''  fi'', [CHR 0x0A],
    ''done'', [CHR 0x0A],
    ''printf '%s' \"$changed\"'', [CHR 0x0A]]"

end
