(* ===== verification/HostCommands.thy ===== *)
theory HostCommands
  imports Registry Scripts
begin

text \<open>
  The machine-level handlers of the Windows surface: \<^verbatim>\<open>hostname_rename.rs\<close>,
  \<^verbatim>\<open>hostname_read.rs\<close>, \<^verbatim>\<open>exec_arbitrary.rs\<close>, \<^verbatim>\<open>ip.rs\<close>, \<^verbatim>\<open>system.rs\<close> and
  \<^verbatim>\<open>system_identity.rs\<close>. Each handler is one definition, the statements in the order
  of the source, and one record with its name and capability. For each one the
  theory proves the handler contract (an interpretation) and which script it runs
  with which arguments.
\<close>

section \<open>hostname.rename and hostname.read\<close>

definition HostnameRename_execute :: "'s CommandContext \<Rightarrow> ('s, Value) cmd" where
  "HostnameRename_execute ctx =
     tryE (required ctx ''name'') (\<lambda>new_name.
     reject (\<not> (new_name \<noteq> [] \<and> length new_name \<le> 15
                 \<and> list_all (\<lambda>c. is_ascii_alphanumeric c \<or> c = CHR ''-'') new_name))
       (InvalidParam ''name'' ''must be 1-15 chars of [A-Za-z0-9-] (NetBIOS name limit)'') (
     report (OpRunState_running ''renaming'' 10) (
     bindE (shell_run ctx script_HostnameRename [new_name]) (\<lambda>output.
     reject (\<not> succeeded output)
       (ShellError (NonZeroExit (exit_code output) (stderr output))) (
     finish (json_obj [(''renamed_to'', JString new_name)]))))))"

definition HostnameRename :: "'s handler" where
  "HostnameRename = \<lparr>h_name = ''hostname.rename'', h_capability = VmUpdate,
     h_execute = HostnameRename_execute\<rparr>"

definition HostnameRead_execute :: "'s CommandContext \<Rightarrow> ('s, Value) cmd" where
  "HostnameRead_execute ctx =
     report (OpRunState_running ''reading'' 50) (
     bindE (shell_run ctx script_HostnameRead []) (\<lambda>output.
     reject (\<not> succeeded output)
       (ShellError (NonZeroExit (exit_code output) (stderr output))) (
     finish (json_obj [(''hostname'', JString (trim (stdout output)))]))))"

definition HostnameRead :: "'s handler" where
  "HostnameRead = \<lparr>h_name = ''hostname.read'', h_capability = VmRead,
     h_execute = HostnameRead_execute\<rparr>"

section \<open>powershell.exec-arbitrary\<close>

definition ExecArbitrary_execute :: "'s CommandContext \<Rightarrow> ('s, Value) cmd" where
  "ExecArbitrary_execute ctx =
     tryE (required ctx ''script'') (\<lambda>script.
     report (OpRunState_running ''executing'' 50) (
     bindE (shell_run ctx script []) (\<lambda>output.
     reject (\<not> succeeded output)
       (ShellError (NonZeroExit (exit_code output) (stderr output))) (
     finish (json_obj [(''stdout'', JString (stdout output)),
                       (''stderr'', JString (stderr output))])))))"

definition ExecArbitrary :: "'s handler" where
  "ExecArbitrary = \<lparr>h_name = ''powershell.exec_arbitrary'', h_capability = VmExecArbitrary,
     h_execute = ExecArbitrary_execute\<rparr>"

section \<open>ip.read and ip.write\<close>

definition IpRead_execute ::
  "(string \<Rightarrow> Value option) \<Rightarrow> 's CommandContext \<Rightarrow> ('s, Value) cmd" where
  "IpRead_execute from_str ctx =
     report (OpRunState_running ''reading'' 50) (
     bindE (shell_run ctx script_IpRead []) (\<lambda>output.
     reject (\<not> succeeded output)
       (ShellError (NonZeroExit (exit_code output) (stderr output))) (
     let addresses = (case from_str (trim (stdout output)) of Some v \<Rightarrow> v | None \<Rightarrow> JNull) in
     finish (json_obj [(''addresses'', addresses), (''raw'', JString (stdout output))]))))"

definition IpRead :: "(string \<Rightarrow> Value option) \<Rightarrow> 's handler" where
  "IpRead from_str = \<lparr>h_name = ''ip.read'', h_capability = VmRead,
     h_execute = IpRead_execute from_str\<rparr>"

definition IpWrite_execute :: "'s CommandContext \<Rightarrow> ('s, Value) cmd" where
  "IpWrite_execute ctx =
     tryE (required ctx ''address'') (\<lambda>address.
     reject (\<not> ipv4_parse_ok address)
       (InvalidParam ''address'' ''must be a dotted-quad IPv4 address'') (
     let prefix = param_or ctx ''prefixLength'' ''24'' in
     reject (case parse_uint 8 prefix of Some p \<Rightarrow> \<not> p \<le> 32 | None \<Rightarrow> True)
       (InvalidParam ''prefixLength'' ''must be an integer in 0-32'') (
     let gateway = param_or ctx ''gateway'' '''' in
     reject (gateway \<noteq> [] \<and> \<not> ipv4_parse_ok gateway)
       (InvalidParam ''gateway'' ''must be a dotted-quad IPv4 address'') (
     let alias = param_or ctx ''interface'' '''' in
     report (OpRunState_running ''configuring'' 10) (
     bindE (shell_run ctx script_IpWrite [address, prefix, gateway, alias]) (\<lambda>output.
     reject (\<not> succeeded output)
       (ShellError (NonZeroExit (exit_code output) (stderr output))) (
     finish (json_obj [(''address'', JString address), (''prefix_length'', JString prefix),
       (''gateway'', null_if_empty gateway), (''interface'', null_if_empty alias)]))))))))"

definition IpWrite :: "'s handler" where
  "IpWrite = \<lparr>h_name = ''ip.write'', h_capability = VmUpdate, h_execute = IpWrite_execute\<rparr>"

section \<open>system.reboot, system.boot-info and system.identity\<close>

definition SystemReboot_execute :: "'s CommandContext \<Rightarrow> ('s, Value) cmd" where
  "SystemReboot_execute ctx =
     (let delay = param_or ctx ''delaySeconds'' ''10'' in
     reject (case parse_uint 32 delay of Some d \<Rightarrow> \<not> (5 \<le> d \<and> d \<le> 120) | None \<Rightarrow> True)
       (invalid ''delaySeconds'' ''must be an integer in 5-120'') (
     report (OpRunState_running ''scheduling reboot'' 50) (
     bindE (shell_run ctx script_SystemReboot [delay]) (\<lambda>out.
     tryE (require_success out) (\<lambda>output.
     finish (json_obj [(''rebooting'', JBool True), (''delay_seconds'', JString delay)]))))))"

definition SystemReboot :: "'s handler" where
  "SystemReboot = \<lparr>h_name = ''system.reboot'', h_capability = VmProvision,
     h_execute = SystemReboot_execute\<rparr>"

text \<open>
  The probe holds the tick counter and the task directory; whether the task file
  exists is asked of the file system (\<open>path_exists\<close>).
\<close>

record SystemBootInfo_probe =
  tick_ms :: "unit \<Rightarrow> u64"
  tasks_dir :: string

text \<open>\<^verbatim>\<open>PathBuf::join\<close> of a relative name on Windows, where this probe is registered.\<close>

definition path_join :: "string \<Rightarrow> string \<Rightarrow> string" where
  "path_join dir name =
     (if dir = [] \<or> last dir \<in> {CHR 0x5C, CHR ''/''} then dir @ name
      else dir @ backslash @ name)"

definition default_tasks_dir :: "(string \<Rightarrow> string option) \<Rightarrow> string" where
  "default_tasks_dir env_var =
     (let root = (case env_var ''SystemRoot'' of Some r \<Rightarrow> r
                  | None \<Rightarrow> ''C:'' @ backslash @ ''Windows'')
      in path_join (path_join root ''System32'') ''Tasks'')"

definition SystemBootInfo_execute ::
  "(string \<Rightarrow> bool) \<Rightarrow> SystemBootInfo_probe \<Rightarrow> 's CommandContext \<Rightarrow> ('s, Value) cmd" where
  "SystemBootInfo_execute path_exists probe ctx =
     report (OpRunState_running ''reading boot info'' 50) (
     let uptime_s = tick_ms probe () div 1000;
         task_file = path_join (tasks_dir probe) ''FirstBootFinalize'';
         pending = path_exists task_file in
     finish (json_obj [(''uptimeS'', JNumber (PosInt uptime_s)),
       (''finalizePending'', JBool pending), (''finalizeRunning'', JBool False),
       (''raw'', JString (''tick uptime '' @ show_nat (unat uptime_s)
          @ ''s; finalize task file '' @ task_file @ '' ''
          @ (if pending then ''present'' else ''absent'')))]))"

definition SystemBootInfo :: "(string \<Rightarrow> bool) \<Rightarrow> SystemBootInfo_probe \<Rightarrow> 's handler" where
  "SystemBootInfo path_exists probe = \<lparr>h_name = ''system.boot_info'', h_capability = VmRead,
     h_execute = SystemBootInfo_execute path_exists probe\<rparr>"

definition SystemIdentity_execute ::
  "(string \<Rightarrow> Value option) \<Rightarrow> 's CommandContext \<Rightarrow> ('s, Value) cmd" where
  "SystemIdentity_execute from_str ctx =
     report (OpRunState_running ''reading system identity'' 50) (
     bindE (shell_run ctx script_SystemIdentity []) (\<lambda>out.
     tryE (require_success out) (\<lambda>output.
     let result = parse_json from_str (stdout output) in
     reject (\<not> json_is_object result)
       (ShellError (NonZeroExit 1 ''system.identity returned invalid JSON'')) (
     finish result))))"

definition SystemIdentity :: "(string \<Rightarrow> Value option) \<Rightarrow> 's handler" where
  "SystemIdentity from_str = \<lparr>h_name = ''system.identity'', h_capability = VmRead,
     h_execute = SystemIdentity_execute from_str\<rparr>"

lemmas host_exec_defs [exec_defs] = HostnameRename_execute_def HostnameRead_execute_def
  ExecArbitrary_execute_def IpRead_execute_def IpWrite_execute_def SystemReboot_execute_def
  SystemBootInfo_execute_def SystemIdentity_execute_def

lemmas host_handler_defs = HostnameRename_def HostnameRead_def ExecArbitrary_def IpRead_def
  IpWrite_def SystemReboot_def SystemBootInfo_def SystemIdentity_def

section \<open>The handler contract\<close>

interpretation hostname_rename: command_contract HostnameRename_execute
  by unfold_locales (auto simp: exec_defs intro!: handler_wp handler_program)

interpretation hostname_read: command_contract HostnameRead_execute
  by unfold_locales (auto simp: exec_defs intro!: handler_wp handler_program)

interpretation exec_arbitrary: command_contract ExecArbitrary_execute
  by unfold_locales (auto simp: exec_defs intro!: handler_wp handler_program)

interpretation ip_read: command_contract "IpRead_execute from_str"
  by unfold_locales (auto simp: exec_defs intro!: handler_wp handler_program)

interpretation ip_write: command_contract IpWrite_execute
  by unfold_locales (auto simp: exec_defs intro!: handler_wp handler_program)

interpretation system_reboot: command_contract SystemReboot_execute
  by unfold_locales (auto simp: exec_defs intro!: handler_wp handler_program)

interpretation system_boot_info: command_contract "SystemBootInfo_execute path_exists probe"
  by unfold_locales (auto simp: exec_defs intro!: handler_wp handler_program)

interpretation system_identity: command_contract "SystemIdentity_execute from_str"
  by unfold_locales (auto simp: exec_defs intro!: handler_wp handler_program)

section \<open>What reaches the shell\<close>

lemma HostnameRename_runs:
  "runs_only [(script_HostnameRename, 1)] (\<lambda>args. True) (HostnameRename_execute ctx)"
  by (auto simp: runs_only_def exec_defs intro!: wp_intros)

lemma HostnameRead_runs:
  "runs_only [(script_HostnameRead, 0)] (list_all no_dash) (HostnameRead_execute ctx)"
  by (auto simp: runs_only_def exec_defs intro!: wp_intros)

lemma IpRead_runs:
  "runs_only [(script_IpRead, 0)] (list_all no_dash) (IpRead_execute from_str ctx)"
  by (auto simp: runs_only_def exec_defs intro!: wp_intros)

text \<open>\<^verbatim>\<open>ip.write\<close> validates everything but the interface alias, its last argument.\<close>

lemma IpWrite_runs:
  "runs_only [(script_IpWrite, 4)] (\<lambda>args. list_all no_dash (butlast args)) (IpWrite_execute ctx)"
  by (auto simp: runs_only_def exec_defs intro!: wp_intros dest: no_dash_rules
      split: option.splits)

lemma SystemReboot_runs:
  "runs_only [(script_SystemReboot, 1)] (list_all no_dash) (SystemReboot_execute ctx)"
  by (auto simp: runs_only_def exec_defs intro!: wp_intros dest: no_dash_rules
      split: option.splits)

lemma SystemBootInfo_runs:
  "runs_only [] (list_all no_dash) (SystemBootInfo_execute path_exists probe ctx)"
  by (auto simp: runs_only_def exec_defs intro!: wp_intros)

lemma SystemIdentity_runs:
  "runs_only [(script_SystemIdentity, 0)] (list_all no_dash) (SystemIdentity_execute from_str ctx)"
  by (auto simp: runs_only_def exec_defs intro!: wp_intros)

end
