(* ===== verification/FileCommands.thy ===== *)
theory FileCommands
  imports Registry Scripts
begin

text \<open>
  The artifact relay: \<^verbatim>\<open>file.rs\<close> (the Windows \<^verbatim>\<open>file.read\<close> and \<^verbatim>\<open>file.write\<close>) and
  the pair that replaces it on Linux (\<^verbatim>\<open>linux.rs\<close>). The allowlists are prefix matches on
  validated paths; the theory proves what an accepted path looks like and that the
  byte slice the Windows check takes never panics.
\<close>

section \<open>The relay caps\<close>

definition RELAY_CAP_BYTES :: nat where
  "RELAY_CAP_BYTES = 256 * 1024"

definition RELAY_CAP_B64 :: nat where
  "RELAY_CAP_B64 = RELAY_CAP_BYTES div 3 * 4 + 4"

text \<open>The encoded cap is the length of the base64 text of a file of the decoded cap.\<close>

lemma relay_caps_agree: "RELAY_CAP_B64 = (RELAY_CAP_BYTES + 2) div 3 * 4"
  by (simp add: RELAY_CAP_B64_def RELAY_CAP_BYTES_def)

section \<open>The Windows allowlist\<close>

definition ALLOWED_PREFIXES :: "string list" where
  "ALLOWED_PREFIXES = [
     ''C:'' @ backslash @ ''Transfer'' @ backslash,
     ''C:'' @ backslash @ ''Windows'' @ backslash @ ''System32'' @ backslash @ ''CertSrv''
       @ backslash @ ''CertEnroll'' @ backslash,
     ''C:'' @ backslash @ ''CertEnroll'' @ backslash]"

text \<open>
  \<^verbatim>\<open>path[..n]\<close> of a \<^verbatim>\<open>str\<close>: \<open>None\<close> is the panic, out of range or inside a character.
\<close>

definition is_char_boundary :: "string \<Rightarrow> nat \<Rightarrow> bool" where
  "is_char_boundary s n \<longleftrightarrow>
     n = 0 \<or> n = length s \<or> (n < length s \<and> \<not> is_cont (byte_of (s ! n)))"

definition str_slice_to :: "string \<Rightarrow> nat \<Rightarrow> string option" where
  "str_slice_to s n = (if is_char_boundary s n then Some (take n s) else None)"

definition relay_path_ok :: "string \<Rightarrow> bool" where
  "relay_path_ok path \<longleftrightarrow> valid_windows_path path \<and> \<not> contains_str path ''..''
     \<and> list_ex (\<lambda>prefix. length prefix < length path
          \<and> (case str_slice_to path (length prefix) of
               Some q \<Rightarrow> eq_ignore_ascii_case q prefix | None \<Rightarrow> False)) ALLOWED_PREFIXES"

definition invalid_relay_path :: CommandError where
  "invalid_relay_path = invalid ''path'' (
     ''must be an absolute path under C:'' @ backslash @ ''Transfer'' @ backslash
     @ '', the CertSrv CertEnroll dir, or C:'' @ backslash @ ''CertEnroll'' @ backslash)"

text \<open>
  The slice comes after the validator and the length guard, so it is in range and on a
  character boundary: the panic of \<^verbatim>\<open>path[..prefix.len()]\<close> is never reached.
\<close>

lemma slice_never_panics:
  assumes "valid_windows_path path" and "n < length path"
  shows "str_slice_to path n = Some (take n path)"
proof -
  from assms have "is_ascii (path ! n)" by (auto intro: valid_windows_path_ascii)
  with assms(2) show ?thesis
    by (simp add: str_slice_to_def is_char_boundary_def is_cont_def is_ascii_def)
qed

lemma relay_path_prefix:
  assumes "relay_path_ok path"
  obtains prefix where "prefix \<in> set ALLOWED_PREFIXES" "length prefix < length path"
    "to_ascii_lowercase (take (length prefix) path) = to_ascii_lowercase prefix"
  using assms
  by (auto simp: relay_path_ok_def list_ex_iff slice_never_panics eq_ignore_ascii_case_def
      split: option.splits)

section \<open>file.read and file.write on Windows\<close>

definition FileRead_execute ::
  "(string \<Rightarrow> Value option) \<Rightarrow> 's CommandContext \<Rightarrow> ('s, Value) cmd" where
  "FileRead_execute from_str ctx =
     tryE (required ctx ''path'') (\<lambda>path.
     reject (\<not> relay_path_ok path) invalid_relay_path (
     report (OpRunState_running ''reading file'' 30) (
     bindE (shell_run ctx script_FileRead [path, show_nat RELAY_CAP_BYTES]) (\<lambda>out.
     tryE (require_success out) (\<lambda>output.
     let payload = parse_json from_str (stdout output) in
     reject (json_as_str (json_index payload ''contentB64'') = None)
       (invalid ''path'' ''file could not be read'') (
     finish (json_obj [(''path'', JString path),
       (''contentB64'', json_index payload ''contentB64''),
       (''sha256'', json_index payload ''sha256''),
       (''size'', json_index payload ''size'')])))))))"

definition FileRead :: "(string \<Rightarrow> Value option) \<Rightarrow> 's handler" where
  "FileRead from_str = \<lparr>h_name = ''file.read'', h_capability = VmProvision,
     h_execute = FileRead_execute from_str\<rparr>"

definition b64_ok :: "string \<Rightarrow> bool" where
  "b64_ok content \<longleftrightarrow> content \<noteq> []
     \<and> list_all (\<lambda>c. is_ascii_alphanumeric c \<or> c \<in> set ''+/='') content"

definition FileWrite_execute :: "'s CommandContext \<Rightarrow> ('s, Value) cmd" where
  "FileWrite_execute ctx =
     tryE (required ctx ''path'') (\<lambda>path.
     reject (\<not> relay_path_ok path) invalid_relay_path (
     tryE (required ctx ''contentB64'') (\<lambda>content.
     reject (RELAY_CAP_B64 < length content)
       (invalid ''contentB64'' ''exceeds the 256 KiB relay cap'') (
     reject (\<not> b64_ok content) (invalid ''contentB64'' ''must be base64'') (
     report (OpRunState_running ''writing file'' 30) (
     bindE (shell_run ctx script_FileWrite [path, content]) (\<lambda>out.
     tryE (require_success out) (\<lambda>output.
     finish (json_obj [(''path'', JString path),
       (''sha256'', JString (trim (stdout output)))])))))))))"

definition FileWrite :: "'s handler" where
  "FileWrite = \<lparr>h_name = ''file.write'', h_capability = VmProvision,
     h_execute = FileWrite_execute\<rparr>"

section \<open>The Linux pair\<close>

definition linux_RELAY_CAP_BYTES :: nat where
  "linux_RELAY_CAP_BYTES = 256 * 1024"

definition linux_RELAY_CAP_B64 :: nat where
  "linux_RELAY_CAP_B64 = linux_RELAY_CAP_BYTES div 3 * 4 + 4"

definition linux_ALLOWED_PREFIXES :: "string list" where
  "linux_ALLOWED_PREFIXES =
     [''/opt/certsecure-manager/'', ''/var/lib/pki-executor/transfer/'']"

definition linux_relay_path_ok :: "string \<Rightarrow> bool" where
  "linux_relay_path_ok path \<longleftrightarrow> valid_posix_path path \<and> \<not> contains_str path ''..''
     \<and> list_ex (\<lambda>prefix. length prefix < length path \<and> starts_with path prefix)
         linux_ALLOWED_PREFIXES"

definition linux_invalid_relay_path :: CommandError where
  "linux_invalid_relay_path = invalid ''path'' (
     ''must be an absolute path under /opt/certsecure-manager/ or ''
     @ ''/var/lib/pki-executor/transfer/'')"

definition LinuxFileRead_execute ::
  "(string \<Rightarrow> Value option) \<Rightarrow> 's CommandContext \<Rightarrow> ('s, Value) cmd" where
  "LinuxFileRead_execute from_str ctx =
     tryE (required ctx ''path'') (\<lambda>path.
     reject (\<not> linux_relay_path_ok path) linux_invalid_relay_path (
     report (OpRunState_running ''reading file'' 30) (
     bindE (shell_run ctx script_LinuxFileRead [path, show_nat linux_RELAY_CAP_BYTES]) (\<lambda>out.
     tryE (require_success out) (\<lambda>output.
     let payload = parse_json from_str (stdout output) in
     reject (json_as_str (json_index payload ''contentB64'') = None)
       (invalid ''path'' ''file could not be read'') (
     finish (json_obj [(''path'', JString path),
       (''contentB64'', json_index payload ''contentB64''),
       (''sha256'', json_index payload ''sha256''),
       (''size'', json_index payload ''size'')])))))))"

definition LinuxFileRead :: "(string \<Rightarrow> Value option) \<Rightarrow> 's handler" where
  "LinuxFileRead from_str = \<lparr>h_name = ''file.read'', h_capability = VmProvision,
     h_execute = LinuxFileRead_execute from_str\<rparr>"

definition LinuxFileWrite_execute :: "'s CommandContext \<Rightarrow> ('s, Value) cmd" where
  "LinuxFileWrite_execute ctx =
     tryE (required ctx ''path'') (\<lambda>path.
     reject (\<not> linux_relay_path_ok path) linux_invalid_relay_path (
     tryE (required ctx ''contentB64'') (\<lambda>content.
     reject (linux_RELAY_CAP_B64 < length content)
       (invalid ''contentB64'' ''exceeds the 256 KiB relay cap'') (
     reject (\<not> (content \<noteq> []
               \<and> list_all (\<lambda>c. is_ascii_alphanumeric c \<or> c \<in> set ''+/='') content))
       (invalid ''contentB64'' ''must be base64'') (
     report (OpRunState_running ''writing file'' 30) (
     bindE (shell_run ctx script_LinuxFileWrite [path, content]) (\<lambda>out.
     tryE (require_success out) (\<lambda>output.
     finish (json_obj [(''path'', JString path),
       (''sha256'', JString (trim (stdout output)))])))))))))"

definition LinuxFileWrite :: "'s handler" where
  "LinuxFileWrite = \<lparr>h_name = ''file.write'', h_capability = VmProvision,
     h_execute = LinuxFileWrite_execute\<rparr>"

lemmas file_exec_defs [exec_defs] = FileRead_execute_def FileWrite_execute_def
  LinuxFileRead_execute_def LinuxFileWrite_execute_def

lemmas file_handler_defs = FileRead_def FileWrite_def LinuxFileRead_def LinuxFileWrite_def

section \<open>The handler contract\<close>

interpretation file_read: command_contract "FileRead_execute from_str"
  by unfold_locales (auto simp: exec_defs intro!: handler_wp handler_program)

interpretation file_write: command_contract FileWrite_execute
  by unfold_locales (auto simp: exec_defs intro!: handler_wp handler_program)

interpretation linux_file_read: command_contract "LinuxFileRead_execute from_str"
  by unfold_locales (auto simp: exec_defs intro!: handler_wp handler_program)

interpretation linux_file_write: command_contract LinuxFileWrite_execute
  by unfold_locales (auto simp: exec_defs intro!: handler_wp handler_program)


lemma linux_relay_path_prefix:
  "linux_relay_path_ok path \<Longrightarrow>
     \<exists>prefix r. prefix \<in> set linux_ALLOWED_PREFIXES \<and> path = prefix @ r \<and> r \<noteq> []"
  by (fastforce simp: linux_relay_path_ok_def list_ex_iff starts_with_iff)

section \<open>Confinement\<close>

text \<open>
  What the allowlists are for. \<open>resolve d path\<close> is the list of components an operating
  system with separator \<open>d\<close> ends up at: empty components and \<^verbatim>\<open>.\<close> are skipped and
  \<^verbatim>\<open>..\<close> leaves the directory. An accepted path stays below the allowed directory.
\<close>

fun resolve_steps :: "string list \<Rightarrow> string list \<Rightarrow> string list" where
  "resolve_steps stack [] = rev stack"
| "resolve_steps stack (p # ps) =
     (if p = [] \<or> p = ''.'' then resolve_steps stack ps
      else if p = ''..'' then resolve_steps (tl stack) ps
      else resolve_steps (p # stack) ps)"

definition resolve :: "char \<Rightarrow> string \<Rightarrow> string list" where
  "resolve d path = resolve_steps [] (split_on d path)"

lemma split_on_append_sep: "split_on d (a @ d # b) = split_on d a @ split_on d b"
  by (induction a) (auto split: list.splits)

lemma join_piece: "p \<in> set ps \<Longrightarrow> \<exists>a b. join sep ps = a @ p @ b"
proof (induction sep ps rule: join.induct)
  case (3 sep q q' ps)
  show ?case
  proof (cases "p = q")
    case True
    then have "join sep (q # q' # ps) = [] @ p @ (sep @ join sep (q' # ps))" by simp
    then show ?thesis by blast
  next
    case False
    with 3 obtain a b where "join sep (q' # ps) = a @ p @ b" by auto
    then have "join sep (q # q' # ps) = (q @ sep @ a) @ p @ b" by simp
    then show ?thesis by blast
  qed
next
  case (2 sep q)
  then have "join sep [q] = [] @ p @ []" by simp
  then show ?case by blast
qed simp

lemma piece_contained: "p \<in> set (split_on d s) \<Longrightarrow> contains_str s p"
  using join_piece [of p "split_on d s" "[d]"] by (simp add: join_split_on contains_str_iff)

lemma resolve_steps_plain:
  "''..'' \<notin> set ps \<Longrightarrow> resolve_steps st ps = rev st @ filter (\<lambda>p. p \<noteq> [] \<and> p \<noteq> ''.'') ps"
  by (induction ps arbitrary: st) auto

lemma resolve_below:
  assumes "\<not> contains_str (a @ d # r) ''..''"
  shows "resolve d (a @ d # r) = resolve d (a @ [d]) @ filter (\<lambda>p. p \<noteq> [] \<and> p \<noteq> ''.'') (split_on d r)"
proof -
  have "''..'' \<notin> set (split_on d (a @ d # r))" using assms piece_contained by blast
  then show ?thesis
    by (simp add: resolve_def resolve_steps_plain split_on_append_sep)
qed

lemma linux_relay_confined:
  assumes "linux_relay_path_ok path"
  shows "\<exists>prefix rest. prefix \<in> set linux_ALLOWED_PREFIXES
           \<and> resolve (CHR ''/'') path = resolve (CHR ''/'') prefix @ rest"
proof -
  obtain prefix r where pr: "prefix \<in> set linux_ALLOWED_PREFIXES" "path = prefix @ r"
    using linux_relay_path_prefix [OF assms] by blast
  then obtain a where a: "prefix = a @ [CHR ''/'']"
    by (auto simp: linux_ALLOWED_PREFIXES_def)
  have "\<not> contains_str (a @ CHR ''/'' # r) ''..''"
    using assms pr(2) a by (simp add: linux_relay_path_ok_def)
  from resolve_below [OF this] show ?thesis using pr a by auto
qed

lemma to_ascii_lower_dot: "to_ascii_lower c = CHR ''.'' \<longleftrightarrow> c = CHR ''.''"
proof
  assume l: "to_ascii_lower c = CHR ''.''"
  show "c = CHR ''.''"
  proof (cases "65 \<le> byte_of c \<and> byte_of c \<le> 90")
    case True
    then have "byte_of (to_ascii_lower c) = byte_of c + 32"
      by (simp add: to_ascii_lower_def byte_of_def)
    with l True show ?thesis by (simp add: byte_of_def)
  next
    case False
    with l show ?thesis by (auto simp: to_ascii_lower_def)
  qed
qed (simp add: to_ascii_lower_def byte_of_def)

lemma map_append_split:
  assumes "map f s = a @ b"
  obtains a' b' where "s = a' @ b'" "map f b' = b" "map f a' = a"
proof
  show "s = take (length a) s @ drop (length a) s" by simp
  from assms show "map f (drop (length a) s) = b" by (simp add: drop_map [symmetric])
  from assms show "map f (take (length a) s) = a" by (simp add: take_map [symmetric])
qed

lemma map_lower_dots: "map to_ascii_lower m = ''..'' \<Longrightarrow> m = ''..''"
  by (cases m; cases "tl m") (auto simp: to_ascii_lower_dot)

lemma lowercase_no_dotdot:
  "\<not> contains_str s ''..'' \<Longrightarrow> \<not> contains_str (to_ascii_lowercase s) ''..''"
proof
  assume no: "\<not> contains_str s ''..''" and "contains_str (to_ascii_lowercase s) ''..''"
  then obtain a b where "map to_ascii_lower s = a @ ''..'' @ b"
    by (auto simp: contains_str_iff to_ascii_lowercase_def)
  then obtain a' v where v: "s = a' @ v" "map to_ascii_lower v = ''..'' @ b"
    "map to_ascii_lower a' = a"
    by (rule map_append_split)
  from v(2) obtain m b' where m: "v = m @ b'" "map to_ascii_lower b' = b"
    "map to_ascii_lower m = ''..''"
    by (rule map_append_split)
  from v(1) m(1) map_lower_dots [OF m(3)] have "s = a' @ ''..'' @ b'" by simp
  then have "contains_str s ''..''" unfolding contains_str_iff by blast
  with no show False by contradiction
qed

lemma windows_relay_confined:
  assumes "relay_path_ok path"
  shows "\<exists>prefix rest. prefix \<in> set ALLOWED_PREFIXES
           \<and> resolve (CHR 0x5C) (to_ascii_lowercase path)
               = resolve (CHR 0x5C) (to_ascii_lowercase prefix) @ rest"
proof -
  obtain prefix where pr: "prefix \<in> set ALLOWED_PREFIXES" "length prefix < length path"
    "to_ascii_lowercase (take (length prefix) path) = to_ascii_lowercase prefix"
    using relay_path_prefix [OF assms] by blast
  define r where "r = to_ascii_lowercase (drop (length prefix) path)"
  have path: "to_ascii_lowercase path = to_ascii_lowercase prefix @ r"
    using pr(3) unfolding r_def to_ascii_lowercase_def
    by (metis append_take_drop_id map_append)
  from pr(1) obtain a where a: "to_ascii_lowercase prefix = a @ [CHR 0x5C]"
    by (auto simp: ALLOWED_PREFIXES_def to_ascii_lowercase_def to_ascii_lower_def byte_of_def)
  have "\<not> contains_str (a @ CHR 0x5C # r) ''..''"
    using lowercase_no_dotdot [of path] assms path a by (simp add: relay_path_ok_def)
  from resolve_below [OF this] show ?thesis using pr path a by auto
qed

section \<open>What reaches the shell\<close>

lemma relay_path_no_dash: "relay_path_ok path \<Longrightarrow> no_dash path"
  by (auto simp: relay_path_ok_def dest: no_dash_rules)

lemma linux_relay_path_no_dash: "linux_relay_path_ok path \<Longrightarrow> no_dash path"
  by (auto simp: linux_relay_path_ok_def dest: no_dash_rules)

lemma b64_no_dash: "b64_ok c \<Longrightarrow> no_dash c"
  by (cases c) (auto simp: b64_ok_def char_class_defs)

lemma show_nat_no_dash: "no_dash (show_nat n)"
  using show_nat_digits [of n] by (cases "show_nat n") (auto simp: char_class_defs)

lemma FileRead_runs:
  "runs_only [(script_FileRead, 2)]
     (\<lambda>args. list_all no_dash args \<and> relay_path_ok (args ! 0)
        \<and> args ! 1 = show_nat RELAY_CAP_BYTES) (FileRead_execute from_str ctx)"
  by (auto simp: runs_only_def exec_defs show_nat_no_dash relay_path_no_dash
      intro!: wp_intros)

lemma FileWrite_runs:
  "runs_only [(script_FileWrite, 2)]
     (\<lambda>args. list_all no_dash args \<and> relay_path_ok (args ! 0)
        \<and> b64_ok (args ! 1) \<and> length (args ! 1) \<le> RELAY_CAP_B64) (FileWrite_execute ctx)"
  by (auto simp: runs_only_def exec_defs relay_path_no_dash b64_no_dash intro!: wp_intros)

lemma LinuxFileRead_runs:
  "runs_only [(script_LinuxFileRead, 2)]
     (\<lambda>args. list_all no_dash args \<and> linux_relay_path_ok (args ! 0)
        \<and> args ! 1 = show_nat linux_RELAY_CAP_BYTES) (LinuxFileRead_execute from_str ctx)"
  by (auto simp: runs_only_def exec_defs show_nat_no_dash linux_relay_path_no_dash
      intro!: wp_intros)

lemma LinuxFileWrite_runs:
  "runs_only [(script_LinuxFileWrite, 2)]
     (\<lambda>args. list_all no_dash args \<and> linux_relay_path_ok (args ! 0)
        \<and> b64_ok (args ! 1) \<and> length (args ! 1) \<le> linux_RELAY_CAP_B64)
     (LinuxFileWrite_execute ctx)"
  by (auto simp: runs_only_def exec_defs linux_relay_path_no_dash b64_ok_def b64_no_dash
      intro!: wp_intros b64_no_dash)

end
