(* ===== verification/LinuxCommands.thy ===== *)
theory LinuxCommands
  imports Registry Scripts
begin

text \<open>
  The host half of \<^verbatim>\<open>linux.rs\<close>: the handlers that replace the Windows ones of the same
  name on a Linux guest (the file relay pair is in \<open>FileCommands\<close>).
\<close>

definition script_LinuxHostnameRead :: string where
  "script_LinuxHostnameRead = ''uname -n''"

definition LinuxHostnameRead_execute :: "'s CommandContext \<Rightarrow> ('s, Value) cmd" where
  "LinuxHostnameRead_execute ctx =
     report (OpRunState_running ''reading'' 50) (
     bindE (shell_run ctx script_LinuxHostnameRead []) (\<lambda>out.
     tryE (require_success out) (\<lambda>output.
     finish (json_obj [(''hostname'', JString (trim (stdout output)))]))))"

definition LinuxHostnameRead :: "'s handler" where
  "LinuxHostnameRead = \<lparr>h_name = ''hostname.read'', h_capability = VmRead,
     h_execute = LinuxHostnameRead_execute\<rparr>"

definition LinuxSystemIdentity_execute ::
  "(string \<Rightarrow> Value option) \<Rightarrow> 's CommandContext \<Rightarrow> ('s, Value) cmd" where
  "LinuxSystemIdentity_execute from_str ctx =
     report (OpRunState_running ''reading system identity'' 50) (
     bindE (shell_run ctx script_LinuxSystemIdentity []) (\<lambda>out.
     tryE (require_success out) (\<lambda>output.
     let result = parse_json from_str (stdout output) in
     reject (\<not> json_is_object result)
       (ShellError (NonZeroExit 1 ''system.identity returned invalid JSON'')) (
     finish result))))"

definition LinuxSystemIdentity :: "(string \<Rightarrow> Value option) \<Rightarrow> 's handler" where
  "LinuxSystemIdentity from_str = \<lparr>h_name = ''system.identity'', h_capability = VmRead,
     h_execute = LinuxSystemIdentity_execute from_str\<rparr>"

definition LinuxSystemReboot_execute :: "'s CommandContext \<Rightarrow> ('s, Value) cmd" where
  "LinuxSystemReboot_execute ctx =
     (let delay = param_or ctx ''delaySeconds'' ''10'' in
     reject (case parse_uint 32 delay of Some d \<Rightarrow> \<not> (5 \<le> d \<and> d \<le> 120) | None \<Rightarrow> True)
       (invalid ''delaySeconds'' ''must be an integer in 5-120'') (
     report (OpRunState_running ''scheduling reboot'' 50) (
     bindE (shell_run ctx script_LinuxSystemReboot [delay]) (\<lambda>out.
     tryE (require_success out) (\<lambda>output.
     finish (json_obj [(''rebooting'', JBool True), (''delay_seconds'', JString delay)]))))))"

definition LinuxSystemReboot :: "'s handler" where
  "LinuxSystemReboot = \<lparr>h_name = ''system.reboot'', h_capability = VmProvision,
     h_execute = LinuxSystemReboot_execute\<rparr>"

text \<open>The struct's one field, the injected uptime source in milliseconds.\<close>

definition LinuxSystemBootInfo_execute ::
  "(unit \<Rightarrow> u64) \<Rightarrow> 's CommandContext \<Rightarrow> ('s, Value) cmd" where
  "LinuxSystemBootInfo_execute uptime_ms ctx =
     report (OpRunState_running ''reading boot info'' 50) (
     let uptime_s = uptime_ms () div 1000 in
     finish (json_obj [(''uptimeS'', JNumber (PosInt uptime_s)),
       (''finalizePending'', JBool False), (''finalizeRunning'', JBool False),
       (''raw'', JString (''/proc/uptime '' @ show_nat (unat uptime_s)
          @ ''s; no firstboot finalize task on Linux''))]))"

definition LinuxSystemBootInfo :: "(unit \<Rightarrow> u64) \<Rightarrow> 's handler" where
  "LinuxSystemBootInfo uptime_ms = \<lparr>h_name = ''system.boot_info'', h_capability = VmRead,
     h_execute = LinuxSystemBootInfo_execute uptime_ms\<rparr>"

lemmas linux_exec_defs [exec_defs] = LinuxHostnameRead_execute_def
  LinuxSystemIdentity_execute_def LinuxSystemReboot_execute_def LinuxSystemBootInfo_execute_def

lemmas linux_handler_defs = LinuxHostnameRead_def LinuxSystemIdentity_def
  LinuxSystemReboot_def LinuxSystemBootInfo_def

section \<open>The handler contract\<close>

interpretation linux_hostname_read: command_contract LinuxHostnameRead_execute
  by unfold_locales (auto simp: exec_defs intro!: handler_wp handler_program)

interpretation linux_system_identity: command_contract "LinuxSystemIdentity_execute from_str"
  by unfold_locales (auto simp: exec_defs intro!: handler_wp handler_program)

interpretation linux_system_reboot: command_contract LinuxSystemReboot_execute
  by unfold_locales (auto simp: exec_defs intro!: handler_wp handler_program)

interpretation linux_system_boot_info: command_contract "LinuxSystemBootInfo_execute uptime_ms"
  by unfold_locales (auto simp: exec_defs intro!: handler_wp handler_program)

section \<open>What reaches the shell\<close>

lemma LinuxHostnameRead_runs:
  "runs_only [(script_LinuxHostnameRead, 0)] (list_all no_dash) (LinuxHostnameRead_execute ctx)"
  by (auto simp: runs_only_def exec_defs intro!: wp_intros)

lemma LinuxSystemIdentity_runs:
  "runs_only [(script_LinuxSystemIdentity, 0)] (list_all no_dash)
     (LinuxSystemIdentity_execute from_str ctx)"
  by (auto simp: runs_only_def exec_defs intro!: wp_intros)

text \<open>
  The delay is spliced into the words of the script by the shell, so it must be a
  plain number: an optional plus sign and digits.
\<close>

lemma LinuxSystemReboot_runs:
  "runs_only [(script_LinuxSystemReboot, 1)]
     (\<lambda>args. list_all no_dash args
        \<and> (\<exists>d. parse_uint 32 (args ! 0) = Some d \<and> 5 \<le> d \<and> d \<le> 120))
     (LinuxSystemReboot_execute ctx)"
  by (auto simp: runs_only_def exec_defs intro!: wp_intros dest: no_dash_rules
      split: option.splits)

lemma LinuxSystemBootInfo_runs:
  "runs_only [] (list_all no_dash) (LinuxSystemBootInfo_execute uptime_ms ctx)"
  by (auto simp: runs_only_def exec_defs intro!: wp_intros)

end
