(* ===== verification/DirectoryCommands.thy ===== *)
theory DirectoryCommands
  imports Registry Scripts
begin

text \<open>
  \<^verbatim>\<open>domain.rs\<close> and \<^verbatim>\<open>dc.rs\<close>: joining a domain, promoting the first domain
  controller and the two read probes. The write commands take a password; the theory
  proves that neither their outcome nor a report depends on it.
\<close>

section \<open>domain.join and domain.verify\<close>

definition DomainJoin_execute :: "'s CommandContext \<Rightarrow> ('s, Value) cmd" where
  "DomainJoin_execute ctx =
     tryE (required ctx ''domainName'') (\<lambda>domain.
     reject (\<not> valid_dns_name domain \<or> CHR ''.'' \<notin> set domain)
       (invalid ''domainName'' ''must be a dotted DNS domain name'') (
     tryE (required ctx ''username'') (\<lambda>username.
     reject (\<not> valid_username username)
       (invalid ''username''
         (''must be a plain, domain'' @ backslash @ ''user or user@domain account name'')) (
     tryE (required ctx ''password'') (\<lambda>password.
     reject (\<not> valid_secret password)
       (invalid ''password'' (''must be non-empty and not begin with '-'' @ squote)) (
     report (OpRunState_running ''joining domain'' 20) (
     bindE (shell_run ctx script_DomainJoin [domain, username, password]) (\<lambda>out.
     tryE (require_success out) (\<lambda>output.
     finish (json_obj [(''domain'', JString domain), (''reboot_required'', JBool True)]))))))))))"

definition DomainJoin :: "'s handler" where
  "DomainJoin = \<lparr>h_name = ''domain.join'', h_capability = VmProvision,
     h_execute = DomainJoin_execute\<rparr>"

definition DomainVerify_execute ::
  "(string \<Rightarrow> Value option) \<Rightarrow> 's CommandContext \<Rightarrow> ('s, Value) cmd" where
  "DomainVerify_execute from_str ctx =
     report (OpRunState_running ''verifying membership'' 50) (
     bindE (shell_run ctx script_DomainVerify []) (\<lambda>out.
     tryE (require_success out) (\<lambda>output.
     let system = parse_json from_str (stdout output) in
     finish (json_obj [
       (''part_of_domain'', JBool (json_index system ''PartOfDomain'' = JBool True)),
       (''domain'', json_index system ''Domain''),
       (''raw'', JString (stdout output))]))))"

definition DomainVerify :: "(string \<Rightarrow> Value option) \<Rightarrow> 's handler" where
  "DomainVerify from_str = \<lparr>h_name = ''domain.verify'', h_capability = VmRead,
     h_execute = DomainVerify_execute from_str\<rparr>"

section \<open>dc.install-forest and dc.verify\<close>

definition FOREST_MODES :: "string list" where
  "FOREST_MODES = [''Default'', ''WinThreshold'', ''Win2025'']"

definition DcInstallForest_execute :: "'s CommandContext \<Rightarrow> ('s, Value) cmd" where
  "DcInstallForest_execute ctx =
     tryE (required ctx ''domainName'') (\<lambda>domain.
     reject (\<not> valid_dns_name domain \<or> CHR ''.'' \<notin> set domain)
       (invalid ''domainName'' ''must be a dotted DNS domain name'') (
     tryE (required ctx ''netbiosName'') (\<lambda>netbios.
     reject (\<not> (1 \<le> length netbios \<and> length netbios \<le> 15
                 \<and> list_all (\<lambda>c. is_ascii_alphanumeric c \<or> c = CHR ''-'') netbios))
       (invalid ''netbiosName'' ''must be 1-15 chars of [A-Za-z0-9-]'') (
     let forest_mode = param_or ctx ''forestMode'' ''WinThreshold'' in
     reject (forest_mode \<notin> set FOREST_MODES)
       (invalid ''forestMode'' (''must be 'Default', 'WinThreshold' or 'Win2025'' @ squote)) (
     tryE (required ctx ''safeModePassword'') (\<lambda>dsrm_password.
     reject (\<not> valid_secret dsrm_password)
       (invalid ''safeModePassword'' (''must be non-empty and not begin with '-'' @ squote)) (
     report (OpRunState_running ''installing AD DS forest'' 10) (
     bindE (shell_run ctx script_DcInstallForest [domain, netbios, forest_mode, dsrm_password]) (\<lambda>out.
     tryE (require_success out) (\<lambda>output.
     finish (json_obj [(''domain'', JString domain), (''netbios'', JString netbios),
       (''forest_mode'', JString forest_mode), (''reboot_required'', JBool True)])))))))))))"

definition DcInstallForest :: "'s handler" where
  "DcInstallForest = \<lparr>h_name = ''dc.install_forest'', h_capability = VmProvision,
     h_execute = DcInstallForest_execute\<rparr>"

definition DcVerify_execute ::
  "(string \<Rightarrow> Value option) \<Rightarrow> 's CommandContext \<Rightarrow> ('s, Value) cmd" where
  "DcVerify_execute from_str ctx =
     report (OpRunState_running ''verifying directory'' 50) (
     bindE (shell_run ctx script_DcVerify []) (\<lambda>out.
     tryE (require_success out) (\<lambda>output.
     let domain = parse_json from_str (stdout output) in
     finish (json_obj [(''domain'', domain), (''raw'', JString (stdout output))]))))"

definition DcVerify :: "(string \<Rightarrow> Value option) \<Rightarrow> 's handler" where
  "DcVerify from_str = \<lparr>h_name = ''dc.verify'', h_capability = VmRead,
     h_execute = DcVerify_execute from_str\<rparr>"

lemmas directory_exec_defs [exec_defs] = DomainJoin_execute_def DomainVerify_execute_def
  DcInstallForest_execute_def DcVerify_execute_def

lemmas directory_handler_defs = DomainJoin_def DomainVerify_def DcInstallForest_def DcVerify_def

section \<open>The handler contract\<close>

interpretation domain_join: command_contract DomainJoin_execute
  by unfold_locales (auto simp: exec_defs intro!: handler_wp handler_program)

interpretation domain_verify: command_contract "DomainVerify_execute from_str"
  by unfold_locales (auto simp: exec_defs intro!: handler_wp handler_program)

interpretation dc_install_forest: command_contract DcInstallForest_execute
  by unfold_locales (auto simp: exec_defs intro!: handler_wp handler_program)

interpretation dc_verify: command_contract "DcVerify_execute from_str"
  by unfold_locales (auto simp: exec_defs intro!: handler_wp handler_program)

section \<open>What reaches the shell\<close>

lemma DomainJoin_runs:
  "runs_only [(script_DomainJoin, 3)] (list_all no_dash) (DomainJoin_execute ctx)"
  by (auto simp: runs_only_def exec_defs intro!: wp_intros dest: no_dash_rules)

lemma DomainVerify_runs:
  "runs_only [(script_DomainVerify, 0)] (list_all no_dash) (DomainVerify_execute from_str ctx)"
  by (auto simp: runs_only_def exec_defs intro!: wp_intros)

text \<open>The NetBIOS name, the second argument, may begin with a dash.\<close>

lemma DcInstallForest_runs:
  "runs_only [(script_DcInstallForest, 4)]
     (\<lambda>args. no_dash (args ! 0) \<and> no_dash (args ! 2) \<and> no_dash (args ! 3))
     (DcInstallForest_execute ctx)"
  by (auto simp: runs_only_def exec_defs FOREST_MODES_def intro!: wp_intros dest: no_dash_rules)

lemma DcVerify_runs:
  "runs_only [(script_DcVerify, 0)] (list_all no_dash) (DcVerify_execute from_str ctx)"
  by (auto simp: runs_only_def exec_defs intro!: wp_intros)

section \<open>Secrets\<close>

lemma DomainJoin_hides: "hides valid_secret ''password'' DomainJoin_execute"
  by (auto simp: hides_def observed_def answering_def exec_defs wp_simps required_def param_def
      split: option.splits sum.splits)

lemma DcInstallForest_hides: "hides valid_secret ''safeModePassword'' DcInstallForest_execute"
  by (auto simp: hides_def observed_def answering_def exec_defs wp_simps required_def param_def
      param_or_def Let_def split: option.splits sum.splits)

end
