(* ===== verification/DnsCommands.thy ===== *)
theory DnsCommands
  imports Registry Scripts
begin

text \<open>
  \<^verbatim>\<open>dns.rs\<close>: the DNS client and record commands, with the validation of the planned
  records two of them share. Decoding the JSON text of the records into the struct is
  code the serde derive generates: a parameter (\<open>dec\<close>).
\<close>

section \<open>Planned records\<close>

definition MAX_DNS_RESOURCES :: nat where
  "MAX_DNS_RESOURCES = 32"

datatype PlannedDnsKind = KindA | KindPtr | KindCname

record PlannedDnsRecord =
  rec_id :: string
  rec_kind :: PlannedDnsKind
  rec_zone :: string
  rec_name :: string
  rec_value :: string

definition valid_single_label :: "string \<Rightarrow> bool" where
  "valid_single_label v \<longleftrightarrow> valid_dns_name v \<and> CHR ''.'' \<notin> set v"

definition trim_end_matches :: "char \<Rightarrow> string \<Rightarrow> string" where
  "trim_end_matches d s = rev (dropWhile (\<lambda>c. c = d) (rev s))"

definition valid_reverse_zone :: "string \<Rightarrow> bool" where
  "valid_reverse_zone v =
     (let normalized = to_ascii_lowercase (trim_end_matches (CHR ''.'') v) in
      case strip_suffix normalized ''.in-addr.arpa'' of
        None \<Rightarrow> False
      | Some prefix \<Rightarrow>
          (let labels = split_on (CHR ''.'') prefix in
           1 \<le> length labels \<and> length labels \<le> 3
           \<and> list_all (\<lambda>l. parse_uint 8 l \<noteq> None) labels))"

text \<open>The body of the loop over the records: the error it returns, if any.\<close>

definition check_record :: "PlannedDnsRecord \<Rightarrow> CommandError option" where
  "check_record r =
     (if rec_id r = [] \<or> 500 < length (rec_id r)
         \<or> \<not> list_all (\<lambda>c. is_ascii_alphanumeric c \<or> c \<in> set '':_-'') (rec_id r)
      then Some (invalid ''records'' ''contains an invalid resource id'')
      else if \<not> valid_dns_name (rec_zone r)
      then Some (invalid ''records'' ''contains an invalid DNS zone'')
      else (case rec_kind r of
          KindA \<Rightarrow>
            if \<not> valid_single_label (rec_name r) \<or> \<not> ipv4_parse_ok (rec_value r)
            then Some (invalid ''records'' ''contains an invalid A record'') else None
        | KindPtr \<Rightarrow>
            if \<not> valid_reverse_zone (rec_zone r) \<or> \<not> ipv4_parse_ok (rec_name r)
               \<or> \<not> valid_dns_name (rec_value r)
            then Some (invalid ''records'' ''contains an invalid PTR record'') else None
        | KindCname \<Rightarrow>
            if \<not> valid_single_label (rec_name r) \<or> \<not> valid_dns_name (rec_value r)
            then Some (invalid ''records'' ''contains an invalid CNAME record'') else None))"

fun check_records :: "PlannedDnsRecord list \<Rightarrow> CommandError option" where
  "check_records [] = None"
| "check_records (r # rs) =
     (case check_record r of Some e \<Rightarrow> Some e | None \<Rightarrow> check_records rs)"

definition parse_planned_records ::
  "(string \<Rightarrow> PlannedDnsRecord list option) \<Rightarrow> 's CommandContext \<Rightarrow>
     CommandError + (string \<times> PlannedDnsRecord list)" where
  "parse_planned_records dec ctx =
     (case required ctx ''records'' of
        Inl e \<Rightarrow> Inl e
      | Inr raw \<Rightarrow>
          if 32 * 1024 < length raw then Inl (invalid ''records'' ''JSON payload is too large'')
          else (case dec raw of
              None \<Rightarrow> Inl (invalid ''records'' ''must be a JSON array of DNS resources'')
            | Some rs \<Rightarrow>
                if rs = [] \<or> MAX_DNS_RESOURCES < length rs
                then Inl (invalid ''records'' ''must contain between 1 and 32 resources'')
                else (case check_records rs of
                    Some e \<Rightarrow> Inl e
                  | None \<Rightarrow> Inr (raw, rs))))"

text \<open>What an accepted record is, by kind.\<close>

definition well_formed_record :: "PlannedDnsRecord \<Rightarrow> bool" where
  "well_formed_record r \<longleftrightarrow>
     rec_id r \<noteq> [] \<and> length (rec_id r) \<le> 500
     \<and> list_all (\<lambda>c. is_ascii_alphanumeric c \<or> c \<in> set '':_-'') (rec_id r)
     \<and> valid_dns_name (rec_zone r)
     \<and> (case rec_kind r of
          KindA \<Rightarrow> valid_single_label (rec_name r) \<and> ipv4_parse_ok (rec_value r)
        | KindPtr \<Rightarrow> valid_reverse_zone (rec_zone r) \<and> ipv4_parse_ok (rec_name r)
                     \<and> valid_dns_name (rec_value r)
        | KindCname \<Rightarrow> valid_single_label (rec_name r) \<and> valid_dns_name (rec_value r))"

lemma check_record_None: "check_record r = None \<Longrightarrow> well_formed_record r"
  by (auto simp: check_record_def well_formed_record_def split: if_splits PlannedDnsKind.splits)

lemma check_records_None: "check_records rs = None \<longleftrightarrow> (\<forall>r \<in> set rs. check_record r = None)"
  by (induction rs) (auto split: option.splits)

text \<open>The loop stops at the first record that is not acceptable.\<close>

lemma check_records_first:
  "check_records rs =
     (case find (\<lambda>r. check_record r \<noteq> None) rs of Some r \<Rightarrow> check_record r | None \<Rightarrow> None)"
  by (induction rs) (auto split: option.splits)

lemma parse_planned_records_Inr:
  "parse_planned_records dec ctx = Inr (raw, rs) \<longleftrightarrow>
     params ctx ''records'' = Some raw \<and> length raw \<le> 32 * 1024 \<and> dec raw = Some rs
     \<and> rs \<noteq> [] \<and> length rs \<le> MAX_DNS_RESOURCES \<and> check_records rs = None"
  by (auto simp: parse_planned_records_def required_def param_def split: option.splits if_splits)

section \<open>dns.set-client\<close>

definition DnsSetClient_execute :: "'s CommandContext \<Rightarrow> ('s, Value) cmd" where
  "DnsSetClient_execute ctx =
     tryE (required ctx ''servers'') (\<lambda>servers0.
     let parsed = split_trimmed (CHR '','') servers0 in
     reject (parsed = [] \<or> list_ex (\<lambda>p. \<not> ipv4_parse_ok p) parsed)
       (invalid ''servers'' ''must be a comma-separated list of dotted-quad IPv4 addresses'') (
     let servers = join '','' parsed in
     let alias = param_or ctx ''interface'' '''' in
     report (OpRunState_running ''configuring DNS client'' 30) (
     bindE (shell_run ctx script_DnsSetClient [servers, alias]) (\<lambda>out.
     tryE (require_success out) (\<lambda>output.
     finish (json_obj [(''servers'', JArray (map JString parsed)),
       (''applied'', JString (trim (stdout output))),
       (''interface'', null_if_empty alias)]))))))"

definition DnsSetClient :: "'s handler" where
  "DnsSetClient = \<lparr>h_name = ''dns.set_client'', h_capability = VmProvision,
     h_execute = DnsSetClient_execute\<rparr>"

section \<open>dns.create-record\<close>

definition DnsCreateRecord_execute :: "'s CommandContext \<Rightarrow> ('s, Value) cmd" where
  "DnsCreateRecord_execute ctx =
     tryE (required ctx ''zone'') (\<lambda>zone.
     reject (\<not> valid_dns_name zone) (invalid ''zone'' ''must be a DNS zone name'') (
     tryE (required ctx ''name'') (\<lambda>name.
     reject (\<not> valid_dns_name name \<or> CHR ''.'' \<in> set name)
       (invalid ''name'' ''must be a single DNS label'') (
     tryE (required ctx ''target'') (\<lambda>target.
     reject (\<not> valid_dns_name target) (invalid ''target'' ''must be a DNS host name'') (
     report (OpRunState_running ''creating DNS record'' 30) (
     bindE (shell_run ctx script_DnsCreateRecord [zone, name, target]) (\<lambda>out.
     tryE (require_success out) (\<lambda>output.
     finish (json_obj [(''zone'', JString zone), (''name'', JString name),
       (''target'', JString target), (''applied'', JString (trim (stdout output)))]))))))))))"

definition DnsCreateRecord :: "'s handler" where
  "DnsCreateRecord = \<lparr>h_name = ''dns.create_record'', h_capability = VmProvision,
     h_execute = DnsCreateRecord_execute\<rparr>"

section \<open>dns.apply-resources\<close>

definition DnsApplyResources_execute ::
  "(string \<Rightarrow> Value option) \<Rightarrow> (string \<Rightarrow> PlannedDnsRecord list option) \<Rightarrow>
     's CommandContext \<Rightarrow> ('s, Value) cmd" where
  "DnsApplyResources_execute from_str dec ctx =
     tryE (parse_planned_records dec ctx) (\<lambda>(records_json, records).
     report (OpRunState_running ''applying DNS resources'' 30) (
     bindE (shell_run ctx script_DnsApplyResources [records_json]) (\<lambda>out.
     tryE (require_success out) (\<lambda>output.
     let readback = parse_json from_str (stdout output) in
     finish (json_obj [(''applied'', json_nat (length records)), (''readback'', readback)])))))"

definition DnsApplyResources ::
  "(string \<Rightarrow> Value option) \<Rightarrow> (string \<Rightarrow> PlannedDnsRecord list option) \<Rightarrow> 's handler" where
  "DnsApplyResources from_str dec = \<lparr>h_name = ''dns.apply_resources'',
     h_capability = VmProvision, h_execute = DnsApplyResources_execute from_str dec\<rparr>"

section \<open>dns.verify\<close>

definition unsafe_http_url :: "string \<Rightarrow> bool" where
  "unsafe_http_url http_url \<longleftrightarrow>
     \<not> (starts_with http_url ''http://'' \<or> starts_with http_url ''https://'')
     \<or> 300 < length http_url
     \<or> list_ex (\<lambda>c. c \<in> set (''\"'' @ squote @ ''`;$ '' @ carriage_return @ newline)) http_url"

definition DnsVerify_execute ::
  "(string \<Rightarrow> Value option) \<Rightarrow> (string \<Rightarrow> PlannedDnsRecord list option) \<Rightarrow>
     's CommandContext \<Rightarrow> ('s, Value) cmd" where
  "DnsVerify_execute from_str dec ctx =
     tryE (parse_planned_records dec ctx) (\<lambda>(records_json, records).
     tryE (required ctx ''server'') (\<lambda>server.
     reject (\<not> ipv4_parse_ok server \<and> \<not> valid_dns_name server)
       (invalid ''server'' ''must be an IPv4 address or DNS name'') (
     let require_ad_srv = param_or ctx ''requireAdSrv'' ''false'' in
     reject (require_ad_srv \<noteq> ''true'' \<and> require_ad_srv \<noteq> ''false'')
       (invalid ''requireAdSrv'' ''must be true or false'') (
     let domain = param_or ctx ''domain'' '''' in
     reject (require_ad_srv = ''true'' \<and> \<not> valid_dns_name domain)
       (invalid ''domain'' ''must be a DNS domain name'') (
     let http_url = param_or ctx ''httpUrl'' '''' in
     reject (http_url \<noteq> [] \<and> unsafe_http_url http_url)
       (invalid ''httpUrl'' ''must be a safe HTTP(S) URL'') (
     report (OpRunState_running ''verifying DNS resources'' 30) (
     bindE (shell_run ctx script_DnsVerify
       [records_json, server, require_ad_srv, domain, http_url]) (\<lambda>out.
     tryE (require_success out) (\<lambda>output.
     let result = parse_json from_str (stdout output) in
     finish result)))))))))"

definition DnsVerify ::
  "(string \<Rightarrow> Value option) \<Rightarrow> (string \<Rightarrow> PlannedDnsRecord list option) \<Rightarrow> 's handler" where
  "DnsVerify from_str dec = \<lparr>h_name = ''dns.verify'', h_capability = VmRead,
     h_execute = DnsVerify_execute from_str dec\<rparr>"

lemmas dns_exec_defs [exec_defs] = DnsSetClient_execute_def DnsCreateRecord_execute_def
  DnsApplyResources_execute_def DnsVerify_execute_def

lemmas dns_handler_defs = DnsSetClient_def DnsCreateRecord_def DnsApplyResources_def DnsVerify_def

section \<open>The handler contract\<close>

interpretation dns_set_client: command_contract DnsSetClient_execute
  by unfold_locales (auto simp: exec_defs intro!: handler_wp handler_program)

interpretation dns_create_record: command_contract DnsCreateRecord_execute
  by unfold_locales (auto simp: exec_defs intro!: handler_wp handler_program)

interpretation dns_apply_resources: command_contract "DnsApplyResources_execute from_str dec"
  by unfold_locales (auto simp: exec_defs intro!: handler_wp handler_program)

interpretation dns_verify: command_contract "DnsVerify_execute from_str dec"
  by unfold_locales (auto simp: exec_defs intro!: handler_wp handler_program)

section \<open>What reaches the shell\<close>

lemma no_dash_join_ipv4:
  assumes "ps \<noteq> []" "\<forall>p \<in> set ps. ipv4_parse_ok p"
  shows "no_dash (join sep ps)"
proof (rule no_dash_join [OF assms(1)], rule ballI)
  fix p assume "p \<in> set ps"
  then have ok: "ipv4_parse_ok p" using assms(2) by blast
  then have "p \<noteq> []" by (auto simp: ipv4_parse_ok_def)
  with ok show "p \<noteq> [] \<and> no_dash p" by (simp add: ipv4_no_dash)
qed

lemma safe_http_url_no_dash: "\<not> unsafe_http_url u \<Longrightarrow> no_dash u"
  unfolding unsafe_http_url_def using no_dash_starts_http by blast

text \<open>The interface alias, the last argument of \<^verbatim>\<open>dns.set_client\<close>, is not validated.\<close>

lemma DnsSetClient_runs:
  "runs_only [(script_DnsSetClient, 2)]
     (\<lambda>args. no_dash (args ! 0)
        \<and> list_all ipv4_parse_ok (split_on (CHR '','') (args ! 0)))
     (DnsSetClient_execute ctx)"
  by (auto simp: runs_only_def exec_defs list_ex_iff list_all_iff split_on_join_trimmed
      intro!: wp_intros no_dash_join_ipv4)

lemma DnsCreateRecord_runs:
  "runs_only [(script_DnsCreateRecord, 3)] (list_all no_dash) (DnsCreateRecord_execute ctx)"
  by (auto simp: runs_only_def exec_defs intro!: wp_intros dest: no_dash_rules)

text \<open>
  The records reach the script as the text that was validated, never re-encoded.
\<close>

lemma DnsApplyResources_runs:
  "runs_only [(script_DnsApplyResources, 1)]
     (\<lambda>args. \<exists>rs. dec (args ! 0) = Some rs \<and> rs \<noteq> [] \<and> length rs \<le> MAX_DNS_RESOURCES
        \<and> list_all well_formed_record rs) (DnsApplyResources_execute from_str dec ctx)"
  by (auto simp: runs_only_def exec_defs parse_planned_records_Inr list_all_iff
      check_records_None intro!: wp_intros check_record_None)

lemma DnsVerify_runs:
  "runs_only [(script_DnsVerify, 5)]
     (\<lambda>args. (\<exists>rs. dec (args ! 0) = Some rs \<and> list_all well_formed_record rs)
        \<and> no_dash (args ! 1) \<and> no_dash (args ! 2) \<and> no_dash (args ! 4))
     (DnsVerify_execute from_str dec ctx)"
  unfolding runs_only_def exec_defs
  by (intro wp_intros)
    (auto simp: parse_planned_records_Inr list_all_iff check_records_None
      intro: check_record_None dest: no_dash_rules safe_http_url_no_dash)

end
