(* ===== verification/CertCommands.thy ===== *)
theory CertCommands
  imports Registry Scripts
begin

text \<open>
  The certificate handlers outside the CA itself: \<^verbatim>\<open>cert_store.rs\<close>,
  \<^verbatim>\<open>cert_enroll.rs\<close>, \<^verbatim>\<open>cert_verify.rs\<close>, \<^verbatim>\<open>pki_verify.rs\<close> and \<^verbatim>\<open>template.rs\<close>.
\<close>

section \<open>cert.addstore and cert.dspublish\<close>

definition STORES :: "string list" where
  "STORES = [''root'', ''ca'']"

definition KINDS :: "string list" where
  "KINDS = [''cert'', ''crl'']"

definition CertAddStore_execute :: "'s CommandContext \<Rightarrow> ('s, Value) cmd" where
  "CertAddStore_execute ctx =
     tryE (required ctx ''store'') (\<lambda>store.
     reject (store \<notin> set STORES) (invalid ''store'' (''must be 'root' or 'ca'' @ squote)) (
     tryE (required ctx ''path'') (\<lambda>path.
     reject (\<not> valid_windows_path path) (invalid ''path'' ''must be an absolute Windows path'') (
     let kind = param_or ctx ''kind'' ''cert'' in
     reject (kind \<notin> set KINDS) (invalid ''kind'' (''must be 'cert' or 'crl'' @ squote)) (
     report (OpRunState_running ''adding to store'' 30) (
     bindE (shell_run ctx script_CertAddStore [store, path, kind]) (\<lambda>out.
     tryE (require_success out) (\<lambda>output.
     let thumbprint = trim (stdout output) in
     finish (json_obj [(''store'', JString store), (''path'', JString path),
       (''kind'', JString kind), (''thumbprint'', null_if_empty thumbprint)])))))))))"

definition CertAddStore :: "'s handler" where
  "CertAddStore = \<lparr>h_name = ''cert.addstore'', h_capability = VmProvision,
     h_execute = CertAddStore_execute\<rparr>"

definition valid_ds_attribute :: "string \<Rightarrow> bool" where
  "valid_ds_attribute v \<longleftrightarrow> 1 \<le> length v \<and> length v \<le> 64
     \<and> list_all (\<lambda>c. is_ascii_alphanumeric c \<or> c = CHR ''-'') v"

definition CertDsPublish_execute :: "'s CommandContext \<Rightarrow> ('s, Value) cmd" where
  "CertDsPublish_execute ctx =
     tryE (required ctx ''path'') (\<lambda>path.
     reject (\<not> valid_windows_path path) (invalid ''path'' ''must be an absolute Windows path'') (
     tryE (required ctx ''attribute'') (\<lambda>attribute.
     reject (\<not> valid_ds_attribute attribute)
       (invalid ''attribute''
          ''must be a dspublish keyword (e.g. 'RootCA') or a CA machine name'') (
     report (OpRunState_running ''publishing to AD'' 30) (
     bindE (shell_run ctx script_CertDsPublish [path, attribute]) (\<lambda>out.
     tryE (require_success out) (\<lambda>output.
     finish (json_obj [(''path'', JString path), (''attribute'', JString attribute),
       (''raw'', JString (stdout output))]))))))))"

definition CertDsPublish :: "'s handler" where
  "CertDsPublish = \<lparr>h_name = ''cert.dspublish'', h_capability = VmProvision,
     h_execute = CertDsPublish_execute\<rparr>"

section \<open>cert.enroll\<close>

definition enroll_valid_template_cn :: "string \<Rightarrow> bool" where
  "enroll_valid_template_cn v \<longleftrightarrow> 1 \<le> length v \<and> length v \<le> 64
     \<and> list_all (\<lambda>c. is_ascii_alphanumeric c \<or> c \<in> set ''._-'') v"

definition CertEnroll_execute ::
  "(string \<Rightarrow> Value option) \<Rightarrow> 's CommandContext \<Rightarrow> ('s, Value) cmd" where
  "CertEnroll_execute from_str ctx =
     tryE (required ctx ''template'') (\<lambda>template.
     reject (\<not> enroll_valid_template_cn template)
       (invalid ''template'' ''must be a template CN of [A-Za-z0-9._-], max 64 chars'') (
     let export_path = param_or ctx ''exportPath'' '''' in
     reject (export_path \<noteq> [] \<and> \<not> valid_windows_path export_path)
       (invalid ''exportPath'' ''must be an absolute Windows path'') (
     let refresh = param_or ctx ''refreshPolicy'' ''false'' in
     reject (refresh \<notin> set [''true'', ''false''])
       (invalid ''refreshPolicy'' (''must be 'true' or 'false'' @ squote)) (
     report (OpRunState_running ''enrolling certificate'' 30) (
     bindE (shell_run ctx script_CertEnroll [template, export_path, refresh]) (\<lambda>out.
     tryE (require_success out) (\<lambda>output.
     let issued = parse_json from_str (stdout output) in
     finish (json_obj [(''template'', JString template),
       (''thumbprint'', json_index issued ''thumbprint''),
       (''subject'', json_index issued ''subject''),
       (''export_path'', null_if_empty export_path)]))))))))"

definition CertEnroll :: "(string \<Rightarrow> Value option) \<Rightarrow> 's handler" where
  "CertEnroll from_str = \<lparr>h_name = ''cert.enroll'', h_capability = VmProvision,
     h_execute = CertEnroll_execute from_str\<rparr>"

section \<open>cert.verify\<close>

definition ML_DSA_87_OID :: string where
  "ML_DSA_87_OID = ''2.16.840.1.101.3.4.3.19''"

definition valid_oid :: "string \<Rightarrow> bool" where
  "valid_oid v \<longleftrightarrow> 2 \<le> length (split_on (CHR ''.'') v)
     \<and> list_all (\<lambda>part. part \<noteq> [] \<and> list_all is_ascii_digit part) (split_on (CHR ''.'') v)"

definition CertVerify_execute ::
  "(string \<Rightarrow> Value option) \<Rightarrow> 's CommandContext \<Rightarrow> ('s, Value) cmd" where
  "CertVerify_execute from_str ctx =
     tryE (required ctx ''path'') (\<lambda>path.
     let root_path = param_or ctx ''rootPath'' '''' in
     let issuing_path = param_or ctx ''issuingPath'' '''' in
     reject_each (\<lambda>v. v \<noteq> [] \<and> \<not> valid_windows_path v) ''must be an absolute Windows path''
       [(''path'', path), (''rootPath'', root_path), (''issuingPath'', issuing_path)] (
     let expected_oid = param_or ctx ''expectedSignatureOid'' ML_DSA_87_OID in
     reject (\<not> valid_oid expected_oid)
       (invalid ''expectedSignatureOid'' ''must be a dotted-decimal object identifier'') (
     report (OpRunState_running ''verifying chain and revocation paths'' 50) (
     bindE (shell_run ctx script_CertVerify [path, root_path, issuing_path, expected_oid]) (\<lambda>out.
     tryE (require_success out) (\<lambda>output.
     let result = parse_json from_str (stdout output) in
     reject (\<not> json_is_object result)
       (ShellError (NonZeroExit 1 ''cert.verify returned invalid JSON'')) (
     finish result)))))))"

definition CertVerify :: "(string \<Rightarrow> Value option) \<Rightarrow> 's handler" where
  "CertVerify from_str = \<lparr>h_name = ''cert.verify'', h_capability = VmRead,
     h_execute = CertVerify_execute from_str\<rparr>"

section \<open>pki.verify\<close>

definition valid_ca_name :: "string \<Rightarrow> bool" where
  "valid_ca_name v \<longleftrightarrow> 1 \<le> length v \<and> length v \<le> 64
     \<and> list_all (\<lambda>c. is_ascii_alphanumeric c \<or> c \<in> set '' ._-'') v"

definition valid_template :: "string \<Rightarrow> bool" where
  "valid_template v \<longleftrightarrow> 1 \<le> length v \<and> length v \<le> 64
     \<and> list_all (\<lambda>c. is_ascii_alphanumeric c \<or> c \<in> set ''._-'') v"

definition valid_http_url :: "string \<Rightarrow> bool" where
  "valid_http_url v \<longleftrightarrow> (starts_with v ''http://'' \<or> starts_with v ''https://'')
     \<and> \<not> list_ex (\<lambda>c. c \<in> set (''\"'' @ squote @ ''`;$ <>'')) v
     \<and> length v \<le> 512"

text \<open>Decoding a JSON array of strings is third-party code: the parameter \<open>dec_strings\<close>.\<close>

definition PkiVerify_execute ::
  "(string \<Rightarrow> Value option) \<Rightarrow> (string \<Rightarrow> string list option) \<Rightarrow>
     's CommandContext \<Rightarrow> ('s, Value) cmd" where
  "PkiVerify_execute from_str dec_strings ctx =
     tryE (required ctx ''rootCaCommonName'') (\<lambda>root_ca.
     tryE (required ctx ''issuingCaCommonName'') (\<lambda>issuing_ca.
     reject (\<not> valid_ca_name root_ca)
       (invalid ''rootCaCommonName'' ''must be a valid CA common name'') (
     reject (\<not> valid_ca_name issuing_ca)
       (invalid ''issuingCaCommonName'' ''must be a valid CA common name'') (
     tryE (required ctx ''templates'') (\<lambda>templates_raw.
     let templates = map trim (split_on (CHR '','') templates_raw) in
     reject (templates = [] \<or> \<not> list_all valid_template templates)
       (invalid ''templates'' ''must be a comma-separated list of template CN names'') (
     tryE (required ctx ''httpUrls'') (\<lambda>urls_raw.
     tryE (case dec_strings urls_raw of Some us \<Rightarrow> Inr us
           | None \<Rightarrow> Inl (invalid ''httpUrls'' ''must be a JSON array of HTTP URLs'')) (\<lambda>urls.
     reject (urls = [] \<or> \<not> list_all valid_http_url urls)
       (invalid ''httpUrls'' ''must contain one or more valid HTTP URLs'') (
     report (OpRunState_running ''verifying enterprise PKI publication'' 50) (
     bindE (shell_run ctx script_PkiVerify
       [root_ca, issuing_ca, join '','' templates, urls_raw]) (\<lambda>out.
     tryE (require_success out) (\<lambda>output.
     let result = parse_json from_str (stdout output) in
     reject (\<not> json_is_object result)
       (ShellError (NonZeroExit 1 ''pki.verify returned invalid JSON'')) (
     finish result)))))))))))))"

definition PkiVerify ::
  "(string \<Rightarrow> Value option) \<Rightarrow> (string \<Rightarrow> string list option) \<Rightarrow> 's handler" where
  "PkiVerify from_str dec_strings = \<lparr>h_name = ''pki.verify'', h_capability = VmRead,
     h_execute = PkiVerify_execute from_str dec_strings\<rparr>"

section \<open>template.grant-access\<close>

definition ENROLL_RIGHT_GUID :: string where
  "ENROLL_RIGHT_GUID = ''0e10c968-78fb-11d2-90d4-00c04f79dc55''"

definition template_valid_template_cn :: "string \<Rightarrow> bool" where
  "template_valid_template_cn v \<longleftrightarrow> 1 \<le> length v \<and> length v \<le> 64
     \<and> list_all (\<lambda>c. is_ascii_alphanumeric c \<or> c \<in> set ''._-'') v"

definition valid_computer_name :: "string \<Rightarrow> bool" where
  "valid_computer_name v \<longleftrightarrow> 1 \<le> length v \<and> length v \<le> 15
     \<and> list_all (\<lambda>c. is_ascii_alphanumeric c \<or> c = CHR ''-'') v"

definition TemplateGrantAccess_execute ::
  "(string \<Rightarrow> Value option) \<Rightarrow> 's CommandContext \<Rightarrow> ('s, Value) cmd" where
  "TemplateGrantAccess_execute from_str ctx =
     tryE (required ctx ''template'') (\<lambda>template.
     reject (\<not> template_valid_template_cn template)
       (invalid ''template'' ''must be a template CN of [A-Za-z0-9._-], max 64 chars'') (
     tryE (required ctx ''computer'') (\<lambda>computer.
     reject (\<not> valid_computer_name computer)
       (invalid ''computer'' ''must be a computer name of [A-Za-z0-9-], max 15 chars'') (
     tryE (required ctx ''username'') (\<lambda>username.
     reject (\<not> valid_username username)
       (invalid ''username''
         (''must be a plain, domain'' @ backslash @ ''user or user@domain account name'')) (
     tryE (required ctx ''password'') (\<lambda>password.
     reject (\<not> valid_secret password)
       (invalid ''password'' (''must be non-empty and not begin with '-'' @ squote)) (
     report (OpRunState_running ''granting template access'' 30) (
     bindE (shell_run ctx script_TemplateGrantAccess
       [template, computer, ENROLL_RIGHT_GUID, username, password]) (\<lambda>out.
     tryE (require_success out) (\<lambda>output.
     let access = parse_json from_str (stdout output) in
     finish (json_obj [(''template'', JString template), (''computer'', JString computer),
       (''access'', access), (''raw'', JString (stdout output))]))))))))))))"

definition TemplateGrantAccess :: "(string \<Rightarrow> Value option) \<Rightarrow> 's handler" where
  "TemplateGrantAccess from_str = \<lparr>h_name = ''template.grant_access'',
     h_capability = VmProvision, h_execute = TemplateGrantAccess_execute from_str\<rparr>"

lemmas cert_exec_defs [exec_defs] = CertAddStore_execute_def CertDsPublish_execute_def
  CertEnroll_execute_def CertVerify_execute_def PkiVerify_execute_def
  TemplateGrantAccess_execute_def

lemmas cert_handler_defs = CertAddStore_def CertDsPublish_def CertEnroll_def CertVerify_def
  PkiVerify_def TemplateGrantAccess_def

section \<open>The handler contract\<close>

interpretation cert_add_store: command_contract CertAddStore_execute
  unfolding command_contract_def exec_defs
  by (intro allI conjI handler_wp handler_program; simp)

interpretation cert_ds_publish: command_contract CertDsPublish_execute
  unfolding command_contract_def exec_defs
  by (intro allI conjI handler_wp handler_program; simp)

interpretation cert_enroll: command_contract "CertEnroll_execute from_str"
  unfolding command_contract_def exec_defs
  by (intro allI conjI handler_wp handler_program; simp)

interpretation cert_verify: command_contract "CertVerify_execute from_str"
  unfolding command_contract_def exec_defs
  by (intro allI conjI handler_wp handler_program; simp)

interpretation pki_verify: command_contract "PkiVerify_execute from_str dec_strings"
  unfolding command_contract_def exec_defs
  by (intro allI conjI handler_wp handler_program; simp)

interpretation template_grant_access: command_contract "TemplateGrantAccess_execute from_str"
  unfolding command_contract_def exec_defs
  by (intro allI conjI handler_wp handler_program; simp)

section \<open>What reaches the shell\<close>

lemma CertAddStore_runs:
  "runs_only [(script_CertAddStore, 3)]
     (\<lambda>args. list_all no_dash args \<and> args ! 0 \<in> set STORES \<and> valid_windows_path (args ! 1))
     (CertAddStore_execute ctx)"
  unfolding runs_only_def exec_defs
  by (intro handler_wp) (auto simp: STORES_def KINDS_def dest: no_dash_rules)

lemma CertDsPublish_runs:
  "runs_only [(script_CertDsPublish, 2)] (\<lambda>args. valid_windows_path (args ! 0))
     (CertDsPublish_execute ctx)"
  unfolding runs_only_def exec_defs by (intro handler_wp) auto

lemma CertEnroll_runs:
  "runs_only [(script_CertEnroll, 3)]
     (\<lambda>args. (args ! 1 = [] \<or> valid_windows_path (args ! 1)) \<and> no_dash (args ! 2))
     (CertEnroll_execute from_str ctx)"
  unfolding runs_only_def exec_defs by (intro handler_wp) auto

lemma valid_oid_no_dash: "valid_oid v \<Longrightarrow> no_dash v"
  by (cases v) (auto simp: valid_oid_def is_ascii_digit_def byte_of_def split: if_splits list.splits)

lemma CertVerify_runs:
  "runs_only [(script_CertVerify, 4)] (list_all no_dash) (CertVerify_execute from_str ctx)"
  unfolding runs_only_def exec_defs
  by (intro handler_wp)
    (auto simp: valid_oid_no_dash dest: valid_windows_path_no_dash)

lemma PkiVerify_runs:
  "runs_only [(script_PkiVerify, 4)]
     (\<lambda>args. \<exists>us. dec_strings (args ! 3) = Some us \<and> us \<noteq> [] \<and> list_all valid_http_url us)
     (PkiVerify_execute from_str dec_strings ctx)"
  unfolding runs_only_def exec_defs
  by (intro handler_wp) (auto split: option.splits)

lemma TemplateGrantAccess_runs:
  "runs_only [(script_TemplateGrantAccess, 5)]
     (\<lambda>args. no_dash (args ! 2) \<and> no_dash (args ! 3) \<and> no_dash (args ! 4))
     (TemplateGrantAccess_execute from_str ctx)"
  unfolding runs_only_def exec_defs
  by (intro handler_wp) (auto simp: ENROLL_RIGHT_GUID_def dest: no_dash_rules)

section \<open>Secrets\<close>

lemma TemplateGrantAccess_hides:
  "hides valid_secret ''password'' (TemplateGrantAccess_execute from_str)"
  by (auto simp: hides_def observed_def answering_def exec_defs wp_simps required_def param_def
      Let_def split: option.splits sum.splits)

end
