(* ===== verification/WebCommands.thy ===== *)
theory WebCommands
  imports Registry Scripts
begin

unbundle bit_operations_syntax

text \<open>
  The web host of the PKI: \<^verbatim>\<open>iis.rs\<close> (the CertEnroll distribution point) and
  \<^verbatim>\<open>ocsp.rs\<close> (the Online Responder), with the signing flags of a revocation
  configuration as the 32-bit word the code composes.
\<close>

section \<open>iis.setup-certenroll\<close>

definition SCOPES :: "string list" where
  "SCOPES = [''share'', ''web'', ''all'']"

definition iis_valid_netbios :: "string \<Rightarrow> bool" where
  "iis_valid_netbios v \<longleftrightarrow> 1 \<le> length v \<and> length v \<le> 15
     \<and> list_all (\<lambda>c. is_ascii_alphanumeric c \<or> c = CHR ''-'') v"

text \<open>The NetBIOS name is only read when the share half is configured.\<close>

definition iis_netbios :: "'s CommandContext \<Rightarrow> string \<Rightarrow> CommandError + string" where
  "iis_netbios ctx scope =
     (if scope = ''web'' then Inr []
      else (case required ctx ''netbiosName'' of
          Inl e \<Rightarrow> Inl e
        | Inr n \<Rightarrow>
            if \<not> iis_valid_netbios n
            then Inl (invalid ''netbiosName'' ''must be 1-15 chars of [A-Za-z0-9-]'')
            else Inr n))"

definition IisSetupCertEnroll_execute :: "'s CommandContext \<Rightarrow> ('s, Value) cmd" where
  "IisSetupCertEnroll_execute ctx =
     (let path = param_or ctx ''path'' (''C:'' @ backslash @ ''CertEnroll'') in
     reject (\<not> valid_windows_path path) (invalid ''path'' ''must be an absolute Windows path'') (
     let scope = param_or ctx ''scope'' ''all'' in
     reject (scope \<notin> set SCOPES)
       (invalid ''scope'' (''must be 'share', 'web' or 'all'' @ squote)) (
     tryE (iis_netbios ctx scope) (\<lambda>netbios.
     report (OpRunState_running ''configuring CertEnroll hosting'' 20) (
     bindE (shell_run ctx script_IisSetupCertEnroll [path, netbios, scope]) (\<lambda>out.
     tryE (require_success out) (\<lambda>_.
     finish (json_obj [(''path'', JString path), (''scope'', JString scope),
       (''share_configured'', JBool (scope \<noteq> ''web'')),
       (''web_configured'', JBool (scope \<noteq> ''share''))]))))))))"

definition IisSetupCertEnroll :: "'s handler" where
  "IisSetupCertEnroll = \<lparr>h_name = ''iis.setup_certenroll'', h_capability = VmProvision,
     h_execute = IisSetupCertEnroll_execute\<rparr>"

section \<open>ocsp.install\<close>

definition OcspInstall_execute :: "'s CommandContext \<Rightarrow> ('s, Value) cmd" where
  "OcspInstall_execute ctx =
     report (OpRunState_running ''installing Online Responder'' 20) (
     bindE (shell_run ctx script_OcspInstall []) (\<lambda>out.
     tryE (require_success out) (\<lambda>output.
     finish (json_obj [(''installed'', JBool True), (''service'', JString (trim (stdout output)))]))))"

definition OcspInstall :: "'s handler" where
  "OcspInstall = \<lparr>h_name = ''ocsp.install'', h_capability = VmProvision,
     h_execute = OcspInstall_execute\<rparr>"

section \<open>ocsp.configure-revocation\<close>

definition OCSP_SF_SILENT :: u32 where "OCSP_SF_SILENT = 0x001"

definition OCSP_SF_ALLOW_SIGNINGCERT_AUTORENEWAL :: u32 where
  "OCSP_SF_ALLOW_SIGNINGCERT_AUTORENEWAL = 0x004"

definition OCSP_SF_FORCE_SIGNINGCERT_ISSUER_ISCA :: u32 where
  "OCSP_SF_FORCE_SIGNINGCERT_ISSUER_ISCA = 0x008"

definition OCSP_SF_AUTODISCOVER_SIGNINGCERT :: u32 where
  "OCSP_SF_AUTODISCOVER_SIGNINGCERT = 0x010"

definition OCSP_SF_RESPONDER_ID_KEYHASH :: u32 where
  "OCSP_SF_RESPONDER_ID_KEYHASH = 0x040"

definition OCSP_SF_ALLOW_SIGNINGCERT_AUTOENROLLMENT :: u32 where
  "OCSP_SF_ALLOW_SIGNINGCERT_AUTOENROLLMENT = 0x200"

definition OCSP_SF_USE_CACERT :: u32 where "OCSP_SF_USE_CACERT = 0x002"

definition OCSP_SF_MANUAL_ASSIGN_SIGNINGCERT :: u32 where
  "OCSP_SF_MANUAL_ASSIGN_SIGNINGCERT = 0x020"

definition OCSP_SIGNING_FLAGS :: u32 where
  "OCSP_SIGNING_FLAGS = OCSP_SF_SILENT
     OR OCSP_SF_ALLOW_SIGNINGCERT_AUTORENEWAL
     OR OCSP_SF_FORCE_SIGNINGCERT_ISSUER_ISCA
     OR OCSP_SF_AUTODISCOVER_SIGNINGCERT
     OR OCSP_SF_RESPONDER_ID_KEYHASH
     OR OCSP_SF_ALLOW_SIGNINGCERT_AUTOENROLLMENT"

lemmas ocsp_flag_defs = OCSP_SIGNING_FLAGS_def OCSP_SF_SILENT_def
  OCSP_SF_ALLOW_SIGNINGCERT_AUTORENEWAL_def OCSP_SF_FORCE_SIGNINGCERT_ISSUER_ISCA_def
  OCSP_SF_AUTODISCOVER_SIGNINGCERT_def OCSP_SF_RESPONDER_ID_KEYHASH_def
  OCSP_SF_ALLOW_SIGNINGCERT_AUTOENROLLMENT_def OCSP_SF_USE_CACERT_def
  OCSP_SF_MANUAL_ASSIGN_SIGNINGCERT_def

definition CRL_PROVIDER_CLSID :: string where
  "CRL_PROVIDER_CLSID = ''{4956d17f-88fd-4198-b287-1e6e65883b19}''"

definition valid_config_name :: "string \<Rightarrow> bool" where
  "valid_config_name v \<longleftrightarrow> 1 \<le> length v \<and> length v \<le> 64
     \<and> list_all (\<lambda>c. is_ascii_alphanumeric c \<or> c \<in> set '' ._-'') v"

definition valid_ca_config :: "string \<Rightarrow> bool" where
  "valid_ca_config v =
     (case split_once (CHR 0x5C) v of
        Some (host, ca_name) \<Rightarrow>
          1 \<le> length host \<and> length host \<le> 253
          \<and> list_all (\<lambda>c. is_ascii_alphanumeric c \<or> c \<in> set ''.-'') host
          \<and> 1 \<le> length ca_name \<and> length ca_name \<le> 64
          \<and> list_all (\<lambda>c. is_ascii_alphanumeric c \<or> c \<in> set '' ._-'') ca_name
      | None \<Rightarrow> False)"

definition valid_url_list :: "string \<Rightarrow> bool" where
  "valid_url_list raw = list_all
     (\<lambda>url. url \<noteq> [] \<and> (starts_with url ''http://'' \<or> starts_with url ''https://'')
        \<and> \<not> list_ex (\<lambda>c. c \<in> set (''\"'' @ squote @ ''`;$ '')) url)
     (map trim (split_on (CHR '','') raw))"

definition responder_template_ok :: "string \<Rightarrow> bool" where
  "responder_template_ok template \<longleftrightarrow> 1 \<le> length template \<and> length template \<le> 64
     \<and> list_all (\<lambda>c. is_ascii_alphanumeric c \<or> c \<in> set ''._-'') template"

definition minutes_ok :: "string \<Rightarrow> bool" where
  "minutes_ok v = (case parse_uint 32 v of Some m \<Rightarrow> 1 \<le> m \<and> m \<le> 1440 | None \<Rightarrow> False)"

definition show_u32 :: "u32 \<Rightarrow> string" where
  "show_u32 w = show_nat (unat w)"

definition OcspConfigureRevocation_execute :: "'s CommandContext \<Rightarrow> ('s, Value) cmd" where
  "OcspConfigureRevocation_execute ctx =
     tryE (required ctx ''name'') (\<lambda>name.
     reject (\<not> valid_config_name name)
       (invalid ''name'' ''must be 1-64 chars of [A-Za-z0-9 ._-]'') (
     tryE (required ctx ''caConfig'') (\<lambda>ca_config.
     reject (\<not> valid_ca_config ca_config)
       (invalid ''caConfig'' (''must be a 'host'' @ backslash @ ''CA Common Name' config string'')) (
     tryE (required ctx ''caCertPath'') (\<lambda>ca_cert_path.
     reject (\<not> valid_windows_path ca_cert_path)
       (invalid ''caCertPath'' ''must be an absolute Windows path'') (
     let template = param_or ctx ''template'' ''OCSPResponseSigning'' in
     reject (\<not> responder_template_ok template)
       (invalid ''template'' ''must be a template CN name'') (
     let refresh_minutes = param_or ctx ''refreshMinutes'' ''15'' in
     reject (\<not> minutes_ok refresh_minutes)
       (invalid ''refreshMinutes'' ''must be an integer in 1-1440'') (
     tryE (required ctx ''baseCrlUrls'') (\<lambda>base_crl_urls.
     reject (\<not> valid_url_list base_crl_urls)
       (invalid ''baseCrlUrls'' ''must be a comma-separated list of http(s) URLs'') (
     let delta_crl_urls = param_or ctx ''deltaCrlUrls'' '''' in
     reject (delta_crl_urls \<noteq> [] \<and> \<not> valid_url_list delta_crl_urls)
       (invalid ''deltaCrlUrls'' ''must be a comma-separated list of http(s) URLs'') (
     report (OpRunState_running ''configuring revocation'' 30) (
     bindE (shell_run ctx script_OcspConfigureRevocation
       [name, ca_config, ca_cert_path, template, refresh_minutes, base_crl_urls,
        delta_crl_urls, show_u32 OCSP_SIGNING_FLAGS, CRL_PROVIDER_CLSID]) (\<lambda>out.
     tryE (require_success out) (\<lambda>_.
     finish (json_obj [(''name'', JString name), (''ca_config'', JString ca_config),
       (''ca_cert_path'', JString ca_cert_path), (''template'', JString template),
       (''refresh_minutes'', JString refresh_minutes),
       (''base_crl_urls'', JString base_crl_urls),
       (''delta_crl_urls'', null_if_empty delta_crl_urls)])))))))))))))))"

definition OcspConfigureRevocation :: "'s handler" where
  "OcspConfigureRevocation = \<lparr>h_name = ''ocsp.configure_revocation'',
     h_capability = VmProvision, h_execute = OcspConfigureRevocation_execute\<rparr>"

section \<open>ocsp.verify\<close>

definition OcspVerify_execute ::
  "(string \<Rightarrow> Value option) \<Rightarrow> 's CommandContext \<Rightarrow> ('s, Value) cmd" where
  "OcspVerify_execute from_str ctx =
     report (OpRunState_running ''verifying responder'' 50) (
     bindE (shell_run ctx script_OcspVerify []) (\<lambda>out.
     tryE (require_success out) (\<lambda>output.
     let probe = parse_json from_str (stdout output) in
     let configured = (case json_as_array (json_index probe ''configurations'') of
           Some c \<Rightarrow> c \<noteq> [] | None \<Rightarrow> False) in
     finish (json_obj [(''configured'', JBool configured),
       (''configurations'', json_index probe ''configurations''),
       (''raw'', JString (stdout output))]))))"

definition OcspVerify :: "(string \<Rightarrow> Value option) \<Rightarrow> 's handler" where
  "OcspVerify from_str = \<lparr>h_name = ''ocsp.verify'', h_capability = VmRead,
     h_execute = OcspVerify_execute from_str\<rparr>"

lemmas web_exec_defs [exec_defs] = IisSetupCertEnroll_execute_def OcspInstall_execute_def
  OcspConfigureRevocation_execute_def OcspVerify_execute_def

lemmas web_handler_defs = IisSetupCertEnroll_def OcspInstall_def OcspConfigureRevocation_def
  OcspVerify_def

section \<open>The handler contract\<close>

interpretation iis_setup: command_contract IisSetupCertEnroll_execute
  unfolding command_contract_def exec_defs
  by (intro allI conjI handler_wp handler_program; simp)

interpretation ocsp_install: command_contract OcspInstall_execute
  unfolding command_contract_def exec_defs
  by (intro allI conjI handler_wp handler_program; simp)

interpretation ocsp_configure: command_contract OcspConfigureRevocation_execute
  unfolding command_contract_def exec_defs
  by (intro allI conjI handler_wp handler_program; simp)

interpretation ocsp_verify: command_contract "OcspVerify_execute from_str"
  unfolding command_contract_def exec_defs
  by (intro allI conjI handler_wp handler_program; simp)

section \<open>What reaches the shell\<close>

lemma iis_netbios_Inr:
  "iis_netbios ctx scope = Inr n \<longleftrightarrow>
     (if scope = ''web'' then n = []
      else params ctx ''netbiosName'' = Some n \<and> iis_valid_netbios n)"
  by (auto simp: iis_netbios_def required_def param_def split: option.splits)

lemma IisSetupCertEnroll_runs:
  "runs_only [(script_IisSetupCertEnroll, 3)]
     (\<lambda>args. valid_windows_path (args ! 0) \<and> args ! 2 \<in> set SCOPES
        \<and> (if args ! 2 = ''web'' then args ! 1 = [] else iis_valid_netbios (args ! 1)))
     (IisSetupCertEnroll_execute ctx)"
  unfolding runs_only_def exec_defs
  by (intro handler_wp) (auto simp: iis_netbios_Inr)

lemma OcspInstall_runs: "runs_only [(script_OcspInstall, 0)] (\<lambda>_. True) (OcspInstall_execute ctx)"
  unfolding runs_only_def exec_defs by (intro handler_wp) auto

lemma OcspConfigureRevocation_runs:
  "runs_only [(script_OcspConfigureRevocation, 9)]
     (\<lambda>args. valid_ca_config (args ! 1) \<and> valid_windows_path (args ! 2)
        \<and> minutes_ok (args ! 4) \<and> valid_url_list (args ! 5)
        \<and> (args ! 6 = [] \<or> valid_url_list (args ! 6))
        \<and> parse_uint 32 (args ! 7) = Some (unat OCSP_SIGNING_FLAGS)
        \<and> args ! 8 = CRL_PROVIDER_CLSID)
     (OcspConfigureRevocation_execute ctx)"
proof -
  have "parse_uint 32 (show_u32 OCSP_SIGNING_FLAGS) = Some (unat OCSP_SIGNING_FLAGS)"
    unfolding show_u32_def by (rule parse_uint_show) (simp add: ocsp_flag_defs)
  then show ?thesis
    unfolding runs_only_def exec_defs by (intro handler_wp) auto
qed

lemma OcspVerify_runs:
  "runs_only [(script_OcspVerify, 0)] (\<lambda>_. True) (OcspVerify_execute from_str ctx)"
  unfolding runs_only_def exec_defs by (intro handler_wp) auto

text \<open>
  A list of URLs is judged with the blanks around each URL removed, but handed on with them:
  the script, which splits at commas only, then gets a URL that begins with a blank.
\<close>

lemma url_list_keeps_blanks:
  assumes "valid_url_list a" and "valid_url_list b"
  shows "valid_url_list (a @ '', '' @ b)
    \<and> (\<exists>u us. split_on (CHR '','') (a @ '', '' @ b) = split_on (CHR '','') a @ (CHR '' '' # u) # us)"
proof -
  obtain u us where b: "split_on (CHR '','') b = u # us"
    by (cases "split_on (CHR '','') b") auto
  have "split_on (CHR '','') (a @ CHR '','' # s) = split_on (CHR '','') a @ split_on (CHR '','') s" for s
    by (induction a) (auto split: list.splits)
  then have s: "split_on (CHR '','') (a @ '', '' @ b)
      = split_on (CHR '','') a @ (CHR '' '' # u) # us"
    using b by simp
  have "trim (CHR '' '' # u) = trim u" by (simp add: trim_def trim_start_space)
  then show ?thesis using assms b unfolding valid_url_list_def s by simp
qed

section \<open>The signing flags\<close>

lemma signing_flags_value: "OCSP_SIGNING_FLAGS = 0x25D"
  by (simp add: ocsp_flag_defs)

lemma signing_flags_sources:
  "filter (\<lambda>flag. OCSP_SIGNING_FLAGS AND flag \<noteq> 0)
     [OCSP_SF_USE_CACERT, OCSP_SF_AUTODISCOVER_SIGNINGCERT, OCSP_SF_MANUAL_ASSIGN_SIGNINGCERT]
   = [OCSP_SF_AUTODISCOVER_SIGNINGCERT]"
  by (simp add: ocsp_flag_defs)

section \<open>The CA configuration string\<close>

text \<open>
  An accepted configuration string is a host and a CA name around the first backslash,
  and there is no other backslash, so the split is the only reading of it.
\<close>

lemma valid_ca_config_split:
  "valid_ca_config v \<Longrightarrow>
     \<exists>host ca. v = host @ backslash @ ca \<and> host \<noteq> [] \<and> ca \<noteq> []
       \<and> CHR 0x5C \<notin> set host \<and> CHR 0x5C \<notin> set ca"
  by (fastforce simp: valid_ca_config_def split_once_Some list_all_iff char_class_defs
      split: option.splits)

end
