(* ===== verification/CaCommands.thy ===== *)
theory CaCommands
  imports Registry Scripts
begin

text \<open>
  \<^verbatim>\<open>ca.rs\<close>: standing up either tier of the certification authority, its settings,
  its publication points, the cross-signing handshake and the health probe. The
  \<^verbatim>\<open>applied\<close> map that the two closures of \<^verbatim>\<open>ca.configure_settings\<close> fill is threaded
  through them.
\<close>

section \<open>Cryptography parameters\<close>

definition CA_TYPES :: "string list" where
  "CA_TYPES = [''Root'', ''Issuing'']"

definition KEY_ALGORITHMS :: "string list" where
  "KEY_ALGORITHMS = [''RSA'', ''ECDSA'', ''ML-DSA-87'']"

definition KEY_LENGTHS :: "string list" where
  "KEY_LENGTHS = [''2048'', ''4096'']"

definition HASH_ALGORITHMS :: "string list" where
  "HASH_ALGORITHMS = [''SHA256'', ''SHA384'', ''SHA512'']"

definition PERIODS :: "string list" where
  "PERIODS = [''Hours'', ''Days'', ''Weeks'', ''Months'', ''Years'']"

definition MLDSA_PROVIDER :: string where
  "MLDSA_PROVIDER = ''ML-DSA:87#Microsoft Software Key Storage Provider''"

definition MLDSA_KEY_LENGTH_BITS :: string where
  "MLDSA_KEY_LENGTH_BITS = ''20736''"

definition cng_provider :: "string \<Rightarrow> string" where
  "cng_provider algorithm =
     (if algorithm = ''ECDSA'' then ''ECDSA_P384#Microsoft Software Key Storage Provider''
      else if algorithm = ''ML-DSA-87'' then MLDSA_PROVIDER
      else ''RSA#Microsoft Software Key Storage Provider'')"

definition valid_common_name :: "string \<Rightarrow> bool" where
  "valid_common_name v \<longleftrightarrow> 1 \<le> length v \<and> length v \<le> 64
     \<and> list_all (\<lambda>c. is_ascii_alphanumeric c \<or> c \<in> set '' ._-'') v"

record CryptoParams =
  algorithm :: string
  provider :: string
  key_length :: "string option"
  hash_algorithm :: "string option"

definition crypto_key_length ::
  "'s CommandContext \<Rightarrow> string \<Rightarrow> CommandError + string option" where
  "crypto_key_length ctx alg =
     (if alg = ''ML-DSA-87'' then Inr (Some MLDSA_KEY_LENGTH_BITS)
      else if alg = ''RSA'' then
        (let kl = param_or ctx ''keyLength'' ''4096'' in
         if kl \<notin> set KEY_LENGTHS
         then Inl (invalid ''keyLength'' (''must be '2048' or '4096'' @ squote))
         else Inr (Some kl))
      else Inr None)"

definition crypto_hash ::
  "'s CommandContext \<Rightarrow> string \<Rightarrow> CommandError + string option" where
  "crypto_hash ctx alg =
     (if alg = ''ML-DSA-87'' then Inr (Some ''NoHash'')
      else
        (let ha = param_or ctx ''hashAlgorithm'' ''SHA256'' in
         if ha \<notin> set HASH_ALGORITHMS
         then Inl (invalid ''hashAlgorithm'' (''must be 'SHA256', 'SHA384' or 'SHA512'' @ squote))
         else Inr (Some ha)))"

definition crypto_params :: "'s CommandContext \<Rightarrow> CommandError + CryptoParams" where
  "crypto_params ctx =
     (let alg = param_or ctx ''keyAlgorithm'' ''RSA'' in
      if alg \<notin> set KEY_ALGORITHMS
      then Inl (invalid ''keyAlgorithm'' (''must be 'RSA', 'ECDSA' or 'ML-DSA-87'' @ squote))
      else (case crypto_key_length ctx alg of
          Inl e \<Rightarrow> Inl e
        | Inr kl \<Rightarrow> (case crypto_hash ctx alg of
              Inl e \<Rightarrow> Inl e
            | Inr ha \<Rightarrow> Inr \<lparr>algorithm = alg, provider = cng_provider alg,
                key_length = kl, hash_algorithm = ha\<rparr>)))"

definition unwrap_or_default :: "string option \<Rightarrow> string" where
  "unwrap_or_default o' = (case o' of Some s \<Rightarrow> s | None \<Rightarrow> [])"

section \<open>ca.install\<close>

definition CaInstall_execute_root ::
  "'s CommandContext \<Rightarrow> string \<Rightarrow> CryptoParams \<Rightarrow> string \<Rightarrow> ('s, Value) cmd" where
  "CaInstall_execute_root ctx common_name crypto validity_years =
     report (OpRunState_running ''installing root CA'' 20) (
     bindE (shell_run ctx script_CaInstall_root
       [common_name, provider crypto, unwrap_or_default (key_length crypto),
        unwrap_or_default (hash_algorithm crypto), validity_years]) (\<lambda>out.
     tryE (require_success out) (\<lambda>_.
     finish (json_obj [(''caType'', JString ''StandaloneRootCA''),
       (''commonName'', JString common_name), (''keyAlgorithm'', JString (algorithm crypto)),
       (''keyLength'', json_opt_str (key_length crypto)),
       (''hashAlgorithm'', json_opt_str (hash_algorithm crypto)),
       (''validityYears'', JString validity_years)]))))"

definition cps_oid_ok :: "string \<Rightarrow> bool" where
  "cps_oid_ok v \<longleftrightarrow> 2 \<le> length (split_on (CHR ''.'') v)
     \<and> list_all (\<lambda>part. part \<noteq> [] \<and> list_all is_ascii_digit part) (split_on (CHR ''.'') v)"

definition CaInstall_execute_issuing ::
  "'s CommandContext \<Rightarrow> string \<Rightarrow> CryptoParams \<Rightarrow> string \<Rightarrow> ('s, Value) cmd" where
  "CaInstall_execute_issuing ctx common_name crypto validity_years =
     (let cps_url = param_or ctx ''cpsUrl'' '''' in
     reject (\<not> (cps_url = [] \<or> starts_with cps_url ''http://'' \<or> starts_with cps_url ''https://''))
       (invalid ''cpsUrl'' ''must be an http(s) URL'') (
     let cps_oid = param_or ctx ''cpsOid'' ''1.2.3.4.1455.67.89.5'' in
     reject (\<not> cps_oid_ok cps_oid) (invalid ''cpsOid'' ''must be a dotted-decimal OID'') (
     let csr_path = param_or ctx ''csrPath''
       (''C:'' @ backslash @ ''Transfer'' @ backslash @ ''IssuingCA.req'') in
     reject (\<not> valid_windows_path csr_path)
       (invalid ''csrPath'' ''must be an absolute Windows path'') (
     tryE (required ctx ''username'') (\<lambda>username.
     reject (\<not> valid_username username)
       (invalid ''username''
         (''must be a plain, domain'' @ backslash @ ''user or user@domain account name'')) (
     tryE (required ctx ''password'') (\<lambda>password.
     reject (\<not> valid_secret password)
       (invalid ''password'' (''must be non-empty and not begin with '-'' @ squote)) (
     report (OpRunState_running ''installing issuing CA'' 20) (
     bindE (shell_run ctx script_CaInstall_issuing
       [common_name, provider crypto, unwrap_or_default (key_length crypto),
        unwrap_or_default (hash_algorithm crypto), validity_years, cps_oid, cps_url,
        csr_path, username, password]) (\<lambda>out.
     tryE (require_success out) (\<lambda>_.
     finish (json_obj [(''caType'', JString ''EnterpriseSubordinateCA''),
       (''commonName'', JString common_name), (''keyAlgorithm'', JString (algorithm crypto)),
       (''keyLength'', json_opt_str (key_length crypto)),
       (''hashAlgorithm'', json_opt_str (hash_algorithm crypto)),
       (''csr_path'', JString csr_path), (''cpsUrl'', null_if_empty cps_url)]))))))))))))"

definition years_ok :: "string \<Rightarrow> bool" where
  "years_ok v = (case parse_uint 32 v of Some y \<Rightarrow> 1 \<le> y \<and> y \<le> 50 | None \<Rightarrow> False)"

definition CaInstall_execute :: "'s CommandContext \<Rightarrow> ('s, Value) cmd" where
  "CaInstall_execute ctx =
     (let ca_type = param_or ctx ''caType'' ''Root'' in
     reject (ca_type \<notin> set CA_TYPES)
       (invalid ''caType'' (''must be 'Root' or 'Issuing'' @ squote)) (
     tryE (required ctx ''commonName'') (\<lambda>common_name.
     reject (\<not> valid_common_name common_name)
       (invalid ''commonName'' ''must be 1-64 chars of [A-Za-z0-9 ._-]'') (
     tryE (crypto_params ctx) (\<lambda>crypto.
     let default_years = (if ca_type = ''Root'' then ''20'' else ''10'') in
     let validity_years = param_or ctx ''validityYears'' default_years in
     reject (\<not> years_ok validity_years)
       (invalid ''validityYears'' ''must be an integer in 1-50'') (
     if ca_type = ''Issuing''
     then CaInstall_execute_issuing ctx common_name crypto validity_years
     else CaInstall_execute_root ctx common_name crypto validity_years))))))"

definition CaInstall :: "'s handler" where
  "CaInstall = \<lparr>h_name = ''ca.install'', h_capability = VmProvision,
     h_execute = CaInstall_execute\<rparr>"

section \<open>ca.configure-settings\<close>

type_synonym applied_map = "(string \<times> Value) list"

definition ds_config_dn_ok :: "string \<Rightarrow> bool" where
  "ds_config_dn_ok dn \<longleftrightarrow> starts_with dn ''CN=Configuration,DC='' \<and> length dn \<le> 200
     \<and> list_all (\<lambda>c. is_ascii_alphanumeric c \<or> c \<in> set ''=,.-'') dn"

definition unit_of ::
  "'s CommandContext \<Rightarrow> string \<Rightarrow> nat \<Rightarrow> applied_map \<Rightarrow> CommandError + (string \<times> applied_map)" where
  "unit_of ctx key mx applied =
     (let value = param_or ctx key '''' in
      if value = [] then Inr (value, applied)
      else (case parse_uint 32 value of
          Some v \<Rightarrow>
            if v \<le> mx then Inr (value, obj_insert key (JString value) applied)
            else Inl (InvalidParam key (''must be an integer in 0-'' @ show_nat mx))
        | None \<Rightarrow> Inl (InvalidParam key (''must be an integer in 0-'' @ show_nat mx))))"

definition period_of ::
  "'s CommandContext \<Rightarrow> string \<Rightarrow> applied_map \<Rightarrow> CommandError + (string \<times> applied_map)" where
  "period_of ctx key applied =
     (let value = param_or ctx key '''' in
      if value = [] then Inr (value, applied)
      else if value \<notin> set PERIODS
      then Inl (InvalidParam key (''must be 'Hours', 'Days', 'Weeks', 'Months' or 'Years'' @ squote))
      else Inr (value, obj_insert key (JString value) applied))"

definition CaConfigureSettings_execute :: "'s CommandContext \<Rightarrow> ('s, Value) cmd" where
  "CaConfigureSettings_execute ctx =
     (let ds_config_dn = param_or ctx ''dsConfigDn'' '''' in
     reject (ds_config_dn \<noteq> [] \<and> \<not> ds_config_dn_ok ds_config_dn)
       (invalid ''dsConfigDn'' ''must be a CN=Configuration,DC=... distinguished name'') (
     let applied = (if ds_config_dn \<noteq> []
       then obj_insert ''dsConfigDn'' (JString ds_config_dn) [] else []) in
     tryE (unit_of ctx ''crlPeriodUnits'' 9999 applied) (\<lambda>(crl_units, applied).
     tryE (unit_of ctx ''crlDeltaPeriodUnits'' 9999 applied) (\<lambda>(delta_units, applied).
     tryE (unit_of ctx ''crlOverlapUnits'' 9999 applied) (\<lambda>(overlap_units, applied).
     tryE (unit_of ctx ''validityPeriodUnits'' 9999 applied) (\<lambda>(validity_units, applied).
     tryE (unit_of ctx ''auditFilter'' 127 applied) (\<lambda>(audit_filter, applied).
     tryE (period_of ctx ''crlPeriod'' applied) (\<lambda>(crl_period, applied).
     tryE (period_of ctx ''crlDeltaPeriod'' applied) (\<lambda>(delta_period, applied).
     tryE (period_of ctx ''crlOverlapPeriod'' applied) (\<lambda>(overlap_period, applied).
     tryE (period_of ctx ''validityPeriod'' applied) (\<lambda>(validity_period, applied).
     reject (applied = []) (MissingParam ''at least one CA setting'') (
     report (OpRunState_running ''applying CA settings'' 30) (
     bindE (shell_run ctx script_CaConfigureSettings
       [ds_config_dn, crl_units, crl_period, delta_units, delta_period, overlap_units,
        overlap_period, validity_units, validity_period, audit_filter]) (\<lambda>out.
     tryE (require_success out) (\<lambda>_.
     finish (json_obj [(''applied'', JObject applied)]))))))))))))))))"

definition CaConfigureSettings :: "'s handler" where
  "CaConfigureSettings = \<lparr>h_name = ''ca.configure_settings'', h_capability = VmProvision,
     h_execute = CaConfigureSettings_execute\<rparr>"

section \<open>ca.configure-cdp-aia\<close>

definition anchored_location :: "string \<Rightarrow> bool" where
  "anchored_location location \<longleftrightarrow>
     starts_with location ''ldap:///'' \<or> starts_with location ''http://''
   \<or> starts_with location ''https://'' \<or> starts_with location ''file://''
   \<or> starts_with location (backslash @ backslash)
   \<or> (3 < length location \<and> location ! 1 = CHR '':'' \<and> location ! 2 = CHR 0x5C
       \<and> is_ascii_alphabetic (hd location))"

definition valid_publication_entry :: "string \<Rightarrow> bool" where
  "valid_publication_entry entry =
     (case split_once (CHR '':'') entry of
        None \<Rightarrow> False
      | Some (flags, location) \<Rightarrow>
          (let flags_ok = (flags \<noteq> [] \<and> list_all is_ascii_digit flags
                 \<and> (case parse_uint 32 flags of Some f \<Rightarrow> f \<le> 1023 | None \<Rightarrow> False)) in
           if \<not> flags_ok \<or> location = [] \<or> 300 < length location then False
           else anchored_location location
             \<and> \<not> list_ex (\<lambda>c. c \<in> set (''\"'' @ squote @ ''`;$'' @ newline @ carriage_return))
                  location))"

fun check_entries :: "(string \<times> string list) list \<Rightarrow> CommandError + unit" where
  "check_entries [] = Inr ()"
| "check_entries ((name, entries) # rest) =
     (case find (\<lambda>e. \<not> valid_publication_entry e) entries of
        Some bad \<Rightarrow> Inl (InvalidParam name
          (''entry '' @ squote @ bad @ squote @ '' is not a flag-prefixed publication URL''))
      | None \<Rightarrow> check_entries rest)"

definition CaConfigureCdpAia_execute :: "'s CommandContext \<Rightarrow> ('s, Value) cmd" where
  "CaConfigureCdpAia_execute ctx =
     (let aia_entries = split_trimmed (CHR 0x0A) (param_or ctx ''aiaUrls'' '''') in
     let cdp_entries = split_trimmed (CHR 0x0A) (param_or ctx ''cdpUrls'' '''') in
     reject (aia_entries = [] \<and> cdp_entries = []) (MissingParam ''aiaUrls or cdpUrls'') (
     tryE (check_entries [(''aiaUrls'', aia_entries), (''cdpUrls'', cdp_entries)]) (\<lambda>_.
     report (OpRunState_running ''configuring CDP/AIA'' 40) (
     let aia_joined = join (backslash @ ''n'') aia_entries in
     let cdp_joined = join (backslash @ ''n'') cdp_entries in
     bindE (shell_run ctx script_CaConfigureCdpAia [aia_joined, cdp_joined]) (\<lambda>out.
     tryE (require_success out) (\<lambda>_.
     finish (json_obj [(''aia_urls'', JArray (map JString aia_entries)),
       (''cdp_urls'', JArray (map JString cdp_entries))])))))))"

definition CaConfigureCdpAia :: "'s handler" where
  "CaConfigureCdpAia = \<lparr>h_name = ''ca.configure_cdp_aia'', h_capability = VmProvision,
     h_execute = CaConfigureCdpAia_execute\<rparr>"

section \<open>ca.publish-crl\<close>

definition CaPublishCrl_execute ::
  "(string \<Rightarrow> Value option) \<Rightarrow> 's CommandContext \<Rightarrow> ('s, Value) cmd" where
  "CaPublishCrl_execute from_str ctx =
     (let cert_enroll_path = param_or ctx ''certEnrollPath''
       (''C:'' @ backslash @ ''Windows'' @ backslash @ ''System32'' @ backslash @ ''CertSrv''
         @ backslash @ ''CertEnroll'') in
     reject (\<not> valid_windows_path cert_enroll_path)
       (invalid ''certEnrollPath'' ''must be an absolute Windows path'') (
     report (OpRunState_running ''publishing CRL'' 50) (
     bindE (shell_run ctx script_CaPublishCrl [cert_enroll_path]) (\<lambda>out.
     tryE (require_success out) (\<lambda>output.
     let observed = parse_json from_str (stdout output) in
     finish (json_obj [(''published'', JBool True),
       (''certificateFileName'', json_index observed ''certificateFileName''),
       (''baseCrlFileName'', json_index observed ''baseCrlFileName''),
       (''deltaCrlFileName'', json_index observed ''deltaCrlFileName''),
       (''certificateContentB64'', json_index observed ''certificateContentB64''),
       (''baseCrlContentB64'', json_index observed ''baseCrlContentB64''),
       (''deltaCrlContentB64'', json_index observed ''deltaCrlContentB64''),
       (''raw'', JString (stdout output))]))))))"

definition CaPublishCrl :: "(string \<Rightarrow> Value option) \<Rightarrow> 's handler" where
  "CaPublishCrl from_str = \<lparr>h_name = ''ca.publish_crl'', h_capability = VmProvision,
     h_execute = CaPublishCrl_execute from_str\<rparr>"

section \<open>ca.sign-request and ca.install-cert\<close>

definition CaSignRequest_execute :: "'s CommandContext \<Rightarrow> ('s, Value) cmd" where
  "CaSignRequest_execute ctx =
     tryE (required ctx ''csrPath'') (\<lambda>csr_path.
     reject (\<not> valid_windows_path csr_path)
       (invalid ''csrPath'' ''must be an absolute Windows path'') (
     tryE (required ctx ''certPath'') (\<lambda>cert_path.
     reject (\<not> valid_windows_path cert_path)
       (invalid ''certPath'' ''must be an absolute Windows path'') (
     report (OpRunState_running ''signing certificate request'' 30) (
     bindE (shell_run ctx script_CaSignRequest [csr_path, cert_path]) (\<lambda>out.
     tryE (require_success out) (\<lambda>output.
     let request_id = trim (stdout output) in
     reject (request_id = [] \<or> \<not> list_all is_ascii_digit request_id)
       (invalid ''csrPath'' ''signing did not yield a numeric RequestId'') (
     finish (json_obj [(''request_id'', JString request_id),
       (''cert_path'', JString cert_path)])))))))))"

definition CaSignRequest :: "'s handler" where
  "CaSignRequest = \<lparr>h_name = ''ca.sign_request'', h_capability = VmProvision,
     h_execute = CaSignRequest_execute\<rparr>"

definition CaInstallCert_execute :: "'s CommandContext \<Rightarrow> ('s, Value) cmd" where
  "CaInstallCert_execute ctx =
     tryE (required ctx ''certPath'') (\<lambda>cert_path.
     reject (\<not> valid_windows_path cert_path)
       (invalid ''certPath'' ''must be an absolute Windows path'') (
     tryE (required ctx ''username'') (\<lambda>username.
     reject (\<not> valid_username username)
       (invalid ''username''
         (''must be a plain, domain'' @ backslash @ ''user or user@domain account name'')) (
     tryE (required ctx ''password'') (\<lambda>password.
     reject (\<not> valid_secret password)
       (invalid ''password'' (''must be non-empty and not begin with '-'' @ squote)) (
     report (OpRunState_running ''installing CA certificate'' 30) (
     bindE (shell_run ctx script_CaInstallCert [cert_path, username, password]) (\<lambda>out.
     tryE (require_success out) (\<lambda>output.
     finish (json_obj [(''cert_path'', JString cert_path),
       (''service'', JString (trim (stdout output)))]))))))))))"

definition CaInstallCert :: "'s handler" where
  "CaInstallCert = \<lparr>h_name = ''ca.install_cert'', h_capability = VmProvision,
     h_execute = CaInstallCert_execute\<rparr>"

section \<open>ca.publish-template and ca.verify\<close>

definition template_names_ok :: "string list \<Rightarrow> bool" where
  "template_names_ok templates \<longleftrightarrow> templates \<noteq> []
     \<and> list_all (\<lambda>t. 1 \<le> length t \<and> length t \<le> 64
          \<and> list_all (\<lambda>c. is_ascii_alphanumeric c \<or> c \<in> set ''._-'') t) templates"

definition CaPublishTemplate_execute :: "'s CommandContext \<Rightarrow> ('s, Value) cmd" where
  "CaPublishTemplate_execute ctx =
     tryE (required ctx ''templates'') (\<lambda>raw.
     let templates = split_trimmed (CHR '','') raw in
     reject (\<not> template_names_ok templates)
       (invalid ''templates'' ''must be a comma-separated list of template CN names'') (
     report (OpRunState_running ''publishing templates'' 30) (
     bindE (shell_run ctx script_CaPublishTemplate [join '','' templates]) (\<lambda>out.
     tryE (require_success out) (\<lambda>output.
     finish (json_obj [(''templates'', JArray (map JString templates)),
       (''on_ca'', JString (trim (stdout output)))]))))))"

definition CaPublishTemplate :: "'s handler" where
  "CaPublishTemplate = \<lparr>h_name = ''ca.publish_template'', h_capability = VmProvision,
     h_execute = CaPublishTemplate_execute\<rparr>"

definition CaVerify_execute ::
  "(string \<Rightarrow> Value option) \<Rightarrow> 's CommandContext \<Rightarrow> ('s, Value) cmd" where
  "CaVerify_execute from_str ctx =
     report (OpRunState_running ''pinging CA'' 50) (
     bindE (shell_run ctx script_CaVerify []) (\<lambda>out.
     tryE (require_success out) (\<lambda>output.
     let probe = parse_json from_str (stdout output) in
     finish (json_obj [(''service'', json_index probe ''service''),
       (''ping_ok'', JBool (json_index probe ''pingOk'' = JBool True)),
       (''raw'', JString (stdout output))]))))"

definition CaVerify :: "(string \<Rightarrow> Value option) \<Rightarrow> 's handler" where
  "CaVerify from_str = \<lparr>h_name = ''ca.verify'', h_capability = VmRead,
     h_execute = CaVerify_execute from_str\<rparr>"

lemmas ca_exec_defs [exec_defs] = CaInstall_execute_def CaInstall_execute_root_def
  CaInstall_execute_issuing_def CaConfigureSettings_execute_def CaConfigureCdpAia_execute_def
  CaPublishCrl_execute_def CaSignRequest_execute_def CaInstallCert_execute_def
  CaPublishTemplate_execute_def CaVerify_execute_def

lemmas ca_handler_defs = CaInstall_def CaConfigureSettings_def CaConfigureCdpAia_def
  CaPublishCrl_def CaSignRequest_def CaInstallCert_def CaPublishTemplate_def CaVerify_def

section \<open>The handler contract\<close>

interpretation ca_install: command_contract CaInstall_execute
  unfolding command_contract_def exec_defs
  by (intro allI conjI handler_wp handler_program; simp)

interpretation ca_configure_settings: command_contract CaConfigureSettings_execute
  unfolding command_contract_def exec_defs
  by (intro allI conjI handler_wp handler_program; simp)

interpretation ca_configure_cdp_aia: command_contract CaConfigureCdpAia_execute
  unfolding command_contract_def exec_defs
  by (intro allI conjI handler_wp handler_program; simp)

interpretation ca_publish_crl: command_contract "CaPublishCrl_execute from_str"
  unfolding command_contract_def exec_defs
  by (intro allI conjI handler_wp handler_program; simp)

interpretation ca_sign_request: command_contract CaSignRequest_execute
  unfolding command_contract_def exec_defs
  by (intro allI conjI handler_wp handler_program; simp)

interpretation ca_install_cert: command_contract CaInstallCert_execute
  unfolding command_contract_def exec_defs
  by (intro allI conjI handler_wp handler_program; simp)

interpretation ca_publish_template: command_contract CaPublishTemplate_execute
  unfolding command_contract_def exec_defs
  by (intro allI conjI handler_wp handler_program; simp)

interpretation ca_verify: command_contract "CaVerify_execute from_str"
  unfolding command_contract_def exec_defs
  by (intro allI conjI handler_wp handler_program; simp)

section \<open>Consistent cryptography\<close>

text \<open>
  What the provider accepts, by algorithm: a fixed length and no hash for ML-DSA-87, a
  chosen length for RSA, no length for ECDSA.
\<close>

definition crypto_consistent :: "CryptoParams \<Rightarrow> bool" where
  "crypto_consistent c \<longleftrightarrow>
     (algorithm c = ''ML-DSA-87'' \<and> provider c = MLDSA_PROVIDER
        \<and> key_length c = Some MLDSA_KEY_LENGTH_BITS \<and> hash_algorithm c = Some ''NoHash'')
   \<or> (algorithm c = ''RSA'' \<and> provider c = ''RSA#Microsoft Software Key Storage Provider''
        \<and> (\<exists>kl \<in> set KEY_LENGTHS. key_length c = Some kl)
        \<and> (\<exists>h \<in> set HASH_ALGORITHMS. hash_algorithm c = Some h))
   \<or> (algorithm c = ''ECDSA'' \<and> provider c = ''ECDSA_P384#Microsoft Software Key Storage Provider''
        \<and> key_length c = None
        \<and> (\<exists>h \<in> set HASH_ALGORITHMS. hash_algorithm c = Some h))"

lemma crypto_key_length_Inr:
  "crypto_key_length ctx alg = Inr kl \<longleftrightarrow>
     (if alg = ''ML-DSA-87'' then kl = Some MLDSA_KEY_LENGTH_BITS
      else if alg = ''RSA''
      then param_or ctx ''keyLength'' ''4096'' \<in> set KEY_LENGTHS
           \<and> kl = Some (param_or ctx ''keyLength'' ''4096'')
      else kl = None)"
  by (auto simp: crypto_key_length_def Let_def)

lemma crypto_hash_Inr:
  "crypto_hash ctx alg = Inr ha \<longleftrightarrow>
     (if alg = ''ML-DSA-87'' then ha = Some ''NoHash''
      else param_or ctx ''hashAlgorithm'' ''SHA256'' \<in> set HASH_ALGORITHMS
           \<and> ha = Some (param_or ctx ''hashAlgorithm'' ''SHA256''))"
  by (auto simp: crypto_hash_def Let_def)

lemma crypto_params_consistent:
  assumes "crypto_params ctx = Inr c"
  shows "crypto_consistent c \<and> algorithm c = param_or ctx ''keyAlgorithm'' ''RSA''"
proof -
  define alg where "alg = param_or ctx ''keyAlgorithm'' ''RSA''"
  from assms obtain kl ha where alg: "alg \<in> set KEY_ALGORITHMS"
    and kl: "crypto_key_length ctx alg = Inr kl" and ha: "crypto_hash ctx alg = Inr ha"
    and c: "c = \<lparr>algorithm = alg, provider = cng_provider alg, key_length = kl,
      hash_algorithm = ha\<rparr>"
    by (auto simp: crypto_params_def alg_def Let_def split: if_splits sum.splits)
  have "alg = ''RSA'' \<or> alg = ''ECDSA'' \<or> alg = ''ML-DSA-87''"
    using alg by (auto simp: KEY_ALGORITHMS_def)
  then have "crypto_consistent c"
    using kl ha
    by (elim disjE) (simp_all add: c crypto_consistent_def crypto_key_length_Inr crypto_hash_Inr
        cng_provider_def)
  then show ?thesis by (simp add: c alg_def)
qed

section \<open>What reaches the shell\<close>

text \<open>Arguments 1 to 3 of both installs are the provider, the key length and the hash.\<close>

definition crypto_args_ok :: "'s CommandContext \<Rightarrow> string list \<Rightarrow> bool" where
  "crypto_args_ok ctx args \<longleftrightarrow>
     (\<exists>c. crypto_consistent c \<and> algorithm c = param_or ctx ''keyAlgorithm'' ''RSA''
        \<and> args ! 1 = provider c
        \<and> args ! 2 = unwrap_or_default (key_length c)
        \<and> args ! 3 = unwrap_or_default (hash_algorithm c))"

lemma crypto_params_args:
  "crypto_params ctx = Inr c \<Longrightarrow>
     crypto_args_ok ctx (n # provider c # unwrap_or_default (key_length c)
       # unwrap_or_default (hash_algorithm c) # rest)"
  using crypto_params_consistent by (fastforce simp: crypto_args_ok_def)

lemma CaInstall_runs:
  "runs_only [(script_CaInstall_root, 5), (script_CaInstall_issuing, 10)]
     (\<lambda>args. crypto_args_ok ctx args \<and> valid_common_name (args ! 0) \<and> years_ok (args ! 4)
        \<and> (length args = 10 \<longrightarrow>
             valid_windows_path (args ! 7) \<and> valid_username (args ! 8) \<and> valid_secret (args ! 9)))
     (CaInstall_execute ctx)"
  unfolding runs_only_def exec_defs
  by (intro handler_wp) (auto simp: crypto_params_args)

lemma unit_of_Inr:
  "unit_of ctx key mx applied = Inr (v, a) \<longleftrightarrow> v = param_or ctx key '''' \<and>
     (if v = [] then a = applied
      else (\<exists>n \<le> mx. parse_uint 32 v = Some n) \<and> a = obj_insert key (JString v) applied)"
  by (auto simp: unit_of_def Let_def split: option.splits if_splits)

lemma period_of_Inr:
  "period_of ctx key applied = Inr (v, a) \<longleftrightarrow> v = param_or ctx key '''' \<and>
     (if v = [] then a = applied
      else v \<in> set PERIODS \<and> a = obj_insert key (JString v) applied)"
  by (auto simp: period_of_def Let_def split: if_splits)

lemma unit_of_no_dash: "unit_of ctx key mx applied = Inr (v, a) \<Longrightarrow> no_dash v"
  by (cases "v = []") (auto simp: unit_of_Inr dest: parse_uint_no_dash)

lemma period_of_no_dash: "period_of ctx key applied = Inr (v, a) \<Longrightarrow> no_dash v"
  by (cases "v = []") (auto simp: period_of_Inr PERIODS_def)

lemma ds_config_dn_no_dash: "ds_config_dn_ok v \<Longrightarrow> no_dash v"
  by (auto simp: ds_config_dn_ok_def starts_with_iff)

lemma CaConfigureSettings_runs:
  "runs_only [(script_CaConfigureSettings, 10)] (list_all no_dash)
     (CaConfigureSettings_execute ctx)"
  unfolding runs_only_def exec_defs
  by (intro handler_wp)
    (auto dest: ds_config_dn_no_dash unit_of_no_dash period_of_no_dash)

lemma valid_publication_entry_no_dash: "valid_publication_entry e \<Longrightarrow> no_dash e \<and> e \<noteq> []"
proof -
  assume "valid_publication_entry e"
  then obtain flags loc where e: "e = flags @ CHR '':'' # loc"
    and f: "flags \<noteq> []" "list_all is_ascii_digit flags"
    by (auto simp: valid_publication_entry_def split_once_Some Let_def
        split: option.splits if_splits)
  then show ?thesis by (cases flags) (auto simp: is_ascii_digit_def byte_of_def)
qed

text \<open>A publication entry is its flags, a colon and an anchored location without quotes.\<close>

lemma publication_entry_parts:
  assumes "split_once (CHR '':'') e = Some (f, l)"
  shows "valid_publication_entry e \<longleftrightarrow>
    (f \<noteq> [] \<and> list_all is_ascii_digit f
       \<and> (case parse_uint 32 f of Some n \<Rightarrow> n \<le> 1023 | None \<Rightarrow> False))
    \<and> l \<noteq> [] \<and> length l \<le> 300 \<and> anchored_location l
    \<and> (\<forall>c \<in> set l. c \<notin> set (''\"'' @ squote @ ''`;$'' @ newline @ carriage_return))"
proof -
  have "(if \<not> ok \<or> empty \<or> long then False else anch \<and> \<not> bad)
      \<longleftrightarrow> ok \<and> \<not> empty \<and> \<not> long \<and> anch \<and> \<not> bad" for ok empty long anch bad
    by auto
  note if_eq = this
  show ?thesis
    unfolding valid_publication_entry_def assms option.case prod.case Let_def list_ex_iff if_eq
      not_less by blast
qed

lemma publication_entry_splits:
  assumes "valid_publication_entry e"
  obtains f l where "split_once (CHR '':'') e = Some (f, l)"
proof (cases "split_once (CHR '':'') e")
  case None
  with assms show ?thesis by (simp add: valid_publication_entry_def)
next
  case (Some fl)
  with that show ?thesis by (cases fl) simp
qed

lemma anchored_append: "anchored_location l \<Longrightarrow> anchored_location (l @ r)"
  by (auto simp: anchored_location_def starts_with_iff nth_append hd_append)

lemma check_entries_Inr:
  "check_entries kes = Inr u \<longleftrightarrow> (\<forall>(n, es) \<in> set kes. list_all valid_publication_entry es)"
proof (induction kes)
  case (Cons ne kes)
  obtain n es where ne: "ne = (n, es)" by (cases ne)
  show ?case
  proof (cases "find (\<lambda>e. \<not> valid_publication_entry e) es")
    case None
    then have "list_all valid_publication_entry es" by (auto simp: find_None_iff list_all_iff)
    with None Cons show ?thesis by (simp add: ne)
  next
    case (Some bad)
    then have "\<not> list_all valid_publication_entry es"
      by (auto simp: find_Some_iff list_all_length)
    with Some show ?thesis by (simp add: ne)
  qed
qed simp

lemma entries_no_dash:
  "list_all valid_publication_entry es \<Longrightarrow> no_dash (join sep es)"
  by (cases "es = []") (auto simp: list_all_iff dest: valid_publication_entry_no_dash
      intro!: no_dash_join)

lemma CaConfigureCdpAia_runs:
  "runs_only [(script_CaConfigureCdpAia, 2)]
     (\<lambda>args. list_all no_dash args
        \<and> (\<forall>a \<in> set args. \<exists>es. list_all valid_publication_entry es
              \<and> a = join (backslash @ ''n'') es))
     (CaConfigureCdpAia_execute ctx)"
  unfolding runs_only_def exec_defs
  by (intro handler_wp) (auto simp: check_entries_Inr entries_no_dash simp del: check_entries.simps)

lemma CaPublishCrl_runs:
  "runs_only [(script_CaPublishCrl, 1)] (\<lambda>args. valid_windows_path (args ! 0))
     (CaPublishCrl_execute from_str ctx)"
  unfolding runs_only_def exec_defs by (intro handler_wp) auto

lemma CaSignRequest_runs:
  "runs_only [(script_CaSignRequest, 2)] (list_all valid_windows_path)
     (CaSignRequest_execute ctx)"
  unfolding runs_only_def exec_defs by (intro handler_wp) auto

lemma CaInstallCert_runs:
  "runs_only [(script_CaInstallCert, 3)] (list_all no_dash) (CaInstallCert_execute ctx)"
  unfolding runs_only_def exec_defs by (intro handler_wp) (auto dest: no_dash_rules)

lemma CaPublishTemplate_runs:
  "runs_only [(script_CaPublishTemplate, 1)]
     (\<lambda>args. template_names_ok (split_on (CHR '','') (args ! 0)))
     (CaPublishTemplate_execute ctx)"
  unfolding runs_only_def exec_defs
  by (intro handler_wp) (auto simp: split_on_join_trimmed template_names_ok_def)

lemma CaVerify_runs:
  "runs_only [(script_CaVerify, 0)] (\<lambda>_. True) (CaVerify_execute from_str ctx)"
  unfolding runs_only_def exec_defs by (intro handler_wp) auto

section \<open>The settings that were applied\<close>

text \<open>
  The \<^verbatim>\<open>applied\<close> map is the parameters of these names that are present and not empty: the
  closures insert exactly those.
\<close>

definition SETTING_KEYS :: "string list" where
  "SETTING_KEYS = [''dsConfigDn'', ''crlPeriodUnits'', ''crlDeltaPeriodUnits'',
     ''crlOverlapUnits'', ''validityPeriodUnits'', ''auditFilter'', ''crlPeriod'',
     ''crlDeltaPeriod'', ''crlOverlapPeriod'', ''validityPeriod'']"

definition add_setting :: "'s CommandContext \<Rightarrow> (string \<rightharpoonup> Value) \<Rightarrow> string \<Rightarrow> (string \<rightharpoonup> Value)" where
  "add_setting ctx m k =
     (if param_or ctx k [] = [] then m else m(k \<mapsto> JString (param_or ctx k [])))"

lemma add_settings:
  "distinct ks \<Longrightarrow> foldl (add_setting ctx) m ks k =
     (if k \<in> set ks \<and> param_or ctx k [] \<noteq> [] then Some (JString (param_or ctx k [])) else m k)"
  by (induction ks arbitrary: m) (auto simp: add_setting_def)

lemma unit_of_map: "unit_of ctx key mx a = Inr (v, a') \<Longrightarrow> map_of a' = add_setting ctx (map_of a) key"
  by (auto simp: unit_of_Inr add_setting_def map_of_obj_insert split: if_splits)

lemma period_of_map: "period_of ctx key a = Inr (v, a') \<Longrightarrow> map_of a' = add_setting ctx (map_of a) key"
  by (auto simp: period_of_Inr add_setting_def map_of_obj_insert split: if_splits)

definition applied_exactly :: "'s CommandContext \<Rightarrow> applied_map \<Rightarrow> bool" where
  "applied_exactly ctx applied \<longleftrightarrow> map_of applied = foldl (add_setting ctx) Map.empty SETTING_KEYS"

lemma applied_chain:
  assumes "unit_of ctx ''crlPeriodUnits'' 9999 a0 = Inr (v1, a1)"
    "unit_of ctx ''crlDeltaPeriodUnits'' 9999 a1 = Inr (v2, a2)"
    "unit_of ctx ''crlOverlapUnits'' 9999 a2 = Inr (v3, a3)"
    "unit_of ctx ''validityPeriodUnits'' 9999 a3 = Inr (v4, a4)"
    "unit_of ctx ''auditFilter'' 127 a4 = Inr (v5, a5)"
    "period_of ctx ''crlPeriod'' a5 = Inr (v6, a6)"
    "period_of ctx ''crlDeltaPeriod'' a6 = Inr (v7, a7)"
    "period_of ctx ''crlOverlapPeriod'' a7 = Inr (v8, a8)"
    "period_of ctx ''validityPeriod'' a8 = Inr (v9, a9)"
    and "map_of a0 = add_setting ctx Map.empty ''dsConfigDn''"
  shows "applied_exactly ctx a9"
  using assms(10)
  by (simp add: applied_exactly_def SETTING_KEYS_def unit_of_map [OF assms(1)]
      unit_of_map [OF assms(2)] unit_of_map [OF assms(3)] unit_of_map [OF assms(4)]
      unit_of_map [OF assms(5)] period_of_map [OF assms(6)] period_of_map [OF assms(7)]
      period_of_map [OF assms(8)] period_of_map [OF assms(9)])

section \<open>Secrets\<close>

lemma CaInstallCert_hides: "hides valid_secret ''password'' CaInstallCert_execute"
  by (auto simp: hides_def observed_def answering_def exec_defs wp_simps required_def param_def
      Let_def split: option.splits sum.splits)

lemma CaInstall_hides: "hides valid_secret ''password'' CaInstall_execute"
proof -
  have kl: "crypto_key_length \<lparr>params = ps(''password'' \<mapsto> x), shell = sh\<rparr>
      = crypto_key_length \<lparr>params = ps, shell = sh\<rparr>" for ps x and sh :: "'a executor"
    by (simp add: fun_eq_iff crypto_key_length_def param_or_def param_def)
  have ha: "crypto_hash \<lparr>params = ps(''password'' \<mapsto> x), shell = sh\<rparr>
      = crypto_hash \<lparr>params = ps, shell = sh\<rparr>" for ps x and sh :: "'a executor"
    by (simp add: fun_eq_iff crypto_hash_def param_or_def param_def)
  have po: "param_or \<lparr>params = ps(''password'' \<mapsto> x), shell = sh\<rparr> k d
      = param_or \<lparr>params = ps, shell = sh\<rparr> k d" if "k \<noteq> ''password''"
    for ps x k d and sh :: "'a executor"
    using that by (simp add: param_or_def param_def)
  have rq: "required \<lparr>params = ps(''password'' \<mapsto> x), shell = sh\<rparr> k
      = (if k = ''password'' then Inr x else required \<lparr>params = ps, shell = sh\<rparr> k)"
    for ps x k and sh :: "'a executor"
    by (simp add: required_def param_def)
  have cp: "crypto_params \<lparr>params = ps(''password'' \<mapsto> x), shell = sh\<rparr>
      = crypto_params \<lparr>params = ps, shell = sh\<rparr>" for ps x and sh :: "'a executor"
    unfolding crypto_params_def kl ha by (simp add: po)
  show ?thesis
    unfolding hides_def observed_obs CaInstall_execute_def CaInstall_execute_issuing_def
      CaInstall_execute_root_def
    by (simp add: po rq cp del: Let_def cong del: if_weak_cong, intro allI impI obs_congs)
      (simp_all add: tryE_def reject_def, intro impI obs_report obs_shell_answering refl)
qed

lemma CaConfigureSettings_applied:
  "wp (CaConfigureSettings_execute ctx) (\<lambda>r t. \<forall>v. r = Inr v \<longrightarrow>
     (\<exists>applied. v = json_obj [(''applied'', JObject applied)] \<and> applied \<noteq> []
        \<and> applied_exactly ctx applied))"
  unfolding CaConfigureSettings_execute_def
  apply (intro handler_wp)
  apply simp_all
  apply (rule exI, rule conjI, rule refl)
  apply (rule conjI, assumption)
  apply (rule applied_chain, assumption+)
  apply (simp add: add_setting_def)
  done

end
