(* ===== verification/CertSecureCommands.thy ===== *)
theory CertSecureCommands
  imports Registry Scripts
begin

text \<open>
  \<^verbatim>\<open>certsecure.rs\<close>: provisioning of the Linux product guest. The entries for
  \<^verbatim>\<open>/etc/hosts\<close> are the one value here that comes from another machine's
  configuration, so what an accepted block can contain is worked out in full.
\<close>

section \<open>Validators\<close>

definition INSTALL_DIR :: string where
  "INSTALL_DIR = ''/opt/certsecure-manager''"

definition HOSTS_BEGIN :: string where
  "HOSTS_BEGIN = ''# BEGIN pki-executor managed entries''"

definition HOSTS_END :: string where
  "HOSTS_END = ''# END pki-executor managed entries''"

definition valid_ipv4 :: "string \<Rightarrow> bool" where
  "valid_ipv4 v =
     (let octets = split_on (CHR ''.'') v in
      length octets = 4
      \<and> list_all (\<lambda>octet. octet \<noteq> [] \<and> length octet \<le> 3 \<and> list_all is_ascii_digit octet
           \<and> (case parse_uint 16 octet of Some n \<Rightarrow> n \<le> 255 | None \<Rightarrow> False)) octets)"

definition valid_https_url :: "string \<Rightarrow> bool" where
  "valid_https_url v \<longleftrightarrow> length v \<le> 200 \<and> starts_with v ''https://''
     \<and> list_all (\<lambda>c. is_ascii_alphanumeric c
          \<or> c \<in> set (''-._~:/?#[]@!$&'' @ squote @ ''()*+,;=%'')) (drop 8 v)"

definition http_ok :: "string \<Rightarrow> bool" where
  "http_ok v = (case parse_uint 16 v of Some code \<Rightarrow> 200 \<le> code \<and> code < 400
                     | None \<Rightarrow> False)"

text \<open>The loop of \<^verbatim>\<open>parse_hosts_entries\<close>: the lines it collects, or its first error.\<close>

fun hosts_lines :: "string list \<Rightarrow> CommandError + string list" where
  "hosts_lines [] = Inr []"
| "hosts_lines (raw_line # rest) =
     (let line = trim raw_line in
      if line = [] then hosts_lines rest
      else
        (let fields = split_whitespace line;
             ip = (case fields of [] \<Rightarrow> [] | f # _ \<Rightarrow> f);
             names = drop 1 fields in
         if \<not> valid_ipv4 ip
         then Inl (invalid ''entries'' ''each line must start with an IPv4 address'')
         else if names = []
         then Inl (invalid ''entries'' ''each line must name at least one host'')
         else if \<not> list_all valid_dns_name names
         then Inl (invalid ''entries'' ''host names must be valid DNS names'')
         else (case hosts_lines rest of
             Inl e \<Rightarrow> Inl e
           | Inr lns \<Rightarrow> Inr ((ip @ '' '' @ join '' '' names) # lns))))"

definition parse_hosts_entries :: "string \<Rightarrow> CommandError + string" where
  "parse_hosts_entries raw =
     (case hosts_lines (lines_of raw) of
        Inl e \<Rightarrow> Inl e
      | Inr lns \<Rightarrow>
          if lns = [] then Inl (invalid ''entries'' ''must contain at least one entry'')
          else Inr (join newline lns))"

section \<open>apt.refresh and certsecure.write-hosts\<close>

definition AptRefresh_execute :: "'s CommandContext \<Rightarrow> ('s, Value) cmd" where
  "AptRefresh_execute ctx =
     report (OpRunState_running ''refreshing package lists'' 30) (
     bindE (shell_run ctx script_AptRefresh []) (\<lambda>out.
     tryE (require_success out) (\<lambda>output.
     finish (json_obj [(''refreshed'', JBool True), (''raw'', JString (trim (stdout output)))]))))"

definition AptRefresh :: "'s handler" where
  "AptRefresh = \<lparr>h_name = ''apt.refresh'', h_capability = VmProvision,
     h_execute = AptRefresh_execute\<rparr>"

definition CertSecureWriteHosts_execute :: "'s CommandContext \<Rightarrow> ('s, Value) cmd" where
  "CertSecureWriteHosts_execute ctx =
     tryE (required ctx ''entries'') (\<lambda>entries.
     tryE (parse_hosts_entries entries) (\<lambda>block.
     report (OpRunState_running ''writing hosts entries'' 50) (
     bindE (shell_run ctx script_CertSecureWriteHosts [HOSTS_BEGIN, HOSTS_END, block]) (\<lambda>out.
     tryE (require_success out) (\<lambda>output.
     finish (json_obj [(''entries'', json_nat (length (lines_of block))),
       (''totalLines'', json_nat (case parse_uint 32 (trim (stdout output)) of
          Some n \<Rightarrow> n | None \<Rightarrow> 0))]))))))"

definition CertSecureWriteHosts :: "'s handler" where
  "CertSecureWriteHosts = \<lparr>h_name = ''certsecure.write_hosts'', h_capability = VmProvision,
     h_execute = CertSecureWriteHosts_execute\<rparr>"

section \<open>certsecure.make-cert\<close>

definition bad_product_path :: "string \<Rightarrow> bool" where
  "bad_product_path path \<longleftrightarrow> \<not> valid_posix_path path \<or> \<not> starts_with path INSTALL_DIR"

definition days_ok :: "string \<Rightarrow> bool" where
  "days_ok v = (case parse_uint 32 v of Some d \<Rightarrow> 1 \<le> d \<and> d \<le> 3650 | None \<Rightarrow> False)"

definition subject_alt_names :: "string list \<Rightarrow> string \<Rightarrow> string list" where
  "subject_alt_names names ip =
     map (\<lambda>name. ''DNS:'' @ name) names @ (if ip \<noteq> [] then [''IP:'' @ ip] else [])"

definition CertSecureMakeCert_execute ::
  "(string \<Rightarrow> Value option) \<Rightarrow> 's CommandContext \<Rightarrow> ('s, Value) cmd" where
  "CertSecureMakeCert_execute from_str ctx =
     tryE (required ctx ''names'') (\<lambda>names_raw.
     let names = split_trimmed (CHR '','') names_raw in
     reject (names = [] \<or> \<not> list_all valid_dns_name names)
       (invalid ''names'' ''must be a comma-separated list of DNS names'') (
     reject (8 < length names)
       (invalid ''names'' ''at most 8 subject alternative names'') (
     let ip = param_or ctx ''ip'' '''' in
     reject (ip \<noteq> [] \<and> \<not> valid_ipv4 ip) (invalid ''ip'' ''must be an IPv4 address'') (
     tryE (required ctx ''certPath'') (\<lambda>cert_path.
     tryE (required ctx ''keyPath'') (\<lambda>key_path.
     reject_each bad_product_path
       ''must be an absolute path under the product install directory''
       [(''certPath'', cert_path), (''keyPath'', key_path)] (
     let days = param_or ctx ''days'' ''825'' in
     reject (\<not> days_ok days) (invalid ''days'' ''must be an integer in 1-3650'') (
     report (OpRunState_running ''generating TLS certificate'' 30) (
     let san = subject_alt_names names ip in
     bindE (shell_run ctx script_CertSecureMakeCert
       [cert_path, key_path, hd names, join '','' san, days]) (\<lambda>out.
     tryE (require_success out) (\<lambda>output.
     let payload = parse_json from_str (stdout output) in
     reject (json_as_str (json_index payload ''contentB64'') = None)
       (ShellError (NonZeroExit 1 ''certsecure.make_cert produced no certificate'')) (
     finish (json_obj [(''certPath'', JString cert_path), (''keyPath'', JString key_path),
       (''subject'', JString (hd names)), (''sans'', JArray (map JString san)),
       (''contentB64'', json_index payload ''contentB64''),
       (''sha256'', json_index payload ''sha256''),
       (''notAfter'', json_index payload ''notAfter'')])))))))))))))"

definition CertSecureMakeCert :: "(string \<Rightarrow> Value option) \<Rightarrow> 's handler" where
  "CertSecureMakeCert from_str = \<lparr>h_name = ''certsecure.make_cert'',
     h_capability = VmProvision, h_execute = CertSecureMakeCert_execute from_str\<rparr>"

section \<open>certsecure.install\<close>

definition realm_ok :: "string \<Rightarrow> bool" where
  "realm_ok realm \<longleftrightarrow> 1 \<le> length realm \<and> length realm \<le> 64
     \<and> list_all (\<lambda>c. is_ascii_alphanumeric c \<or> c \<in> set ''._-'') realm"

definition CertSecureInstall_execute :: "'s CommandContext \<Rightarrow> ('s, Value) cmd" where
  "CertSecureInstall_execute ctx =
     tryE (required ctx ''frontendHost'') (\<lambda>frontend.
     tryE (required ctx ''backendHost'') (\<lambda>backend.
     tryE (required ctx ''keycloakHost'') (\<lambda>keycloak.
     reject_each (\<lambda>v. \<not> valid_dns_name v) ''must be a DNS name''
       [(''frontendHost'', frontend), (''backendHost'', backend), (''keycloakHost'', keycloak)] (
     tryE (required ctx ''keycloakRealm'') (\<lambda>realm.
     reject (\<not> realm_ok realm)
       (invalid ''keycloakRealm'' ''may only contain letters, digits, dot, dash, underscore'') (
     tryE (required ctx ''certPath'') (\<lambda>cert_path.
     tryE (required ctx ''keyPath'') (\<lambda>key_path.
     reject_each bad_product_path
       ''must be an absolute path under the product install directory''
       [(''certPath'', cert_path), (''keyPath'', key_path)] (
     report (OpRunState_running ''installing CertSecure Manager'' 10) (
     bindE (shell_run ctx script_CertSecureInstall
       [INSTALL_DIR, frontend, backend, cert_path, key_path, keycloak, realm]) (\<lambda>out.
     tryE (require_success out) (\<lambda>output.
     finish (json_obj [(''installDir'', JString INSTALL_DIR),
       (''frontendHost'', JString frontend), (''backendHost'', JString backend),
       (''keycloakHost'', JString keycloak), (''keycloakRealm'', JString realm),
       (''frontendUrl'', JString (''https://'' @ frontend @ ''/'')),
       (''raw'', JString (trim (stdout output)))])))))))))))))"

definition CertSecureInstall :: "'s handler" where
  "CertSecureInstall = \<lparr>h_name = ''certsecure.install'', h_capability = VmProvision,
     h_execute = CertSecureInstall_execute\<rparr>"

section \<open>certsecure.verify and certsecure.harden\<close>

definition status_field :: "Value \<Rightarrow> string \<Rightarrow> string" where
  "status_field payload key =
     (case json_as_str (json_index payload key) of Some s \<Rightarrow> s | None \<Rightarrow> ''0'')"

definition CertSecureVerify_execute ::
  "(string \<Rightarrow> Value option) \<Rightarrow> 's CommandContext \<Rightarrow> ('s, Value) cmd" where
  "CertSecureVerify_execute from_str ctx =
     tryE (required ctx ''frontendUrl'') (\<lambda>frontend.
     let keycloak = param_or ctx ''keycloakUrl'' '''' in
     reject_each (\<lambda>v. v \<noteq> [] \<and> \<not> valid_https_url v) ''must be an https:// URL''
       [(''frontendUrl'', frontend), (''keycloakUrl'', keycloak)] (
     report (OpRunState_running ''probing product endpoints'' 50) (
     bindE (shell_run ctx script_CertSecureVerify [frontend, keycloak]) (\<lambda>out.
     tryE (require_success out) (\<lambda>output.
     let payload = parse_json from_str (stdout output);
         frontend_status = status_field payload ''frontendStatus'';
         keycloak_status = status_field payload ''keycloakStatus'' in
     finish (json_obj [(''frontendUrl'', JString frontend),
       (''frontendStatus'', JString frontend_status),
       (''frontendOk'', JBool (http_ok frontend_status)),
       (''keycloakUrl'', JString keycloak),
       (''keycloakStatus'', JString keycloak_status),
       (''keycloakOk'', JBool (keycloak = [] \<or> http_ok keycloak_status))]))))))"

definition CertSecureVerify :: "(string \<Rightarrow> Value option) \<Rightarrow> 's handler" where
  "CertSecureVerify from_str = \<lparr>h_name = ''certsecure.verify'', h_capability = VmRead,
     h_execute = CertSecureVerify_execute from_str\<rparr>"

definition HARDENED :: "(string \<times> string) list" where
  "HARDENED = [(''conf/key.pem'', ''600''), (''conf/keycloak-credentials.txt'', ''600''),
     (''conf/server.yaml'', ''640''), (''conf.ini'', ''640'')]"

definition harden_args :: "string list" where
  "harden_args = INSTALL_DIR # concat (map (\<lambda>(rel, mode). [rel, mode]) HARDENED)"

definition CertSecureHarden_execute :: "'s CommandContext \<Rightarrow> ('s, Value) cmd" where
  "CertSecureHarden_execute ctx =
     report (OpRunState_running ''restricting credential file modes'' 50) (
     bindE (shell_run ctx script_CertSecureHarden harden_args) (\<lambda>out.
     tryE (require_success out) (\<lambda>output.
     let hardened = split_whitespace (stdout output) in
     finish (json_obj [(''hardened'', JArray (map JString hardened))]))))"

definition CertSecureHarden :: "'s handler" where
  "CertSecureHarden = \<lparr>h_name = ''certsecure.harden'', h_capability = VmProvision,
     h_execute = CertSecureHarden_execute\<rparr>"

lemmas certsecure_exec_defs [exec_defs] = AptRefresh_execute_def CertSecureWriteHosts_execute_def
  CertSecureMakeCert_execute_def CertSecureInstall_execute_def CertSecureVerify_execute_def
  CertSecureHarden_execute_def

lemmas certsecure_handler_defs = AptRefresh_def CertSecureWriteHosts_def CertSecureMakeCert_def
  CertSecureInstall_def CertSecureVerify_def CertSecureHarden_def

section \<open>The handler contract\<close>

interpretation apt_refresh: command_contract AptRefresh_execute
  unfolding command_contract_def exec_defs
  by (intro allI conjI handler_wp handler_program; simp)

interpretation certsecure_write_hosts: command_contract CertSecureWriteHosts_execute
  unfolding command_contract_def exec_defs
  by (intro allI conjI handler_wp handler_program; simp)

interpretation certsecure_make_cert: command_contract "CertSecureMakeCert_execute from_str"
  unfolding command_contract_def exec_defs
  by (intro allI conjI handler_wp handler_program; simp)

interpretation certsecure_install: command_contract CertSecureInstall_execute
  unfolding command_contract_def exec_defs
  by (intro allI conjI handler_wp handler_program; simp)

interpretation certsecure_verify: command_contract "CertSecureVerify_execute from_str"
  unfolding command_contract_def exec_defs
  by (intro allI conjI handler_wp handler_program; simp)

interpretation certsecure_harden: command_contract CertSecureHarden_execute
  unfolding command_contract_def exec_defs
  by (intro allI conjI handler_wp handler_program; simp)

section \<open>The managed hosts block\<close>

text \<open>A line of an accepted block: an address, then at least one name, and nothing else.\<close>

definition hosts_line_ok :: "string \<Rightarrow> bool" where
  "hosts_line_ok l \<longleftrightarrow>
     (\<exists>ip names. l = ip @ '' '' @ join '' '' names \<and> valid_ipv4 ip \<and> names \<noteq> []
        \<and> list_all valid_dns_name names)"

lemma hosts_lines_ok: "hosts_lines ls = Inr lns \<Longrightarrow> list_all hosts_line_ok lns"
proof (induction ls arbitrary: lns)
  case (Cons l ls)
  show ?case
  proof (cases "trim l = []")
    case True
    with Cons show ?thesis by simp
  next
    case False
    define ip where "ip = (case split_whitespace (trim l) of [] \<Rightarrow> [] | f # _ \<Rightarrow> f)"
    define names where "names = drop 1 (split_whitespace (trim l))"
    from Cons.prems False obtain lns' where "hosts_lines ls = Inr lns'"
      and lns: "lns = (ip @ '' '' @ join '' '' names) # lns'"
      and ok: "valid_ipv4 ip" "names \<noteq> []" "list_all valid_dns_name names"
      by (auto simp: Let_def ip_def names_def split: if_splits sum.splits)
    then have "list_all hosts_line_ok lns'" using Cons.IH by blast
    moreover have "hosts_line_ok (ip @ '' '' @ join '' '' names)"
      using ok unfolding hosts_line_ok_def by blast
    ultimately show ?thesis by (simp add: lns)
  qed
qed simp

text \<open>
  Nothing is left out, doubled or reordered: the block has one line per line of the input
  that is not blank, its words one space apart.
\<close>

definition hosts_entry :: "string \<Rightarrow> string" where
  "hosts_entry line = join '' '' (split_whitespace (trim line))"

lemma join_Cons: "ns \<noteq> [] \<Longrightarrow> join sep (n # ns) = n @ sep @ join sep ns"
  by (cases ns) simp_all

lemma hosts_lines_entries:
  "hosts_lines ls = Inr lns \<Longrightarrow> lns = map hosts_entry (filter (\<lambda>l. trim l \<noteq> []) ls)"
proof (induction ls arbitrary: lns)
  case (Cons l ls)
  then show ?case
    by (auto simp: hosts_entry_def Let_def join_Cons split: if_splits list.splits sum.splits)
qed simp

lemma valid_ipv4_chars: "valid_ipv4 v \<Longrightarrow> c \<in> set v \<Longrightarrow> is_ascii_digit c \<or> c = CHR ''.''"
proof -
  assume v: "valid_ipv4 v" and c: "c \<in> set v"
  have "c = CHR ''.'' \<or> (\<exists>p \<in> set (split_on (CHR ''.'') v). c \<in> set p)"
    using c by (rule split_on_covers)
  then show ?thesis using v by (auto simp: valid_ipv4_def Let_def list_all_iff)
qed

lemma valid_ipv4_first: "valid_ipv4 v \<Longrightarrow> \<exists>c r. v = c # r \<and> is_ascii_digit c"
proof -
  assume v: "valid_ipv4 v"
  obtain p ps where p: "split_on (CHR ''.'') v = p # ps" by (cases "split_on (CHR ''.'') v") auto
  with v have "p \<noteq> []" "list_all is_ascii_digit p"
    by (auto simp: valid_ipv4_def Let_def)
  moreover have "v = join ''.'' (p # ps)" using join_split_on [of "CHR ''.''" v] p by simp
  ultimately show ?thesis by (cases p; cases ps) auto
qed

lemma valid_dns_name_chars:
  "valid_dns_name n \<Longrightarrow> c \<in> set n \<Longrightarrow> is_ascii_alphanumeric c \<or> c \<in> set ''-.''"
proof -
  assume n: "valid_dns_name n" and c: "c \<in> set n"
  define m where "m = (case strip_suffix n ''.'' of Some n \<Rightarrow> n | None \<Rightarrow> n)"
  have "set n \<subseteq> insert (CHR ''.'') (set m)"
    by (auto simp: m_def strip_suffix_Some split: option.splits)
  moreover from n have "list_all valid_dns_label (split_on (CHR ''.'') m)"
    by (simp add: valid_dns_name_def Let_def m_def)
  then have "is_ascii_alphanumeric d \<or> d \<in> set ''-.''" if "d \<in> set m" for d
    using split_on_covers [OF that, of "CHR ''.''"]
    by (auto simp: list_all_iff valid_dns_label_def)
  ultimately show ?thesis using c by fastforce
qed

lemma hosts_line_chars:
  assumes "hosts_line_ok l" and "c \<in> set l"
  shows "is_ascii_alphanumeric c \<or> c \<in> set ''-. ''"
proof -
  obtain ip names where l: "l = ip @ '' '' @ join '' '' names" and ip: "valid_ipv4 ip"
    and names: "\<forall>n \<in> set names. valid_dns_name n"
    using assms(1) by (auto simp: hosts_line_ok_def list_all_iff)
  from assms(2) consider "c \<in> set ip" | "c = CHR '' ''" | "c \<in> set (join '' '' names)"
    by (auto simp: l)
  then show ?thesis
  proof cases
    case 1
    with ip show ?thesis using valid_ipv4_chars digit_is_alphanumeric by fastforce
  next
    case 3
    then have "c = CHR '' '' \<or> (\<exists>n \<in> set names. c \<in> set n)"
      using set_join_subset [of "'' ''" names] by auto
    with names show ?thesis using valid_dns_name_chars by fastforce
  qed simp
qed

lemma hosts_line_plain:
  assumes "hosts_line_ok l"
  shows "l \<noteq> []" and "CHR 0x0A \<notin> set l" and "CHR 0x0D \<notin> set l"
proof -
  show "l \<noteq> []" using assms by (auto simp: hosts_line_ok_def)
  show "CHR 0x0A \<notin> set l" "CHR 0x0D \<notin> set l"
    using hosts_line_chars [OF assms] by (fastforce simp: char_class_defs)+
qed

text \<open>Reading the accepted block back line by line gives exactly the checked lines.\<close>

lemma parse_hosts_entries_lines:
  assumes "parse_hosts_entries raw = Inr block"
  shows "hosts_lines (lines_of raw) = Inr (lines_of block) \<and> lines_of block \<noteq> []
    \<and> list_all hosts_line_ok (lines_of block)"
proof -
  from assms obtain lns where lns: "hosts_lines (lines_of raw) = Inr lns"
    and ne: "lns \<noteq> []" and block: "block = join newline lns"
    by (auto simp: parse_hosts_entries_def split: sum.splits if_splits)
  have ok: "list_all hosts_line_ok lns" using lns by (rule hosts_lines_ok)
  have "lines_of block = lns"
    unfolding block using ne ok
    by (intro lines_of_join) (auto simp: list_all_iff dest: hosts_line_plain)
  with lns ne ok show ?thesis by simp
qed

lemma hosts_markers_absent:
  "hosts_line_ok l \<Longrightarrow> l \<noteq> HOSTS_BEGIN \<and> l \<noteq> HOSTS_END"
  by (auto simp: hosts_line_ok_def HOSTS_BEGIN_def HOSTS_END_def char_class_defs
      dest!: valid_ipv4_first)

section \<open>What reaches the shell\<close>

lemma AptRefresh_runs: "runs_only [(script_AptRefresh, 0)] (\<lambda>_. True) (AptRefresh_execute ctx)"
  unfolding runs_only_def exec_defs by (intro handler_wp) auto

lemma CertSecureWriteHosts_runs:
  "runs_only [(script_CertSecureWriteHosts, 3)]
     (\<lambda>args. args ! 0 = HOSTS_BEGIN \<and> args ! 1 = HOSTS_END
        \<and> list_all hosts_line_ok (lines_of (args ! 2)))
     (CertSecureWriteHosts_execute ctx)"
  unfolding runs_only_def exec_defs
  by (intro handler_wp) (auto dest: parse_hosts_entries_lines)

lemma CertSecureMakeCert_runs:
  "runs_only [(script_CertSecureMakeCert, 5)]
     (\<lambda>args. \<not> bad_product_path (args ! 0) \<and> \<not> bad_product_path (args ! 1)
        \<and> valid_dns_name (args ! 2) \<and> days_ok (args ! 4))
     (CertSecureMakeCert_execute from_str ctx)"
  unfolding runs_only_def exec_defs
  by (intro handler_wp) (auto simp: list_all_iff)

lemma CertSecureInstall_runs:
  "runs_only [(script_CertSecureInstall, 7)]
     (\<lambda>args. args ! 0 = INSTALL_DIR \<and> list_all valid_dns_name [args ! 1, args ! 2, args ! 5]
        \<and> \<not> bad_product_path (args ! 3) \<and> \<not> bad_product_path (args ! 4) \<and> realm_ok (args ! 6))
     (CertSecureInstall_execute ctx)"
  unfolding runs_only_def exec_defs
  by (intro handler_wp) (auto simp: list_all_iff)

lemma CertSecureVerify_runs:
  "runs_only [(script_CertSecureVerify, 2)] (list_all (\<lambda>u. u = [] \<or> valid_https_url u))
     (CertSecureVerify_execute from_str ctx)"
  unfolding runs_only_def exec_defs by (intro handler_wp) auto

lemma CertSecureHarden_runs:
  "runs_only [(script_CertSecureHarden, 9)] (\<lambda>args. args = harden_args)
     (CertSecureHarden_execute ctx)"
  unfolding runs_only_def exec_defs
  by (intro handler_wp) (auto simp: harden_args_def HARDENED_def)

end
