(* ===== verification/Catalog.thy ===== *)
theory Catalog
  imports HostCommands FileCommands LinuxCommands DirectoryCommands DnsCommands CertCommands
    WebCommands CaCommands CertSecureCommands
begin

text \<open>
  \<^verbatim>\<open>commands/mod.rs\<close>: the default registry, on both platforms, and what is true of
  every command in it: the catalog shared with the backend, the handler protocol and the
  scripts a dispatch can run. \<open>host_env\<close> collects the parameters that stand for code
  outside the repository (the JSON decoders) and for the machine (files, tick counter).
\<close>

record host_env =
  json_from_str :: "string \<Rightarrow> Value option"
  json_strings :: "string \<Rightarrow> string list option"
  json_records :: "string \<Rightarrow> PlannedDnsRecord list option"
  fs_exists :: "string \<Rightarrow> bool"
  boot_probe :: SystemBootInfo_probe
  linux_uptime_ms :: "unit \<Rightarrow> u64"

section \<open>The registry\<close>

text \<open>The unconditional registrations, in the order of the source.\<close>

definition common_handlers :: "host_env \<Rightarrow> 's handler list" where
  "common_handlers env =
     [HostnameRename, HostnameRead, CertVerify (json_from_str env), ExecArbitrary,
      IpRead (json_from_str env), IpWrite, CaInstall, CaConfigureSettings, CaConfigureCdpAia,
      CaPublishCrl (json_from_str env), CaSignRequest, CaInstallCert, CaPublishTemplate,
      CaVerify (json_from_str env), FileRead (json_from_str env), FileWrite,
      DcVerify (json_from_str env), DcInstallForest, DomainVerify (json_from_str env),
      DomainJoin, SystemReboot, SystemBootInfo (fs_exists env) (boot_probe env), DnsSetClient,
      DnsCreateRecord, DnsApplyResources (json_from_str env) (json_records env),
      DnsVerify (json_from_str env) (json_records env), CertAddStore, CertDsPublish,
      TemplateGrantAccess (json_from_str env), IisSetupCertEnroll, OcspInstall,
      OcspConfigureRevocation, OcspVerify (json_from_str env), CertEnroll (json_from_str env),
      PkiVerify (json_from_str env) (json_strings env), SystemIdentity (json_from_str env),
      AptRefresh, CertSecureWriteHosts, CertSecureMakeCert (json_from_str env),
      CertSecureInstall, CertSecureHarden, CertSecureVerify (json_from_str env)]"

text \<open>The layer registered over them on Unix.\<close>

definition unix_handlers :: "host_env \<Rightarrow> 's handler list" where
  "unix_handlers env =
     [LinuxHostnameRead, LinuxSystemIdentity (json_from_str env), LinuxSystemReboot,
      LinuxSystemBootInfo (linux_uptime_ms env), LinuxFileRead (json_from_str env),
      LinuxFileWrite]"

definition build_default_registry :: "bool \<Rightarrow> host_env \<Rightarrow> 's CommandRegistry" where
  "build_default_registry unix env =
     (let registry = foldl register registry_new (common_handlers env) in
      if unix then foldl register registry (unix_handlers env) else registry)"

section \<open>Registering a list of handlers\<close>

lemma well_keyed_foldl: "well_keyed reg \<Longrightarrow> well_keyed (foldl register reg hs)"
  by (induction hs arbitrary: reg) (auto intro: well_keyed_register)

lemma lookup_foldl:
  "map_of (foldl register reg hs) name =
     (case find (\<lambda>h. h_name h = name) (rev hs) of Some h \<Rightarrow> Some h | None \<Rightarrow> map_of reg name)"
proof (induction hs rule: rev_induct)
  case (snoc h hs)
  then show ?case by (simp add: lookup_register)
qed simp

lemma find_SomeD: "find P xs = Some x \<Longrightarrow> x \<in> set xs \<and> P x"
  by (induction xs) (auto split: if_splits)

lemma lookup_foldl_cases:
  "map_of (foldl register reg hs) name = Some h \<Longrightarrow>
     h \<in> set hs \<and> h_name h = name \<or>
     (\<forall>g \<in> set hs. h_name g \<noteq> name) \<and> map_of reg name = Some h"
  by (auto simp: lookup_foldl find_None_iff split: option.splits dest: find_SomeD)

lemma lookup_foldl_member:
  "map_of (foldl register reg hs) name = Some h \<Longrightarrow>
     h \<in> set hs \<and> h_name h = name \<or> map_of reg name = Some h"
  by (induction hs arbitrary: reg) (fastforce simp: lookup_register split: if_splits)+

lemma update_absent: "k \<notin> fst ` set m \<Longrightarrow> AList.update k v m = m @ [(k, v)]"
  by (induction m) auto

lemma keys_foldl_new:
  "distinct (map h_name hs @ map fst reg) \<Longrightarrow>
     foldl register reg hs = reg @ map (\<lambda>h. (h_name h, h)) hs"
proof (induction hs arbitrary: reg)
  case (Cons h hs)
  have "h_name h \<notin> fst ` set reg" using Cons.prems by auto
  then have r: "register reg h = reg @ [(h_name h, h)]"
    by (simp add: register_def update_absent)
  have "foldl register (register reg h) hs = register reg h @ map (\<lambda>h. (h_name h, h)) hs"
    using Cons.prems by (intro Cons.IH) (auto simp: r)
  then show ?case by (simp add: r)
qed simp

text \<open>Overwriting a handler by one with the same capability does not change the surface.\<close>

definition surface :: "'s CommandRegistry \<Rightarrow> (string \<times> Capability) list" where
  "surface reg = map (\<lambda>(k, h). (h_name h, h_capability h)) reg"

lemma surface_overwrite:
  "well_keyed reg \<Longrightarrow> (h_name h, h_capability h) \<in> set (surface reg) \<Longrightarrow>
     surface (register reg h) = surface reg"
proof (induction reg)
  case (Cons kh reg)
  obtain k h' where kh: "kh = (k, h')" by (cases kh)
  have wk: "well_keyed reg" and k: "h_name h' = k" "k \<notin> fst ` set reg"
    and keyed: "\<forall>(k, h) \<in> set reg. h_name h = k"
    using Cons.prems(1) by (auto simp: well_keyed_def kh)
  show ?case
  proof (cases "k = h_name h")
    case True
    have "(h_name h, h_capability h) \<notin> set (surface reg)"
    proof
      assume "(h_name h, h_capability h) \<in> set (surface reg)"
      then obtain k1 h1 where "(k1, h1) \<in> set reg" "h_name h1 = h_name h"
        by (auto simp: surface_def)
      with keyed True have "(k, h1) \<in> set reg" by auto
      then have "k \<in> fst ` set reg" by force
      with k(2) show False ..
    qed
    with Cons.prems(2) k(1) True have "h_capability h = h_capability h'"
      by (simp add: surface_def kh)
    with k(1) True show ?thesis by (simp add: surface_def register_def kh)
  next
    case False
    with Cons.prems(2) k have "(h_name h, h_capability h) \<in> set (surface reg)"
      by (auto simp: surface_def kh)
    with Cons.IH wk have "surface (register reg h) = surface reg" by blast
    with False show ?thesis by (simp add: surface_def register_def kh)
  qed
qed (simp add: surface_def)

lemma surface_foldl_overwrite:
  "well_keyed reg \<Longrightarrow> \<forall>h \<in> set hs. (h_name h, h_capability h) \<in> set (surface reg) \<Longrightarrow>
     surface (foldl register reg hs) = surface reg"
proof (induction hs arbitrary: reg)
  case (Cons h hs)
  then have "surface (register reg h) = surface reg" by (intro surface_overwrite) auto
  with Cons show ?case by (simp add: well_keyed_register)
qed simp

lemma commands_surface: "commands reg = sort_key fst (surface reg)"
  by (simp add: commands_def surface_def)

section \<open>The default registry\<close>

lemmas handler_defs = host_handler_defs file_handler_defs linux_handler_defs
  directory_handler_defs dns_handler_defs cert_handler_defs web_handler_defs ca_handler_defs
  certsecure_handler_defs

lemma well_keyed_default: "well_keyed (build_default_registry unix env)"
  by (simp add: build_default_registry_def Let_def well_keyed_foldl)

lemma default_member:
  "map_of (build_default_registry unix env) name = Some h \<Longrightarrow> h_name h = name \<and>
     (h \<in> set (common_handlers env) \<or> unix \<and> h \<in> set (unix_handlers env))"
  by (auto simp: build_default_registry_def Let_def registry_new_def split: if_splits
      dest!: lookup_foldl_member)

lemma common_names:
  "map (\<lambda>h. (h_name h, h_capability h)) (common_handlers env) =
     [(''hostname.rename'', VmUpdate), (''hostname.read'', VmRead), (''cert.verify'', VmRead),
      (''powershell.exec_arbitrary'', VmExecArbitrary), (''ip.read'', VmRead),
      (''ip.write'', VmUpdate), (''ca.install'', VmProvision),
      (''ca.configure_settings'', VmProvision), (''ca.configure_cdp_aia'', VmProvision),
      (''ca.publish_crl'', VmProvision), (''ca.sign_request'', VmProvision),
      (''ca.install_cert'', VmProvision), (''ca.publish_template'', VmProvision),
      (''ca.verify'', VmRead), (''file.read'', VmProvision), (''file.write'', VmProvision),
      (''dc.verify'', VmRead), (''dc.install_forest'', VmProvision), (''domain.verify'', VmRead),
      (''domain.join'', VmProvision), (''system.reboot'', VmProvision),
      (''system.boot_info'', VmRead), (''dns.set_client'', VmProvision),
      (''dns.create_record'', VmProvision), (''dns.apply_resources'', VmProvision),
      (''dns.verify'', VmRead), (''cert.addstore'', VmProvision),
      (''cert.dspublish'', VmProvision), (''template.grant_access'', VmProvision),
      (''iis.setup_certenroll'', VmProvision), (''ocsp.install'', VmProvision),
      (''ocsp.configure_revocation'', VmProvision), (''ocsp.verify'', VmRead),
      (''cert.enroll'', VmProvision), (''pki.verify'', VmRead), (''system.identity'', VmRead),
      (''apt.refresh'', VmProvision), (''certsecure.write_hosts'', VmProvision),
      (''certsecure.make_cert'', VmProvision), (''certsecure.install'', VmProvision),
      (''certsecure.harden'', VmProvision), (''certsecure.verify'', VmRead)]"
  by (simp add: common_handlers_def handler_defs)

lemma common_distinct: "distinct (map h_name (common_handlers env :: 's handler list))"
proof -
  have "map h_name (common_handlers env :: 's handler list)
      = map fst (map (\<lambda>h. (h_name h, h_capability h)) (common_handlers env :: 's handler list))"
    by (simp add: comp_def)
  then show ?thesis unfolding common_names by simp
qed

lemma surface_default:
  "surface (build_default_registry unix env :: 's CommandRegistry)
     = map (\<lambda>h. (h_name h, h_capability h)) (common_handlers env :: 's handler list)"
proof -
  define reg :: "'s CommandRegistry" where "reg = foldl register registry_new (common_handlers env)"
  have reg: "surface reg
      = map (\<lambda>h. (h_name h, h_capability h)) (common_handlers env :: 's handler list)"
    using keys_foldl_new [of "common_handlers env :: 's handler list" "[]"]
    by (simp add: reg_def registry_new_def surface_def comp_def common_distinct)
  have "well_keyed reg" by (simp add: reg_def well_keyed_foldl)
  moreover have "\<forall>h \<in> set (unix_handlers env). (h_name h, h_capability h) \<in> set (surface reg)"
    unfolding reg common_names by (simp add: unix_handlers_def handler_defs)
  ultimately have "surface (foldl register reg (unix_handlers env)) = surface reg"
    by (rule surface_foldl_overwrite)
  with reg show ?thesis by (simp add: build_default_registry_def Let_def flip: reg_def)
qed

lemma map_of_find: "map_of (map (\<lambda>h. (f h, h)) hs) name = find (\<lambda>h. f h = name) hs"
  by (induction hs) auto

lemma lookup_common:
  "map_of (build_default_registry False env) name = find (\<lambda>h. h_name h = name) (common_handlers env)"
  by (simp add: build_default_registry_def Let_def registry_new_def keys_foldl_new
      common_distinct map_of_find)

lemma lookup_default:
  "map_of (build_default_registry unix env :: 's CommandRegistry) name =
     (case find (\<lambda>h. h_name h = name) (if unix then rev (unix_handlers env) else []) of
        Some h \<Rightarrow> Some h
      | None \<Rightarrow> find (\<lambda>h. h_name h = name) (common_handlers env))"
proof (cases unix)
  case True
  have "(build_default_registry True env :: 's CommandRegistry)
      = foldl register (build_default_registry False env) (unix_handlers env)"
    by (simp add: build_default_registry_def Let_def)
  then show ?thesis by (simp add: True lookup_foldl lookup_common split: option.split)
qed (simp add: lookup_common)

lemma find_distinct:
  "distinct (map f xs) \<Longrightarrow> x \<in> set xs \<Longrightarrow> find (\<lambda>y. f y = f x) xs = Some x"
  by (induction xs) (auto simp: image_iff)

text \<open>A handler the Unix registrations leave alone is found under its name on both platforms.\<close>

lemma lookup_shared:
  assumes "h \<in> set (common_handlers env)"
    and "h_name h \<notin> h_name ` set (unix_handlers env :: 's handler list)"
  shows "map_of (build_default_registry unix env :: 's CommandRegistry) (h_name h) = Some h"
proof -
  have "find (\<lambda>g. h_name g = h_name h) (if unix then rev (unix_handlers env :: 's handler list) else [])
      = None"
    using assms(2) by (auto simp: find_None_iff) (metis image_eqI)
  then show ?thesis
    by (simp add: lookup_default find_distinct [OF common_distinct assms(1)])
qed

section \<open>The shared catalog\<close>

text \<open>
  \<^verbatim>\<open>tests/fixtures/command_catalog.json\<close>, the fixture both repositories assert against:
  each command with the wire value of its capability.
\<close>

definition CATALOG :: "(string \<times> string) list" where
  "CATALOG = [
     (''apt.refresh'', ''vm:provision''),
     (''ca.configure_cdp_aia'', ''vm:provision''),
     (''ca.configure_settings'', ''vm:provision''),
     (''ca.install'', ''vm:provision''),
     (''ca.install_cert'', ''vm:provision''),
     (''ca.publish_crl'', ''vm:provision''),
     (''ca.publish_template'', ''vm:provision''),
     (''ca.sign_request'', ''vm:provision''),
     (''ca.verify'', ''vm:read''),
     (''cert.addstore'', ''vm:provision''),
     (''cert.dspublish'', ''vm:provision''),
     (''cert.enroll'', ''vm:provision''),
     (''cert.verify'', ''vm:read''),
     (''certsecure.harden'', ''vm:provision''),
     (''certsecure.install'', ''vm:provision''),
     (''certsecure.make_cert'', ''vm:provision''),
     (''certsecure.verify'', ''vm:read''),
     (''certsecure.write_hosts'', ''vm:provision''),
     (''dc.install_forest'', ''vm:provision''),
     (''dc.verify'', ''vm:read''),
     (''dns.apply_resources'', ''vm:provision''),
     (''dns.create_record'', ''vm:provision''),
     (''dns.set_client'', ''vm:provision''),
     (''dns.verify'', ''vm:read''),
     (''domain.join'', ''vm:provision''),
     (''domain.verify'', ''vm:read''),
     (''file.read'', ''vm:provision''),
     (''file.write'', ''vm:provision''),
     (''hostname.read'', ''vm:read''),
     (''hostname.rename'', ''vm:update''),
     (''iis.setup_certenroll'', ''vm:provision''),
     (''ip.read'', ''vm:read''),
     (''ip.write'', ''vm:update''),
     (''ocsp.configure_revocation'', ''vm:provision''),
     (''ocsp.install'', ''vm:provision''),
     (''ocsp.verify'', ''vm:read''),
     (''pki.verify'', ''vm:read''),
     (''powershell.exec_arbitrary'', ''vm:exec-arbitrary''),
     (''system.boot_info'', ''vm:read''),
     (''system.identity'', ''vm:read''),
     (''system.reboot'', ''vm:provision''),
     (''template.grant_access'', ''vm:provision'')]"

lemma catalog_sorts:
  "map (\<lambda>(n, c). (n, wire_value c))
     (sort_key fst (map (\<lambda>h. (h_name h, h_capability h)) (common_handlers env))) = CATALOG"
  unfolding common_names by code_simp

lemma catalog_sorted: "sorted (map fst CATALOG)"
  by code_simp

lemma catalog_distinct: "distinct (map fst CATALOG)"
  by (simp add: CATALOG_def)

section \<open>Every command keeps the protocol\<close>

lemmas contract_axioms =
  hostname_rename.command_contract_axioms hostname_read.command_contract_axioms
  exec_arbitrary.command_contract_axioms ip_read.command_contract_axioms
  ip_write.command_contract_axioms system_reboot.command_contract_axioms
  system_boot_info.command_contract_axioms system_identity.command_contract_axioms
  file_read.command_contract_axioms file_write.command_contract_axioms
  linux_file_read.command_contract_axioms linux_file_write.command_contract_axioms
  linux_hostname_read.command_contract_axioms linux_system_identity.command_contract_axioms
  linux_system_reboot.command_contract_axioms linux_system_boot_info.command_contract_axioms
  domain_join.command_contract_axioms domain_verify.command_contract_axioms
  dc_install_forest.command_contract_axioms dc_verify.command_contract_axioms
  dns_set_client.command_contract_axioms dns_create_record.command_contract_axioms
  dns_apply_resources.command_contract_axioms dns_verify.command_contract_axioms
  cert_add_store.command_contract_axioms cert_ds_publish.command_contract_axioms
  cert_enroll.command_contract_axioms cert_verify.command_contract_axioms
  pki_verify.command_contract_axioms template_grant_access.command_contract_axioms
  iis_setup.command_contract_axioms ocsp_install.command_contract_axioms
  ocsp_configure.command_contract_axioms ocsp_verify.command_contract_axioms
  ca_install.command_contract_axioms ca_configure_settings.command_contract_axioms
  ca_configure_cdp_aia.command_contract_axioms ca_publish_crl.command_contract_axioms
  ca_sign_request.command_contract_axioms ca_install_cert.command_contract_axioms
  ca_publish_template.command_contract_axioms ca_verify.command_contract_axioms
  apt_refresh.command_contract_axioms certsecure_write_hosts.command_contract_axioms
  certsecure_make_cert.command_contract_axioms certsecure_install.command_contract_axioms
  certsecure_verify.command_contract_axioms certsecure_harden.command_contract_axioms

lemma common_contracts: "list_all (\<lambda>h. command_contract (h_execute h)) (common_handlers env)"
  by (simp add: common_handlers_def handler_defs contract_axioms)

lemma unix_contracts: "list_all (\<lambda>h. command_contract (h_execute h)) (unix_handlers env)"
  by (simp add: unix_handlers_def handler_defs contract_axioms)

lemma default_contract:
  "map_of (build_default_registry unix env) name = Some h \<Longrightarrow> command_contract (h_execute h)"
  using common_contracts unix_contracts by (auto simp: list_all_iff dest!: default_member)

interpretation default_registry: protocol_registry "build_default_registry unix env"
  by (rule protocol_registry.intro) (rule default_contract)

section \<open>The scripts of a command\<close>

text \<open>
  The scripts each command can run, with the number of arguments they get, in the order
  of the registrations. The one command with no fixed script is
  \<^verbatim>\<open>powershell.exec_arbitrary\<close>: it runs the text of its parameter.
\<close>

definition common_scripts :: "(string \<times> (string \<times> nat) list) list" where
  "common_scripts = [
     (''hostname.rename'', [(script_HostnameRename, 1)]),
     (''hostname.read'', [(script_HostnameRead, 0)]),
     (''cert.verify'', [(script_CertVerify, 4)]),
     (''powershell.exec_arbitrary'', []),
     (''ip.read'', [(script_IpRead, 0)]),
     (''ip.write'', [(script_IpWrite, 4)]),
     (''ca.install'', [(script_CaInstall_root, 5), (script_CaInstall_issuing, 10)]),
     (''ca.configure_settings'', [(script_CaConfigureSettings, 10)]),
     (''ca.configure_cdp_aia'', [(script_CaConfigureCdpAia, 2)]),
     (''ca.publish_crl'', [(script_CaPublishCrl, 1)]),
     (''ca.sign_request'', [(script_CaSignRequest, 2)]),
     (''ca.install_cert'', [(script_CaInstallCert, 3)]),
     (''ca.publish_template'', [(script_CaPublishTemplate, 1)]),
     (''ca.verify'', [(script_CaVerify, 0)]),
     (''file.read'', [(script_FileRead, 2)]),
     (''file.write'', [(script_FileWrite, 2)]),
     (''dc.verify'', [(script_DcVerify, 0)]),
     (''dc.install_forest'', [(script_DcInstallForest, 4)]),
     (''domain.verify'', [(script_DomainVerify, 0)]),
     (''domain.join'', [(script_DomainJoin, 3)]),
     (''system.reboot'', [(script_SystemReboot, 1)]),
     (''system.boot_info'', []),
     (''dns.set_client'', [(script_DnsSetClient, 2)]),
     (''dns.create_record'', [(script_DnsCreateRecord, 3)]),
     (''dns.apply_resources'', [(script_DnsApplyResources, 1)]),
     (''dns.verify'', [(script_DnsVerify, 5)]),
     (''cert.addstore'', [(script_CertAddStore, 3)]),
     (''cert.dspublish'', [(script_CertDsPublish, 2)]),
     (''template.grant_access'', [(script_TemplateGrantAccess, 5)]),
     (''iis.setup_certenroll'', [(script_IisSetupCertEnroll, 3)]),
     (''ocsp.install'', [(script_OcspInstall, 0)]),
     (''ocsp.configure_revocation'', [(script_OcspConfigureRevocation, 9)]),
     (''ocsp.verify'', [(script_OcspVerify, 0)]),
     (''cert.enroll'', [(script_CertEnroll, 3)]),
     (''pki.verify'', [(script_PkiVerify, 4)]),
     (''system.identity'', [(script_SystemIdentity, 0)]),
     (''apt.refresh'', [(script_AptRefresh, 0)]),
     (''certsecure.write_hosts'', [(script_CertSecureWriteHosts, 3)]),
     (''certsecure.make_cert'', [(script_CertSecureMakeCert, 5)]),
     (''certsecure.install'', [(script_CertSecureInstall, 7)]),
     (''certsecure.harden'', [(script_CertSecureHarden, 9)]),
     (''certsecure.verify'', [(script_CertSecureVerify, 2)])]"

definition unix_scripts :: "(string \<times> (string \<times> nat) list) list" where
  "unix_scripts = [
     (''file.read'', [(script_LinuxFileRead, 2)]),
     (''file.write'', [(script_LinuxFileWrite, 2)]),
     (''hostname.read'', [(script_LinuxHostnameRead, 0)]),
     (''system.identity'', [(script_LinuxSystemIdentity, 0)]),
     (''system.reboot'', [(script_LinuxSystemReboot, 1)]),
     (''system.boot_info'', [])]"

lemmas handler_runs =
  HostnameRename_runs HostnameRead_runs IpRead_runs IpWrite_runs SystemReboot_runs
  SystemBootInfo_runs SystemIdentity_runs FileRead_runs FileWrite_runs LinuxFileRead_runs
  LinuxFileWrite_runs LinuxHostnameRead_runs LinuxSystemIdentity_runs LinuxSystemReboot_runs
  LinuxSystemBootInfo_runs DomainJoin_runs DomainVerify_runs DcInstallForest_runs DcVerify_runs
  DnsSetClient_runs DnsCreateRecord_runs DnsApplyResources_runs DnsVerify_runs CertAddStore_runs
  CertDsPublish_runs CertEnroll_runs CertVerify_runs PkiVerify_runs TemplateGrantAccess_runs
  IisSetupCertEnroll_runs OcspInstall_runs OcspConfigureRevocation_runs OcspVerify_runs
  CaInstall_runs CaConfigureSettings_runs CaConfigureCdpAia_runs CaPublishCrl_runs
  CaSignRequest_runs CaInstallCert_runs CaPublishTemplate_runs CaVerify_runs AptRefresh_runs
  CertSecureWriteHosts_runs CertSecureMakeCert_runs CertSecureInstall_runs CertSecureVerify_runs
  CertSecureHarden_runs

lemma runs_only_weaken: "runs_only tab P m \<Longrightarrow> runs_only tab (\<lambda>_. True) m"
  by (erule runs_only_mono) auto

lemmas handler_runs_any = handler_runs [THEN runs_only_weaken]

text \<open>The platform layer first, as the registry has it.\<close>

definition script_table :: "bool \<Rightarrow> string \<Rightarrow> (string \<times> nat) list" where
  "script_table unix name =
     (case map_of (if unix then unix_scripts else []) name of
        Some tab \<Rightarrow> tab
      | None \<Rightarrow> (case map_of common_scripts name of Some tab \<Rightarrow> tab | None \<Rightarrow> []))"

definition handler_fits :: "(string \<times> nat) list \<Rightarrow> 's handler \<Rightarrow> bool" where
  "handler_fits tab h \<longleftrightarrow> (\<forall>ctx. runs_only tab (\<lambda>_. True) (h_execute h ctx))"

lemma unix_fit:
  "list_all (\<lambda>h. handler_fits (script_table True (h_name h)) h) (unix_handlers env)"
  by (simp add: unix_handlers_def handler_defs handler_fits_def script_table_def
      unix_scripts_def handler_runs_any del: One_nat_def)

lemma common_fit_pairs:
  "list_all2 (\<lambda>h (n, tab). h_name h = n \<and> (n = ''powershell.exec_arbitrary'' \<or> handler_fits tab h))
     (common_handlers env) common_scripts"
  by (simp add: common_handlers_def common_scripts_def handler_defs handler_fits_def
      handler_runs_any del: One_nat_def)

lemma map_of_list_all2:
  assumes "list_all2 (\<lambda>h (n, tab). f h = n \<and> Q n h tab) hs tabs" and "distinct (map f hs)"
    and "h \<in> set hs"
  shows "\<exists>tab. map_of tabs (f h) = Some tab \<and> Q (f h) h tab"
  using assms
proof (induction hs tabs rule: list_all2_induct)
  case (Cons x hs y tabs)
  obtain n tab where y: "y = (n, tab)" by (cases y)
  show ?case
  proof (cases "h = x")
    case True
    with Cons y show ?thesis by auto
  next
    case False
    with Cons.prems have h: "h \<in> set hs" by auto
    then have "f h \<in> f ` set hs" by (rule imageI)
    with Cons.prems have "f h \<noteq> f x" by auto
    with Cons h y show ?thesis by auto
  qed
qed simp

lemma common_fit:
  assumes "h \<in> set (common_handlers env)" and "h_name h \<noteq> ''powershell.exec_arbitrary''"
  shows "handler_fits (script_table False (h_name h)) h"
  using map_of_list_all2 [OF common_fit_pairs common_distinct assms(1)] assms(2)
  by (auto simp: script_table_def)

text \<open>
  On Unix a handler of the common list is only found when the layer has no handler of its
  name, and then the table falls back to the common one too.
\<close>

lemma unix_lookup:
  assumes "map_of (build_default_registry True env :: 's CommandRegistry) name = Some h"
  shows "h_name h = name \<and> (h \<in> set (unix_handlers env) \<or> h \<in> set (common_handlers env) \<and>
    (\<forall>g \<in> set (unix_handlers env :: 's handler list). h_name g \<noteq> name))"
proof -
  from assms have "map_of (foldl register (foldl register registry_new (common_handlers env))
      (unix_handlers env)) name = Some h"
    by (simp add: build_default_registry_def Let_def)
  from lookup_foldl_cases [OF this] show ?thesis
    by (auto simp: registry_new_def dest: lookup_foldl_member)
qed

lemma unix_script_names:
  "map fst unix_scripts = map h_name
     [unix_handlers env ! 4, unix_handlers env ! 5, unix_handlers env ! 0,
      unix_handlers env ! 1, unix_handlers env ! 2, unix_handlers env ! 3]"
  by (simp add: unix_scripts_def unix_handlers_def handler_defs)

lemma default_fit:
  assumes "map_of (build_default_registry unix env) name = Some h"
    and "name \<noteq> ''powershell.exec_arbitrary''"
  shows "handler_fits (script_table unix name) h"
proof (cases unix)
  case False
  with assms(1) have "h \<in> set (common_handlers env)" "h_name h = name"
    by (auto dest: default_member)
  with False assms(2) show ?thesis using common_fit by auto
next
  case True
  from assms(1) have "map_of (build_default_registry True env) name = Some h" by (simp add: True)
  note look = unix_lookup [OF this]
  show ?thesis
  proof (cases "h \<in> set (unix_handlers env)")
    case h: True
    with look True show ?thesis using unix_fit [of env] by (auto simp: list_all_iff)
  next
    case h: False
    with look have "map_of unix_scripts name = None"
      by (auto simp: unix_scripts_def unix_handlers_def handler_defs)
    then have "script_table unix name = script_table False name"
      by (simp add: script_table_def True)
    with look h assms(2) show ?thesis using common_fit by auto
  qed
qed

text \<open>Whatever is dispatched, the scripts that run are the table's, with its arities.\<close>

lemma dispatch_scripts:
  assumes d: "dispatch (build_default_registry unix env :: 's CommandRegistry) name role ps sh s
      = (r, t, s')"
    and n: "name \<noteq> ''powershell.exec_arbitrary''"
    and run: "(sc, args) \<in> set (shell_runs t)"
  shows "(sc, length args) \<in> set (script_table unix name)"
proof -
  from run have "t \<noteq> []" by auto
  from dispatch_event_gate [OF d disjI1 [OF this]] obtain h
    where h: "map_of (build_default_registry unix env :: 's CommandRegistry) name = Some h"
      and c: "role_has role (h_capability h)" by blast
  obtain r' s1 where e: "h_execute h \<lparr>params = ps, shell = sh\<rparr> s = (r', t, s1)"
    using d by (auto simp: dispatch_allowed [OF h c] split: prod.splits sum.splits)
  have "runs_only (script_table unix name) (\<lambda>_. True) (h_execute h \<lparr>params = ps, shell = sh\<rparr>)"
    using default_fit [OF h n] by (simp add: handler_fits_def)
  from wp_run [OF this [unfolded runs_only_def] e] run show ?thesis by auto
qed

section \<open>Reachability by role\<close>

lemma default_capability:
  "(\<exists>h. map_of (build_default_registry unix env :: 's CommandRegistry) name = Some h
      \<and> h_capability h = c) \<longleftrightarrow>
   (name, c) \<in> set (surface (build_default_registry unix env :: 's CommandRegistry))"
  using commands_member [OF well_keyed_default, of name c unix env, where 'a = 's]
  by (simp only: commands_surface set_sort)

lemma default_in_catalog:
  assumes "map_of (build_default_registry unix env :: 's CommandRegistry) name = Some h"
  shows "(name, wire_value (h_capability h)) \<in> set CATALOG"
proof -
  have "(name, h_capability h) \<in> set (surface (build_default_registry unix env :: 's CommandRegistry))"
    using assms default_capability by blast
  then show ?thesis
    unfolding surface_default catalog_sorts [where 'a = 's and env = env, symmetric] by force
qed

lemma catalog_in_default:
  assumes "(name, w) \<in> set CATALOG"
  obtains h where "map_of (build_default_registry unix env :: 's CommandRegistry) name = Some h"
    and "wire_value (h_capability h) = w"
proof -
  have "\<exists>c. (name, c) \<in> set (surface (build_default_registry unix env :: 's CommandRegistry))
      \<and> wire_value c = w"
    using assms
    unfolding surface_default catalog_sorts [where 'a = 's and env = env, symmetric] by force
  then obtain c
    where "(name, c) \<in> set (surface (build_default_registry unix env :: 's CommandRegistry))"
      and w: "wire_value c = w" by blast
  from default_capability [THEN iffD2, OF this(1)] w that show ?thesis by blast
qed

text \<open>The commands a guest cannot reach.\<close>

definition OPERATOR_ONLY :: "string list" where
  "OPERATOR_ONLY = [''hostname.rename'', ''ip.write'', ''powershell.exec_arbitrary'']"

lemma guest_blocked_surface:
  "list_all (\<lambda>(n, c). role_has Guest c = (n \<notin> set OPERATOR_ONLY))
     (surface (build_default_registry unix env))"
  unfolding surface_default common_names by (simp add: guest_has_iff OPERATOR_ONLY_def)

lemma guest_blocked:
  assumes "map_of (build_default_registry unix env :: 's CommandRegistry) name = Some h"
  shows "role_has Guest (h_capability h) \<longleftrightarrow> name \<notin> set OPERATOR_ONLY"
proof -
  have "(name, h_capability h) \<in> set (surface (build_default_registry unix env :: 's CommandRegistry))"
    using assms default_capability by blast
  then show ?thesis
    using guest_blocked_surface [of unix env, where 'a = 's] by (fastforce simp: list_all_iff)
qed

section \<open>Secrets\<close>

text \<open>The commands that take a password, with the name of the parameter.\<close>

definition SECRET_PARAMETERS :: "(string \<times> string) list" where
  "SECRET_PARAMETERS = [(''domain.join'', ''password''),
     (''dc.install_forest'', ''safeModePassword''), (''ca.install'', ''password''),
     (''ca.install_cert'', ''password''), (''template.grant_access'', ''password'')]"

lemma passwords_hidden:
  "hides valid_secret ''password'' DomainJoin_execute
   \<and> hides valid_secret ''safeModePassword'' DcInstallForest_execute
   \<and> hides valid_secret ''password'' CaInstall_execute
   \<and> hides valid_secret ''password'' CaInstallCert_execute
   \<and> hides valid_secret ''password'' (TemplateGrantAccess_execute from_str)"
  by (intro conjI DomainJoin_hides DcInstallForest_hides CaInstall_hides CaInstallCert_hides
      TemplateGrantAccess_hides)

lemma secret_handlers:
  "list_all (\<lambda>(name, key). \<exists>h. map_of (build_default_registry unix env :: 's CommandRegistry) name = Some h
     \<and> hides valid_secret key (h_execute h)) SECRET_PARAMETERS"
proof -
  have "map_of (build_default_registry unix env :: 's CommandRegistry) (h_name h) = Some h"
    if "h \<in> {DomainJoin, DcInstallForest, CaInstall, CaInstallCert,
      TemplateGrantAccess (json_from_str env)}" for h :: "'s handler"
  proof (rule lookup_shared)
    show "h \<in> set (common_handlers env)"
      using that by (auto simp: common_handlers_def)
    show "h_name h \<notin> h_name ` set (unix_handlers env :: 's handler list)"
      using that by (auto simp: unix_handlers_def handler_defs)
  qed
  from this [of DomainJoin] this [of DcInstallForest] this [of CaInstall] this [of CaInstallCert]
    this [of "TemplateGrantAccess (json_from_str env)"]
  show ?thesis
    by (simp add: SECRET_PARAMETERS_def DomainJoin_def DcInstallForest_def CaInstall_def
        CaInstallCert_def TemplateGrantAccess_def passwords_hidden)
qed

end
