(* ===== verification/Config.thy ===== *)
theory Config
  imports Authz
begin

text \<open>
  \<^verbatim>\<open>config.rs\<close>: the configuration records, their defaults and loading them from a file.
  Reading the file and parsing TOML text are outside the repository (\<open>read_to_string\<close>,
  \<open>toml_parse\<close>); what the derived \<^verbatim>\<open>Deserialize\<close> makes of the parsed table is modelled:
  a field with a default may be missing, an unknown key is ignored, a value of another type
  is an error. \<open>windows\<close> is \<^verbatim>\<open>cfg!(windows)\<close>.
\<close>

section \<open>Records and defaults\<close>

record IdentityConfig =
  vm_id :: string
  agent_token :: string
  role :: Role

record BackendConfig =
  url :: "string option"

record ExecutionConfig =
  shell_binary :: string
  script_timeout_secs :: u64

record ServiceConfig =
  log_level :: string

record ExecutorConfig =
  identity :: IdentityConfig
  backend :: BackendConfig
  execution :: ExecutionConfig
  service :: ServiceConfig

definition default_shell_binary :: "bool \<Rightarrow> string" where
  "default_shell_binary windows = (if windows then ''powershell.exe'' else ''/bin/bash'')"

definition default_script_timeout_secs :: u64 where
  "default_script_timeout_secs = 900"

definition default_log_level :: string where
  "default_log_level = ''info''"

definition BackendConfig_default :: BackendConfig where
  "BackendConfig_default = \<lparr>url = None\<rparr>"

definition ExecutionConfig_default :: "bool \<Rightarrow> ExecutionConfig" where
  "ExecutionConfig_default windows = \<lparr>shell_binary = default_shell_binary windows,
     script_timeout_secs = default_script_timeout_secs\<rparr>"

definition ServiceConfig_default :: ServiceConfig where
  "ServiceConfig_default = \<lparr>log_level = default_log_level\<rparr>"

section \<open>Deserialization\<close>

datatype toml =
    TString string
  | TInteger int
  | TTable "(string \<times> toml) list"
  | TOther

fun toml_str :: "toml \<Rightarrow> string option" where
  "toml_str (TString s) = Some s"
| "toml_str _ = None"

text \<open>A TOML integer is a signed 64-bit number; a negative one does not fit \<^verbatim>\<open>u64\<close>.\<close>

fun toml_u64 :: "toml \<Rightarrow> u64 option" where
  "toml_u64 (TInteger i) = (if 0 \<le> i \<and> i < 2 ^ 63 then Some (word_of_int i) else None)"
| "toml_u64 _ = None"

fun toml_table :: "toml \<Rightarrow> (string \<rightharpoonup> toml) option" where
  "toml_table (TTable kvs) = Some (map_of kvs)"
| "toml_table _ = None"

text \<open>A field: required, with a default, or an \<^verbatim>\<open>Option\<close> (missing is \<^verbatim>\<open>None\<close>).\<close>

definition field :: "(string \<rightharpoonup> toml) \<Rightarrow> string \<Rightarrow> (toml \<Rightarrow> 'a option) \<Rightarrow> 'a option" where
  "field t k d = (case t k of Some v \<Rightarrow> d v | None \<Rightarrow> None)"

definition field_default ::
  "(string \<rightharpoonup> toml) \<Rightarrow> string \<Rightarrow> (toml \<Rightarrow> 'a option) \<Rightarrow> 'a \<Rightarrow> 'a option" where
  "field_default t k d dflt = (case t k of Some v \<Rightarrow> d v | None \<Rightarrow> Some dflt)"

definition IdentityConfig_decode :: "toml \<Rightarrow> IdentityConfig option" where
  "IdentityConfig_decode v =
     (case toml_table v of
        None \<Rightarrow> None
      | Some t \<Rightarrow>
         (case (field t ''vm_id'' toml_str, field_default t ''agent_token'' toml_str [],
                field t ''role'' (\<lambda>r. Option.bind (toml_str r) Role_from_str)) of
            (Some i, Some a, Some r) \<Rightarrow> Some \<lparr>vm_id = i, agent_token = a, role = r\<rparr>
          | _ \<Rightarrow> None))"

definition BackendConfig_decode :: "toml \<Rightarrow> BackendConfig option" where
  "BackendConfig_decode v =
     (case toml_table v of
        None \<Rightarrow> None
      | Some t \<Rightarrow>
         (case field_default t ''url'' (\<lambda>u. map_option Some (toml_str u)) None of
            Some u \<Rightarrow> Some \<lparr>url = u\<rparr>
          | None \<Rightarrow> None))"

definition ExecutionConfig_decode :: "bool \<Rightarrow> toml \<Rightarrow> ExecutionConfig option" where
  "ExecutionConfig_decode windows v =
     (case toml_table v of
        None \<Rightarrow> None
      | Some t \<Rightarrow>
         (case (field_default t ''shell_binary'' toml_str (default_shell_binary windows),
                field_default t ''script_timeout_secs'' toml_u64 default_script_timeout_secs) of
            (Some b, Some n) \<Rightarrow> Some \<lparr>shell_binary = b, script_timeout_secs = n\<rparr>
          | _ \<Rightarrow> None))"

definition ServiceConfig_decode :: "toml \<Rightarrow> ServiceConfig option" where
  "ServiceConfig_decode v =
     (case toml_table v of
        None \<Rightarrow> None
      | Some t \<Rightarrow>
         (case field_default t ''log_level'' toml_str default_log_level of
            Some l \<Rightarrow> Some \<lparr>log_level = l\<rparr>
          | None \<Rightarrow> None))"

definition ExecutorConfig_decode :: "bool \<Rightarrow> toml \<Rightarrow> ExecutorConfig option" where
  "ExecutorConfig_decode windows v =
     (case toml_table v of
        None \<Rightarrow> None
      | Some t \<Rightarrow>
         (case (field t ''identity'' IdentityConfig_decode,
                field_default t ''backend'' BackendConfig_decode BackendConfig_default,
                field_default t ''execution'' (ExecutionConfig_decode windows)
                  (ExecutionConfig_default windows),
                field_default t ''service'' ServiceConfig_decode ServiceConfig_default) of
            (Some i, Some b, Some e, Some s) \<Rightarrow>
              Some \<lparr>identity = i, backend = b, execution = e, service = s\<rparr>
          | _ \<Rightarrow> None))"

section \<open>Loading\<close>

datatype ConfigError = ConfigRead string | ConfigParse string

definition load_from_file ::
  "bool \<Rightarrow> (string \<Rightarrow> string option) \<Rightarrow> (string \<Rightarrow> toml option) \<Rightarrow> string \<Rightarrow>
     ConfigError + ExecutorConfig" where
  "load_from_file windows read_to_string toml_parse path =
     (case read_to_string path of
        None \<Rightarrow> Inl (ConfigRead path)
      | Some text \<Rightarrow>
         (case Option.bind (toml_parse text) (ExecutorConfig_decode windows) of
            None \<Rightarrow> Inl (ConfigParse path)
          | Some config \<Rightarrow> Inr config))"

definition default_path :: "bool \<Rightarrow> string" where
  "default_path windows =
     (if windows then ''C:'' @ backslash @ ''ProgramData'' @ backslash @ ''PkiExecutor''
        @ backslash @ ''config.toml''
      else ''/etc/pki-executor/config.toml'')"

definition load_default ::
  "bool \<Rightarrow> (string \<Rightarrow> string option) \<Rightarrow> (string \<Rightarrow> toml option) \<Rightarrow>
     ConfigError + ExecutorConfig" where
  "load_default windows read_to_string toml_parse =
     load_from_file windows read_to_string toml_parse (default_path windows)"

section \<open>What a loaded configuration is\<close>

lemma load_from_file_Inr:
  "load_from_file windows rd tp path = Inr c \<longleftrightarrow>
     (\<exists>text v. rd path = Some text \<and> tp text = Some v \<and> ExecutorConfig_decode windows v = Some c)"
  by (auto simp: load_from_file_def bind_eq_Some_conv split: option.splits)

text \<open>The identity section is the only required one, and its role one of the two names.\<close>

lemma toml_str_Some: "toml_str v = Some s \<longleftrightarrow> v = TString s"
  by (cases v) auto

lemma Role_from_str_Some: "Role_from_str s = Some r \<longleftrightarrow> s = Role_serde_name r"
  by (cases r) (auto simp: Role_from_str_def)

lemma IdentityConfig_decode_Some:
  "IdentityConfig_decode v = Some i \<Longrightarrow>
     \<exists>t. toml_table v = Some t \<and> t ''vm_id'' = Some (TString (vm_id i))
       \<and> t ''role'' = Some (TString (Role_serde_name (role i)))"
  unfolding IdentityConfig_decode_def field_def
  by (auto simp: bind_eq_Some_conv toml_str_Some Role_from_str_Some split: option.splits)

lemma decode_identity:
  "ExecutorConfig_decode windows v = Some c \<Longrightarrow>
     \<exists>t iv it. toml_table v = Some t \<and> t ''identity'' = Some iv \<and> toml_table iv = Some it
       \<and> it ''vm_id'' = Some (TString (vm_id (identity c)))
       \<and> it ''role'' = Some (TString (Role_serde_name (role (identity c))))"
  unfolding ExecutorConfig_decode_def field_def
  by (auto dest!: IdentityConfig_decode_Some split: option.splits)

lemma decode_minimal:
  "ExecutorConfig_decode windows (TTable [(''identity'', TTable
      [(''vm_id'', TString i), (''role'', TString (Role_serde_name r))])])
   = Some \<lparr>identity = \<lparr>vm_id = i, agent_token = [], role = r\<rparr>, backend = BackendConfig_default,
       execution = ExecutionConfig_default windows, service = ServiceConfig_default\<rparr>"
  by (simp add: ExecutorConfig_decode_def IdentityConfig_decode_def field_def field_default_def
      Role_roundtrip)

text \<open>An encoder of the same shape, for the round trip.\<close>

definition ExecutorConfig_encode :: "ExecutorConfig \<Rightarrow> toml" where
  "ExecutorConfig_encode c = TTable
     [(''identity'', TTable [(''vm_id'', TString (vm_id (identity c))),
        (''agent_token'', TString (agent_token (identity c))),
        (''role'', TString (Role_serde_name (role (identity c))))]),
      (''backend'', TTable (case url (backend c) of Some u \<Rightarrow> [(''url'', TString u)] | None \<Rightarrow> [])),
      (''execution'', TTable [(''shell_binary'', TString (shell_binary (execution c))),
        (''script_timeout_secs'', TInteger (uint (script_timeout_secs (execution c))))]),
      (''service'', TTable [(''log_level'', TString (log_level (service c)))])]"

lemma decode_encode:
  assumes "uint (script_timeout_secs (execution c)) < 2 ^ 63"
  shows "ExecutorConfig_decode windows (ExecutorConfig_encode c) = Some c"
proof -
  have "BackendConfig_decode
      (TTable (case url (backend c) of Some u \<Rightarrow> [(''url'', TString u)] | None \<Rightarrow> []))
    = Some (backend c)"
    by (cases "url (backend c)") (simp_all add: BackendConfig_decode_def field_default_def)
  with assms show ?thesis
    by (simp add: ExecutorConfig_decode_def ExecutorConfig_encode_def IdentityConfig_decode_def
        ExecutionConfig_decode_def ServiceConfig_decode_def field_def field_default_def
        Role_roundtrip)
qed

end
