(* ===== verification/Cli.thy ===== *)
theory Cli
  imports Catalog Config
begin

text \<open>
  \<^verbatim>\<open>cli.rs\<close>: the one-shot \<^verbatim>\<open>run\<close> path. The argument parser is third-party code, so
  the model starts from its result, the \<open>Command\<close>. What goes to standard output is
  the list of printed lines; serializing a JSON value is a parameter
  (\<open>to_string\<close>, \<open>to_string_pretty\<close>).
\<close>

datatype ServiceAction = Install | Uninstall | Run_service

datatype Command =
    Run string string "string list"
  | Service ServiceAction
  | Connect string

datatype CliError =
    ConfigFailed ConfigError
  | BadParam string
  | DispatchFailed DispatchError
  | PrintFailed

section \<open>The parameters\<close>

text \<open>The loop over \<^verbatim>\<open>--param key=value\<close>: a later entry for a key replaces the earlier one.\<close>

fun parse_params :: "string list \<Rightarrow> (string \<rightharpoonup> string) \<Rightarrow> CliError + (string \<rightharpoonup> string)" where
  "parse_params [] ps = Inr ps"
| "parse_params (entry # rest) ps =
     (case split_once (CHR ''='') entry of
        None \<Rightarrow> Inl (BadParam entry)
      | Some (key, value) \<Rightarrow> parse_params rest (ps(key \<mapsto> value)))"

section \<open>Printing\<close>

text \<open>\<^verbatim>\<open>StdoutProgressSink\<close>: one line per report that serializes.\<close>

definition StdoutProgressSink_report ::
  "(OpRunState \<Rightarrow> string option) \<Rightarrow> string list \<Rightarrow> OpRunState \<Rightarrow> string list" where
  "StdoutProgressSink_report to_string out st =
     (case to_string st of Some line \<Rightarrow> out @ [line] | None \<Rightarrow> out)"

section \<open>run-once\<close>

definition run_once ::
  "bool \<Rightarrow> host_env \<Rightarrow> 'o os_ops \<Rightarrow> (string \<Rightarrow> string option) \<Rightarrow> (string \<Rightarrow> toml option) \<Rightarrow>
     (OpRunState \<Rightarrow> string option) \<Rightarrow> (Value \<Rightarrow> string option) \<Rightarrow>
     string \<Rightarrow> string \<Rightarrow> string list \<Rightarrow> 'o \<Rightarrow> (CliError + unit) \<times> string list \<times> 'o" where
  "run_once windows env os rd tp to_string to_string_pretty config_path command raw_params s =
     (case load_from_file windows rd tp config_path of
        Inl e \<Rightarrow> (Inl (ConfigFailed e), [], s)
      | Inr config \<Rightarrow>
         (case parse_params raw_params Map.empty of
            Inl e \<Rightarrow> (Inl e, [], s)
          | Inr ps \<Rightarrow>
             (let registry = build_default_registry (\<not> windows) env;
                  sh = build_shell windows os (shell_binary (execution config)) in
              case dispatch registry command (role (identity config)) ps sh s of
                (r, t, s') \<Rightarrow>
                  (let out = foldl (StdoutProgressSink_report to_string) [] (reports t) in
                   case r of
                     Inl e \<Rightarrow> (Inl (DispatchFailed e), out, s')
                   | Inr v \<Rightarrow>
                       (case to_string_pretty v of
                          None \<Rightarrow> (Inl PrintFailed, out, s')
                        | Some text \<Rightarrow> (Inr (), out @ [text], s'))))))"

lemma parse_params_bad:
  "parse_params raw ps = Inl e \<longleftrightarrow>
     (\<exists>entry. find (\<lambda>en. CHR ''='' \<notin> set en) raw = Some entry \<and> e = BadParam entry)"
  by (induction raw arbitrary: ps)
    (auto simp: split_once_None [symmetric] split: option.splits)

text \<open>The value of a key is everything after the first equals sign of its last entry.\<close>

lemma parse_params_map:
  "parse_params raw ps = Inr m \<Longrightarrow>
     m = ps ++ map_of (rev (map (\<lambda>en. the (split_once (CHR ''='') en)) raw))"
  by (induction raw arbitrary: ps) (auto split: option.splits)

lemma parse_params_one:
  assumes "CHR ''='' \<notin> set k"
  shows "parse_params [k @ ''='' @ v] ps = Inr (ps(k \<mapsto> v))"
proof -
  have "split_once (CHR ''='') (k @ ''='' @ v) = Some (k, v)"
    using assms by (simp add: split_once_Some)
  then show ?thesis by simp
qed

text \<open>Encoding a parameter map as arguments and reading it back.\<close>

definition show_params :: "(string \<times> string) list \<Rightarrow> string list" where
  "show_params kvs = map (\<lambda>(k, v). k @ ''='' @ v) kvs"

lemma parse_show_params:
  "\<forall>(k, v) \<in> set kvs. CHR ''='' \<notin> set k \<Longrightarrow>
     parse_params (show_params kvs) ps = Inr (ps ++ map_of (rev kvs))"
proof (induction kvs arbitrary: ps)
  case (Cons kv kvs)
  obtain k v where kv: "kv = (k, v)" by (cases kv)
  with Cons.prems have "split_once (CHR ''='') (k @ ''='' @ v) = Some (k, v)"
    by (simp add: split_once_Some)
  with Cons show ?case by (simp add: show_params_def kv)
qed (simp add: show_params_def)

text \<open>Until the parameters are read nothing has been run or printed.\<close>

lemma run_once_bad_input:
  assumes "run_once windows env os rd tp ts tsp path command raw s = (Inl e, out, s')"
    and "\<And>d. e \<noteq> DispatchFailed d" and "e \<noteq> PrintFailed"
  shows "out = [] \<and> s' = s"
  using assms
  by (auto simp: run_once_def Let_def split: sum.splits prod.splits option.splits)

lemma run_once_ok:
  "run_once windows env os rd tp ts tsp path command raw s = (Inr u, out, s') \<longleftrightarrow>
     (\<exists>config ps v t text. load_from_file windows rd tp path = Inr config
        \<and> parse_params raw Map.empty = Inr ps
        \<and> dispatch (build_default_registry (\<not> windows) env) command (role (identity config)) ps
            (build_shell windows os (shell_binary (execution config))) s = (Inr v, t, s')
        \<and> tsp v = Some text
        \<and> out = foldl (StdoutProgressSink_report ts) [] (reports t) @ [text])"
  by (auto simp: run_once_def Let_def split: sum.splits prod.splits option.splits)

text \<open>An identity alone is a configuration: every other section has its defaults.\<close>

lemma minimal_config:
  "\<exists>c. ExecutorConfig_decode windows (TTable [(''identity'', TTable
        [(''vm_id'', TString i), (''role'', TString (Role_serde_name rl))])]) = Some c
     \<and> role (identity c) = rl \<and> agent_token (identity c) = [] \<and> url (backend c) = None
     \<and> script_timeout_secs (execution c) = 900 \<and> log_level (service c) = ''info''
     \<and> shell_kind_of windows (shell_binary (execution c))
         = (if windows then PowerShellKind else PosixKind)"
proof -
  have "shell_kind_of True ''powershell.exe'' = PowerShellKind" by code_simp
  moreover have "shell_kind_of False ''/bin/bash'' = PosixKind" by code_simp
  ultimately show ?thesis
    by (simp add: decode_minimal BackendConfig_default_def ExecutionConfig_default_def
        ServiceConfig_default_def default_script_timeout_secs_def default_log_level_def
        default_shell_binary_def)
qed

end
