(* ===== verification/Phonehome.thy ===== *)
theory Phonehome
  imports Catalog Config
begin

text \<open>
  \<^verbatim>\<open>phonehome.rs\<close>: turning a dispatched command into frames, the connect request, the
  sending of a frame and the reconnecting loop. The loop is a state machine over what the
  environment does (connections, frames read, writes that fail, time, worker threads); the
  frames carry the number of the command they belong to, which the program does not see.
\<close>

section \<open>Frames\<close>

record InboundCommand =
  in_job_id :: string
  command :: string
  in_params :: "string \<rightharpoonup> string"
  in_role :: Role

record OutboundProgress =
  job_id :: string
  state :: OpRunState

text \<open>The sink of one job: everything reported goes into the channel under its id.\<close>

definition TaggedProgressSink_report ::
  "string \<Rightarrow> OutboundProgress list \<Rightarrow> OpRunState \<Rightarrow> OutboundProgress list" where
  "TaggedProgressSink_report jid chan st = chan @ [\<lparr>job_id = jid, state = st\<rparr>]"

definition handle_command ::
  "'s CommandRegistry \<Rightarrow> 's executor \<Rightarrow> InboundCommand \<Rightarrow> 's \<Rightarrow> OutboundProgress list \<times> 's" where
  "handle_command registry sh cmd s =
     (case dispatch registry (command cmd) (in_role cmd) (in_params cmd) sh s of
        (r, t, s') \<Rightarrow>
          (let chan = foldl (TaggedProgressSink_report (in_job_id cmd)) [] (reports t) in
           case r of
             Inl err \<Rightarrow> (chan @ [\<lparr>job_id = in_job_id cmd,
               state = OpRunState_error (DispatchError_display err)\<rparr>], s')
           | Inr v \<Rightarrow> (chan, s')))"

interpretation tagged: progress_sink "TaggedProgressSink_report jid" "map state"
  by unfold_locales (simp add: TaggedProgressSink_report_def)

lemma tagged_frames:
  "foldl (TaggedProgressSink_report jid) chan sts
     = chan @ map (\<lambda>st. \<lparr>job_id = jid, state = st\<rparr>) sts"
  by (induction sts arbitrary: chan) (simp_all add: TaggedProgressSink_report_def)

text \<open>A secret that the outcome and the reports of a handler hide is hidden in the frames.\<close>

lemma hidden_in_frames:
  assumes hid: "hides good key (h_execute h)"
    and h: "map_of reg (command cmd) = Some h"
    and good: "good x = good y"
  shows "fst (handle_command reg (answering a) (cmd\<lparr>in_params := ps(key \<mapsto> x)\<rparr>) s)
    = fst (handle_command reg (answering a) (cmd\<lparr>in_params := ps(key \<mapsto> y)\<rparr>) s)"
proof (cases "role_has (in_role cmd) (h_capability h)")
  case True
  have "observed (h_execute h) (ps(key \<mapsto> x)) a s = observed (h_execute h) (ps(key \<mapsto> y)) a s"
    using hid good unfolding hides_def by blast
  then show ?thesis
    by (simp add: handle_command_def dispatch_allowed [OF h] True observed_def Let_def
        split: prod.splits sum.splits)
qed (simp add: handle_command_def dispatch_forbidden [OF h])

lemma unknown_command_frame:
  assumes "command cmd \<notin> fst ` set CATALOG"
  shows "handle_command (build_default_registry unix env) sh cmd s =
    ([\<lparr>job_id = in_job_id cmd, state = OpRunState_error
        (''unknown command '' @ squote @ command cmd @ squote)\<rparr>], s)"
proof -
  have "map_of (build_default_registry unix env :: 'a CommandRegistry) (command cmd) = None"
    using assms default_in_catalog by (metis fst_conv image_eqI option.exhaust)
  then show ?thesis by (simp add: handle_command_def dispatch_unknown Let_def)
qed

text \<open>
  The job protocol: every frame has the job's id, exactly the last one is terminal, and
  the frames before it are running.
\<close>

definition job_frames_ok :: "string \<Rightarrow> OutboundProgress list \<Rightarrow> bool" where
  "job_frames_ok jid fs \<longleftrightarrow> fs \<noteq> [] \<and> list_all (\<lambda>f. job_id f = jid) fs
     \<and> is_terminal (state (last fs)) \<and> list_all (\<lambda>f. status (state f) = Running) (butlast fs)"

context protocol_registry
begin

lemma handle_command_frames:
  assumes "handle_command reg sh cmd s = (fs, s')"
  shows "job_frames_ok (in_job_id cmd) fs"
proof -
  obtain r t s1 where d: "dispatch reg (command cmd) (in_role cmd) (in_params cmd) sh s = (r, t, s1)"
    by (metis prod_cases3)
  note keep = dispatch_protocol [OF d]
  show ?thesis
  proof (cases r)
    case (Inr v)
    with keep obtain st where "status st = Running" "reports t = [st, OpRunState_done v]"
      by (auto simp: keeps_protocol_Inr)
    moreover from Inr assms d
    have "fs = map (\<lambda>st. \<lparr>job_id = in_job_id cmd, state = st\<rparr>) (reports t)"
      by (simp add: handle_command_def Let_def tagged_frames)
    ultimately show ?thesis by (simp add: job_frames_ok_def)
  next
    case (Inl e)
    have "\<forall>st \<in> set (reports t). status st = Running"
      using keep Inl by (cases e) (auto simp: keeps_protocol_Inl)
    moreover from Inl assms d
    have "fs = map (\<lambda>st. \<lparr>job_id = in_job_id cmd, state = st\<rparr>) (reports t)
        @ [\<lparr>job_id = in_job_id cmd, state = OpRunState_error (DispatchError_display e)\<rparr>]"
      by (simp add: handle_command_def Let_def tagged_frames)
    ultimately show ?thesis by (simp add: job_frames_ok_def list_all_iff)
  qed
qed

end

section \<open>The connect request\<close>

text \<open>
  The \<^verbatim>\<open>url\<close> crate as operations on an abstract URL; building the upgrade request and
  judging a header value are third-party too.
\<close>

record 'u url_ops =
  url_parse :: "string \<Rightarrow> 'u option"
  url_scheme :: "'u \<Rightarrow> string"
  url_set_scheme :: "string \<Rightarrow> 'u \<Rightarrow> 'u option"
  url_set_path :: "string \<Rightarrow> 'u \<Rightarrow> 'u"
  url_as_str :: "'u \<Rightarrow> string"

datatype ConnectError =
    UrlRequired | UrlInvalid string | UnsupportedScheme | BadRequest | BadVmId | BadToken

definition connect_url :: "'u url_ops \<Rightarrow> ExecutorConfig \<Rightarrow> ConnectError + 'u" where
  "connect_url ops config =
     (case url (backend config) of
        None \<Rightarrow> Inl UrlRequired
      | Some base \<Rightarrow>
         (case url_parse ops base of
            None \<Rightarrow> Inl (UrlInvalid base)
          | Some u \<Rightarrow>
             (let ws_scheme = (if url_scheme ops u = ''https'' then ''wss'' else ''ws'') in
              case url_set_scheme ops ws_scheme u of
                None \<Rightarrow> Inl UnsupportedScheme
              | Some u' \<Rightarrow> Inr (url_set_path ops ''/api/executor/connect'' u'))))"

record Request =
  req_uri :: string
  req_headers :: "(string \<times> string) list"

definition connect_request ::
  "'u url_ops \<Rightarrow> (string \<Rightarrow> Request option) \<Rightarrow> (string \<Rightarrow> bool) \<Rightarrow> ExecutorConfig \<Rightarrow>
     ConnectError + Request" where
  "connect_request ops into_client_request header_ok config =
     (case connect_url ops config of
        Inl e \<Rightarrow> Inl e
      | Inr u \<Rightarrow>
         (case into_client_request (url_as_str ops u) of
            None \<Rightarrow> Inl BadRequest
          | Some request \<Rightarrow>
             (if \<not> header_ok (vm_id (identity config)) then Inl BadVmId
              else (let request1 = request\<lparr>req_headers :=
                      AList.update ''x-executor-vm-id'' (vm_id (identity config))
                        (req_headers request)\<rparr> in
                if \<not> header_ok (agent_token (identity config)) then Inl BadToken
                else Inr (request1\<lparr>req_headers :=
                  AList.update ''x-executor-token'' (agent_token (identity config))
                    (req_headers request1)\<rparr>)))))"

lemma connect_url_Inr:
  "connect_url ops config = Inr u \<longleftrightarrow>
     (\<exists>base u0 u1. url (backend config) = Some base \<and> url_parse ops base = Some u0
        \<and> url_set_scheme ops (if url_scheme ops u0 = ''https'' then ''wss'' else ''ws'') u0 = Some u1
        \<and> u = url_set_path ops ''/api/executor/connect'' u1)"
  by (auto simp: connect_url_def Let_def split: option.splits)

lemma connect_request_headers:
  assumes "connect_request ops icr hok config = Inr request"
  shows "map_of (req_headers request) ''x-executor-vm-id'' = Some (vm_id (identity config))"
    and "map_of (req_headers request) ''x-executor-token'' = Some (agent_token (identity config))"
    and "\<exists>u base. connect_url ops config = Inr u \<and> icr (url_as_str ops u) = Some base
      \<and> req_uri request = req_uri base"
  using assms
  by (auto simp: connect_request_def Let_def update_conv' split: sum.splits option.splits if_splits)

section \<open>Sending a frame\<close>

text \<open>
  \<open>send_progress\<close>: the answer is whether the connection is usable, the parked frame
  and what was written. \<open>ser\<close> is \<^verbatim>\<open>serde_json::to_string\<close>, \<open>write_ok\<close> whether the
  socket takes the message.
\<close>

definition send_progress ::
  "('f \<Rightarrow> string option) \<Rightarrow> bool \<Rightarrow> 'f \<Rightarrow> 'f option \<Rightarrow> bool \<times> 'f option \<times> 'f list" where
  "send_progress ser write_ok msg pending =
     (case ser msg of
        None \<Rightarrow> (True, pending, [])
      | Some text \<Rightarrow> if \<not> write_ok then (False, Some msg, []) else (True, pending, [msg]))"

lemma send_progress_conserves:
  assumes "send_progress ser ok msg None = (usable, pending', written)"
  shows "filter (\<lambda>f. ser f \<noteq> None) [msg]
      = written @ filter (\<lambda>f. ser f \<noteq> None) (case pending' of Some f \<Rightarrow> [f] | None \<Rightarrow> [])"
    and "\<not> usable \<longleftrightarrow> pending' = Some msg"
    and "usable \<longleftrightarrow> pending' = None"
  using assms by (auto simp: send_progress_def split: option.splits if_splits)

section \<open>Backoff\<close>

definition CLOSE_SUPERSEDED :: u16 where
  "CLOSE_SUPERSEDED = 4409"

definition KEEPALIVE_PING_SECS :: u64 where
  "KEEPALIVE_PING_SECS = 30"

definition RECONNECT_DELAYS_SECS :: "u64 list" where
  "RECONNECT_DELAYS_SECS = [1, 2, 5, 10, 30]"

definition SUPERSEDED_DELAY_SECS :: u64 where
  "SUPERSEDED_DELAY_SECS = 300"

definition HEALTHY_CONNECTION_SECS :: nat where
  "HEALTHY_CONNECTION_SECS = 60"

datatype ConnectionEnd = Normal | Superseded | Failed

text \<open>
  The tail of the loop body of \<^verbatim>\<open>run_forever\<close>: from how the connection ended, how many
  seconds it had lived and the attempt counter to the delay and the new counter.
\<close>

definition backoff :: "ConnectionEnd \<Rightarrow> nat \<Rightarrow> nat \<Rightarrow> u64 \<times> nat" where
  "backoff outcome elapsed attempt =
     (let attempt = (if HEALTHY_CONNECTION_SECS \<le> elapsed then 0 else attempt) in
      case outcome of
        Superseded \<Rightarrow> (SUPERSEDED_DELAY_SECS, attempt)
      | _ \<Rightarrow> (RECONNECT_DELAYS_SECS ! min attempt (length RECONNECT_DELAYS_SECS - 1), attempt + 1))"

lemma backoff_index: "min attempt (length RECONNECT_DELAYS_SECS - 1) < length RECONNECT_DELAYS_SECS"
  by (simp add: RECONNECT_DELAYS_SECS_def)

lemma backoff_eq:
  "backoff outcome elapsed attempt =
     (let a = (if 60 \<le> elapsed then 0 else attempt) in
      if outcome = Superseded then (300, a) else (RECONNECT_DELAYS_SECS ! min a 4, Suc a))"
proof -
  have "length RECONNECT_DELAYS_SECS = 5" by (simp add: RECONNECT_DELAYS_SECS_def)
  then show ?thesis
    by (cases outcome) (simp_all add: backoff_def HEALTHY_CONNECTION_SECS_def
        SUPERSEDED_DELAY_SECS_def Let_def)
qed

lemma reconnect_delay_set: "RECONNECT_DELAYS_SECS ! min a 4 \<in> {1, 2, 5, 10, 30}"
proof -
  have "min a 4 \<in> {0, 1, 2, 3, 4}" by auto
  then show ?thesis by (auto simp: RECONNECT_DELAYS_SECS_def)
qed

lemma healthy_connection_resets:
  "60 \<le> lived \<Longrightarrow>
     backoff outcome lived attempts = (if outcome = Superseded then (300, 0) else (1, 1))"
  by (simp add: backoff_eq RECONNECT_DELAYS_SECS_def)

lemma backoff_delay_set: "fst (backoff outcome elapsed attempt) \<in> {1, 2, 5, 10, 30, 300}"
  using reconnect_delay_set [of attempt] reconnect_delay_set [of 0]
  by (auto simp: backoff_eq Let_def)

text \<open>The delays of a run of connection ends, each with its lifetime.\<close>

fun backoff_run :: "(ConnectionEnd \<times> nat) list \<Rightarrow> nat \<Rightarrow> u64 list" where
  "backoff_run [] attempt = []"
| "backoff_run ((outcome, elapsed) # ends) attempt =
     (case backoff outcome elapsed attempt of (d, a) \<Rightarrow> d # backoff_run ends a)"

text \<open>
  What the delay after the \<open>i\<close>th end depends on: how many earlier ends count, that is, are no
  supersede and have no healthy connection after them, the \<open>i\<close>th included.
\<close>

definition failures_before :: "(ConnectionEnd \<times> nat) list \<Rightarrow> nat \<Rightarrow> nat" where
  "failures_before ends i =
     length (filter (\<lambda>j. fst (ends ! j) \<noteq> Superseded \<and> (\<forall>k \<in> {j<..i}. snd (ends ! k) < 60)) [0..<i])"

text \<open>The attempt counter of the loop after some ends.\<close>

fun attempts_after :: "(ConnectionEnd \<times> nat) list \<Rightarrow> nat \<Rightarrow> nat" where
  "attempts_after [] a = a"
| "attempts_after ((outcome, elapsed) # ends) a = attempts_after ends (snd (backoff outcome elapsed a))"

lemma attempts_after_snoc:
  "attempts_after (xs @ [e]) a = snd (backoff (fst e) (snd e) (attempts_after xs a))"
  by (induction xs a rule: attempts_after.induct) (cases e; simp)+

lemma backoff_run_length [simp]: "length (backoff_run ends a) = length ends"
  by (induction ends a rule: backoff_run.induct) (simp_all split: prod.split)

lemma backoff_run_nth:
  "i < length ends \<Longrightarrow> backoff_run ends a ! i
     = fst (backoff (fst (ends ! i)) (snd (ends ! i)) (attempts_after (take i ends) a))"
proof (induction ends a arbitrary: i rule: backoff_run.induct)
  case (2 outcome elapsed ends a)
  then show ?case by (cases i) (simp_all split: prod.split)
qed simp

lemma failures_before_Suc:
  "failures_before ends (Suc i) = (if 60 \<le> snd (ends ! Suc i) then 0
     else failures_before ends i + (if fst (ends ! i) = Superseded then 0 else 1))"
proof (cases "60 \<le> snd (ends ! Suc i)")
  case True
  then have "\<exists>k \<in> {j<..Suc i}. \<not> snd (ends ! k) < 60" if "j < Suc i" for j
    using that by (intro bexI [of _ "Suc i"]) auto
  with True show ?thesis
    by (auto simp: failures_before_def filter_empty_conv simp del: upt_Suc)
next
  case False
  have old: "(\<forall>k \<in> {j<..Suc i}. snd (ends ! k) < 60) \<longleftrightarrow> (\<forall>k \<in> {j<..i}. snd (ends ! k) < 60)"
    if "j < i" for j
    using False that by (auto simp: le_Suc_eq)
  have "filter (\<lambda>j. fst (ends ! j) \<noteq> Superseded \<and> (\<forall>k \<in> {j<..Suc i}. snd (ends ! k) < 60)) [0..<i]
      = filter (\<lambda>j. fst (ends ! j) \<noteq> Superseded \<and> (\<forall>k \<in> {j<..i}. snd (ends ! k) < 60)) [0..<i]"
    by (rule filter_cong) (auto simp: old)
  moreover have "{i<..Suc i} = {Suc i}" by auto
  ultimately show ?thesis using False by (simp add: failures_before_def)
qed

lemma attempts_failures:
  "i < length ends \<Longrightarrow>
     (if 60 \<le> snd (ends ! i) then 0 else attempts_after (take i ends) 0) = failures_before ends i"
proof (induction i)
  case (Suc i)
  then have "take (Suc i) ends = take i ends @ [ends ! i]" by (simp add: take_Suc_conv_app_nth)
  then have "attempts_after (take (Suc i) ends) 0
      = failures_before ends i + (if fst (ends ! i) = Superseded then 0 else 1)"
    using Suc by (simp add: attempts_after_snoc backoff_eq Let_def)
  then show ?case by (simp add: failures_before_Suc)
qed (simp add: failures_before_def)

lemma backoff_run_failures:
  assumes "i < length ends"
  shows "backoff_run ends 0 ! i = (if fst (ends ! i) = Superseded then 300
    else [1, 2, 5, 10, 30] ! min (failures_before ends i) 4)"
  using attempts_failures [OF assms]
  by (simp add: backoff_run_nth [OF assms] backoff_eq Let_def RECONNECT_DELAYS_SECS_def split: if_splits)

end
