(* ===== verification/Session.thy ===== *)
theory Session
  imports Phonehome
begin

text \<open>
  The reconnecting loop of \<^verbatim>\<open>phonehome.rs\<close>: \<^verbatim>\<open>connect_once\<close> and \<^verbatim>\<open>run_forever\<close> as a
  state machine. An event is something the environment does: a connection attempt ends, a
  message is read, the channel is polled and the write works or not, the ping timer fires,
  time passes, a worker thread sends its next frame, the backoff sleep is over. The step
  function is executable; \<open>reach\<close> is the relation it generates. A write that fails is
  taken not to have delivered the frame.

  Two fields are not in the program: \<open>emitted\<close> and \<open>written\<close> record what was put into
  the channel and what a socket took, and each frame carries the index of its worker.
\<close>

type_synonym frame = "nat \<times> OutboundProgress"

record worker =
  w_cmd :: InboundCommand
  w_frames :: "OutboundProgress list"
  w_rest :: "OutboundProgress list"

datatype conn_phase = Connecting | Connected | Sleeping u64

record agent =
  conn :: conn_phase
  attempt :: nat
  elapsed :: nat
  pending :: "frame option"
  chan :: "frame list"
  workers :: "worker list"
  written :: "frame list"
  emitted :: "frame list"

text \<open>What the loop is given: the result of \<open>connect_request\<close>, the codecs, the registry.\<close>

record 's agent_conf =
  cf_request :: "ConnectError + Request"
  cf_ser :: "OutboundProgress \<Rightarrow> string option"
  cf_dec :: "string \<Rightarrow> InboundCommand option"
  cf_registry :: "'s CommandRegistry"
  cf_shell :: "'s executor"

datatype 's ev =
    ConnectFail
  | ConnectOk bool
  | ReadText string 's
  | ReadClose "u16 option"
  | ReadEnd
  | ReadError
  | ReadOther
  | RecvFrame bool
  | Ping bool
  | Emit nat
  | Elapse nat
  | Wake

definition agent_init :: agent where
  "agent_init = \<lparr>conn = Connecting, attempt = 0, elapsed = 0, pending = None, chan = [],
     workers = [], written = [], emitted = []\<rparr>"

section \<open>The steps\<close>

definition end_connection :: "ConnectionEnd \<Rightarrow> agent \<Rightarrow> agent" where
  "end_connection outcome a =
     (case backoff outcome (elapsed a) (attempt a) of
        (delay, n) \<Rightarrow> a\<lparr>conn := Sleeping delay, attempt := n\<rparr>)"

text \<open>Sending one frame on the live socket; \<open>q\<close> is what is left in the channel.\<close>

definition send_frame :: "'s agent_conf \<Rightarrow> bool \<Rightarrow> frame \<Rightarrow> agent \<Rightarrow> agent" where
  "send_frame cf ok f a =
     (case send_progress (\<lambda>(i, msg). cf_ser cf msg) ok f (pending a) of
        (usable, p, w) \<Rightarrow>
          (let a1 = a\<lparr>pending := p, written := written a @ w\<rparr> in
           if usable then a1\<lparr>conn := Connected\<rparr> else end_connection Normal a1))"

definition spawn :: "'s agent_conf \<Rightarrow> InboundCommand \<Rightarrow> 's \<Rightarrow> agent \<Rightarrow> agent" where
  "spawn cf cmd s a =
     (let fs = fst (handle_command (cf_registry cf) (cf_shell cf) cmd s) in
      a\<lparr>workers := workers a @ [\<lparr>w_cmd = cmd, w_frames = fs, w_rest = fs\<rparr>]\<rparr>)"

definition connect_ok :: "'s agent_conf \<Rightarrow> bool \<Rightarrow> agent \<Rightarrow> agent option" where
  "connect_ok cf ok a =
     (case cf_request cf of
        Inl e \<Rightarrow> None
      | Inr req \<Rightarrow>
         (case pending a of
            None \<Rightarrow> Some (a\<lparr>conn := Connected\<rparr>)
          | Some f \<Rightarrow> Some (send_frame cf ok f (a\<lparr>pending := None\<rparr>))))"

definition emit :: "nat \<Rightarrow> agent \<Rightarrow> agent option" where
  "emit i a =
     (if i < length (workers a) then
        (case w_rest (workers a ! i) of
           [] \<Rightarrow> None
         | f # fs \<Rightarrow> Some (a\<lparr>workers := (workers a)[i := (workers a ! i)\<lparr>w_rest := fs\<rparr>],
             chan := chan a @ [(i, f)], emitted := emitted a @ [(i, f)]\<rparr>))
      else None)"

text \<open>The arms of the \<^verbatim>\<open>select!\<close>, on a live connection.\<close>

definition read_text :: "'s agent_conf \<Rightarrow> string \<Rightarrow> 's \<Rightarrow> agent \<Rightarrow> agent" where
  "read_text cf text s a = (case cf_dec cf text of None \<Rightarrow> a | Some cmd \<Rightarrow> spawn cf cmd s a)"

definition read_close :: "u16 option \<Rightarrow> agent \<Rightarrow> agent" where
  "read_close code a = (if code = Some CLOSE_SUPERSEDED then end_connection Superseded a else a)"

definition recv_frame :: "'s agent_conf \<Rightarrow> bool \<Rightarrow> agent \<Rightarrow> agent option" where
  "recv_frame cf ok a =
     (case chan a of [] \<Rightarrow> None | f # q \<Rightarrow> Some (send_frame cf ok f (a\<lparr>chan := q\<rparr>)))"

definition ping :: "bool \<Rightarrow> agent \<Rightarrow> agent" where
  "ping ok a = (if ok then a else end_connection Normal a)"

definition on_live :: "agent \<Rightarrow> agent option \<Rightarrow> agent option" where
  "on_live a r = (if conn a = Connected then r else None)"

fun agent_step :: "'s agent_conf \<Rightarrow> 's ev \<Rightarrow> agent \<Rightarrow> agent option" where
  "agent_step cf ConnectFail a =
     (if conn a = Connecting then Some (end_connection Failed a) else None)"
| "agent_step cf (ConnectOk ok) a = (if conn a = Connecting then connect_ok cf ok a else None)"
| "agent_step cf (ReadText text s) a = on_live a (Some (read_text cf text s a))"
| "agent_step cf (ReadClose code) a = on_live a (Some (read_close code a))"
| "agent_step cf ReadEnd a = on_live a (Some (end_connection Normal a))"
| "agent_step cf ReadError a = on_live a (Some (end_connection Failed a))"
| "agent_step cf ReadOther a = on_live a (Some a)"
| "agent_step cf (RecvFrame ok) a = on_live a (recv_frame cf ok a)"
| "agent_step cf (Ping ok) a = on_live a (Some (ping ok a))"
| "agent_step cf (Emit i) a = emit i a"
| "agent_step cf (Elapse n) a = Some (a\<lparr>elapsed := elapsed a + n\<rparr>)"
| "agent_step cf Wake a =
     (case conn a of Sleeping d \<Rightarrow> Some (a\<lparr>conn := Connecting, elapsed := 0\<rparr>) | _ \<Rightarrow> None)"

fun run_agent :: "'s agent_conf \<Rightarrow> 's ev list \<Rightarrow> agent \<Rightarrow> agent option" where
  "run_agent cf [] a = Some a"
| "run_agent cf (e # es) a =
     (case agent_step cf e a of None \<Rightarrow> None | Some a' \<Rightarrow> run_agent cf es a')"

inductive reach :: "'s agent_conf \<Rightarrow> agent \<Rightarrow> bool" for cf where
  reach_init: "reach cf agent_init"
| reach_step: "reach cf a \<Longrightarrow> agent_step cf e a = Some a' \<Longrightarrow> reach cf a'"

lemma reach_run: "reach cf a \<Longrightarrow> run_agent cf es a = Some a' \<Longrightarrow> reach cf a'"
  by (induction es arbitrary: a) (auto split: option.splits intro: reach_step)

lemma run_agent_append:
  "run_agent cf (es @ es') a = Option.bind (run_agent cf es a) (run_agent cf es')"
  by (induction es arbitrary: a) (auto split: option.splits)

section \<open>Frames are neither lost nor doubled nor reordered\<close>

definition sendable :: "'s agent_conf \<Rightarrow> frame \<Rightarrow> bool" where
  "sendable cf f \<longleftrightarrow> cf_ser cf (snd f) \<noteq> None"

definition in_flight :: "agent \<Rightarrow> frame list" where
  "in_flight a = (case pending a of Some f \<Rightarrow> [f] | None \<Rightarrow> []) @ chan a"

definition conserved :: "'s agent_conf \<Rightarrow> agent \<Rightarrow> bool" where
  "conserved cf a \<longleftrightarrow>
     filter (sendable cf) (emitted a) = written a @ filter (sendable cf) (in_flight a)"

text \<open>The one-slot parking place is never overwritten: on a live connection it is empty.\<close>

definition slot_free :: "agent \<Rightarrow> bool" where
  "slot_free a \<longleftrightarrow> (conn a = Connected \<longrightarrow> pending a = None)"

lemma end_connection_fields [simp]:
  "pending (end_connection k a) = pending a" "chan (end_connection k a) = chan a"
  "workers (end_connection k a) = workers a" "written (end_connection k a) = written a"
  "emitted (end_connection k a) = emitted a" "elapsed (end_connection k a) = elapsed a"
  "conn (end_connection k a) \<noteq> Connected"
  by (simp_all add: end_connection_def split: prod.splits)

lemma send_frame_fields [simp]:
  "chan (send_frame cf ok f a) = chan a" "workers (send_frame cf ok f a) = workers a"
  "emitted (send_frame cf ok f a) = emitted a"
  by (simp_all add: send_frame_def Let_def split: prod.splits)

lemma send_frame_cases:
  assumes "pending a = None"
  shows "filter (sendable cf) [f] = [] \<and> written (send_frame cf ok f a) = written a
       \<and> pending (send_frame cf ok f a) = None \<and> conn (send_frame cf ok f a) = Connected
    \<or> sendable cf f \<and> ok \<and> written (send_frame cf ok f a) = written a @ [f]
       \<and> pending (send_frame cf ok f a) = None \<and> conn (send_frame cf ok f a) = Connected
    \<or> sendable cf f \<and> \<not> ok \<and> written (send_frame cf ok f a) = written a
       \<and> pending (send_frame cf ok f a) = Some f \<and> conn (send_frame cf ok f a) \<noteq> Connected"
  using assms
  by (cases f; cases "cf_ser cf (snd f)"; cases ok)
    (simp_all add: send_frame_def send_progress_def sendable_def Let_def)

lemma send_frame_inv:
  assumes p: "pending a = None"
    and c: "filter (sendable cf) (emitted a) = written a @ filter (sendable cf) (f # chan a)"
  shows "conserved cf (send_frame cf ok f a) \<and> slot_free (send_frame cf ok f a)"
  using send_frame_cases [OF p, of cf f ok] c
  by (auto simp: conserved_def in_flight_def slot_free_def split: if_splits)

lemma conserved_step:
  assumes "agent_step cf e a = Some a'" and c: "conserved cf a" and s: "slot_free a"
  shows "conserved cf a' \<and> slot_free a'"
proof -
  have keep: "conserved cf b \<and> slot_free b"
    if "pending b = pending a" "chan b = chan a" "written b = written a" "emitted b = emitted a"
      "conn b = Connected \<longrightarrow> conn a = Connected \<or> pending a = None" for b
    using that c s by (auto simp: conserved_def in_flight_def slot_free_def)
  show ?thesis
  proof (cases e)
    case (ConnectOk ok)
    with assms(1) have a': "connect_ok cf ok a = Some a'" by (auto split: if_splits)
    show ?thesis
    proof (cases "pending a")
      case None
      with a' have "a' = a\<lparr>conn := Connected\<rparr>"
        by (auto simp: connect_ok_def split: sum.splits)
      with None show ?thesis using keep [of a'] by simp
    next
      case (Some f)
      with a' have "a' = send_frame cf ok f (a\<lparr>pending := None\<rparr>)"
        by (auto simp: connect_ok_def split: sum.splits)
      with Some c show ?thesis
        using send_frame_inv [of "a\<lparr>pending := None\<rparr>" cf f ok]
        by (simp add: conserved_def in_flight_def)
    qed
  next
    case (RecvFrame ok)
    with assms(1) have live: "conn a = Connected" and r: "recv_frame cf ok a = Some a'"
      by (auto simp: on_live_def split: if_splits)
    then obtain f q where q: "chan a = f # q" and a': "a' = send_frame cf ok f (a\<lparr>chan := q\<rparr>)"
      by (auto simp: recv_frame_def split: list.splits)
    from live s have "pending a = None" by (simp add: slot_free_def)
    with q c show ?thesis
      unfolding a' by (intro send_frame_inv) (auto simp: conserved_def in_flight_def)
  next
    case (Emit i)
    with assms(1) show ?thesis
      using c s by (auto simp: emit_def conserved_def in_flight_def slot_free_def
          split: if_splits list.splits)
  next
    case (ReadText json st)
    with assms(1) show ?thesis
      using keep [of a'] by (auto simp: on_live_def read_text_def spawn_def Let_def
          split: if_splits option.splits)
  next
    case (ReadClose code)
    with assms(1) show ?thesis
      using keep [of a'] by (auto simp: on_live_def read_close_def split: if_splits)
  next
    case (Ping ok)
    with assms(1) show ?thesis
      using keep [of a'] by (auto simp: on_live_def ping_def split: if_splits)
  qed (insert assms(1) keep [of a'], auto simp: on_live_def split: if_splits conn_phase.splits)
qed

lemma reach_conserved: "reach cf a \<Longrightarrow> conserved cf a \<and> slot_free a"
  by (induction rule: reach.induct)
    (auto simp: agent_init_def conserved_def in_flight_def slot_free_def dest: conserved_step)

section \<open>Each command's frames\<close>

definition frames_of :: "nat \<Rightarrow> frame list \<Rightarrow> OutboundProgress list" where
  "frames_of i fs = map snd (filter (\<lambda>f. fst f = i) fs)"

lemma frames_of_append [simp]: "frames_of i (fs @ gs) = frames_of i fs @ frames_of i gs"
  by (simp add: frames_of_def)

lemma frames_of_filter:
  "frames_of i (filter (\<lambda>f. P (snd f)) fs) = filter P (frames_of i fs)"
  by (induction fs) (simp_all add: frames_of_def)

text \<open>
  What a worker has sent and what it still has to send make up the frames of a run of
  \<open>handle_command\<close> on its command.
\<close>

definition workers_ok :: "'s agent_conf \<Rightarrow> agent \<Rightarrow> bool" where
  "workers_ok cf a \<longleftrightarrow>
     (\<forall>i < length (workers a). frames_of i (emitted a) @ w_rest (workers a ! i)
        = w_frames (workers a ! i)
      \<and> (\<exists>s. w_frames (workers a ! i)
          = fst (handle_command (cf_registry cf) (cf_shell cf) (w_cmd (workers a ! i)) s)))
   \<and> (\<forall>f \<in> set (emitted a). fst f < length (workers a))"

lemma frames_of_fresh:
  "\<forall>f \<in> set fs. fst f < n \<Longrightarrow> frames_of n fs = []"
  by (induction fs) (auto simp: frames_of_def)

lemma workers_ok_same:
  "workers_ok cf a \<Longrightarrow> workers b = workers a \<Longrightarrow> emitted b = emitted a \<Longrightarrow> workers_ok cf b"
  by (simp add: workers_ok_def)

lemma workers_ok_spawn: "workers_ok cf a \<Longrightarrow> workers_ok cf (spawn cf cmd s a)"
  by (auto simp: workers_ok_def spawn_def Let_def nth_append less_Suc_eq frames_of_fresh)

lemma workers_ok_emit:
  assumes "emit i a = Some a'" and ok: "workers_ok cf a"
  shows "workers_ok cf a'"
proof -
  from assms(1) obtain f fs where i: "i < length (workers a)"
    and w: "w_rest (workers a ! i) = f # fs"
    and a': "a' = a\<lparr>workers := (workers a)[i := (workers a ! i)\<lparr>w_rest := fs\<rparr>],
      chan := chan a @ [(i, f)], emitted := emitted a @ [(i, f)]\<rparr>"
    by (auto simp: emit_def split: if_splits list.splits)
  have "frames_of j [(i, f)] = (if j = i then [f] else [])" for j
    by (simp add: frames_of_def)
  with ok i w show ?thesis by (auto simp: workers_ok_def a' nth_list_update)
qed

lemma workers_ok_step:
  assumes "agent_step cf e a = Some a'" and ok: "workers_ok cf a"
  shows "workers_ok cf a'"
proof (cases e)
  case (ReadText json s)
  with assms show ?thesis
    by (auto simp: on_live_def read_text_def split: if_splits option.splits
        intro: workers_ok_spawn)
next
  case (Emit i)
  with assms show ?thesis by (auto intro: workers_ok_emit)
qed (insert assms, auto simp: on_live_def connect_ok_def read_close_def recv_frame_def ping_def
      elim!: workers_ok_same split: if_splits option.splits list.splits sum.splits conn_phase.splits)

lemma workers_ok_init: "workers_ok cf agent_init"
  by (simp add: agent_init_def workers_ok_def)

lemma reach_workers: "reach cf a \<Longrightarrow> workers_ok cf a"
  by (induction rule: reach.induct) (blast intro: workers_ok_init workers_ok_step)+

text \<open>
  The frames of one command that reached a socket are, in order, a prefix of the frames
  its run sends (leaving out any that do not serialize).
\<close>

lemma reach_prefix:
  assumes r: "reach cf a" and i: "i < length (workers a)"
  shows "\<exists>rest. frames_of i (written a) @ rest
    = filter (\<lambda>f. cf_ser cf f \<noteq> None) (w_frames (workers a ! i))"
proof -
  have "frames_of i (filter (sendable cf) (emitted a))
      = filter (\<lambda>f. cf_ser cf f \<noteq> None) (frames_of i (emitted a))"
    unfolding sendable_def by (rule frames_of_filter)
  moreover have "frames_of i (emitted a) @ w_rest (workers a ! i) = w_frames (workers a ! i)"
    using reach_workers [OF r] i by (simp add: workers_ok_def)
  then have "filter (\<lambda>f. cf_ser cf f \<noteq> None) (frames_of i (emitted a))
      @ filter (\<lambda>f. cf_ser cf f \<noteq> None) (w_rest (workers a ! i))
      = filter (\<lambda>f. cf_ser cf f \<noteq> None) (w_frames (workers a ! i))"
    by (metis filter_append)
  moreover have "filter (sendable cf) (emitted a)
      = written a @ filter (sendable cf) (in_flight a)"
    using reach_conserved [OF r] by (simp add: conserved_def)
  ultimately show ?thesis by (metis append.assoc frames_of_append)
qed

section \<open>Everything can be delivered\<close>

text \<open>
  From any state some behaviour of the environment gets every frame out: the sleep ends,
  a connection succeeds, the workers finish and the writes work.
\<close>

definition settled :: "agent \<Rightarrow> bool" where
  "settled a \<longleftrightarrow> conn a = Connected \<and> pending a = None \<and> chan a = []
     \<and> (\<forall>w \<in> set (workers a). w_rest w = [])"

lemma step_runs: "agent_step cf e a = Some a' \<Longrightarrow> run_agent cf [e] a = Some a'"
  by simp

lemma can_connect:
  assumes "cf_request cf = Inr req" and "slot_free a"
  shows "\<exists>es a'. run_agent cf es a = Some a' \<and> conn a' = Connected \<and> workers a' = workers a"
proof -
  have one: "\<exists>a'. agent_step cf (ConnectOk True) b = Some a' \<and> conn a' = Connected
      \<and> workers a' = workers b" if "conn b = Connecting" for b
  proof (cases "pending b")
    case None
    with that assms(1) show ?thesis by (simp add: connect_ok_def)
  next
    case (Some f)
    have "conn (send_frame cf True f (b\<lparr>pending := None\<rparr>)) = Connected"
      using send_frame_cases [of "b\<lparr>pending := None\<rparr>" cf f True] by auto
    with that assms(1) Some show ?thesis by (simp add: connect_ok_def)
  qed
  show ?thesis
  proof (cases "conn a")
    case Connecting
    from one [OF this] show ?thesis using step_runs by blast
  next
    case Connected
    then show ?thesis by (intro exI [of _ "[]"]) simp
  next
    case (Sleeping d)
    let ?b = "a\<lparr>conn := Connecting, elapsed := 0\<rparr>"
    obtain a' where "agent_step cf (ConnectOk True) ?b = Some a'" "conn a' = Connected"
      "workers a' = workers ?b"
      using one [of ?b] by auto
    with Sleeping show ?thesis by (intro exI [of _ "[Wake, ConnectOk True]"]) simp
  qed
qed

lemma can_emit:
  "\<exists>es a'. run_agent cf es a = Some a' \<and> conn a' = conn a \<and> pending a' = pending a
     \<and> length (workers a') = length (workers a)
     \<and> (\<forall>w \<in> set (workers a'). w_rest w = [])"
proof (induction "sum_list (map (length \<circ> w_rest) (workers a))" arbitrary: a rule: less_induct)
  case less
  show ?case
  proof (cases "\<forall>w \<in> set (workers a). w_rest w = []")
    case True
    then show ?thesis by (intro exI [of _ "[]"]) simp
  next
    case False
    then obtain i f fs where i: "i < length (workers a)" and w: "w_rest (workers a ! i) = f # fs"
      by (metis in_set_conv_nth neq_Nil_conv)
    let ?w = "(workers a ! i)\<lparr>w_rest := fs\<rparr>"
    let ?b = "a\<lparr>workers := (workers a)[i := ?w], chan := chan a @ [(i, f)],
      emitted := emitted a @ [(i, f)]\<rparr>"
    have step: "agent_step cf (Emit i) a = Some ?b" using i w by (simp add: emit_def)
    let ?g = "\<lambda>ws. sum_list (map (length \<circ> w_rest) ws)"
    have "workers a = take i (workers a) @ workers a ! i # drop (Suc i) (workers a)"
      using i by (rule id_take_nth_drop)
    then have "?g (workers a) = ?g (take i (workers a)) + length (w_rest (workers a ! i))
        + ?g (drop (Suc i) (workers a))"
      by (metis (no_types, lifting) map_append list.map(2) sum_list_append sum_list.Cons comp_apply
          add.assoc)
    moreover have "?g ((workers a)[i := ?w]) = ?g (take i (workers a)) + length fs
        + ?g (drop (Suc i) (workers a))"
      using i by (simp add: upd_conv_take_nth_drop)
    ultimately have "?g (workers ?b) < ?g (workers a)" using w by simp
    from less [OF this] obtain es a' where r: "run_agent cf es ?b = Some a'" and
      a': "conn a' = conn a" "pending a' = pending a" "length (workers a') = length (workers a)"
        "\<forall>w \<in> set (workers a'). w_rest w = []"
      by auto
    have "run_agent cf (Emit i # es) a = Some a'" using step r by simp
    with a' show ?thesis by blast
  qed
qed

lemma can_receive:
  "conn a = Connected \<Longrightarrow> pending a = None \<Longrightarrow>
     \<exists>es a'. run_agent cf es a = Some a' \<and> conn a' = Connected \<and> pending a' = None
       \<and> chan a' = [] \<and> workers a' = workers a"
proof (induction "chan a" arbitrary: a)
  case Nil
  then show ?case by (intro exI [of _ "[]"]) simp
next
  case (Cons f q)
  let ?b = "send_frame cf True f (a\<lparr>chan := q\<rparr>)"
  have step: "agent_step cf (RecvFrame True) a = Some ?b"
    using Cons.prems Cons.hyps(2) [symmetric] by (simp add: on_live_def recv_frame_def)
  have "conn ?b = Connected" "pending ?b = None"
    using send_frame_cases [of "a\<lparr>chan := q\<rparr>" cf f True] Cons.prems by auto
  with Cons.hyps(1) [of ?b] obtain es a' where "run_agent cf es ?b = Some a'"
    "conn a' = Connected" "pending a' = None" "chan a' = []" "workers a' = workers a"
    by auto
  moreover from step this(1) have "run_agent cf (RecvFrame True # es) a = Some a'" by simp
  ultimately show ?case by blast
qed

lemma can_settle:
  assumes r: "reach cf a" and req: "cf_request cf = Inr req"
  shows "\<exists>es a'. run_agent cf es a = Some a' \<and> settled a'
    \<and> length (workers a') = length (workers a)"
proof -
  obtain es1 a1 where 1: "run_agent cf es1 a = Some a1" "conn a1 = Connected"
    "workers a1 = workers a"
    using can_connect [OF req] reach_conserved [OF r] by blast
  have "reach cf a1" using reach_run [OF r 1(1)] .
  then have "pending a1 = None" using 1(2) reach_conserved by (auto simp: slot_free_def)
  obtain es2 a2 where 2: "run_agent cf es2 a1 = Some a2" "conn a2 = conn a1"
    "pending a2 = pending a1" "length (workers a2) = length (workers a1)"
    "\<forall>w \<in> set (workers a2). w_rest w = []"
    using can_emit by blast
  obtain es3 a3 where 3: "run_agent cf es3 a2 = Some a3" "conn a3 = Connected"
    "pending a3 = None" "chan a3 = []" "workers a3 = workers a2"
    using can_receive [of a2 cf] 1(2) 2(2,3) \<open>pending a1 = None\<close> by auto
  have "run_agent cf (es1 @ es2 @ es3) a = Some a3"
    using 1(1) 2(1) 3(1) by (simp add: run_agent_append)
  moreover have "settled a3" using 2(5) 3 by (simp add: settled_def)
  moreover have "length (workers a3) = length (workers a)" using 1(3) 2(4) 3(5) by simp
  ultimately show ?thesis by blast
qed

text \<open>In a settled state every command has its whole sequence of frames on the wire.\<close>

lemma settled_delivered:
  assumes r: "reach cf a" and s: "settled a" and i: "i < length (workers a)"
  shows "frames_of i (written a)
    = filter (\<lambda>f. cf_ser cf f \<noteq> None) (w_frames (workers a ! i))"
proof -
  have "filter (sendable cf) (emitted a) = written a"
    using reach_conserved [OF r] s by (simp add: conserved_def in_flight_def settled_def)
  moreover have "frames_of i (emitted a) = w_frames (workers a ! i)"
    using reach_workers [OF r] i s by (auto simp: workers_ok_def settled_def)
  ultimately show ?thesis
    using frames_of_filter [of i "\<lambda>f. cf_ser cf f \<noteq> None" "emitted a"]
    by (simp add: sendable_def [abs_def])
qed

section \<open>The whole loop\<close>

text \<open>\<^verbatim>\<open>run_forever\<close> returns at once when there is no target, and otherwise never.\<close>

definition run_forever_start :: "'u url_ops \<Rightarrow> ExecutorConfig \<Rightarrow> ConnectError + agent" where
  "run_forever_start ops config =
     (case connect_url ops config of Inl e \<Rightarrow> Inl e | Inr target \<Rightarrow> Inr agent_init)"

text \<open>In every phase there is something the environment can do next: the loop has no exit.\<close>

lemma never_stuck: "\<exists>e a'. agent_step cf e a = Some a' \<and> (\<forall>n. e \<noteq> Elapse n)"
proof (cases "conn a")
  case Connecting
  then show ?thesis by (intro exI [of _ ConnectFail]) simp
next
  case Connected
  then show ?thesis by (intro exI [of _ ReadEnd]) (simp add: on_live_def)
next
  case (Sleeping d)
  then show ?thesis by (intro exI [of _ Wake]) simp
qed

end
