(* ===== verification/Transport.thy ===== *)
theory Transport
  imports Session
begin

text \<open>
  What the loop of \<open>Session\<close> promises its users, as an abstract machine: a reliable
  first-in first-out queue. Every step of the loop is a step of the queue, whatever the
  network does, and once no new command arrives and the writes work, draining the queue ends
  in the settled state, in a number of steps that is known beforehand.
\<close>

section \<open>The abstract queue\<close>

record fifo =
  waiting :: "frame list"
  delivered :: "frame list"

datatype fifo_act = Idle | Enq frame | Deq

inductive fifo_step :: "fifo \<Rightarrow> fifo_act \<Rightarrow> fifo \<Rightarrow> bool" where
  fifo_idle: "fifo_step q Idle q"
| fifo_enq: "fifo_step q (Enq f) (q\<lparr>waiting := waiting q @ [f]\<rparr>)"
| fifo_deq: "waiting q = f # fs \<Longrightarrow>
    fifo_step q Deq (q\<lparr>waiting := fs, delivered := delivered q @ [f]\<rparr>)"

inductive_simps fifo_step_simps: "fifo_step q act q'"

definition queue_of :: "'s agent_conf \<Rightarrow> agent \<Rightarrow> fifo" where
  "queue_of cf a = \<lparr>waiting = filter (sendable cf) (in_flight a), delivered = written a\<rparr>"

section \<open>Each step of the loop is a step of the queue\<close>

lemma send_frame_written:
  assumes "pending a = None"
  shows "written (send_frame cf ok f a) = written a
    \<or> ok \<and> sendable cf f \<and> written (send_frame cf ok f a) = written a @ [f]"
  using send_frame_cases [OF assms, of cf f ok] by blast

lemma step_traffic:
  assumes step: "agent_step cf e a = Some a'" and free: "slot_free a"
  shows "(\<exists>i f. e = Emit i \<and> emitted a' = emitted a @ [f] \<and> written a' = written a)
    \<or> emitted a' = emitted a \<and> written a' = written a
    \<or> e \<in> {ConnectOk True, RecvFrame True} \<and> emitted a' = emitted a
        \<and> (\<exists>f. written a' = written a @ [f])"
proof (cases e)
  case (ConnectOk ok)
  with step have c: "connect_ok cf ok a = Some a'" by (auto split: if_splits)
  show ?thesis
  proof (cases "pending a")
    case None
    with c show ?thesis by (auto simp: connect_ok_def split: sum.splits)
  next
    case (Some f)
    with c have "a' = send_frame cf ok f (a\<lparr>pending := None\<rparr>)"
      by (auto simp: connect_ok_def split: sum.splits)
    with ConnectOk show ?thesis
      using send_frame_written [of "a\<lparr>pending := None\<rparr>" cf ok f] by auto
  qed
next
  case (RecvFrame ok)
  with step have live: "conn a = Connected" and r: "recv_frame cf ok a = Some a'"
    by (auto simp: on_live_def split: if_splits)
  then obtain f q where "a' = send_frame cf ok f (a\<lparr>chan := q\<rparr>)"
    by (auto simp: recv_frame_def split: list.splits)
  moreover from live free have "pending a = None" by (simp add: slot_free_def)
  ultimately show ?thesis
    using RecvFrame send_frame_written [of "a\<lparr>chan := q\<rparr>" cf ok f] by auto
next
  case (Emit i)
  with step show ?thesis by (auto simp: emit_def split: if_splits list.splits)
qed (insert step, auto simp: on_live_def read_text_def spawn_def read_close_def ping_def Let_def
      split: if_splits option.splits conn_phase.splits)

lemma queue_step:
  assumes r: "reach cf a" and step: "agent_step cf e a = Some a'"
  shows "\<exists>act. fifo_step (queue_of cf a) act (queue_of cf a')
    \<and> (\<forall>f. act = Enq f \<longrightarrow> (\<exists>i. e = Emit i))
    \<and> (act = Deq \<longrightarrow> e \<in> {ConnectOk True, RecvFrame True})"
proof -
  let ?s = "filter (sendable cf)"
  have c: "?s (emitted a) = written a @ ?s (in_flight a)" and free: "slot_free a"
    using reach_conserved [OF r] by (auto simp: conserved_def)
  have c': "?s (emitted a') = written a' @ ?s (in_flight a')"
    using conserved_step [OF step] reach_conserved [OF r] by (auto simp: conserved_def)
  from step_traffic [OF step free] show ?thesis
  proof (elim disjE exE conjE)
    fix i f assume e: "e = Emit i" and em: "emitted a' = emitted a @ [f]"
      and w: "written a' = written a"
    from c c' em w have q: "?s (in_flight a') = ?s (in_flight a) @ ?s [f]" by simp
    show ?thesis
    proof (cases "sendable cf f")
      case True
      with q w have "queue_of cf a' = (queue_of cf a)\<lparr>waiting := waiting (queue_of cf a) @ [f]\<rparr>"
        by (simp add: queue_of_def)
      with e show ?thesis by (intro exI [of _ "Enq f"]) (simp add: fifo_enq)
    next
      case False
      with q w have "queue_of cf a' = queue_of cf a" by (simp add: queue_of_def)
      then show ?thesis by (intro exI [of _ Idle]) (simp add: fifo_idle)
    qed
  next
    assume "emitted a' = emitted a" "written a' = written a"
    with c c' have "queue_of cf a' = queue_of cf a" by (simp add: queue_of_def)
    then show ?thesis by (intro exI [of _ Idle]) (simp add: fifo_idle)
  next
    fix f assume e: "e \<in> {ConnectOk True, RecvFrame True}" and em: "emitted a' = emitted a"
      and w: "written a' = written a @ [f]"
    from c c' em w have "?s (in_flight a) = f # ?s (in_flight a')" by simp
    then have "fifo_step (queue_of cf a) Deq (queue_of cf a')"
      using w by (auto simp: queue_of_def fifo_step_simps)
    with e show ?thesis by (intro exI [of _ Deq]) simp
  qed
qed

section \<open>Draining ends\<close>

text \<open>Worker sends and successful writes, in whatever order they are scheduled.\<close>

definition drain_ev :: "'s ev \<Rightarrow> bool" where
  "drain_ev e \<longleftrightarrow> e = RecvFrame True \<or> (\<exists>i. e = Emit i)"

definition unsent :: "agent \<Rightarrow> nat" where
  "unsent a = (\<Sum>w \<leftarrow> workers a. length (w_rest w))"

definition drain_measure :: "agent \<Rightarrow> nat" where
  "drain_measure a = 2 * unsent a + length (chan a)"

lemma unsent_update:
  assumes "i < length ws" and "w_rest (ws ! i) = f # fs" and "w_rest w = fs"
  shows "(\<Sum>w \<leftarrow> ws. length (w_rest w)) = Suc (\<Sum>w \<leftarrow> ws[i := w]. length (w_rest w))"
  using assms
proof (induction ws arbitrary: i)
  case (Cons v ws)
  then show ?case by (cases i) auto
qed simp

lemma drain_step:
  assumes step: "agent_step cf e a = Some a'" and d: "drain_ev e"
    and live: "conn a = Connected" and free: "pending a = None"
  shows "drain_measure a = Suc (drain_measure a') \<and> conn a' = Connected \<and> pending a' = None"
proof (cases e)
  case (RecvFrame ok)
  with d step live obtain f q where q: "chan a = f # q"
    and a': "a' = send_frame cf True f (a\<lparr>chan := q\<rparr>)"
    by (auto simp: drain_ev_def on_live_def recv_frame_def split: list.splits)
  have "conn a' = Connected \<and> pending a' = None"
    using send_frame_cases [of "a\<lparr>chan := q\<rparr>" cf f True] free by (auto simp: a')
  moreover have "drain_measure a = Suc (drain_measure a')"
    using q by (simp add: a' drain_measure_def unsent_def)
  ultimately show ?thesis by blast
next
  case (Emit i)
  with step obtain f fs where i: "i < length (workers a)" and w: "w_rest (workers a ! i) = f # fs"
    and a': "a' = a\<lparr>workers := (workers a)[i := (workers a ! i)\<lparr>w_rest := fs\<rparr>],
      chan := chan a @ [(i, f)], emitted := emitted a @ [(i, f)]\<rparr>"
    by (auto simp: emit_def split: if_splits list.splits)
  have "unsent a = Suc (unsent a')"
    using unsent_update [OF i w, of "(workers a ! i)\<lparr>w_rest := fs\<rparr>"] by (simp add: unsent_def a')
  then show ?thesis using live free by (simp add: a' drain_measure_def)
qed (use d in \<open>auto simp: drain_ev_def\<close>)

lemma drain_run:
  "run_agent cf es a = Some a' \<Longrightarrow> list_all drain_ev es \<Longrightarrow> conn a = Connected \<Longrightarrow>
     pending a = None \<Longrightarrow>
     drain_measure a = length es + drain_measure a' \<and> conn a' = Connected \<and> pending a' = None"
proof (induction es arbitrary: a)
  case (Cons e es)
  from Cons.prems(1) obtain b where b: "agent_step cf e a = Some b" "run_agent cf es b = Some a'"
    by (auto split: option.splits)
  from Cons.prems drain_step [OF b(1)] Cons.IH [OF b(2)] show ?case by simp
qed simp

text \<open>When no such step is possible any more, everything is delivered.\<close>

lemma drained_settled:
  assumes "conn a = Connected" and "pending a = None"
    and stuck: "\<forall>e. drain_ev e \<longrightarrow> agent_step cf e a = None"
  shows "settled a"
proof -
  have "recv_frame cf True a = None"
    using stuck [rule_format, of "RecvFrame True"] assms(1) by (simp add: drain_ev_def on_live_def)
  then have "chan a = []" by (simp add: recv_frame_def split: list.splits)
  moreover have "w_rest w = []" if "w \<in> set (workers a)" for w
  proof -
    from that obtain i where "i < length (workers a)" "workers a ! i = w"
      by (auto simp: in_set_conv_nth)
    with stuck [rule_format, of "Emit i"] show ?thesis
      by (simp add: drain_ev_def emit_def split: list.splits)
  qed
  ultimately show ?thesis using assms by (simp add: settled_def)
qed

end
