(* ===== verification/Service.thy ===== *)
theory Service
  imports Cli Session
begin

text \<open>
  \<^verbatim>\<open>service/console.rs\<close>, \<^verbatim>\<open>service/mod.rs\<close>, \<^verbatim>\<open>service/scm.rs\<close> and the \<^verbatim>\<open>connect\<close> path of
  \<^verbatim>\<open>cli.rs\<close>: the machine-wide instance lock, the run loop that holds it, and the Windows
  service around the loop. The file and lock operations of the system and the service
  manager's database are parameters; what the code relies on is stated as laws
  (\<open>lock_laws\<close>, \<open>scm_laws\<close>). The loop itself is the step function of \<open>Session\<close>.
\<close>

section \<open>The instance lock\<close>

text \<open>
  \<open>lk_open path\<close> opens for writing and creates without truncating; \<open>lk_open_exclusive\<close> does so
  with \<^verbatim>\<open>share_mode(0)\<close>; \<open>lk_flock\<close> is \<^verbatim>\<open>flock(fd, LOCK_EX | LOCK_NB)\<close>, and \<open>lk_drop\<close>
  closes a handle, which releases what it holds.
\<close>

record ('h, 'm) lock_ops =
  lk_create_dir_all :: "string \<Rightarrow> 'm \<Rightarrow> (string + unit) \<times> 'm"
  lk_open :: "string \<Rightarrow> 'm \<Rightarrow> (string + 'h) \<times> 'm"
  lk_open_exclusive :: "string \<Rightarrow> 'm \<Rightarrow> (string + 'h) \<times> 'm"
  lk_flock :: "'h \<Rightarrow> 'm \<Rightarrow> i32 \<times> 'm"
  lk_drop :: "'h \<Rightarrow> 'm \<Rightarrow> 'm"

datatype LoopError =
    CreateDir string
  | OpenLock string
  | AlreadyRunning
  | RuntimeFailed string
  | LoopFailed ConnectError

definition lock_dir :: "bool \<Rightarrow> string" where
  "lock_dir windows =
     (if windows then ''C:'' @ backslash @ ''ProgramData'' @ backslash @ ''PkiExecutor''
      else ''/var/lib/pki-executor'')"

definition lock_file :: "bool \<Rightarrow> string" where
  "lock_file windows = lock_dir windows @ (if windows then backslash else ''/'') @ ''agent.lock''"

definition acquire_instance_lock ::
  "bool \<Rightarrow> ('h, 'm) lock_ops \<Rightarrow> 'm \<Rightarrow> (LoopError + 'h) \<times> 'm" where
  "acquire_instance_lock windows ops m =
     (case lk_create_dir_all ops (lock_dir windows) m of
        (Inl e, m1) \<Rightarrow> (Inl (CreateDir e), m1)
      | (Inr _, m1) \<Rightarrow>
         if windows then
           (case lk_open_exclusive ops (lock_file windows) m1 of
              (Inl e, m2) \<Rightarrow> (Inl AlreadyRunning, m2)
            | (Inr h, m2) \<Rightarrow> (Inr h, m2))
         else
           (case lk_open ops (lock_file windows) m1 of
              (Inl e, m2) \<Rightarrow> (Inl (OpenLock e), m2)
            | (Inr h, m2) \<Rightarrow>
               (case lk_flock ops h m2 of
                  (taken, m3) \<Rightarrow>
                    if taken \<noteq> 0 then (Inl AlreadyRunning, lk_drop ops h m3) else (Inr h, m3))))"

text \<open>
  What the systems document, for the lock file: an exclusive open and a lock succeed only
  while nobody else holds the file, a failed operation changes nothing, a new handle is
  not one that is open, and closing a handle gives up what it held. \<open>holder\<close> is the handle
  that holds the file, \<open>handles\<close> the open ones.
\<close>

definition lock_laws ::
  "bool \<Rightarrow> ('h, 'm) lock_ops \<Rightarrow> ('m \<Rightarrow> 'h option) \<Rightarrow> ('m \<Rightarrow> 'h set) \<Rightarrow> bool" where
  "lock_laws windows ops holder handles \<longleftrightarrow>
     (\<forall>d m. case lk_create_dir_all ops d m of (r, m') \<Rightarrow>
        holder m' = holder m \<and> handles m' = handles m)
   \<and> (\<forall>m. case lk_open_exclusive ops (lock_file windows) m of
          (Inl e, m') \<Rightarrow> holder m' = holder m \<and> handles m' = handles m
        | (Inr h, m') \<Rightarrow> holder m = None \<and> h \<notin> handles m
            \<and> holder m' = Some h \<and> handles m' = insert h (handles m))
   \<and> (\<forall>m. case lk_open ops (lock_file windows) m of
          (Inl e, m') \<Rightarrow> holder m' = holder m \<and> handles m' = handles m
        | (Inr h, m') \<Rightarrow> h \<notin> handles m \<and> holder m' = holder m \<and> handles m' = insert h (handles m))
   \<and> (\<forall>h m. case lk_flock ops h m of (taken, m') \<Rightarrow> handles m' = handles m
        \<and> (if taken = 0 then holder m \<in> {None, Some h} \<and> holder m' = Some h
           else holder m' = holder m))
   \<and> (\<forall>h m. handles (lk_drop ops h m) = handles m - {h}
        \<and> holder (lk_drop ops h m) = (if holder m = Some h then None else holder m))"

lemma lock_lawsD:
  assumes "lock_laws windows ops holder handles"
  shows "lk_create_dir_all ops d m = (r, m') \<Longrightarrow> holder m' = holder m \<and> handles m' = handles m"
    and "lk_open_exclusive ops (lock_file windows) m = (Inl e, m') \<Longrightarrow>
      holder m' = holder m \<and> handles m' = handles m"
    and "lk_open_exclusive ops (lock_file windows) m = (Inr h, m') \<Longrightarrow>
      holder m = None \<and> h \<notin> handles m \<and> holder m' = Some h \<and> handles m' = insert h (handles m)"
    and "lk_open ops (lock_file windows) m = (Inl e, m') \<Longrightarrow>
      holder m' = holder m \<and> handles m' = handles m"
    and "lk_open ops (lock_file windows) m = (Inr h, m') \<Longrightarrow>
      h \<notin> handles m \<and> holder m' = holder m \<and> handles m' = insert h (handles m)"
    and "lk_flock ops h m = (taken, m') \<Longrightarrow> handles m' = handles m
      \<and> (if taken = 0 then holder m \<in> {None, Some h} \<and> holder m' = Some h
         else holder m' = holder m)"
    and "handles (lk_drop ops h m) = handles m - {h}"
    and "holder (lk_drop ops h m) = (if holder m = Some h then None else holder m)"
  using assms unfolding lock_laws_def
  by (fastforce dest: spec [of _ m] spec [of _ h] spec [of _ d])+

text \<open>Taking the lock: only when it is free, and otherwise nothing changes.\<close>

lemma acquire_spec:
  assumes laws: "lock_laws windows ops holder handles"
    and held: "\<forall>h. holder m = Some h \<longrightarrow> h \<in> handles m"
    and a: "acquire_instance_lock windows ops m = (r, m')"
  shows "case r of
      Inl e \<Rightarrow> holder m' = holder m \<and> handles m' = handles m
    | Inr h \<Rightarrow> holder m = None \<and> h \<notin> handles m \<and> holder m' = Some h
        \<and> handles m' = insert h (handles m)"
proof -
  note L = lock_lawsD [OF laws]
  obtain r1 m1 where c: "lk_create_dir_all ops (lock_dir windows) m = (r1, m1)" by fastforce
  have m1: "holder m1 = holder m" "handles m1 = handles m" using L(1) [OF c] by simp_all
  show ?thesis
  proof (cases r1)
    case (Inl e)
    with a c m1 show ?thesis by (auto simp: acquire_instance_lock_def)
  next
    case r1: (Inr u)
    show ?thesis
    proof (cases windows)
      case True
      obtain r2 m2 where o: "lk_open_exclusive ops (lock_file windows) m1 = (r2, m2)" by fastforce
      show ?thesis
      proof (cases r2)
        case (Inl e)
        with a c r1 True o m1 L(2) [of m1 e m2] show ?thesis
          by (auto simp: acquire_instance_lock_def)
      next
        case (Inr h)
        with a c r1 True o m1 L(3) [of m1 h m2] show ?thesis
          by (auto simp: acquire_instance_lock_def)
      qed
    next
      case False
      obtain r2 m2 where o: "lk_open ops (lock_file windows) m1 = (r2, m2)" by fastforce
      show ?thesis
      proof (cases r2)
        case (Inl e)
        with a c r1 False o m1 L(4) [of m1 e m2] show ?thesis
          by (auto simp: acquire_instance_lock_def)
      next
        case (Inr h)
        obtain taken m3 where f: "lk_flock ops h m2 = (taken, m3)" by fastforce
        have m2: "h \<notin> handles m" "holder m2 = holder m" "handles m2 = insert h (handles m)"
          using L(5) [of m1 h m2] o Inr m1 by simp_all
        show ?thesis
        proof (cases "taken = 0")
          case True
          with a c r1 False o Inr f have "r = Inr h" "m' = m3"
            by (auto simp: acquire_instance_lock_def)
          with L(6) [OF f] True m2 held show ?thesis by auto
        next
          case nz: False
          with a c r1 False o Inr f have "r = Inl AlreadyRunning" "m' = lk_drop ops h m3"
            by (auto simp: acquire_instance_lock_def)
          with L(6) [OF f] nz m2 held show ?thesis by (auto simp: L(7,8))
        qed
      qed
    qed
  qed
qed

section \<open>The run loop\<close>

text \<open>
  \<^verbatim>\<open>run_loop\<close> up to the loop: the lock is taken first and given up on every failing path;
  then the loop of \<open>Session\<close> runs with it held. Building the asynchronous runtime may fail.
\<close>

definition run_loop_start ::
  "bool \<Rightarrow> ('h, 'm) lock_ops \<Rightarrow> 'u url_ops \<Rightarrow> (string + unit) \<Rightarrow> ExecutorConfig \<Rightarrow> 'm \<Rightarrow>
     (LoopError + 'h \<times> agent) \<times> 'm" where
  "run_loop_start windows ops urls runtime config m =
     (case acquire_instance_lock windows ops m of
        (Inl e, m1) \<Rightarrow> (Inl e, m1)
      | (Inr h, m1) \<Rightarrow>
         (case runtime of
            Inl e \<Rightarrow> (Inl (RuntimeFailed e), lk_drop ops h m1)
          | Inr _ \<Rightarrow>
             (case run_forever_start urls config of
                Inl e \<Rightarrow> (Inl (LoopFailed e), lk_drop ops h m1)
              | Inr a \<Rightarrow> (Inr (h, a), m1))))"

text \<open>What the loop is given: the registry and the executor of the platform and the request.\<close>

definition loop_conf ::
  "bool \<Rightarrow> host_env \<Rightarrow> 'o os_ops \<Rightarrow> 'u url_ops \<Rightarrow> (string \<Rightarrow> Request option) \<Rightarrow> (string \<Rightarrow> bool) \<Rightarrow>
     (OutboundProgress \<Rightarrow> string option) \<Rightarrow> (string \<Rightarrow> InboundCommand option) \<Rightarrow>
     ExecutorConfig \<Rightarrow> 'o agent_conf" where
  "loop_conf windows env os urls into_client_request header_ok ser dec config =
     \<lparr>cf_request = connect_request urls into_client_request header_ok config,
      cf_ser = ser, cf_dec = dec, cf_registry = build_default_registry (\<not> windows) env,
      cf_shell = build_shell windows os (shell_binary (execution config))\<rparr>"

lemma run_loop_start_spec:
  assumes laws: "lock_laws windows ops holder handles"
    and held: "\<forall>h. holder m = Some h \<longrightarrow> h \<in> handles m"
    and a: "run_loop_start windows ops urls runtime config m = (r, m')"
  shows "case r of
      Inl e \<Rightarrow> holder m' = holder m \<and> handles m' = handles m
    | Inr (h, ag) \<Rightarrow> holder m = None \<and> h \<notin> handles m \<and> holder m' = Some h
        \<and> handles m' = insert h (handles m) \<and> ag = agent_init"
proof -
  note L = lock_lawsD [OF laws]
  obtain r1 m1 where l: "acquire_instance_lock windows ops m = (r1, m1)" by fastforce
  note s = acquire_spec [OF laws held l]
  show ?thesis
  proof (cases r1)
    case (Inl e)
    with a l s show ?thesis by (auto simp: run_loop_start_def)
  next
    case (Inr h)
    with a l s show ?thesis
      by (auto simp: run_loop_start_def run_forever_start_def L(7,8) split: sum.splits)
  qed
qed

section \<open>Several processes on one machine\<close>

text \<open>
  Processes start the loop, serve in it, and end at any time, when the system closes their
  handle. A process that fails to start is off again.
\<close>

datatype 'h proc = Off | Serving 'h agent

record ('h, 'm) host =
  machine :: 'm
  procs :: "nat \<Rightarrow> 'h proc"

datatype 's proc_ev = ProcStart nat | ProcStep nat "'s ev" | ProcEnd nat

fun host_step ::
  "bool \<Rightarrow> ('h, 'm) lock_ops \<Rightarrow> 'u url_ops \<Rightarrow> (nat \<Rightarrow> string + unit) \<Rightarrow>
     (nat \<Rightarrow> ExecutorConfig) \<Rightarrow> (nat \<Rightarrow> 's agent_conf) \<Rightarrow> 's proc_ev \<Rightarrow> ('h, 'm) host \<Rightarrow>
     ('h, 'm) host option" where
  "host_step w ops urls rt configs cfs (ProcStart i) st =
     (case procs st i of
        Serving h a \<Rightarrow> None
      | Off \<Rightarrow>
         (case run_loop_start w ops urls (rt i) (configs i) (machine st) of
            (Inl e, m) \<Rightarrow> Some (st\<lparr>machine := m\<rparr>)
          | (Inr (h, a), m) \<Rightarrow> Some \<lparr>machine = m, procs = (procs st)(i := Serving h a)\<rparr>))"
| "host_step w ops urls rt configs cfs (ProcStep i e) st =
     (case procs st i of
        Off \<Rightarrow> None
      | Serving h a \<Rightarrow>
         map_option (\<lambda>a'. st\<lparr>procs := (procs st)(i := Serving h a')\<rparr>) (agent_step (cfs i) e a))"
| "host_step w ops urls rt configs cfs (ProcEnd i) st =
     (case procs st i of
        Off \<Rightarrow> None
      | Serving h a \<Rightarrow>
         Some \<lparr>machine = lk_drop ops h (machine st), procs = (procs st)(i := Off)\<rparr>)"

inductive host_reach ::
  "bool \<Rightarrow> ('h, 'm) lock_ops \<Rightarrow> 'u url_ops \<Rightarrow> (nat \<Rightarrow> string + unit) \<Rightarrow>
     (nat \<Rightarrow> ExecutorConfig) \<Rightarrow> (nat \<Rightarrow> 's agent_conf) \<Rightarrow> 'm \<Rightarrow> ('h, 'm) host \<Rightarrow> bool"
  for w ops urls rt configs cfs m0 where
  host_init: "host_reach w ops urls rt configs cfs m0 \<lparr>machine = m0, procs = (\<lambda>_. Off)\<rparr>"
| host_next: "host_reach w ops urls rt configs cfs m0 st \<Longrightarrow>
    host_step w ops urls rt configs cfs e st = Some st' \<Longrightarrow>
    host_reach w ops urls rt configs cfs m0 st'"

text \<open>
  The invariant: whoever holds the file has it open, a serving process holds the file with
  its own handle, and its agent is one the loop can reach.
\<close>

definition host_ok ::
  "('m \<Rightarrow> 'h option) \<Rightarrow> ('m \<Rightarrow> 'h set) \<Rightarrow> (nat \<Rightarrow> 's agent_conf) \<Rightarrow> ('h, 'm) host \<Rightarrow> bool" where
  "host_ok holder handles cfs st \<longleftrightarrow>
     (\<forall>h. holder (machine st) = Some h \<longrightarrow> h \<in> handles (machine st))
   \<and> (\<forall>i h a. procs st i = Serving h a \<longrightarrow> holder (machine st) = Some h \<and> reach (cfs i) a)
   \<and> (\<forall>i j h a k b. procs st i = Serving h a \<longrightarrow> procs st j = Serving k b \<longrightarrow> i = j)"

lemma host_ok_step:
  assumes laws: "lock_laws w ops holder handles"
    and ok: "host_ok holder handles cfs st"
    and step: "host_step w ops urls rt configs cfs e st = Some st'"
  shows "host_ok holder handles cfs st'"
proof (cases e)
  case (ProcStart i)
  with step have off: "procs st i = Off" by (auto split: proc.splits)
  obtain r m where r: "run_loop_start w ops urls (rt i) (configs i) (machine st) = (r, m)"
    by fastforce
  from ok have held: "\<forall>h. holder (machine st) = Some h \<longrightarrow> h \<in> handles (machine st)"
    by (simp add: host_ok_def)
  note s = run_loop_start_spec [OF laws held r]
  show ?thesis
  proof (cases r)
    case (Inl e)
    with step ProcStart off r have "st' = st\<lparr>machine := m\<rparr>" by simp
    with s ok Inl show ?thesis by (simp add: host_ok_def)
  next
    case (Inr ha)
    obtain h a where ha: "ha = (h, a)" by (cases ha)
    with step ProcStart off r Inr
    have st': "st' = \<lparr>machine = m, procs = (procs st)(i := Serving h a)\<rparr>" by simp
    from s Inr ha have free: "holder (machine st) = None" and m: "holder m = Some h"
      "handles m = insert h (handles (machine st))" and a: "a = agent_init" by auto
    from free ok have "procs st j = Off" for j
      by (cases "procs st j") (auto simp: host_ok_def)
    with m a show ?thesis by (auto simp: st' host_ok_def reach_init)
  qed
next
  case (ProcStep i ev)
  with step obtain h a a' where s: "procs st i = Serving h a" "agent_step (cfs i) ev a = Some a'"
    "st' = st\<lparr>procs := (procs st)(i := Serving h a')\<rparr>"
    by (auto split: proc.splits)
  from s(1) ok have "reach (cfs i) a" by (simp add: host_ok_def)
  then have "reach (cfs i) a'" using s(2) by (rule reach_step)
  with s ok show ?thesis unfolding host_ok_def by (auto split: if_splits)
next
  case (ProcEnd i)
  with step obtain h a where s: "procs st i = Serving h a"
    "st' = \<lparr>machine = lk_drop ops h (machine st), procs = (procs st)(i := Off)\<rparr>"
    by (auto split: proc.splits)
  with ok have h: "holder (machine st) = Some h" by (simp add: host_ok_def)
  moreover from s ok have "procs st j = Off" if "j \<noteq> i" for j
    using that by (cases "procs st j") (auto simp: host_ok_def)
  ultimately show ?thesis
    using s lock_lawsD(7,8) [OF laws] by (auto simp: host_ok_def)
qed

lemma host_reach_ok:
  assumes laws: "lock_laws w ops holder handles" and "holder m0 = None"
    and "host_reach w ops urls rt configs cfs m0 st"
  shows "host_ok holder handles cfs st"
  using assms(3)
proof (induction rule: host_reach.induct)
  case host_init
  with assms(2) show ?case by (simp add: host_ok_def)
next
  case (host_next st e st')
  then show ?case using host_ok_step [OF laws] by blast
qed

end
