(* ===== verification/Scm.thy ===== *)
theory Scm
  imports Service
begin

text \<open>
  \<^verbatim>\<open>service/scm.rs\<close>, \<^verbatim>\<open>service/mod.rs\<close> and the two other subcommands of \<^verbatim>\<open>cli.rs\<close>: registering
  the Windows service, the service's main function as a step function over the control
  requests of the service manager, the exit of the loop's thread and the main thread taking
  a stop signal, and the dispatch of the command line.
\<close>

section \<open>Registering the service\<close>

definition SERVICE_NAME :: string where
  "SERVICE_NAME = ''PkiExecutor''"

definition SERVICE_DISPLAY_NAME :: string where
  "SERVICE_DISPLAY_NAME = ''PKI Executor''"

datatype ServiceStartType = AutoStart
datatype ServiceErrorControl = ErrorControlNormal
datatype ServiceType = OWN_PROCESS
datatype ServiceManagerAccess = CREATE_SERVICE | CONNECT
datatype ServiceAccess = NO_ACCESS | DELETE

record ServiceInfo =
  si_name :: string
  si_display_name :: string
  si_service_type :: ServiceType
  si_start_type :: ServiceStartType
  si_error_control :: ServiceErrorControl
  si_executable_path :: string
  si_launch_arguments :: "string list"
  si_dependencies :: "string list"
  si_account_name :: "string option"
  si_account_password :: "string option"

record ('g, 'k, 'm) scm_ops =
  sm_local_computer :: "ServiceManagerAccess \<Rightarrow> 'm \<Rightarrow> string + 'g"
  sm_create_service :: "'g \<Rightarrow> ServiceInfo \<Rightarrow> ServiceAccess \<Rightarrow> 'm \<Rightarrow> (string + unit) \<times> 'm"
  sm_open_service :: "'g \<Rightarrow> string \<Rightarrow> ServiceAccess \<Rightarrow> 'm \<Rightarrow> string + 'k"
  sm_delete :: "'k \<Rightarrow> 'm \<Rightarrow> (string + unit) \<times> 'm"
  sm_dispatcher_start :: "string \<Rightarrow> 'm \<Rightarrow> (string + unit) \<times> 'm"

datatype ServiceError =
    ScmFailed string
  | ExePathFailed string
  | DispatcherFailed string
  | WindowsOnly string

definition service_info :: "string \<Rightarrow> ServiceInfo" where
  "service_info exe_path = \<lparr>si_name = SERVICE_NAME, si_display_name = SERVICE_DISPLAY_NAME,
     si_service_type = OWN_PROCESS, si_start_type = AutoStart,
     si_error_control = ErrorControlNormal, si_executable_path = exe_path,
     si_launch_arguments = [''service'', ''run''], si_dependencies = [],
     si_account_name = None, si_account_password = None\<rparr>"

definition scm_install ::
  "('g, 'k, 'm) scm_ops \<Rightarrow> (string + string) \<Rightarrow> 'm \<Rightarrow> (ServiceError + unit) \<times> 'm" where
  "scm_install ops current_exe m =
     (case sm_local_computer ops CREATE_SERVICE m of
        Inl e \<Rightarrow> (Inl (ScmFailed e), m)
      | Inr manager \<Rightarrow>
         (case current_exe of
            Inl e \<Rightarrow> (Inl (ExePathFailed e), m)
          | Inr exe_path \<Rightarrow>
             (case sm_create_service ops manager (service_info exe_path) NO_ACCESS m of
                (Inl e, m') \<Rightarrow> (Inl (ScmFailed e), m')
              | (Inr _, m') \<Rightarrow> (Inr (), m'))))"

definition scm_uninstall ::
  "('g, 'k, 'm) scm_ops \<Rightarrow> 'm \<Rightarrow> (ServiceError + unit) \<times> 'm" where
  "scm_uninstall ops m =
     (case sm_local_computer ops CONNECT m of
        Inl e \<Rightarrow> (Inl (ScmFailed e), m)
      | Inr manager \<Rightarrow>
         (case sm_open_service ops manager SERVICE_NAME DELETE m of
            Inl e \<Rightarrow> (Inl (ScmFailed e), m)
          | Inr k \<Rightarrow>
             (case sm_delete ops k m of
                (Inl e, m') \<Rightarrow> (Inl (ScmFailed e), m')
              | (Inr _, m') \<Rightarrow> (Inr (), m'))))"

definition scm_run ::
  "('g, 'k, 'm) scm_ops \<Rightarrow> 'm \<Rightarrow> (ServiceError + unit) \<times> 'm" where
  "scm_run ops m =
     (case sm_dispatcher_start ops SERVICE_NAME m of
        (Inl e, m') \<Rightarrow> (Inl (DispatcherFailed e), m')
      | (Inr _, m') \<Rightarrow> (Inr (), m'))"

text \<open>
  The service manager's database, as documented: a service is created under a free name, a
  handle opened for a name stands for that name, and what fails changes nothing. Deleting
  only marks the entry; it goes away when the service has stopped and the last handle to it
  is closed, which may be at once. \<open>services\<close> has, per name, the entry and whether it is
  marked.
\<close>

definition scm_laws ::
  "('g, 'k, 'm) scm_ops \<Rightarrow> ('m \<Rightarrow> string \<rightharpoonup> ServiceInfo \<times> bool) \<Rightarrow> ('k \<Rightarrow> string) \<Rightarrow> bool" where
  "scm_laws ops services key \<longleftrightarrow>
     (\<forall>g info acc m. case sm_create_service ops g info acc m of
          (Inl e, m') \<Rightarrow> services m' = services m
        | (Inr _, m') \<Rightarrow> services m (si_name info) = None
            \<and> services m' = (services m)(si_name info \<mapsto> (info, False)))
   \<and> (\<forall>g n acc m k. sm_open_service ops g n acc m = Inr k \<longrightarrow> key k = n)
   \<and> (\<forall>k m. case sm_delete ops k m of
          (Inl e, m') \<Rightarrow> services m' = services m
        | (Inr _, m') \<Rightarrow> (\<forall>n. n \<noteq> key k \<longrightarrow> services m' n = services m n)
            \<and> (\<forall>info marked. services m' (key k) = Some (info, marked) \<longrightarrow> marked
                 \<and> (\<exists>old. services m (key k) = Some (info, old))))"

lemma install_registers:
  assumes laws: "scm_laws ops services key" and i: "scm_install ops exe m = (Inr u, m1)"
  shows "\<exists>path. exe = Inr path \<and> services m SERVICE_NAME = None
    \<and> services m1 = (services m)(SERVICE_NAME \<mapsto> (service_info path, False))"
proof -
  from i obtain g path where path: "exe = Inr path"
    and c: "sm_create_service ops g (service_info path) NO_ACCESS m = (Inr (), m1)"
    by (auto simp: scm_install_def split: sum.splits prod.splits)
  from laws [unfolded scm_laws_def, THEN conjunct1, rule_format,
      where g = g and info = "service_info path" and acc = NO_ACCESS and m = m] c path
  show ?thesis by (simp add: service_info_def)
qed

text \<open>Uninstalling touches no other service, and leaves this one marked if not gone.\<close>

lemma uninstall_marks:
  assumes laws: "scm_laws ops services key" and u: "scm_uninstall ops m = (Inr u, m1)"
  shows "(\<forall>n. n \<noteq> SERVICE_NAME \<longrightarrow> services m1 n = services m n)
    \<and> (\<forall>info marked. services m1 SERVICE_NAME = Some (info, marked) \<longrightarrow> marked)"
proof -
  from u obtain g k where o: "sm_open_service ops g SERVICE_NAME DELETE m = Inr k"
    and d: "sm_delete ops k m = (Inr (), m1)"
    by (auto simp: scm_uninstall_def split: sum.splits prod.splits)
  have k: "key k = SERVICE_NAME"
    using laws o unfolding scm_laws_def by blast
  from laws [unfolded scm_laws_def, THEN conjunct2, THEN conjunct2, rule_format,
      where k = k and m = m] d k
  show ?thesis by auto
qed

text \<open>A manager that keeps what is deleted as marked keeps the laws.\<close>

definition marking_scm :: "(unit, string, string \<rightharpoonup> ServiceInfo \<times> bool) scm_ops" where
  "marking_scm = \<lparr>
     sm_local_computer = (\<lambda>acc m. Inr ()),
     sm_create_service = (\<lambda>g info acc m. case m (si_name info) of
        None \<Rightarrow> (Inr (), m(si_name info \<mapsto> (info, False))) | Some _ \<Rightarrow> (Inl ''exists'', m)),
     sm_open_service = (\<lambda>g n acc m. if m n = None then Inl ''no such service'' else Inr n),
     sm_delete = (\<lambda>k m. case m k of
        Some (info, False) \<Rightarrow> (Inr (), m(k \<mapsto> (info, True))) | _ \<Rightarrow> (Inl ''not there'', m)),
     sm_dispatcher_start = (\<lambda>n m. (Inr (), m))\<rparr>"

lemma marking_scm_laws: "scm_laws marking_scm (\<lambda>m. m) (\<lambda>k. k)"
  by (auto simp: scm_laws_def marking_scm_def split: option.splits prod.splits bool.splits)

section \<open>The service's main function\<close>

datatype ServiceControl = Stop | Shutdown | Interrogate | OtherControl
datatype ServiceControlHandlerResult = NoError | NotImplemented
datatype ServiceState = ServiceRunning | ServiceStopped

record ServiceStatus =
  ss_service_type :: ServiceType
  ss_current_state :: ServiceState
  ss_controls_accepted :: "ServiceControl list"
  ss_exit_code :: u32
  ss_checkpoint :: u32
  ss_wait_hint :: nat
  ss_process_id :: "u32 option"

definition status_running :: ServiceStatus where
  "status_running = \<lparr>ss_service_type = OWN_PROCESS, ss_current_state = ServiceRunning,
     ss_controls_accepted = [Stop, Shutdown], ss_exit_code = 0, ss_checkpoint = 0,
     ss_wait_hint = 0, ss_process_id = None\<rparr>"

definition status_stopped :: ServiceStatus where
  "status_stopped = \<lparr>ss_service_type = OWN_PROCESS, ss_current_state = ServiceStopped,
     ss_controls_accepted = [], ss_exit_code = 0, ss_checkpoint = 0,
     ss_wait_hint = 0, ss_process_id = None\<rparr>"

text \<open>The control handler: its answer, and whether it sends a stop signal.\<close>

fun control_handler :: "ServiceControl \<Rightarrow> ServiceControlHandlerResult \<times> bool" where
  "control_handler Stop = (NoError, True)"
| "control_handler Shutdown = (NoError, True)"
| "control_handler Interrogate = (NoError, False)"
| "control_handler OtherControl = (NotImplemented, False)"

lemma control_handler_sends: "snd (control_handler c) \<longleftrightarrow> c \<in> {Stop, Shutdown}"
  by (cases c) simp_all

datatype RunServiceError =
    RegisterFailed string
  | SetStatusFailed string
  | ServiceConfigFailed ConfigError

datatype loop_thread = NoThread | LoopRunning ExecutorConfig | LoopExited

record svc =
  svc_statuses :: "ServiceStatus list"
  svc_signals :: nat
  svc_loop :: loop_thread
  svc_result :: "(RunServiceError + unit) option"

text \<open>
  \<^verbatim>\<open>run_service\<close> up to \<^verbatim>\<open>shutdown_rx.recv()\<close>, from the results of registering the handler, of
  reporting the running state and of loading the configuration. The statuses are those
  the service manager has been told, in order.
\<close>

definition run_service_start ::
  "(string + unit) \<Rightarrow> (string + unit) \<Rightarrow> (ConfigError + ExecutorConfig) \<Rightarrow> svc" where
  "run_service_start registered told config =
     (case registered of
        Inl e \<Rightarrow> \<lparr>svc_statuses = [], svc_signals = 0, svc_loop = NoThread,
                   svc_result = Some (Inl (RegisterFailed e))\<rparr>
      | Inr _ \<Rightarrow>
         (case told of
            Inl e \<Rightarrow> \<lparr>svc_statuses = [], svc_signals = 0, svc_loop = NoThread,
                       svc_result = Some (Inl (SetStatusFailed e))\<rparr>
          | Inr _ \<Rightarrow>
             (case config of
                Inl ce \<Rightarrow> \<lparr>svc_statuses = [status_running], svc_signals = 0, svc_loop = NoThread,
                             svc_result = Some (Inl (ServiceConfigFailed ce))\<rparr>
              | Inr c \<Rightarrow> \<lparr>svc_statuses = [status_running], svc_signals = 0,
                            svc_loop = LoopRunning c, svc_result = None\<rparr>)))"

datatype svc_ev = Control ServiceControl | LoopExits | TakeSignal "string + unit"

fun svc_step :: "svc_ev \<Rightarrow> svc \<Rightarrow> svc option" where
  "svc_step (Control c) v =
     (case svc_result v of
        Some r \<Rightarrow> None
      | None \<Rightarrow> Some (if snd (control_handler c) then v\<lparr>svc_signals := svc_signals v + 1\<rparr> else v))"
| "svc_step LoopExits v =
     (case svc_loop v of LoopRunning c \<Rightarrow> Some (v\<lparr>svc_loop := LoopExited\<rparr>) | _ \<Rightarrow> None)"
| "svc_step (TakeSignal told) v =
     (if svc_result v = None \<and> 0 < svc_signals v then
        (case told of
           Inl e \<Rightarrow> Some (v\<lparr>svc_signals := svc_signals v - 1,
                       svc_result := Some (Inl (SetStatusFailed e))\<rparr>)
         | Inr _ \<Rightarrow> Some (v\<lparr>svc_signals := svc_signals v - 1,
                       svc_statuses := svc_statuses v @ [status_stopped],
                       svc_result := Some (Inr ())\<rparr>))
      else None)"

fun run_svc :: "svc_ev list \<Rightarrow> svc \<Rightarrow> svc option" where
  "run_svc [] v = Some v"
| "run_svc (e # es) v = (case svc_step e v of None \<Rightarrow> None | Some v' \<Rightarrow> run_svc es v')"

definition stop_request :: "svc_ev \<Rightarrow> bool" where
  "stop_request e \<longleftrightarrow> e \<in> {Control Stop, Control Shutdown}"

lemma run_svc_append:
  "run_svc (es @ es') v = Option.bind (run_svc es v) (run_svc es')"
  by (induction es arbitrary: v) (auto split: option.splits)

text \<open>Nothing but a stop request and the signal it sends changes what was reported.\<close>

lemma svc_step_unasked:
  assumes "svc_step e v = Some v'" and "\<not> stop_request e" and "svc_signals v = 0"
  shows "svc_statuses v' = svc_statuses v \<and> svc_result v' = svc_result v \<and> svc_signals v' = 0"
  using assms
  by (cases e) (auto simp: stop_request_def control_handler_sends
      split: option.splits loop_thread.splits if_splits)

lemma run_svc_unasked:
  assumes "run_svc es v = Some v'" and "\<not> list_ex stop_request es" and "svc_signals v = 0"
  shows "svc_statuses v' = svc_statuses v \<and> svc_result v' = svc_result v"
  using assms
proof (induction es arbitrary: v)
  case (Cons e es)
  from Cons.prems obtain v1 where v1: "svc_step e v = Some v1" "run_svc es v1 = Some v'"
    by (auto split: option.splits)
  from svc_step_unasked [OF v1(1)] Cons.prems Cons.IH [OF v1(2)] show ?case by simp
qed simp

text \<open>While the service waits it has reported running, once, and nothing else.\<close>

lemma svc_step_waiting:
  "svc_step e v = Some v' \<Longrightarrow> svc_result v' = None \<Longrightarrow>
     svc_result v = None \<and> svc_statuses v' = svc_statuses v"
  by (cases e) (auto split: option.splits loop_thread.splits sum.splits if_splits)

lemma run_svc_waiting:
  "run_svc es v = Some v' \<Longrightarrow> svc_result v' = None \<Longrightarrow>
     svc_result v = None \<and> svc_statuses v' = svc_statuses v"
proof (induction es arbitrary: v)
  case (Cons e es)
  from Cons.prems(1) obtain v1 where v1: "svc_step e v = Some v1" "run_svc es v1 = Some v'"
    by (auto split: option.splits)
  from Cons.IH [OF v1(2) Cons.prems(2)] svc_step_waiting [OF v1(1)] show ?case by simp
qed simp

lemma run_service_start_waiting:
  "svc_result (run_service_start registered told config) = None \<Longrightarrow>
     svc_statuses (run_service_start registered told config) = [status_running]"
  by (auto simp: run_service_start_def split: sum.splits)

section \<open>The subcommands\<close>

definition windows_only :: string where
  "windows_only = ''service mode is Windows-only '' @ [CHR 0xE2, CHR 0x80, CHR 0x94]
     @ '' use `run` for local dev/testing''"

definition handle ::
  "bool \<Rightarrow> ('g, 'k, 'm) scm_ops \<Rightarrow> (string + string) \<Rightarrow> ServiceAction \<Rightarrow> 'm \<Rightarrow>
     (ServiceError + unit) \<times> 'm" where
  "handle windows ops current_exe action m =
     (if windows then
        (case action of
           Install \<Rightarrow> scm_install ops current_exe m
         | Uninstall \<Rightarrow> scm_uninstall ops m
         | Run_service \<Rightarrow> scm_run ops m)
      else (Inl (WindowsOnly windows_only), m))"

datatype ConnectPathError = ConnectConfig ConfigError | ConnectLoop LoopError

definition connect ::
  "bool \<Rightarrow> ('h, 'm) lock_ops \<Rightarrow> 'u url_ops \<Rightarrow> (string + unit) \<Rightarrow> (string \<Rightarrow> string option) \<Rightarrow>
     (string \<Rightarrow> toml option) \<Rightarrow> string \<Rightarrow> 'm \<Rightarrow> (ConnectPathError + 'h \<times> agent) \<times> 'm" where
  "connect windows ops urls runtime rd tp config_path m =
     (case load_from_file windows rd tp config_path of
        Inl e \<Rightarrow> (Inl (ConnectConfig e), m)
      | Inr config \<Rightarrow>
         (case run_loop_start windows ops urls runtime config m of
            (Inl e, m') \<Rightarrow> (Inl (ConnectLoop e), m')
          | (Inr ha, m') \<Rightarrow> (Inr ha, m')))"

text \<open>\<^verbatim>\<open>cli::run\<close>, from what the three subcommands do.\<close>

fun cli_run ::
  "(string \<Rightarrow> string \<Rightarrow> string list \<Rightarrow> 'r) \<Rightarrow> (ServiceAction \<Rightarrow> 'r) \<Rightarrow> (string \<Rightarrow> 'r) \<Rightarrow>
     Command \<Rightarrow> 'r" where
  "cli_run once service_action connect_to (Run config name ps) = once config name ps"
| "cli_run once service_action connect_to (Service action) = service_action action"
| "cli_run once service_action connect_to (Connect config) = connect_to config"

end
