(* ===== verification/Arities.thy ===== *)
theory Arities
  imports Catalog
begin

text \<open>
  How many arguments each script of the catalog takes, read off its text: the \<^verbatim>\<open>param()\<close>
  block of a PowerShell script, the positional parameters of a POSIX script.
\<close>

definition declared_params :: "string \<Rightarrow> nat option" where
  "declared_params sc =
     (if starts_with sc ''param(''
      then Some (length (split_on (CHR '','') (takeWhile (\<lambda>c. c \<noteq> CHR '')'') sc))) else None)"

lemma starts_with_longer: "length q \<le> length p \<Longrightarrow> starts_with (p @ r) q = starts_with p q"
  by (simp add: starts_with_def)

lemma declared_concat_Some:
  assumes "declared_params p = Some n" and "CHR '')'' \<in> set p"
  shows "declared_params (concat (p # ps)) = Some n"
proof -
  have s: "starts_with p ''param(''"
    using assms(1) by (auto simp: declared_params_def split: if_splits)
  then have "starts_with (p @ concat ps) ''param(''" by (auto simp: starts_with_iff)
  moreover have "takeWhile (\<lambda>c. c \<noteq> CHR '')'') (p @ concat ps) = takeWhile (\<lambda>c. c \<noteq> CHR '')'') p"
    using assms(2) by (intro takeWhile_append1) auto
  ultimately show ?thesis using assms(1) s by (simp add: declared_params_def)
qed

lemma declared_concat_None:
  "6 \<le> length p \<Longrightarrow> \<not> starts_with p ''param('' \<Longrightarrow> declared_params (concat (p # ps)) = None"
  by (simp add: declared_params_def starts_with_longer)

lemma arity_HostnameRename: "declared_params script_HostnameRename = Some 1"
  unfolding script_HostnameRename_def by (rule declared_concat_Some) code_simp+

lemma arity_HostnameRead: "declared_params script_HostnameRead = None"
  unfolding script_HostnameRead_def by (rule declared_concat_None) code_simp+

lemma arity_CertVerify: "declared_params script_CertVerify = Some 4"
  unfolding script_CertVerify_def by (rule declared_concat_Some) code_simp+

lemma arity_IpRead: "declared_params script_IpRead = None"
  unfolding script_IpRead_def by (rule declared_concat_None) code_simp+

lemma arity_IpWrite: "declared_params script_IpWrite = Some 4"
  unfolding script_IpWrite_def by (rule declared_concat_Some) code_simp+

lemma arity_CaInstall_root: "declared_params script_CaInstall_root = Some 5"
  unfolding script_CaInstall_root_def by (rule declared_concat_Some) code_simp+

lemma arity_CaInstall_issuing: "declared_params script_CaInstall_issuing = Some 10"
  unfolding script_CaInstall_issuing_def by (rule declared_concat_Some) code_simp+

lemma arity_CaConfigureSettings: "declared_params script_CaConfigureSettings = Some 10"
  unfolding script_CaConfigureSettings_def by (rule declared_concat_Some) code_simp+

lemma arity_CaConfigureCdpAia: "declared_params script_CaConfigureCdpAia = Some 2"
  unfolding script_CaConfigureCdpAia_def by (rule declared_concat_Some) code_simp+

lemma arity_CaPublishCrl: "declared_params script_CaPublishCrl = Some 1"
  unfolding script_CaPublishCrl_def by (rule declared_concat_Some) code_simp+

lemma arity_CaSignRequest: "declared_params script_CaSignRequest = Some 2"
  unfolding script_CaSignRequest_def by (rule declared_concat_Some) code_simp+

lemma arity_CaInstallCert: "declared_params script_CaInstallCert = Some 3"
  unfolding script_CaInstallCert_def by (rule declared_concat_Some) code_simp+

lemma arity_CaPublishTemplate: "declared_params script_CaPublishTemplate = Some 1"
  unfolding script_CaPublishTemplate_def by (rule declared_concat_Some) code_simp+

lemma arity_CaVerify: "declared_params script_CaVerify = None"
  unfolding script_CaVerify_def by (rule declared_concat_None) code_simp+

lemma arity_FileRead: "declared_params script_FileRead = Some 2"
  unfolding script_FileRead_def by (rule declared_concat_Some) code_simp+

lemma arity_FileWrite: "declared_params script_FileWrite = Some 2"
  unfolding script_FileWrite_def by (rule declared_concat_Some) code_simp+

lemma arity_DcVerify: "declared_params script_DcVerify = None"
  unfolding script_DcVerify_def by (rule declared_concat_None) code_simp+

lemma arity_DcInstallForest: "declared_params script_DcInstallForest = Some 4"
  unfolding script_DcInstallForest_def by (rule declared_concat_Some) code_simp+

lemma arity_DomainVerify: "declared_params script_DomainVerify = None"
  unfolding script_DomainVerify_def by (rule declared_concat_None) code_simp+

lemma arity_DomainJoin: "declared_params script_DomainJoin = Some 3"
  unfolding script_DomainJoin_def by (rule declared_concat_Some) code_simp+

lemma arity_SystemReboot: "declared_params script_SystemReboot = Some 1"
  unfolding script_SystemReboot_def by (rule declared_concat_Some) code_simp+

lemma arity_DnsSetClient: "declared_params script_DnsSetClient = Some 2"
  unfolding script_DnsSetClient_def by (rule declared_concat_Some) code_simp+

lemma arity_DnsCreateRecord: "declared_params script_DnsCreateRecord = Some 3"
  unfolding script_DnsCreateRecord_def by (rule declared_concat_Some) code_simp+

lemma arity_DnsApplyResources: "declared_params script_DnsApplyResources = Some 1"
  unfolding script_DnsApplyResources_def by (rule declared_concat_Some) code_simp+

lemma arity_DnsVerify: "declared_params script_DnsVerify = Some 5"
  unfolding script_DnsVerify_def by (rule declared_concat_Some) code_simp+

lemma arity_CertAddStore: "declared_params script_CertAddStore = Some 3"
  unfolding script_CertAddStore_def by (rule declared_concat_Some) code_simp+

lemma arity_CertDsPublish: "declared_params script_CertDsPublish = Some 2"
  unfolding script_CertDsPublish_def by (rule declared_concat_Some) code_simp+

lemma arity_TemplateGrantAccess: "declared_params script_TemplateGrantAccess = Some 5"
  unfolding script_TemplateGrantAccess_def by (rule declared_concat_Some) code_simp+

lemma arity_IisSetupCertEnroll: "declared_params script_IisSetupCertEnroll = Some 3"
  unfolding script_IisSetupCertEnroll_def by (rule declared_concat_Some) code_simp+

lemma arity_OcspInstall: "declared_params script_OcspInstall = None"
  unfolding script_OcspInstall_def by (rule declared_concat_None) code_simp+

lemma arity_OcspConfigureRevocation: "declared_params script_OcspConfigureRevocation = Some 9"
  unfolding script_OcspConfigureRevocation_def by (rule declared_concat_Some) code_simp+

lemma arity_OcspVerify: "declared_params script_OcspVerify = None"
  unfolding script_OcspVerify_def by (rule declared_concat_None) code_simp+

lemma arity_CertEnroll: "declared_params script_CertEnroll = Some 3"
  unfolding script_CertEnroll_def by (rule declared_concat_Some) code_simp+

lemma arity_PkiVerify: "declared_params script_PkiVerify = Some 4"
  unfolding script_PkiVerify_def by (rule declared_concat_Some) code_simp+

lemma arity_SystemIdentity: "declared_params script_SystemIdentity = None"
  unfolding script_SystemIdentity_def by (rule declared_concat_None) code_simp+

lemmas declared_arities =
  arity_HostnameRename arity_HostnameRead arity_CertVerify arity_IpRead
  arity_IpWrite arity_CaInstall_root arity_CaInstall_issuing arity_CaConfigureSettings
  arity_CaConfigureCdpAia arity_CaPublishCrl arity_CaSignRequest arity_CaInstallCert
  arity_CaPublishTemplate arity_CaVerify arity_FileRead arity_FileWrite
  arity_DcVerify arity_DcInstallForest arity_DomainVerify arity_DomainJoin
  arity_SystemReboot arity_DnsSetClient arity_DnsCreateRecord arity_DnsApplyResources
  arity_DnsVerify arity_CertAddStore arity_CertDsPublish arity_TemplateGrantAccess
  arity_IisSetupCertEnroll arity_OcspInstall arity_OcspConfigureRevocation arity_OcspVerify
  arity_CertEnroll arity_PkiVerify arity_SystemIdentity

section \<open>What a script takes\<close>

text \<open>The highest positional parameter a POSIX script mentions, as \<^verbatim>\<open>$k\<close> or \<^verbatim>\<open>${k\<close>.\<close>

fun positional_at :: "string \<Rightarrow> nat" where
  "positional_at (d # s) =
     (if is_ascii_digit d then byte_of d - 48
      else if d = CHR ''{'' then (case s of e # _ \<Rightarrow> if is_ascii_digit e then byte_of e - 48 else 0 | [] \<Rightarrow> 0)
      else 0)"
| "positional_at [] = 0"

fun highest_positional :: "nat \<Rightarrow> string \<Rightarrow> nat" where
  "highest_positional h (c # s) =
     highest_positional (if c = CHR ''$'' then max h (positional_at s) else h) s"
| "highest_positional h [] = h"

text \<open>
  A script takes \<open>n\<close> arguments: a POSIX script (they begin with \<^verbatim>\<open>set -eu\<close>, under which reading
  a missing argument is an error) uses \<^verbatim>\<open>$1\<close> to \<^verbatim>\<open>$n\<close>, or reads them in a loop with \<^verbatim>\<open>shift\<close>;
  a PowerShell script declares \<open>n\<close> parameters, or has no \<^verbatim>\<open>param()\<close> block and gets none.
\<close>

definition script_takes :: "string \<Rightarrow> nat \<Rightarrow> bool" where
  "script_takes sc n \<longleftrightarrow>
     (if starts_with sc ''set -eu''
      then (let h = highest_positional 0 sc in
        if h = n then True else h < n \<and> contains_str sc ''shift'')
      else declared_params sc = (if n = 0 then None else Some n))"

lemma script_takes_Some:
  assumes "declared_params sc = Some n" and "0 < n"
  shows "script_takes sc n"
proof -
  have "starts_with sc ''param(''"
    using assms(1) by (auto simp: declared_params_def split: if_splits)
  then have "\<not> starts_with sc ''set -eu''" by (auto simp: starts_with_iff)
  then show ?thesis using assms by (simp add: script_takes_def)
qed

lemma script_takes_None:
  "7 \<le> length p \<Longrightarrow> \<not> starts_with p ''param('' \<Longrightarrow> \<not> starts_with p ''set -eu'' \<Longrightarrow>
     script_takes (concat (p # ps)) 0"
  by (simp add: script_takes_def declared_params_def starts_with_longer)

lemma plain_scripts_take:
  "script_takes script_HostnameRead 0" "script_takes script_IpRead 0"
  "script_takes script_CaVerify 0" "script_takes script_DcVerify 0"
  "script_takes script_DomainVerify 0" "script_takes script_OcspInstall 0"
  "script_takes script_OcspVerify 0" "script_takes script_SystemIdentity 0"
  unfolding script_HostnameRead_def script_IpRead_def script_CaVerify_def script_DcVerify_def
    script_DomainVerify_def script_OcspInstall_def script_OcspVerify_def script_SystemIdentity_def
  by (rule script_takes_None; code_simp)+

lemma LinuxHostnameRead_takes: "script_takes script_LinuxHostnameRead 0"
  unfolding script_LinuxHostnameRead_def by code_simp

lemma LinuxSystemIdentity_takes: "script_takes script_LinuxSystemIdentity 0"
  unfolding script_LinuxSystemIdentity_def by code_simp

lemma LinuxSystemReboot_takes: "script_takes script_LinuxSystemReboot 1"
  unfolding script_LinuxSystemReboot_def by code_simp

lemma LinuxFileRead_takes: "script_takes script_LinuxFileRead 2"
  unfolding script_LinuxFileRead_def by code_simp

lemma LinuxFileWrite_takes: "script_takes script_LinuxFileWrite 2"
  unfolding script_LinuxFileWrite_def by code_simp

lemma AptRefresh_takes: "script_takes script_AptRefresh 0"
  unfolding script_AptRefresh_def by code_simp

lemma CertSecureWriteHosts_takes: "script_takes script_CertSecureWriteHosts 3"
  unfolding script_CertSecureWriteHosts_def by code_simp

lemma CertSecureMakeCert_takes: "script_takes script_CertSecureMakeCert 5"
  unfolding script_CertSecureMakeCert_def by code_simp

lemma CertSecureInstall_takes: "script_takes script_CertSecureInstall 7"
  unfolding script_CertSecureInstall_def by code_simp

lemma CertSecureHarden_takes: "script_takes script_CertSecureHarden 9"
  unfolding script_CertSecureHarden_def by code_simp

lemma CertSecureVerify_takes: "script_takes script_CertSecureVerify 2"
  unfolding script_CertSecureVerify_def by code_simp

lemmas posix_scripts_take = LinuxHostnameRead_takes LinuxSystemIdentity_takes
  LinuxSystemReboot_takes LinuxFileRead_takes LinuxFileWrite_takes AptRefresh_takes
  CertSecureWriteHosts_takes CertSecureMakeCert_takes CertSecureInstall_takes
  CertSecureHarden_takes CertSecureVerify_takes

lemma tables_take:
  "list_all (\<lambda>(name, tab). list_all (\<lambda>(sc, n). script_takes sc n) tab)
     (common_scripts @ unix_scripts)"
  by (simp add: common_scripts_def unix_scripts_def plain_scripts_take posix_scripts_take
      script_takes_Some declared_arities del: One_nat_def)

lemma table_takes:
  assumes "(sc, n) \<in> set (script_table unix name)"
  shows "script_takes sc n"
proof -
  have "\<exists>tab. (name, tab) \<in> set (common_scripts @ unix_scripts) \<and> (sc, n) \<in> set tab"
    using assms
    by (auto simp: script_table_def split: option.splits if_splits dest!: map_of_SomeD map_of_SomeD [OF sym])
  then show ?thesis using tables_take by (fastforce simp: list_all_iff)
qed

end
