(* ===== verification/Options.thy ===== *)
theory Options
  imports Catalog
begin

text \<open>
  Positional arguments that begin with a dash. The real PowerShell executor passes the
  arguments of a script after \<^verbatim>\<open>-File\<close>, where one that begins with a dash is read as the name
  of a parameter (\<^verbatim>\<open>util.rs\<close> refuses such secrets for that reason). The theory lists, for
  every command, the argument positions for which no validator excludes a
  leading dash, and proves that no argument at any other position begins with one.
\<close>

fun safe_args :: "nat list \<Rightarrow> nat \<Rightarrow> string list \<Rightarrow> bool" where
  "safe_args open_at k [] \<longleftrightarrow> True"
| "safe_args open_at k (a # args) \<longleftrightarrow>
     (k \<in> set open_at \<or> no_dash a) \<and> safe_args open_at (Suc k) args"

lemma safe_args_nth:
  "safe_args open_at k args \<longleftrightarrow>
     (\<forall>i < length args. k + i \<in> set open_at \<or> no_dash (args ! i))"
  by (induction args arbitrary: k) (auto simp: less_Suc_eq_0_disj nth_Cons')

definition dash_free :: "nat list \<Rightarrow> ('s, 'a) cmd \<Rightarrow> bool" where
  "dash_free open_at m \<longleftrightarrow>
     wp m (\<lambda>r t. \<forall>(sc, args) \<in> set (shell_runs t). safe_args open_at 0 args)"

lemma dash_free_nil:
  assumes "runs_only tab (list_all no_dash) m"
  shows "dash_free ex m"
  using assms unfolding runs_only_def dash_free_def
  by (rule wp_mono) (fastforce simp: safe_args_nth list_all_length)

lemma dash_free_all:
  assumes "runs_only tab P m" and "\<And>args. P args \<Longrightarrow> list_all no_dash args"
  shows "dash_free ex m"
  by (rule dash_free_nil [OF runs_only_mono [OF assms(1) subset_refl assms(2)]])

section \<open>Facts about the validators\<close>

lemma trim_end_prefix: "\<exists>n. trim_end s = take n s"
proof (induction s rule: trim_end.induct)
  case (1 s)
  then show ?case
    by (subst trim_end.simps) (metis take_all_iff take_take le_refl)
qed

lemma trim_dash: "trim (CHR ''-'' # s) = [] \<or> hd (trim (CHR ''-'' # s)) = CHR ''-''"
proof -
  have "trim_start (CHR ''-'' # s) = CHR ''-'' # s"
    by (rule trim_start_noop) (simp add: ws_prefix_def Let_def byte_of_def split: list.split)
  moreover obtain n where "trim_end (CHR ''-'' # s) = take n (CHR ''-'' # s)"
    using trim_end_prefix by blast
  ultimately show ?thesis by (cases n) (simp_all add: trim_def)
qed

lemma url_list_no_dash: "valid_url_list v \<Longrightarrow> no_dash v"
proof (cases v)
  case (Cons c s)
  assume v: "valid_url_list v"
  show ?thesis
  proof (rule ccontr)
    assume "\<not> no_dash v"
    with Cons have c: "c = CHR ''-''" by simp
    obtain p ps where "split_on (CHR '','') s = p # ps" by (cases "split_on (CHR '','') s") auto
    with Cons c have "split_on (CHR '','') v = (CHR ''-'' # p) # ps" by simp
    with v have "trim (CHR ''-'' # p) \<noteq> []"
      and "starts_with (trim (CHR ''-'' # p)) ''http://'' \<or> starts_with (trim (CHR ''-'' # p)) ''https://''"
      by (simp_all add: valid_url_list_def)
    with trim_dash [of p] show False by (auto simp: starts_with_iff)
  qed
qed simp

lemma days_no_dash: "days_ok v \<Longrightarrow> no_dash v"
  by (auto simp: days_ok_def dest: parse_uint_no_dash split: option.splits)

lemma years_no_dash: "years_ok v \<Longrightarrow> no_dash v"
  by (auto simp: years_ok_def dest: parse_uint_no_dash split: option.splits)

lemma minutes_no_dash: "minutes_ok v \<Longrightarrow> no_dash v"
  by (auto simp: minutes_ok_def dest: parse_uint_no_dash split: option.splits)

lemma product_path_no_dash: "\<not> bad_product_path p \<Longrightarrow> no_dash p"
  by (auto simp: bad_product_path_def dest: valid_posix_path_no_dash)

lemma https_no_dash: "valid_https_url u \<Longrightarrow> no_dash u"
  by (auto simp: valid_https_url_def starts_with_iff)

lemma crypto_no_dash:
  assumes "crypto_params ctx = Inr c"
  shows "no_dash (provider c)" "no_dash (unwrap_or_default (key_length c))"
    "no_dash (unwrap_or_default (hash_algorithm c))"
  using crypto_params_consistent [OF assms]
  by (auto simp: crypto_consistent_def unwrap_or_default_def cng_provider_def MLDSA_PROVIDER_def
      KEY_LENGTHS_def HASH_ALGORITHMS_def MLDSA_KEY_LENGTH_BITS_def split: option.splits if_splits)

lemma ipv4_field_no_dash: "valid_ipv4 v \<Longrightarrow> no_dash v"
  by (auto dest!: valid_ipv4_first simp: char_class_defs)

lemma hosts_block_no_dash:
  assumes "parse_hosts_entries raw = Inr block"
  shows "no_dash block"
proof -
  from assms obtain l lns where lns: "hosts_lines (lines_of raw) = Inr (l # lns)"
    and block: "block = join newline (l # lns)"
    by (auto simp: parse_hosts_entries_def neq_Nil_conv split: sum.splits if_splits)
  have "hosts_line_ok l" using hosts_lines_ok [OF lns] by simp
  then obtain ip rest where l: "l = ip @ rest" and ip: "valid_ipv4 ip"
    by (auto simp: hosts_line_ok_def)
  obtain c r where "ip = c # r" "is_ascii_digit c" using valid_ipv4_first [OF ip] by blast
  with block l show ?thesis by (cases lns) (auto simp: char_class_defs)
qed

lemma san_no_dash: "no_dash (join '','' (subject_alt_names names ip))"
proof (cases "subject_alt_names names ip = []")
  case False
  then show ?thesis by (intro no_dash_join) (auto simp: subject_alt_names_def)
qed simp

lemma oid_no_dash: "cps_oid_ok v \<Longrightarrow> no_dash v"
proof (cases v)
  case (Cons c s)
  assume v: "cps_oid_ok v"
  obtain p ps where p: "split_on (CHR ''.'') v = p # ps" by (cases "split_on (CHR ''.'') v") auto
  with v have "p \<noteq> []" "list_all is_ascii_digit p" by (auto simp: cps_oid_ok_def)
  moreover have "v = join ''.'' (p # ps)" using join_split_on [of "CHR ''.''" v] p by simp
  ultimately show ?thesis by (cases p; cases ps) (auto simp: char_class_defs)
qed simp

lemmas dash_rules = no_dash_rules days_no_dash years_no_dash minutes_no_dash
  product_path_no_dash https_no_dash url_list_no_dash hosts_block_no_dash crypto_no_dash
  relay_path_no_dash linux_relay_path_no_dash b64_no_dash safe_http_url_no_dash
  valid_oid_no_dash

section \<open>The commands\<close>

lemma HostnameRename_free: "dash_free [0] (HostnameRename_execute ctx)"
  unfolding dash_free_def exec_defs by (intro handler_wp) (auto dest: no_dash_rules)

lemma HostnameRead_free: "dash_free [] (HostnameRead_execute ctx)"
  by (rule dash_free_nil [OF HostnameRead_runs])

lemma CertVerify_free: "dash_free [] (CertVerify_execute from_str ctx)"
  by (rule dash_free_nil [OF CertVerify_runs])

lemma IpRead_free: "dash_free [] (IpRead_execute from_str ctx)"
  by (rule dash_free_nil [OF IpRead_runs])

lemma IpWrite_free: "dash_free [3] (IpWrite_execute ctx)"
  unfolding dash_free_def exec_defs
  by (intro handler_wp) (auto dest: no_dash_rules split: option.splits)

lemma CaInstall_free: "dash_free [0] (CaInstall_execute ctx)"
  unfolding dash_free_def exec_defs
  by (intro handler_wp)
    (auto simp: crypto_no_dash years_no_dash oid_no_dash no_dash_starts_http no_dash_rules)

lemma CaConfigureSettings_free: "dash_free [] (CaConfigureSettings_execute ctx)"
  by (rule dash_free_nil [OF CaConfigureSettings_runs])

lemma CaConfigureCdpAia_free: "dash_free [] (CaConfigureCdpAia_execute ctx)"
  by (rule dash_free_all [OF CaConfigureCdpAia_runs]) blast

lemma CaPublishCrl_free: "dash_free [] (CaPublishCrl_execute from_str ctx)"
  unfolding dash_free_def exec_defs by (intro handler_wp) (auto dest: no_dash_rules)

lemma CaSignRequest_free: "dash_free [] (CaSignRequest_execute ctx)"
  unfolding dash_free_def exec_defs by (intro handler_wp) (auto dest: no_dash_rules)

lemma CaInstallCert_free: "dash_free [] (CaInstallCert_execute ctx)"
  by (rule dash_free_nil [OF CaInstallCert_runs])

lemma CaPublishTemplate_free: "dash_free [0] (CaPublishTemplate_execute ctx)"
  unfolding dash_free_def exec_defs by (intro handler_wp) (auto dest: no_dash_rules)

lemma CaVerify_free: "dash_free [] (CaVerify_execute from_str ctx)"
  unfolding dash_free_def exec_defs by (intro handler_wp) (auto dest: no_dash_rules)

lemma FileRead_free: "dash_free [] (FileRead_execute from_str ctx)"
  by (rule dash_free_all [OF FileRead_runs]) blast

lemma FileWrite_free: "dash_free [] (FileWrite_execute ctx)"
  by (rule dash_free_all [OF FileWrite_runs]) blast

lemma DcVerify_free: "dash_free [] (DcVerify_execute from_str ctx)"
  by (rule dash_free_nil [OF DcVerify_runs])

lemma DcInstallForest_free: "dash_free [1] (DcInstallForest_execute ctx)"
  unfolding dash_free_def exec_defs
  by (intro handler_wp) (auto simp: FOREST_MODES_def dest: dash_rules)

lemma DomainVerify_free: "dash_free [] (DomainVerify_execute from_str ctx)"
  by (rule dash_free_nil [OF DomainVerify_runs])

lemma DomainJoin_free: "dash_free [] (DomainJoin_execute ctx)"
  by (rule dash_free_nil [OF DomainJoin_runs])

lemma SystemReboot_free: "dash_free [] (SystemReboot_execute ctx)"
  by (rule dash_free_nil [OF SystemReboot_runs])

lemma SystemBootInfo_free: "dash_free [] (SystemBootInfo_execute path_exists probe ctx)"
  by (rule dash_free_nil [OF SystemBootInfo_runs])

lemma DnsSetClient_free: "dash_free [1] (DnsSetClient_execute ctx)"
  unfolding dash_free_def exec_defs
  by (intro handler_wp) (auto simp: list_ex_iff intro!: no_dash_join_ipv4)

lemma DnsCreateRecord_free: "dash_free [] (DnsCreateRecord_execute ctx)"
  by (rule dash_free_nil [OF DnsCreateRecord_runs])

lemma DnsApplyResources_free: "dash_free [0] (DnsApplyResources_execute from_str dec ctx)"
  unfolding dash_free_def exec_defs by (intro handler_wp) (auto dest: no_dash_rules)

lemma DnsVerify_free: "dash_free [0,3] (DnsVerify_execute from_str dec ctx)"
  unfolding dash_free_def exec_defs
  by (intro handler_wp) (auto dest: dash_rules)

lemma CertAddStore_free: "dash_free [] (CertAddStore_execute ctx)"
  unfolding dash_free_def exec_defs
  by (intro handler_wp) (auto simp: STORES_def KINDS_def dest: dash_rules)

lemma CertDsPublish_free: "dash_free [1] (CertDsPublish_execute ctx)"
  unfolding dash_free_def exec_defs by (intro handler_wp) (auto dest: no_dash_rules)

lemma TemplateGrantAccess_free: "dash_free [0,1] (TemplateGrantAccess_execute from_str ctx)"
  unfolding dash_free_def exec_defs
  by (intro handler_wp) (auto simp: ENROLL_RIGHT_GUID_def dest: dash_rules)

lemma IisSetupCertEnroll_free: "dash_free [1] (IisSetupCertEnroll_execute ctx)"
  unfolding dash_free_def exec_defs
  by (intro handler_wp) (auto simp: SCOPES_def dest: dash_rules)

lemma OcspInstall_free: "dash_free [] (OcspInstall_execute ctx)"
  unfolding dash_free_def exec_defs by (intro handler_wp) (auto dest: no_dash_rules)

lemma OcspConfigureRevocation_free: "dash_free [0,1,3] (OcspConfigureRevocation_execute ctx)"
  unfolding dash_free_def exec_defs
  by (intro handler_wp) (auto simp: CRL_PROVIDER_CLSID_def show_u32_def show_nat_no_dash dest: dash_rules)

lemma OcspVerify_free: "dash_free [] (OcspVerify_execute from_str ctx)"
  unfolding dash_free_def exec_defs by (intro handler_wp) (auto dest: no_dash_rules)

lemma CertEnroll_free: "dash_free [0] (CertEnroll_execute from_str ctx)"
  unfolding dash_free_def exec_defs by (intro handler_wp) (auto dest: no_dash_rules)

lemma PkiVerify_free: "dash_free [0,1,2,3] (PkiVerify_execute from_str dec_strings ctx)"
  unfolding dash_free_def exec_defs by (intro handler_wp) (auto dest: no_dash_rules)

lemma SystemIdentity_free: "dash_free [] (SystemIdentity_execute from_str ctx)"
  by (rule dash_free_nil [OF SystemIdentity_runs])

lemma AptRefresh_free: "dash_free [] (AptRefresh_execute ctx)"
  unfolding dash_free_def exec_defs by (intro handler_wp) (auto dest: no_dash_rules)

lemma CertSecureWriteHosts_free: "dash_free [] (CertSecureWriteHosts_execute ctx)"
  unfolding dash_free_def exec_defs
  by (intro handler_wp) (auto simp: HOSTS_BEGIN_def HOSTS_END_def dest: dash_rules)

lemma CertSecureMakeCert_free: "dash_free [] (CertSecureMakeCert_execute from_str ctx)"
  unfolding dash_free_def exec_defs
  by (intro handler_wp) (auto simp: list_all_iff san_no_dash dest: dash_rules)

lemma CertSecureInstall_free: "dash_free [6] (CertSecureInstall_execute ctx)"
  unfolding dash_free_def exec_defs
  by (intro handler_wp) (auto simp: INSTALL_DIR_def dest: dash_rules)

lemma CertSecureHarden_free: "dash_free [] (CertSecureHarden_execute ctx)"
  unfolding dash_free_def exec_defs
  by (intro handler_wp) (auto simp: harden_args_def HARDENED_def INSTALL_DIR_def dest: dash_rules)

lemma CertSecureVerify_free: "dash_free [] (CertSecureVerify_execute from_str ctx)"
  unfolding dash_free_def exec_defs
  by (intro handler_wp) (auto dest: dash_rules)

lemma LinuxHostnameRead_free: "dash_free [] (LinuxHostnameRead_execute ctx)"
  by (rule dash_free_nil [OF LinuxHostnameRead_runs])

lemma LinuxSystemIdentity_free: "dash_free [] (LinuxSystemIdentity_execute from_str ctx)"
  by (rule dash_free_nil [OF LinuxSystemIdentity_runs])

lemma LinuxSystemReboot_free: "dash_free [] (LinuxSystemReboot_execute ctx)"
  by (rule dash_free_all [OF LinuxSystemReboot_runs]) blast

lemma LinuxSystemBootInfo_free: "dash_free [] (LinuxSystemBootInfo_execute uptime_ms ctx)"
  by (rule dash_free_nil [OF LinuxSystemBootInfo_runs])

lemma LinuxFileRead_free: "dash_free [] (LinuxFileRead_execute from_str ctx)"
  by (rule dash_free_all [OF LinuxFileRead_runs]) blast

lemma LinuxFileWrite_free: "dash_free [] (LinuxFileWrite_execute ctx)"
  by (rule dash_free_all [OF LinuxFileWrite_runs]) blast

lemmas handler_free = HostnameRename_free HostnameRead_free CertVerify_free IpRead_free
  IpWrite_free CaInstall_free CaConfigureSettings_free CaConfigureCdpAia_free CaPublishCrl_free
  CaSignRequest_free CaInstallCert_free CaPublishTemplate_free CaVerify_free FileRead_free
  FileWrite_free DcVerify_free DcInstallForest_free DomainVerify_free DomainJoin_free
  SystemReboot_free SystemBootInfo_free DnsSetClient_free DnsCreateRecord_free
  DnsApplyResources_free DnsVerify_free CertAddStore_free CertDsPublish_free
  TemplateGrantAccess_free IisSetupCertEnroll_free OcspInstall_free
  OcspConfigureRevocation_free OcspVerify_free CertEnroll_free PkiVerify_free
  SystemIdentity_free AptRefresh_free CertSecureWriteHosts_free CertSecureMakeCert_free
  CertSecureInstall_free CertSecureHarden_free CertSecureVerify_free LinuxHostnameRead_free
  LinuxSystemIdentity_free LinuxSystemReboot_free LinuxSystemBootInfo_free LinuxFileRead_free
  LinuxFileWrite_free

section \<open>The table\<close>

text \<open>
  The open positions of every command, in the order of the registrations; none for
  \<^verbatim>\<open>powershell.exec_arbitrary\<close>, which is left out of the theorem.
\<close>

definition open_positions :: "(string \<times> nat list) list" where
  "open_positions = [
     (''hostname.rename'', [0]), (''hostname.read'', []), (''cert.verify'', []),
     (''powershell.exec_arbitrary'', []), (''ip.read'', []), (''ip.write'', [3]),
     (''ca.install'', [0]), (''ca.configure_settings'', []), (''ca.configure_cdp_aia'', []),
     (''ca.publish_crl'', []), (''ca.sign_request'', []), (''ca.install_cert'', []),
     (''ca.publish_template'', [0]), (''ca.verify'', []), (''file.read'', []),
     (''file.write'', []), (''dc.verify'', []), (''dc.install_forest'', [1]),
     (''domain.verify'', []), (''domain.join'', []), (''system.reboot'', []),
     (''system.boot_info'', []), (''dns.set_client'', [1]), (''dns.create_record'', []),
     (''dns.apply_resources'', [0]), (''dns.verify'', [0,3]), (''cert.addstore'', []),
     (''cert.dspublish'', [1]), (''template.grant_access'', [0,1]),
     (''iis.setup_certenroll'', [1]), (''ocsp.install'', []),
     (''ocsp.configure_revocation'', [0,1,3]), (''ocsp.verify'', []),
     (''cert.enroll'', [0]), (''pki.verify'', [0,1,2,3]), (''system.identity'', []),
     (''apt.refresh'', []), (''certsecure.write_hosts'', []),
     (''certsecure.make_cert'', []), (''certsecure.install'', [6]),
     (''certsecure.harden'', []), (''certsecure.verify'', [])]"

definition dash_positions :: "string \<Rightarrow> nat list" where
  "dash_positions name = (case map_of open_positions name of Some ps \<Rightarrow> ps | None \<Rightarrow> [])"

definition handler_dash_free :: "nat list \<Rightarrow> 's handler \<Rightarrow> bool" where
  "handler_dash_free open_at h \<longleftrightarrow> (\<forall>ctx. dash_free open_at (h_execute h ctx))"

lemma common_free_pairs:
  "list_all2 (\<lambda>h (n, ps). h_name h = n \<and>
       (n = ''powershell.exec_arbitrary'' \<or> handler_dash_free ps h))
     (common_handlers env) open_positions"
  by (simp add: common_handlers_def open_positions_def handler_defs handler_dash_free_def
      handler_free del: One_nat_def)

lemma unix_free:
  "list_all (\<lambda>h. handler_dash_free (dash_positions (h_name h)) h) (unix_handlers env)"
  by (simp add: unix_handlers_def handler_defs handler_dash_free_def dash_positions_def
      open_positions_def handler_free)

lemma common_free:
  assumes "h \<in> set (common_handlers env)" and "h_name h \<noteq> ''powershell.exec_arbitrary''"
  shows "handler_dash_free (dash_positions (h_name h)) h"
  using map_of_list_all2 [OF common_free_pairs common_distinct assms(1)] assms(2)
  by (auto simp: dash_positions_def)

lemma default_free:
  assumes "map_of (build_default_registry unix env) name = Some h"
    and "name \<noteq> ''powershell.exec_arbitrary''"
  shows "handler_dash_free (dash_positions name) h"
  using default_member [OF assms(1)] assms(2) common_free unix_free [of env]
  by (auto simp: list_all_iff)

text \<open>Whatever is dispatched, only the open positions may begin with a dash.\<close>

lemma dispatch_dash_free:
  assumes d: "dispatch (build_default_registry unix env :: 's CommandRegistry) name role ps sh s
      = (r, t, s')"
    and n: "name \<noteq> ''powershell.exec_arbitrary''"
    and run: "(sc, args) \<in> set (shell_runs t)"
    and i: "i < length args" "i \<notin> set (dash_positions name)"
  shows "no_dash (args ! i)"
proof -
  from run have "t \<noteq> []" by auto
  from dispatch_event_gate [OF d disjI1 [OF this]] obtain h
    where h: "map_of (build_default_registry unix env :: 's CommandRegistry) name = Some h"
      and c: "role_has role (h_capability h)" by blast
  obtain r' s1 where e: "h_execute h \<lparr>params = ps, shell = sh\<rparr> s = (r', t, s1)"
    using d by (auto simp: dispatch_allowed [OF h c] split: prod.splits sum.splits)
  have "dash_free (dash_positions name) (h_execute h \<lparr>params = ps, shell = sh\<rparr>)"
    using default_free [OF h n] by (simp add: handler_dash_free_def)
  from wp_run [OF this [unfolded dash_free_def] e] run
  have "safe_args (dash_positions name) 0 args" by blast
  with i show ?thesis by (auto simp: safe_args_nth)
qed

end
