(* ===== verification/Inputs.thy ===== *)
theory Inputs
  imports Catalog
begin

text \<open>
  The parameters of the commands. \<open>PARAMETERS\<close> has, per command, the keys its handler reads;
  a handler \<open>reads\<close> a list of keys when nothing else in the caller's map has any influence
  on what it does. Both platforms read the same keys.
\<close>

definition PARAMETERS :: "(string \<times> string list) list" where
  "PARAMETERS = [
     (''hostname.rename'', [''name'']),
     (''hostname.read'', []),
     (''cert.verify'', [''path'', ''rootPath'', ''issuingPath'',
        ''expectedSignatureOid'']),
     (''powershell.exec_arbitrary'', [''script'']),
     (''ip.read'', []),
     (''ip.write'', [''address'', ''prefixLength'', ''gateway'', ''interface'']),
     (''ca.install'', [''caType'', ''commonName'', ''keyAlgorithm'', ''keyLength'',
        ''hashAlgorithm'', ''validityYears'', ''cpsUrl'', ''cpsOid'', ''csrPath'',
        ''username'', ''password'']),
     (''ca.configure_settings'', [''dsConfigDn'', ''crlPeriodUnits'',
        ''crlDeltaPeriodUnits'', ''crlOverlapUnits'', ''validityPeriodUnits'',
        ''auditFilter'', ''crlPeriod'', ''crlDeltaPeriod'', ''crlOverlapPeriod'',
        ''validityPeriod'']),
     (''ca.configure_cdp_aia'', [''aiaUrls'', ''cdpUrls'']),
     (''ca.publish_crl'', [''certEnrollPath'']),
     (''ca.sign_request'', [''csrPath'', ''certPath'']),
     (''ca.install_cert'', [''certPath'', ''username'', ''password'']),
     (''ca.publish_template'', [''templates'']),
     (''ca.verify'', []),
     (''file.read'', [''path'']),
     (''file.write'', [''path'', ''contentB64'']),
     (''dc.verify'', []),
     (''dc.install_forest'', [''domainName'', ''netbiosName'', ''forestMode'',
        ''safeModePassword'']),
     (''domain.verify'', []),
     (''domain.join'', [''domainName'', ''username'', ''password'']),
     (''system.reboot'', [''delaySeconds'']),
     (''system.boot_info'', []),
     (''dns.set_client'', [''servers'', ''interface'']),
     (''dns.create_record'', [''zone'', ''name'', ''target'']),
     (''dns.apply_resources'', [''records'']),
     (''dns.verify'', [''records'', ''server'', ''requireAdSrv'', ''domain'',
        ''httpUrl'']),
     (''cert.addstore'', [''store'', ''path'', ''kind'']),
     (''cert.dspublish'', [''path'', ''attribute'']),
     (''template.grant_access'', [''template'', ''computer'', ''username'', ''password'']),
     (''iis.setup_certenroll'', [''path'', ''scope'', ''netbiosName'']),
     (''ocsp.install'', []),
     (''ocsp.configure_revocation'', [''name'', ''caConfig'', ''caCertPath'',
        ''template'', ''refreshMinutes'', ''baseCrlUrls'', ''deltaCrlUrls'']),
     (''ocsp.verify'', []),
     (''cert.enroll'', [''template'', ''exportPath'', ''refreshPolicy'']),
     (''pki.verify'', [''rootCaCommonName'', ''issuingCaCommonName'', ''templates'',
        ''httpUrls'']),
     (''system.identity'', []),
     (''apt.refresh'', []),
     (''certsecure.write_hosts'', [''entries'']),
     (''certsecure.make_cert'', [''names'', ''ip'', ''certPath'', ''keyPath'', ''days'']),
     (''certsecure.install'', [''frontendHost'', ''backendHost'', ''keycloakHost'',
        ''keycloakRealm'', ''certPath'', ''keyPath'']),
     (''certsecure.harden'', []),
     (''certsecure.verify'', [''frontendUrl'', ''keycloakUrl''])]"

definition command_parameters :: "string \<Rightarrow> string list" where
  "command_parameters name = (case map_of PARAMETERS name of Some ks \<Rightarrow> ks | None \<Rightarrow> [])"

text \<open>A parameter map without the keys that are not listed.\<close>

definition only :: "string list \<Rightarrow> (string \<rightharpoonup> string) \<Rightarrow> string \<rightharpoonup> string" where
  "only ks ps = (\<lambda>k. if k \<in> set ks then ps k else None)"

definition reads :: "string list \<Rightarrow> ('s CommandContext \<Rightarrow> ('s, 'a) cmd) \<Rightarrow> bool" where
  "reads ks execute \<longleftrightarrow> (\<forall>ps sh. execute \<lparr>params = only ks ps, shell = sh\<rparr>
     = execute \<lparr>params = ps, shell = sh\<rparr>)"

text \<open>The accesses a handler makes to its context, on a map without the other keys.\<close>

lemma required_only:
  "k \<in> set ks \<Longrightarrow> required \<lparr>params = only ks ps, shell = sh\<rparr> k
     = required \<lparr>params = ps, shell = sh\<rparr> k"
  by (simp add: required_def param_def only_def)

lemma param_or_only:
  "k \<in> set ks \<Longrightarrow> param_or \<lparr>params = only ks ps, shell = sh\<rparr> k d
     = param_or \<lparr>params = ps, shell = sh\<rparr> k d"
  by (simp add: param_or_def param_def only_def)

lemma shell_run_only:
  "shell_run \<lparr>params = only ks ps, shell = sh\<rparr> = shell_run \<lparr>params = ps, shell = sh\<rparr>"
  by (simp add: fun_eq_iff shell_run_def)

lemmas read_simps = required_only param_or_only shell_run_only

lemma HostnameRename_reads:
  "reads [''name'']
     HostnameRename_execute"
  by (simp add: reads_def exec_defs read_simps)

lemma HostnameRead_reads:
  "reads []
     HostnameRead_execute"
  by (simp add: reads_def exec_defs read_simps)

lemma ExecArbitrary_reads:
  "reads [''script'']
     ExecArbitrary_execute"
  by (simp add: reads_def exec_defs read_simps)

lemma IpRead_reads:
  "reads []
     (IpRead_execute from_str)"
  by (simp add: reads_def exec_defs read_simps)

lemma IpWrite_reads:
  "reads [''address'', ''prefixLength'', ''gateway'', ''interface'']
     IpWrite_execute"
  by (simp add: reads_def exec_defs read_simps)

lemma SystemReboot_reads:
  "reads [''delaySeconds'']
     SystemReboot_execute"
  by (simp add: reads_def exec_defs read_simps)

lemma SystemBootInfo_reads:
  "reads []
     (SystemBootInfo_execute path_exists probe)"
  by (simp add: reads_def exec_defs read_simps)

lemma SystemIdentity_reads:
  "reads []
     (SystemIdentity_execute from_str)"
  by (simp add: reads_def exec_defs read_simps)

lemma FileRead_reads:
  "reads [''path'']
     (FileRead_execute from_str)"
  by (simp add: reads_def exec_defs read_simps)

lemma FileWrite_reads:
  "reads [''path'', ''contentB64'']
     FileWrite_execute"
  by (simp add: reads_def exec_defs read_simps)

lemma LinuxFileRead_reads:
  "reads [''path'']
     (LinuxFileRead_execute from_str)"
  by (simp add: reads_def exec_defs read_simps)

lemma LinuxFileWrite_reads:
  "reads [''path'', ''contentB64'']
     LinuxFileWrite_execute"
  by (simp add: reads_def exec_defs read_simps)

lemma LinuxHostnameRead_reads:
  "reads []
     LinuxHostnameRead_execute"
  by (simp add: reads_def exec_defs read_simps)

lemma LinuxSystemIdentity_reads:
  "reads []
     (LinuxSystemIdentity_execute from_str)"
  by (simp add: reads_def exec_defs read_simps)

lemma LinuxSystemReboot_reads:
  "reads [''delaySeconds'']
     LinuxSystemReboot_execute"
  by (simp add: reads_def exec_defs read_simps)

lemma LinuxSystemBootInfo_reads:
  "reads []
     (LinuxSystemBootInfo_execute uptime_ms)"
  by (simp add: reads_def exec_defs read_simps)

lemma DomainJoin_reads:
  "reads [''domainName'', ''username'', ''password'']
     DomainJoin_execute"
  by (simp add: reads_def exec_defs read_simps)

lemma DomainVerify_reads:
  "reads []
     (DomainVerify_execute from_str)"
  by (simp add: reads_def exec_defs read_simps)

lemma DcInstallForest_reads:
  "reads [''domainName'', ''netbiosName'', ''forestMode'', ''safeModePassword'']
     DcInstallForest_execute"
  by (simp add: reads_def exec_defs read_simps)

lemma DcVerify_reads:
  "reads []
     (DcVerify_execute from_str)"
  by (simp add: reads_def exec_defs read_simps)

lemma DnsSetClient_reads:
  "reads [''servers'', ''interface'']
     DnsSetClient_execute"
  by (simp add: reads_def exec_defs read_simps)

lemma DnsCreateRecord_reads:
  "reads [''zone'', ''name'', ''target'']
     DnsCreateRecord_execute"
  by (simp add: reads_def exec_defs read_simps)

lemma CertAddStore_reads:
  "reads [''store'', ''path'', ''kind'']
     CertAddStore_execute"
  by (simp add: reads_def exec_defs read_simps)

lemma CertDsPublish_reads:
  "reads [''path'', ''attribute'']
     CertDsPublish_execute"
  by (simp add: reads_def exec_defs read_simps)

lemma CertEnroll_reads:
  "reads [''template'', ''exportPath'', ''refreshPolicy'']
     (CertEnroll_execute from_str)"
  by (simp add: reads_def exec_defs read_simps)

lemma CertVerify_reads:
  "reads [''path'', ''rootPath'', ''issuingPath'', ''expectedSignatureOid'']
     (CertVerify_execute from_str)"
  by (simp add: reads_def exec_defs read_simps)

lemma TemplateGrantAccess_reads:
  "reads [''template'', ''computer'', ''username'', ''password'']
     (TemplateGrantAccess_execute from_str)"
  by (simp add: reads_def exec_defs read_simps)

lemma IisSetupCertEnroll_reads:
  "reads [''path'', ''scope'', ''netbiosName'']
     IisSetupCertEnroll_execute"
  by (simp add: reads_def exec_defs read_simps iis_netbios_def
      cong del: sum.case_cong_weak if_weak_cong)

lemma OcspInstall_reads:
  "reads []
     OcspInstall_execute"
  by (simp add: reads_def exec_defs read_simps)

lemma OcspConfigureRevocation_reads:
  "reads [''name'', ''caConfig'', ''caCertPath'', ''template'', ''refreshMinutes'',
       ''baseCrlUrls'', ''deltaCrlUrls'']
     OcspConfigureRevocation_execute"
  by (simp add: reads_def exec_defs read_simps)

lemma OcspVerify_reads:
  "reads []
     (OcspVerify_execute from_str)"
  by (simp add: reads_def exec_defs read_simps)

lemma CaInstall_reads:
  "reads [''caType'', ''commonName'', ''keyAlgorithm'', ''keyLength'', ''hashAlgorithm'',
       ''validityYears'', ''cpsUrl'', ''cpsOid'', ''csrPath'', ''username'', ''password'']
     CaInstall_execute"
  by (simp add: reads_def exec_defs read_simps crypto_params_def crypto_key_length_def crypto_hash_def
      cong del: sum.case_cong_weak if_weak_cong)

lemma CaConfigureSettings_reads:
  "reads [''dsConfigDn'', ''crlPeriodUnits'', ''crlDeltaPeriodUnits'', ''crlOverlapUnits'',
       ''validityPeriodUnits'', ''auditFilter'', ''crlPeriod'', ''crlDeltaPeriod'',
       ''crlOverlapPeriod'', ''validityPeriod'']
     CaConfigureSettings_execute"
  by (simp add: reads_def exec_defs read_simps unit_of_def period_of_def)

lemma CaConfigureCdpAia_reads:
  "reads [''aiaUrls'', ''cdpUrls'']
     CaConfigureCdpAia_execute"
  by (simp add: reads_def exec_defs read_simps)

lemma CaPublishCrl_reads:
  "reads [''certEnrollPath'']
     (CaPublishCrl_execute from_str)"
  by (simp add: reads_def exec_defs read_simps)

lemma CaSignRequest_reads:
  "reads [''csrPath'', ''certPath'']
     CaSignRequest_execute"
  by (simp add: reads_def exec_defs read_simps)

lemma CaInstallCert_reads:
  "reads [''certPath'', ''username'', ''password'']
     CaInstallCert_execute"
  by (simp add: reads_def exec_defs read_simps)

lemma CaPublishTemplate_reads:
  "reads [''templates'']
     CaPublishTemplate_execute"
  by (simp add: reads_def exec_defs read_simps)

lemma CaVerify_reads:
  "reads []
     (CaVerify_execute from_str)"
  by (simp add: reads_def exec_defs read_simps)

lemma AptRefresh_reads:
  "reads []
     AptRefresh_execute"
  by (simp add: reads_def exec_defs read_simps)

lemma CertSecureWriteHosts_reads:
  "reads [''entries'']
     CertSecureWriteHosts_execute"
  by (simp add: reads_def exec_defs read_simps)

lemma CertSecureMakeCert_reads:
  "reads [''names'', ''ip'', ''certPath'', ''keyPath'', ''days'']
     (CertSecureMakeCert_execute from_str)"
  by (simp add: reads_def exec_defs read_simps)

lemma CertSecureInstall_reads:
  "reads [''frontendHost'', ''backendHost'', ''keycloakHost'', ''keycloakRealm'',
       ''certPath'', ''keyPath'']
     CertSecureInstall_execute"
  by (simp add: reads_def exec_defs read_simps)

lemma CertSecureVerify_reads:
  "reads [''frontendUrl'', ''keycloakUrl'']
     (CertSecureVerify_execute from_str)"
  by (simp add: reads_def exec_defs read_simps)

lemma CertSecureHarden_reads:
  "reads []
     CertSecureHarden_execute"
  by (simp add: reads_def exec_defs read_simps)

lemma DnsApplyResources_reads:
  "reads [''records'']
     (DnsApplyResources_execute from_str dec)"
  by (simp add: reads_def exec_defs read_simps parse_planned_records_def)

lemma DnsVerify_reads:
  "reads [''records'', ''server'', ''requireAdSrv'', ''domain'', ''httpUrl'']
     (DnsVerify_execute from_str dec)"
  by (simp add: reads_def exec_defs read_simps parse_planned_records_def)

lemma PkiVerify_reads:
  "reads [''rootCaCommonName'', ''issuingCaCommonName'', ''templates'', ''httpUrls'']
     (PkiVerify_execute from_str dec_strings)"
  by (simp add: reads_def exec_defs read_simps)

lemmas handler_reads =
  HostnameRename_reads HostnameRead_reads ExecArbitrary_reads IpRead_reads IpWrite_reads
  SystemReboot_reads SystemBootInfo_reads SystemIdentity_reads FileRead_reads FileWrite_reads
  LinuxFileRead_reads LinuxFileWrite_reads LinuxHostnameRead_reads LinuxSystemIdentity_reads
  LinuxSystemReboot_reads LinuxSystemBootInfo_reads DomainJoin_reads DomainVerify_reads
  DcInstallForest_reads DcVerify_reads DnsSetClient_reads DnsCreateRecord_reads
  CertAddStore_reads CertDsPublish_reads CertEnroll_reads CertVerify_reads
  TemplateGrantAccess_reads IisSetupCertEnroll_reads OcspInstall_reads
  OcspConfigureRevocation_reads OcspVerify_reads CaInstall_reads CaConfigureSettings_reads
  CaConfigureCdpAia_reads CaPublishCrl_reads CaSignRequest_reads CaInstallCert_reads
  CaPublishTemplate_reads CaVerify_reads AptRefresh_reads CertSecureWriteHosts_reads
  CertSecureMakeCert_reads CertSecureInstall_reads CertSecureVerify_reads CertSecureHarden_reads
  DnsApplyResources_reads DnsVerify_reads PkiVerify_reads

lemma common_reads_pairs:
  "list_all2 (\<lambda>h (n, ks). h_name h = n \<and> reads ks (h_execute h)) (common_handlers env) PARAMETERS"
  by (simp add: common_handlers_def PARAMETERS_def handler_defs handler_reads)

lemma common_reads:
  assumes "h \<in> set (common_handlers env)"
  shows "reads (command_parameters (h_name h)) (h_execute h)"
proof -
  have "\<exists>ks. map_of PARAMETERS (h_name h) = Some ks \<and> reads ks (h_execute h)"
    using map_of_list_all2 [OF common_reads_pairs common_distinct assms] .
  then show ?thesis by (auto simp: command_parameters_def)
qed

lemma unix_reads:
  "list_all (\<lambda>h. reads (command_parameters (h_name h)) (h_execute h)) (unix_handlers env)"
  by (simp add: unix_handlers_def handler_defs command_parameters_def PARAMETERS_def handler_reads)

lemma default_reads:
  assumes "map_of (build_default_registry unix env :: 's CommandRegistry) name = Some h"
  shows "reads (command_parameters name) (h_execute h)"
  using default_member [OF assms] common_reads unix_reads by (auto simp: list_all_iff)

lemma dispatch_reads:
  "dispatch (build_default_registry unix env :: 's CommandRegistry) name rl
      (only (command_parameters name) ps) sh s
   = dispatch (build_default_registry unix env) name rl ps sh s"
proof (cases "map_of (build_default_registry unix env :: 's CommandRegistry) name")
  case (Some h)
  from default_reads [OF this]
  have e: "h_execute h \<lparr>params = only (command_parameters name) ps, shell = sh\<rparr>
      = h_execute h \<lparr>params = ps, shell = sh\<rparr>"
    by (simp add: reads_def)
  show ?thesis
    by (cases "role_has rl (h_capability h)")
      (simp_all add: dispatch_allowed [OF Some] dispatch_forbidden [OF Some] e)
qed (simp add: dispatch_unknown)

end
