(* ===== verification/FrontEnds.thy ===== *)
theory FrontEnds
  imports Cli Service
begin

text \<open>
  The two ways to run a command, the one-shot \<^verbatim>\<open>run\<close> of \<^verbatim>\<open>cli.rs\<close> and a frame read by the
  agent of \<^verbatim>\<open>phonehome.rs\<close>, side by side: what one prints is what the other sends.
\<close>

text \<open>The lines the one-shot sink prints for the states of some frames.\<close>

definition frame_lines :: "(OpRunState \<Rightarrow> string option) \<Rightarrow> OutboundProgress list \<Rightarrow> string list" where
  "frame_lines to_string fs = List.map_filter (\<lambda>f. to_string (state f)) fs"

lemma stdout_lines:
  "foldl (StdoutProgressSink_report ts) out sts = out @ List.map_filter ts sts"
  by (induction sts arbitrary: out)
    (auto simp: StdoutProgressSink_report_def map_filter_simps split: option.split)

lemma frame_lines_map: "frame_lines ts (map (\<lambda>st. \<lparr>job_id = j, state = st\<rparr>) sts) = List.map_filter ts sts"
  by (induction sts) (auto simp: frame_lines_def map_filter_simps split: option.split)

lemma same_command:
  assumes d: "dispatch (build_default_registry unix env) name rl ps sh s = (r, t, s')"
  shows "handle_command (build_default_registry unix env) sh
      \<lparr>in_job_id = j, command = name, in_params = ps, in_role = rl\<rparr> s
    = (map (\<lambda>st. \<lparr>job_id = j, state = st\<rparr>) (reports t @ (case r of
         Inl e \<Rightarrow> [OpRunState_error (DispatchError_display e)] | Inr v \<Rightarrow> [])), s')"
  by (simp add: handle_command_def d tagged_frames Let_def split: sum.split)

end
