(* ===== verification/Conformance.thy ===== *)
theory Conformance
  imports Catalog
begin

text \<open>
  What the repository's tests are written with: running one handler in a fresh context
  against the mock, the shapes of outcome they match on, indexing into a result, and
  looking at the script the mock was given. The theories of the test modules (\<open>..._Tests\<close>)
  translate each test function into a closed proposition and evaluate it.
\<close>

section \<open>Running a handler\<close>

type_synonym test_outcome = "(CommandError + Value) \<times> event list \<times> mock"

definition test_run ::
  "(mock CommandContext \<Rightarrow> (mock, Value) cmd) \<Rightarrow> (string \<rightharpoonup> string) \<Rightarrow> mock \<Rightarrow> test_outcome" where
  "test_run execute ps m = execute \<lparr>params = ps, shell = MockPowerShell_run\<rparr> m"

text \<open>
  A decoder that knows one text: what \<^verbatim>\<open>serde_json::from_str\<close> does with the output a test
  pushes is written out in the test.
\<close>

definition decodes :: "string \<Rightarrow> 'v \<Rightarrow> string \<Rightarrow> 'v option" where
  "decodes txt v s = (if s = txt then Some v else None)"

text \<open>A successful run whose output decodes to the given value.\<close>

definition test_json ::
  "((string \<Rightarrow> Value option) \<Rightarrow> mock CommandContext \<Rightarrow> (mock, Value) cmd) \<Rightarrow> string \<Rightarrow> Value \<Rightarrow>
     (string \<rightharpoonup> string) \<Rightarrow> test_outcome" where
  "test_json execute txt v ps =
     test_run (execute (decodes txt v)) ps (push_success txt MockPowerShell_new)"

definition ctx_params :: "(string \<times> string) list \<Rightarrow> string \<rightharpoonup> string" where
  "ctx_params pairs = map_of (rev pairs)"

text \<open>\<^verbatim>\<open>matches!(..., Err(CommandError::MissingParam(_)))\<close> and its siblings.\<close>

definition missing_param :: "test_outcome \<Rightarrow> bool" where
  "missing_param r = (case fst r of Inl (MissingParam _) \<Rightarrow> True | _ \<Rightarrow> False)"

definition invalid_param :: "test_outcome \<Rightarrow> bool" where
  "invalid_param r = (case fst r of Inl (InvalidParam _ _) \<Rightarrow> True | _ \<Rightarrow> False)"

definition invalid_param_named :: "string \<Rightarrow> test_outcome \<Rightarrow> bool" where
  "invalid_param_named name r = (case fst r of Inl (InvalidParam n _) \<Rightarrow> n = name | _ \<Rightarrow> False)"

definition shell_error :: "test_outcome \<Rightarrow> bool" where
  "shell_error r = (case fst r of Inl (ShellError _) \<Rightarrow> True | _ \<Rightarrow> False)"

text \<open>\<^verbatim>\<open>unwrap\<close>: the assertions about a result hold only if there is one.\<close>

definition unwrapped :: "test_outcome \<Rightarrow> (Value \<Rightarrow> bool) \<Rightarrow> bool" where
  "unwrapped r P = (case fst r of Inr v \<Rightarrow> P v | Inl _ \<Rightarrow> False)"

text \<open>The scripts the mock recorded, and an assertion about the first.\<close>

definition test_calls :: "test_outcome \<Rightarrow> string list" where
  "test_calls r = calls (snd (snd r))"

definition first_call :: "test_outcome \<Rightarrow> (string \<Rightarrow> bool) \<Rightarrow> bool" where
  "first_call r P = (case test_calls r of [] \<Rightarrow> False | sc # _ \<Rightarrow> P sc)"

text \<open>
  \<^verbatim>\<open>to_string\<close> likewise knows one value: the printed result of a test is written out in it. A
  secret leaks when it is in the printed result or in a script the mock was given.
\<close>

definition prints :: "Value \<Rightarrow> string \<Rightarrow> Value \<Rightarrow> string option" where
  "prints v txt w = (if w = v then Some txt else None)"

definition never_leaks :: "string \<Rightarrow> (Value \<Rightarrow> string option) \<Rightarrow> test_outcome \<Rightarrow> bool" where
  "never_leaks secret to_string r \<longleftrightarrow>
     unwrapped r (\<lambda>result. case to_string result of
         Some txt \<Rightarrow> \<not> contains_str txt secret | None \<Rightarrow> False)
     \<and> list_all (\<lambda>script. \<not> contains_str script secret) (test_calls r)"

section \<open>Results\<close>

text \<open>\<^verbatim>\<open>v[i]\<close> for a number, \<^verbatim>\<open>v.get("k")\<close>, \<^verbatim>\<open>is_boolean\<close> and \<^verbatim>\<open>as_u64\<close>.\<close>

fun json_nth :: "Value \<Rightarrow> nat \<Rightarrow> Value" where
  "json_nth (JArray vs) i = (if i < length vs then vs ! i else JNull)"
| "json_nth _ i = JNull"

fun json_get :: "Value \<Rightarrow> string \<Rightarrow> Value option" where
  "json_get (JObject m) k = map_of m k"
| "json_get _ k = None"

fun json_is_boolean :: "Value \<Rightarrow> bool" where
  "json_is_boolean (JBool b) \<longleftrightarrow> True"
| "json_is_boolean _ \<longleftrightarrow> False"

fun json_as_u64 :: "Value \<Rightarrow> u64 option" where
  "json_as_u64 (JNumber (PosInt n)) = Some n"
| "json_as_u64 _ = None"

lemma json_get_obj: "json_get (json_obj kvs) k = map_of (rev kvs) k"
  by (simp add: json_obj_def map_of_json_fold)

section \<open>Looking into a script\<close>

text \<open>
  Scripts are concatenations of short pieces. Searching one piece at a time, with the end
  of what was read before it, keeps the evaluation linear.
\<close>

definition keep_end :: "nat \<Rightarrow> string \<Rightarrow> string" where
  "keep_end n s = drop (length s - n) s"

fun matches_at :: "string \<Rightarrow> string \<Rightarrow> bool" where
  "matches_at [] s \<longleftrightarrow> True"
| "matches_at (x # q) [] \<longleftrightarrow> False"
| "matches_at (x # q) (c # s) \<longleftrightarrow> (if x = c then matches_at q s else False)"

fun found_in :: "string \<Rightarrow> string \<Rightarrow> bool" where
  "found_in q [] \<longleftrightarrow> q = []"
| "found_in q (c # s) \<longleftrightarrow> (if matches_at q (c # s) then True else found_in q s)"

fun scan_pieces :: "string \<Rightarrow> string \<Rightarrow> string list \<Rightarrow> bool" where
  "scan_pieces q acc [] \<longleftrightarrow> found_in q acc"
| "scan_pieces q acc (p # ps) \<longleftrightarrow>
     (if found_in q (acc @ p) then True
      else scan_pieces q (keep_end (length q - 1) (acc @ p)) ps)"

lemma matches_at: "matches_at q s \<longleftrightarrow> starts_with s q"
  by (induction q s rule: matches_at.induct) (auto simp: starts_with_def)

lemma found_in: "found_in q s \<longleftrightarrow> contains_str s q"
  by (induction s) (auto simp: matches_at)

lemma contains_cut:
  assumes "s @ r = a @ q @ b" and "\<not> contains_str s q"
  shows "contains_str (keep_end (length q - 1) s @ r) q"
proof -
  have "length s < length a + length q"
  proof (rule ccontr)
    assume "\<not> length s < length a + length q"
    then have "s = a @ q @ take (length s - length a - length q) b"
      using arg_cong [OF assms(1), of "take (length s)"] by simp
    with assms(2) show False by (metis contains_str_iff)
  qed
  then have cut: "length s - (length q - 1) \<le> length a" by simp
  have "keep_end (length q - 1) s @ r = drop (length s - (length q - 1)) (s @ r)"
    by (simp add: keep_end_def)
  also have "\<dots> = drop (length s - (length q - 1)) a @ q @ b"
    using cut by (simp add: assms(1))
  finally show ?thesis by (metis contains_str_iff)
qed

lemma contains_append:
  "contains_str (s @ r) q \<longleftrightarrow>
     contains_str s q \<or> contains_str (keep_end (length q - 1) s @ r) q"
proof
  assume "contains_str (s @ r) q"
  then show "contains_str s q \<or> contains_str (keep_end (length q - 1) s @ r) q"
    using contains_cut by (metis contains_str_iff)
next
  have "contains_str (s @ r) q" if "contains_str (drop n s @ r) q" for n
    using that by (metis contains_str_iff append.assoc append_take_drop_id)
  moreover have "contains_str (s @ r) q" if "contains_str s q"
    using that by (metis contains_str_iff append.assoc)
  ultimately show "contains_str s q \<or> contains_str (keep_end (length q - 1) s @ r) q
      \<Longrightarrow> contains_str (s @ r) q"
    by (auto simp: keep_end_def)
qed

lemma scan_pieces: "contains_str (acc @ concat ps) q \<longleftrightarrow> scan_pieces q acc ps"
proof (induction ps arbitrary: acc)
  case (Cons p ps)
  have "contains_str (acc @ concat (p # ps)) q \<longleftrightarrow> contains_str ((acc @ p) @ concat ps) q"
    by simp
  also have "\<dots> \<longleftrightarrow> contains_str (acc @ p) q
      \<or> contains_str (keep_end (length q - 1) (acc @ p) @ concat ps) q"
    by (rule contains_append)
  finally show ?case by (simp add: Cons.IH found_in)
qed (simp add: found_in)

lemma contains_concat: "contains_str (concat ps) q \<longleftrightarrow> scan_pieces q [] ps"
  using scan_pieces [of "[]"] by simp

text \<open>When the text is inside one piece, only that piece has to be searched.\<close>

lemma contains_nth:
  assumes "n < length ps" and "found_in q (ps ! n)"
  shows "contains_str (concat ps) q"
proof -
  obtain a b where "ps ! n = a @ q @ b" using assms(2) by (auto simp: found_in contains_str_iff)
  moreover have "concat ps = concat (take n ps) @ ps ! n @ concat (drop (Suc n) ps)"
    using assms(1) by (metis concat.simps(2) concat_append id_take_nth_drop)
  ultimately have "concat ps = (concat (take n ps) @ a) @ q @ b @ concat (drop (Suc n) ps)"
    by simp
  then show ?thesis unfolding contains_str_iff by blast
qed

lemma starts_with_concat: "starts_with p q \<Longrightarrow> starts_with (concat (p # ps)) q"
  by (auto simp: starts_with_iff)

section \<open>Evaluating a test\<close>

text \<open>
  A handler is evaluated from the front: nothing behind a statement is simplified before
  the statement has its value.
\<close>

lemma tryE_weak: "r = r' \<Longrightarrow> tryE r f s = tryE r' f s"
  by simp

lemma reject_weak: "b = b' \<Longrightarrow> reject b e k s = reject b' e k s"
  by simp

lemma reject_each_weak: "kvs = kvs' \<Longrightarrow> reject_each bad e kvs k s = reject_each bad e kvs' k s"
  by simp

lemma report_weak: "s = s' \<Longrightarrow> report st k s = report st k s'"
  by simp

lemma bindE_weak: "s = s' \<Longrightarrow> bindE m f s = bindE m f s'"
  by simp

lemmas test_congs = tryE_weak reject_weak reject_each_weak report_weak bindE_weak

text \<open>
  The definitions of the validators and of the string functions they use, for literals
  only: a value that is not yet known is left alone.
\<close>

lemma trim_start_noop_lit: "ws_prefix (c # s) = 0 \<Longrightarrow> trim_start (c # s) = c # s"
  by (rule trim_start_noop)

lemma trim_start_step:
  "0 < ws_prefix (c # s) \<Longrightarrow> trim_start (c # s) = trim_start (drop (ws_prefix (c # s)) (c # s))"
  by (subst trim_start.simps) simp

lemma trim_end_noop_lit: "ws_suffix (c # s) = 0 \<Longrightarrow> trim_end (c # s) = c # s"
  by (rule trim_end_noop)

lemma trim_end_step:
  "0 < ws_suffix (c # s) \<Longrightarrow>
     trim_end (c # s) = trim_end (take (length (c # s) - ws_suffix (c # s)) (c # s))"
  by (subst trim_end.simps) simp

lemma trim_start_Nil: "trim_start [] = []"
  by (simp add: trim_start_noop)

lemma trim_end_Nil: "trim_end [] = []"
  by (rule trim_end_noop) (simp add: ws_suffix_def)

lemma split_trimmed_Nil: "split_trimmed d [] = []"
  by (simp add: split_trimmed_def)

lemmas trim_eval = trim_def [of "c # s" for c s] trim_start_noop_lit trim_start_step
  trim_end_noop_lit trim_end_step trim_start_Nil trim_end_Nil split_trimmed_Nil
  ws_prefix_def [of "c # s" for c s] ws_suffix_def [of "c # s" for c s]
  split_whitespace_def [of "c # s" for c s] lines_of_def [of "c # s" for c s]
  lines_of_def [of "[]"] strip_cr_def [of "c # s" for c s] strip_cr_def [of "[]"]

lemmas validators_on_text = valid_windows_path_def [of "c # s" for c s] valid_secret_def [of "c # s"
  for c s] valid_username_def [of "c # s" for c s] valid_dns_label_def [of "c # s" for c s]
  valid_dns_name_def [of "c # s" for c s] valid_posix_path_def [of "c # s" for c s]
  ipv4_parse_ok_def [of "c # s" for c s] ipv4_octet_def [of "c # s" for c s] digits_val_def [of
  "c # s" for c s] valid_common_name_def [of "c # s" for c s] cps_oid_ok_def [of "c # s" for c s]
  years_ok_def [of "c # s" for c s] ds_config_dn_ok_def [of "c # s" for c s]
  valid_publication_entry_def [of "c # s" for c s] template_names_ok_def [of "c # s" for c s]
  anchored_location_def [of "c # s" for c s] valid_ds_attribute_def [of "c # s" for c s]
  enroll_valid_template_cn_def [of "c # s" for c s] valid_oid_def [of "c # s" for c s]
  valid_ca_name_def [of "c # s" for c s] valid_template_def [of "c # s" for c s]
  valid_http_url_def [of "c # s" for c s] template_valid_template_cn_def [of "c # s" for c s]
  valid_computer_name_def [of "c # s" for c s] valid_ipv4_def [of "c # s" for c s]
  valid_https_url_def [of "c # s" for c s] http_ok_def [of "c # s" for c s] bad_product_path_def
  [of "c # s" for c s] days_ok_def [of "c # s" for c s] realm_ok_def [of "c # s" for c s]
  valid_single_label_def [of "c # s" for c s] valid_reverse_zone_def [of "c # s" for c s]
  relay_path_ok_def [of "c # s" for c s] b64_ok_def [of "c # s" for c s] linux_relay_path_ok_def
  [of "c # s" for c s] iis_valid_netbios_def [of "c # s" for c s] valid_config_name_def [of "c # s"
  for c s] valid_ca_config_def [of "c # s" for c s] valid_url_list_def [of "c # s" for c s]
  responder_template_ok_def [of "c # s" for c s] minutes_ok_def [of "c # s" for c s]
  unsafe_http_url_def [of "c # s" for c s] to_ascii_lowercase_def [of "c # s" for c s]

lemmas validators_on_empty = valid_windows_path_def [of "[]"] valid_secret_def [of "[]"]
  valid_username_def [of "[]"] valid_dns_label_def [of "[]"] valid_dns_name_def [of "[]"]
  valid_posix_path_def [of "[]"] ipv4_parse_ok_def [of "[]"] ipv4_octet_def [of "[]"]
  digits_val_def [of "[]"] valid_common_name_def [of "[]"] cps_oid_ok_def [of "[]"] years_ok_def
  [of "[]"] ds_config_dn_ok_def [of "[]"] valid_publication_entry_def [of "[]"]
  template_names_ok_def [of "[]"] anchored_location_def [of "[]"] valid_ds_attribute_def [of
  "[]"] enroll_valid_template_cn_def [of "[]"] valid_oid_def [of "[]"] valid_ca_name_def [of
  "[]"] valid_template_def [of "[]"] valid_http_url_def [of "[]"] template_valid_template_cn_def
  [of "[]"] valid_computer_name_def [of "[]"] valid_ipv4_def [of "[]"] valid_https_url_def [of
  "[]"] http_ok_def [of "[]"] bad_product_path_def [of "[]"] days_ok_def [of "[]"] realm_ok_def
  [of "[]"] valid_single_label_def [of "[]"] valid_reverse_zone_def [of "[]"] relay_path_ok_def
  [of "[]"] b64_ok_def [of "[]"] linux_relay_path_ok_def [of "[]"] iis_valid_netbios_def [of
  "[]"] valid_config_name_def [of "[]"] valid_ca_config_def [of "[]"] valid_url_list_def [of
  "[]"] responder_template_ok_def [of "[]"] minutes_ok_def [of "[]"] unsafe_http_url_def [of
  "[]"] to_ascii_lowercase_def [of "[]"]

lemmas text_tests = starts_with_def [of "c # s" for c s] starts_with_def [of "[]"]
  ends_with_def [of "c # s" for c s] ends_with_def [of "[]"]
  strip_suffix_def [of "c # s" for c s] strip_suffix_def [of "[]"]
  parse_uint_def [of w "c # s" for w c s] parse_uint_def [of w "[]" for w]
  trim_end_matches_def str_slice_to_def is_char_boundary_def is_cont_def
  eq_ignore_ascii_case_def to_ascii_lower_def char_class_defs

lemmas validator_defs = validators_on_text validators_on_empty text_tests

lemmas constant_defs = CA_TYPES_def KEY_ALGORITHMS_def KEY_LENGTHS_def HASH_ALGORITHMS_def
  PERIODS_def MLDSA_PROVIDER_def MLDSA_KEY_LENGTH_BITS_def FOREST_MODES_def STORES_def KINDS_def
  ML_DSA_87_OID_def ENROLL_RIGHT_GUID_def SCOPES_def MAX_DNS_RESOURCES_def RELAY_CAP_BYTES_def
  RELAY_CAP_B64_def ALLOWED_PREFIXES_def linux_RELAY_CAP_BYTES_def linux_RELAY_CAP_B64_def
  linux_ALLOWED_PREFIXES_def invalid_relay_path_def linux_invalid_relay_path_def
  INSTALL_DIR_def

lemmas helper_defs = crypto_params_def crypto_key_length_def crypto_hash_def cng_provider_def
  unwrap_or_default_def unit_of_def period_of_def iis_netbios_def parse_planned_records_def
  check_record_def parse_hosts_entries_def status_field_def subject_alt_names_def
  harden_args_def HARDENED_def json_nat_def

lemmas test_simps = test_run_def test_json_def ctx_params_def missing_param_def invalid_param_def
  invalid_param_named_def shell_error_def unwrapped_def test_calls_def first_call_def decodes_def
  required_def param_def param_or_def cmd_run_simps wp_simps invalid_def reject_each_def
  parse_json_def require_success_def succeeded_def finish_def Let_def json_index_obj json_get_obj
  MockPowerShell_run_def MockPowerShell_new_def push_success_def push_failure_def
  push_response_def null_if_empty_def
  trim_eval validator_defs constant_defs helper_defs

end
