(* ===== verification/HostTests.thy ===== *)
theory HostTests
  imports Conformance
begin

text \<open>The test modules of the host commands, one proposition per test function.\<close>

section \<open>\<^verbatim>\<open>commands/hostname_read.rs\<close>\<close>

definition test_hostname_read_returns_trimmed_hostname :: bool where
  "test_hostname_read_returns_trimmed_hostname \<longleftrightarrow>
     unwrapped (test_run HostnameRead_execute Map.empty (push_success (''CA02'' @ carriage_return @
         newline) MockPowerShell_new))
       (\<lambda>result. json_index result ''hostname'' = JString ''CA02'')"

definition test_hostname_read_nonzero_exit_is_a_shell_error :: bool where
  "test_hostname_read_nonzero_exit_is_a_shell_error \<longleftrightarrow>
     shell_error (test_run HostnameRead_execute Map.empty (push_failure 1 ''boom''
         MockPowerShell_new))"

definition hostname_read_tests :: "bool list" where
  "hostname_read_tests = [
     test_hostname_read_returns_trimmed_hostname,
     test_hostname_read_nonzero_exit_is_a_shell_error]"

lemmas hostname_read_test_defs = hostname_read_tests_def
  test_hostname_read_returns_trimmed_hostname_def
  test_hostname_read_nonzero_exit_is_a_shell_error_def

lemma hostname_read_tests_pass: "list_all (\<lambda>t. t) hostname_read_tests"
  unfolding hostname_read_test_defs list.pred_inject
  by (intro conjI TrueI) (simp_all add: test_simps exec_defs cong: test_congs)

section \<open>\<^verbatim>\<open>commands/hostname_rename.rs\<close>\<close>

definition test_hostname_rename_rejects_name_over_netbios_limit :: bool where
  "test_hostname_rename_rejects_name_over_netbios_limit \<longleftrightarrow>
     invalid_param (test_run HostnameRename_execute ((Map.empty)(''name'' \<mapsto>
         ''ThisNameIsWayTooLongForNetBIOS''))
       MockPowerShell_new)"

definition test_hostname_rename_renames_on_valid_input :: bool where
  "test_hostname_rename_renames_on_valid_input \<longleftrightarrow>
     unwrapped (test_run HostnameRename_execute ((Map.empty)(''name'' \<mapsto> ''CA02''))
       (push_success [] MockPowerShell_new))
       (\<lambda>result. json_index result ''renamed_to'' = JString ''CA02'')"

definition test_hostname_rename_missing_name_param_is_reported :: bool where
  "test_hostname_rename_missing_name_param_is_reported \<longleftrightarrow>
     missing_param (test_run HostnameRename_execute Map.empty MockPowerShell_new)"

definition hostname_rename_tests :: "bool list" where
  "hostname_rename_tests = [
     test_hostname_rename_rejects_name_over_netbios_limit,
     test_hostname_rename_renames_on_valid_input,
     test_hostname_rename_missing_name_param_is_reported]"

lemmas hostname_rename_test_defs = hostname_rename_tests_def
  test_hostname_rename_rejects_name_over_netbios_limit_def
  test_hostname_rename_renames_on_valid_input_def
  test_hostname_rename_missing_name_param_is_reported_def

lemma hostname_rename_tests_pass: "list_all (\<lambda>t. t) hostname_rename_tests"
  unfolding hostname_rename_test_defs list.pred_inject
  by (intro conjI TrueI) (simp_all add: test_simps exec_defs cong: test_congs)

section \<open>\<^verbatim>\<open>commands/exec_arbitrary.rs\<close>\<close>

definition test_exec_arbitrary_runs_script_and_returns_stdout :: bool where
  "test_exec_arbitrary_runs_script_and_returns_stdout \<longleftrightarrow>
     unwrapped (test_run ExecArbitrary_execute ((Map.empty)(''script'' \<mapsto> ''Get-Date''))
       (push_success ''Tuesday, July 7, 2026'' MockPowerShell_new))
       (\<lambda>result. json_index result ''stdout'' = JString ''Tuesday, July 7, 2026'')"

definition test_exec_arbitrary_propagates_shell_failure :: bool where
  "test_exec_arbitrary_propagates_shell_failure \<longleftrightarrow>
     shell_error (test_run ExecArbitrary_execute ((Map.empty)(''script'' \<mapsto> ''exit 1''))
       (push_failure 1 ''boom'' MockPowerShell_new))"

definition exec_arbitrary_tests :: "bool list" where
  "exec_arbitrary_tests = [
     test_exec_arbitrary_runs_script_and_returns_stdout,
     test_exec_arbitrary_propagates_shell_failure]"

lemmas exec_arbitrary_test_defs = exec_arbitrary_tests_def
  test_exec_arbitrary_runs_script_and_returns_stdout_def
  test_exec_arbitrary_propagates_shell_failure_def

lemma exec_arbitrary_tests_pass: "list_all (\<lambda>t. t) exec_arbitrary_tests"
  unfolding exec_arbitrary_test_defs list.pred_inject
  by (intro conjI TrueI) (simp_all add: test_simps exec_defs cong: test_congs)

section \<open>\<^verbatim>\<open>commands/ip.rs\<close>\<close>

definition test_ip_read_parses_address_array :: bool where
  "test_ip_read_parses_address_array \<longleftrightarrow>
     unwrapped (test_json IpRead_execute
       ''[{\"InterfaceAlias\":\"Ethernet0\",\"IPAddress\":\"192.168.1.10\",\"PrefixLength\":24}]''
       (JArray [JObject [(''IPAddress'', JString ''192.168.1.10''), (''InterfaceAlias'', JString
           ''Ethernet0''), (''PrefixLength'', json_nat 24)]])
       Map.empty)
       (\<lambda>result. json_index (json_nth (json_index result ''addresses'') 0) ''IPAddress'' =
           JString ''192.168.1.10'')"

definition test_ip_read_falls_back_to_raw_on_unparseable_output :: bool where
  "test_ip_read_falls_back_to_raw_on_unparseable_output \<longleftrightarrow>
     unwrapped (test_run (IpRead_execute (\<lambda>_. None)) Map.empty (push_success ''not json''
         MockPowerShell_new))
       (\<lambda>result. json_index result ''addresses'' = JNull \<and>
        json_index result ''raw'' = JString ''not json'')"

definition test_ip_write_rejects_malformed_address :: bool where
  "test_ip_write_rejects_malformed_address \<longleftrightarrow>
     invalid_param (test_run IpWrite_execute (ctx_params [(''address'', ''999.1.2.3'')])
       MockPowerShell_new)"

definition test_ip_write_rejects_out_of_range_prefix :: bool where
  "test_ip_write_rejects_out_of_range_prefix \<longleftrightarrow>
     invalid_param (test_run IpWrite_execute (ctx_params [(''address'', ''10.0.0.5''),
         (''prefixLength'', ''33'')])
       MockPowerShell_new)"

definition test_ip_write_rejects_malformed_gateway :: bool where
  "test_ip_write_rejects_malformed_gateway \<longleftrightarrow>
     invalid_param (test_run IpWrite_execute (ctx_params [(''address'', ''10.0.0.5''), (''gateway'',
         ''not-an-ip'')])
       MockPowerShell_new)"

definition test_ip_write_missing_address_param_is_reported :: bool where
  "test_ip_write_missing_address_param_is_reported \<longleftrightarrow>
     missing_param (test_run IpWrite_execute Map.empty MockPowerShell_new)"

definition test_ip_write_succeeds_with_defaults_and_reports_them :: bool where
  "test_ip_write_succeeds_with_defaults_and_reports_them \<longleftrightarrow>
     unwrapped (test_run IpWrite_execute (ctx_params [(''address'', ''192.168.1.20'')])
       (push_success [] MockPowerShell_new))
       (\<lambda>result. json_index result ''address'' = JString ''192.168.1.20'' \<and>
        json_index result ''prefix_length'' = JString ''24'' \<and>
        json_index result ''gateway'' = JNull \<and>
        json_index result ''interface'' = JNull)"

definition ip_tests :: "bool list" where
  "ip_tests = [
     test_ip_read_parses_address_array,
     test_ip_read_falls_back_to_raw_on_unparseable_output,
     test_ip_write_rejects_malformed_address,
     test_ip_write_rejects_out_of_range_prefix,
     test_ip_write_rejects_malformed_gateway,
     test_ip_write_missing_address_param_is_reported,
     test_ip_write_succeeds_with_defaults_and_reports_them]"

lemmas ip_test_defs = ip_tests_def
  test_ip_read_parses_address_array_def
  test_ip_read_falls_back_to_raw_on_unparseable_output_def
  test_ip_write_rejects_malformed_address_def
  test_ip_write_rejects_out_of_range_prefix_def
  test_ip_write_rejects_malformed_gateway_def
  test_ip_write_missing_address_param_is_reported_def
  test_ip_write_succeeds_with_defaults_and_reports_them_def

lemma ip_tests_pass: "list_all (\<lambda>t. t) ip_tests"
  unfolding ip_test_defs list.pred_inject
  by (intro conjI TrueI) (simp_all add: test_simps exec_defs cong: test_congs)

section \<open>\<^verbatim>\<open>commands/system.rs\<close>\<close>

lemma show_38: "show_nat 38 = ''38''"
  by code_simp

definition run_boot_info :: "(string \<Rightarrow> bool) \<Rightarrow> u64 \<Rightarrow> test_outcome"
    where
  "run_boot_info path_exists ticks = test_run (SystemBootInfo_execute path_exists
     \<lparr>tick_ms = (\<lambda>_. ticks), tasks_dir = ''D''\<rparr>) Map.empty MockPowerShell_new"

definition test_system_reboot_defaults_to_ten_seconds :: bool where
  "test_system_reboot_defaults_to_ten_seconds \<longleftrightarrow>
     unwrapped (test_run SystemReboot_execute Map.empty (push_success [] MockPowerShell_new))
       (\<lambda>result. json_index result ''rebooting'' = JBool True \<and>
        json_index result ''delay_seconds'' = JString ''10'')"

definition test_system_reboot_rejects_out_of_range_delay :: bool where
  "test_system_reboot_rejects_out_of_range_delay \<longleftrightarrow>
     list_all (\<lambda>delay. invalid_param (test_run SystemReboot_execute (ctx_params
         [(''delaySeconds'', delay)])
       MockPowerShell_new))
       [''0'',
        ''3'',
        ''300'',
        ''-1'',
        ''ten'']"

definition test_system_reboot_propagates_shutdown_failure :: bool where
  "test_system_reboot_propagates_shutdown_failure \<longleftrightarrow>
     shell_error (test_run SystemReboot_execute Map.empty (push_failure 1 ''Access is denied.(5)''
         MockPowerShell_new))"

definition test_system_boot_info_reports_a_settled_boot :: bool where
  "test_system_boot_info_reports_a_settled_boot \<longleftrightarrow>
     (let r = run_boot_info (\<lambda>_. False) 412000 in
       unwrapped r (\<lambda>result. json_index result ''uptimeS'' = json_nat 412 \<and>
        json_index result ''finalizePending'' = JBool False \<and>
        json_index result ''finalizeRunning'' = JBool False) \<and>
       test_calls r = [])"

definition test_system_boot_info_reports_finalize_pending :: bool where
  "test_system_boot_info_reports_finalize_pending \<longleftrightarrow>
     unwrapped (run_boot_info (\<lambda>p. p = path_join ''D'' ''FirstBootFinalize'') 38000)
       (\<lambda>result. json_index result ''uptimeS'' = json_nat 38 \<and>
        json_index result ''finalizePending'' = JBool True \<and>
        json_index result ''finalizeRunning'' = JBool False \<and>
        (case json_as_str (json_index result ''raw'') of
           Some raw \<Rightarrow> contains_str raw ''present'' | None \<Rightarrow> False))"

definition test_system_boot_info_is_read_tier :: bool where
  "test_system_boot_info_is_read_tier \<longleftrightarrow>
     h_capability (SystemBootInfo (\<lambda>_. False)
       \<lparr>tick_ms = (\<lambda>_. 0), tasks_dir = default_tasks_dir (\<lambda>_. None)\<rparr>
           :: mock handler) = VmRead"

text \<open>
  The default wiring, on a machine of which only the tick counter, the environment and the
  files are known.
\<close>

definition test_system_boot_info_default_reads_the_real_system ::
  "(string \<Rightarrow> bool) \<Rightarrow> (string \<Rightarrow> string option) \<Rightarrow> u64 \<Rightarrow> bool" where
  "test_system_boot_info_default_reads_the_real_system path_exists env_var ticks \<longleftrightarrow>
     unwrapped (test_run (SystemBootInfo_execute path_exists
         \<lparr>tick_ms = (\<lambda>_. ticks), tasks_dir = default_tasks_dir env_var\<rparr>) Map.empty MockPowerShell_new)
       (\<lambda>result. (case json_as_u64 (json_index result ''uptimeS'') of Some n \<Rightarrow> 0 < n | None \<Rightarrow> False) \<and>
        json_is_boolean (json_index result ''finalizePending''))"

lemma system_boot_info_default_reads_the_real_system:
  assumes "1000 \<le> ticks"
  shows "test_system_boot_info_default_reads_the_real_system path_exists env_var ticks"
proof -
  have "0 < ticks div 1000"
    using assms by (simp add: word_less_nat_alt word_le_nat_alt unat_div)
  then show ?thesis
    by (simp add: test_system_boot_info_default_reads_the_real_system_def test_simps exec_defs
        cong: test_congs)
qed

definition system_tests :: "bool list" where
  "system_tests = [
     test_system_reboot_defaults_to_ten_seconds,
     test_system_reboot_rejects_out_of_range_delay,
     test_system_reboot_propagates_shutdown_failure,
     test_system_boot_info_reports_a_settled_boot,
     test_system_boot_info_reports_finalize_pending,
     test_system_boot_info_is_read_tier]"

lemmas system_test_defs = system_tests_def
  test_system_reboot_defaults_to_ten_seconds_def
  test_system_reboot_rejects_out_of_range_delay_def
  test_system_reboot_propagates_shutdown_failure_def
  test_system_boot_info_reports_a_settled_boot_def
  test_system_boot_info_reports_finalize_pending_def
  test_system_boot_info_is_read_tier_def

lemma system_tests_pass: "list_all (\<lambda>t. t) system_tests"
  unfolding system_test_defs list.pred_inject
  by (intro conjI TrueI) (simp_all add: run_boot_info_def path_join_def test_simps exec_defs show_38
      SystemBootInfo_def cong: test_congs)

section \<open>\<^verbatim>\<open>commands/system_identity.rs\<close>\<close>

definition test_system_identity_reports_hostname_and_server_identity :: bool where
  "test_system_identity_reports_hostname_and_server_identity \<longleftrightarrow>
     unwrapped (test_json SystemIdentity_execute
       ''{\"hostname\":\"DC01\",\"operating_system\":\"Microsoft Windows Server 2025 Standard\",\"version\":\"10.0.26100\",\"product_type\":2,\"server\":true}''
       (JObject [(''hostname'', JString ''DC01''), (''operating_system'', JString
           ''Microsoft Windows Server 2025 Standard''), (''product_type'', json_nat 2), (''server'',
           JBool True), (''version'', JString ''10.0.26100'')])
       Map.empty)
       (\<lambda>result. json_index result ''hostname'' = JString ''DC01'' \<and>
        json_index result ''server'' = JBool True)"

definition system_identity_tests :: "bool list" where
  "system_identity_tests = [
     test_system_identity_reports_hostname_and_server_identity]"

lemmas system_identity_test_defs = system_identity_tests_def
  test_system_identity_reports_hostname_and_server_identity_def

lemma system_identity_tests_pass: "list_all (\<lambda>t. t) system_identity_tests"
  unfolding system_identity_test_defs list.pred_inject
  by (intro conjI TrueI) (simp_all add: test_simps exec_defs cong: test_congs)

end
