(* ===== verification/FileTests.thy ===== *)
theory FileTests
  imports Conformance
begin

text \<open>The test modules of the artifact relay and the Linux handlers, one proposition per test function.\<close>

section \<open>\<^verbatim>\<open>commands/file.rs\<close>\<close>

definition test_file_read_rejects_paths_outside_the_allowlist :: bool where
  "test_file_read_rejects_paths_outside_the_allowlist \<longleftrightarrow>
     list_all (\<lambda>path. invalid_param (test_run (FileRead_execute (\<lambda>_. None))
         (ctx_params [(''path'', path)])
       MockPowerShell_new))
       [(''C:'' @ backslash @ ''Windows'' @ backslash @ ''System32'' @ backslash @ ''config'' @
           backslash @ ''SAM''),
        (''C:'' @ backslash @ ''Users'' @ backslash @ ''Administrator'' @ backslash @
            ''secret.txt''),
        (''C:'' @ backslash @ ''Transfer'' @ backslash @ ''..'' @ backslash @ ''Windows'' @
            backslash @ ''evil.dll''),
        (''D:'' @ backslash @ ''Transfer'' @ backslash @ ''x.crt'')]"

definition test_file_read_accepts_all_three_relay_prefixes :: bool where
  "test_file_read_accepts_all_three_relay_prefixes \<longleftrightarrow>
     list_all (\<lambda>path. unwrapped (test_json FileRead_execute
       ''{\"contentB64\":\"aGVsbG8=\",\"sha256\":\"2cf24dba5fb0a30e26e83b2ac5b9e29e1b161e5c1fa7425e73043362938b9824\",\"size\":5}''
       (JObject [(''contentB64'', JString ''aGVsbG8=''), (''sha256'', JString
           ''2cf24dba5fb0a30e26e83b2ac5b9e29e1b161e5c1fa7425e73043362938b9824''), (''size'',
           json_nat 5)])
       (ctx_params [(''path'', path)]))
       (\<lambda>result. json_index result ''contentB64'' = JString ''aGVsbG8='' \<and>
        json_index result ''size'' = json_nat 5))
       [(''C:'' @ backslash @ ''Transfer'' @ backslash @ ''EC-Root-CA.crt''),
        (''C:'' @ backslash @ ''Windows'' @ backslash @ ''System32'' @ backslash @ ''CertSrv'' @
            backslash @ ''CertEnroll'' @ backslash @ ''root.crl''),
        (''C:'' @ backslash @ ''CertEnroll'' @ backslash @ ''issuing.crt'')]"

definition test_file_read_fails_cleanly_on_unreadable_file :: bool where
  "test_file_read_fails_cleanly_on_unreadable_file \<longleftrightarrow>
     shell_error (test_run (FileRead_execute (\<lambda>_. None)) (ctx_params [(''path'', (''C:'' @
         backslash @ ''Transfer'' @ backslash @ ''missing.crt''))])
       (push_failure 1 ''Could not find file'' MockPowerShell_new))"

definition test_file_write_rejects_paths_outside_the_allowlist :: bool where
  "test_file_write_rejects_paths_outside_the_allowlist \<longleftrightarrow>
     invalid_param (test_run FileWrite_execute (ctx_params [(''path'', (''C:'' @ backslash @
         ''Windows'' @ backslash @ ''System32'' @ backslash @ ''evil.exe'')), (''contentB64'',
         ''aGVsbG8='')])
       MockPowerShell_new)"

definition test_file_write_rejects_non_base64_content :: bool where
  "test_file_write_rejects_non_base64_content \<longleftrightarrow>
     invalid_param (test_run FileWrite_execute (ctx_params [(''path'', (''C:'' @ backslash @
         ''Transfer'' @ backslash @ ''EC-Root-CA.crt'')), (''contentB64'', ''not base64!!'')])
       MockPowerShell_new)"

definition test_file_write_rejects_oversized_content :: bool where
  "test_file_write_rejects_oversized_content \<longleftrightarrow>
     invalid_param (test_run FileWrite_execute
       (ctx_params [(''path'', ''C:'' @ backslash @ ''Transfer'' @ backslash @ ''big.bin''),
          (''contentB64'', replicate (RELAY_CAP_B64 + 1) (CHR ''A''))]) MockPowerShell_new)"

definition test_file_write_reports_the_digest_readback :: bool where
  "test_file_write_reports_the_digest_readback \<longleftrightarrow>
     unwrapped (test_run FileWrite_execute (ctx_params [(''path'', (''C:'' @ backslash @
         ''Transfer'' @ backslash @ ''EC-Root-CA.crt'')), (''contentB64'', ''aGVsbG8='')])
       (push_success ''2cf24dba5fb0a30e26e83b2ac5b9e29e1b161e5c1fa7425e73043362938b9824''
           MockPowerShell_new))
       (\<lambda>result. json_index result ''sha256'' = JString
           ''2cf24dba5fb0a30e26e83b2ac5b9e29e1b161e5c1fa7425e73043362938b9824'')"

definition file_tests :: "bool list" where
  "file_tests = [
     test_file_read_rejects_paths_outside_the_allowlist,
     test_file_read_accepts_all_three_relay_prefixes,
     test_file_read_fails_cleanly_on_unreadable_file,
     test_file_write_rejects_paths_outside_the_allowlist,
     test_file_write_rejects_non_base64_content,
     test_file_write_rejects_oversized_content,
     test_file_write_reports_the_digest_readback]"

lemmas file_test_defs = file_tests_def
  test_file_read_rejects_paths_outside_the_allowlist_def
  test_file_read_accepts_all_three_relay_prefixes_def
  test_file_read_fails_cleanly_on_unreadable_file_def
  test_file_write_rejects_paths_outside_the_allowlist_def
  test_file_write_rejects_non_base64_content_def
  test_file_write_rejects_oversized_content_def
  test_file_write_reports_the_digest_readback_def

lemma file_tests_pass: "list_all (\<lambda>t. t) file_tests"
  unfolding file_test_defs list.pred_inject
  by (intro conjI TrueI) (simp_all add: test_simps exec_defs cong: test_congs)

section \<open>\<^verbatim>\<open>commands/linux.rs\<close>\<close>

definition test_linux_hostname_read_trims_the_shell_output :: bool where
  "test_linux_hostname_read_trims_the_shell_output \<longleftrightarrow>
     unwrapped (test_run LinuxHostnameRead_execute Map.empty (push_success (''certsecure01'' @
         newline) MockPowerShell_new))
       (\<lambda>result. json_index result ''hostname'' = JString ''certsecure01'')"

definition test_linux_system_identity_keeps_the_windows_result_shape :: bool where
  "test_linux_system_identity_keeps_the_windows_result_shape \<longleftrightarrow>
     unwrapped (test_json LinuxSystemIdentity_execute
       ''{\"hostname\":\"cs01\",\"operating_system\":\"Ubuntu 24.04.3 LTS\",\"version\":\"6.8.0-79-generic\",\"product_type\":3,\"server\":true}''
       (JObject [(''hostname'', JString ''cs01''), (''operating_system'', JString
           ''Ubuntu 24.04.3 LTS''), (''product_type'', json_nat 3), (''server'', JBool True),
           (''version'', JString ''6.8.0-79-generic'')])
       Map.empty)
       (\<lambda>result. json_index result ''hostname'' = JString ''cs01'' \<and>
        json_index result ''server'' = JBool True \<and>
        json_index result ''product_type'' = json_nat 3)"

definition test_linux_reboot_rejects_out_of_range_delay :: bool where
  "test_linux_reboot_rejects_out_of_range_delay \<longleftrightarrow>
     list_all (\<lambda>delay. invalid_param (test_run LinuxSystemReboot_execute (ctx_params
         [(''delaySeconds'', delay)])
       MockPowerShell_new))
       [''0'',
        ''3'',
        ''300'',
        ''-1'',
        ''ten'']"

definition test_linux_boot_info_reports_uptime_and_never_a_pending_finalize :: bool where
  "test_linux_boot_info_reports_uptime_and_never_a_pending_finalize \<longleftrightarrow>
     (let r = test_run (LinuxSystemBootInfo_execute (\<lambda>_. 412000)) Map.empty
         MockPowerShell_new in
       unwrapped r (\<lambda>result. json_index result ''uptimeS'' = json_nat 412 \<and>
        json_index result ''finalizePending'' = JBool False \<and>
        json_index result ''finalizeRunning'' = JBool False) \<and>
       test_calls r = [])"

definition test_linux_relay_rejects_paths_outside_the_allowlist :: bool where
  "test_linux_relay_rejects_paths_outside_the_allowlist \<longleftrightarrow>
     list_all (\<lambda>path. invalid_param (test_run (LinuxFileRead_execute (\<lambda>_. None))
         (ctx_params [(''path'', path)])
       MockPowerShell_new))
       [''/etc/passwd'',
        ''/opt/certsecure-manager/../../etc/shadow'',
        (''C:'' @ backslash @ ''Transfer'' @ backslash @ ''root-ca.crt''),
        ''/opt/certsecure-manager/'',
        ''opt/certsecure-manager/x'']"

definition test_linux_every_override_matches_its_windows_sibling :: bool where
  "test_linux_every_override_matches_its_windows_sibling \<longleftrightarrow>
     list_all (\<lambda>(linux, windows).
          h_name linux = h_name windows \<and> h_capability linux = h_capability windows)
       [(LinuxHostnameRead :: mock handler, HostnameRead :: mock handler),
        (LinuxSystemIdentity (\<lambda>_. None), SystemIdentity (\<lambda>_. None)),
        (LinuxSystemReboot, SystemReboot),
        (LinuxFileRead (\<lambda>_. None), FileRead (\<lambda>_. None)),
        (LinuxFileWrite, FileWrite),
        (LinuxSystemBootInfo (\<lambda>_. 0), SystemBootInfo (\<lambda>_. False)
           \<lparr>tick_ms = (\<lambda>_. 0), tasks_dir = default_tasks_dir (\<lambda>_.
               None)\<rparr>)]"

definition test_linux_relay_accepts_a_path_inside_the_product_tree :: bool where
  "test_linux_relay_accepts_a_path_inside_the_product_tree \<longleftrightarrow>
     unwrapped (test_json LinuxFileRead_execute
       ''{\"contentB64\":\"QQ==\",\"sha256\":\"ab\",\"size\":1}''
       (JObject [(''contentB64'', JString ''QQ==''), (''sha256'', JString ''ab''), (''size'',
           json_nat 1)])
       (ctx_params [(''path'', ''/opt/certsecure-manager/conf/cert.pem'')]))
       (\<lambda>result. json_index result ''contentB64'' = JString ''QQ=='')"

definition linux_tests :: "bool list" where
  "linux_tests = [
     test_linux_hostname_read_trims_the_shell_output,
     test_linux_system_identity_keeps_the_windows_result_shape,
     test_linux_reboot_rejects_out_of_range_delay,
     test_linux_boot_info_reports_uptime_and_never_a_pending_finalize,
     test_linux_relay_rejects_paths_outside_the_allowlist,
     test_linux_every_override_matches_its_windows_sibling,
     test_linux_relay_accepts_a_path_inside_the_product_tree]"

lemmas linux_test_defs = linux_tests_def
  test_linux_hostname_read_trims_the_shell_output_def
  test_linux_system_identity_keeps_the_windows_result_shape_def
  test_linux_reboot_rejects_out_of_range_delay_def
  test_linux_boot_info_reports_uptime_and_never_a_pending_finalize_def
  test_linux_relay_rejects_paths_outside_the_allowlist_def
  test_linux_every_override_matches_its_windows_sibling_def
  test_linux_relay_accepts_a_path_inside_the_product_tree_def

lemma linux_tests_pass: "list_all (\<lambda>t. t) linux_tests"
  unfolding linux_test_defs list.pred_inject
  by (intro conjI TrueI) (simp_all add: test_simps exec_defs linux_handler_defs host_handler_defs
      file_handler_defs cong: test_congs)

end
