(* ===== verification/DirectoryTests.thy ===== *)
theory DirectoryTests
  imports Conformance
begin

text \<open>The test modules of the directory and template commands, one proposition per test function.\<close>

section \<open>\<^verbatim>\<open>commands/domain.rs\<close>\<close>

definition domain_join_params :: "string \<rightharpoonup> string" where
  "domain_join_params = ctx_params [(''domainName'', ''EncryptionConsulting.com''),
     (''username'', (''ENCRYPTIONCONSU'' @ backslash @ ''Administrator'')),
     (''password'', ''Sup3r-Secret-Pw!'')]"

definition test_domain_join_reports_reboot_required :: bool where
  "test_domain_join_reports_reboot_required \<longleftrightarrow>
     unwrapped (test_run DomainJoin_execute domain_join_params (push_success [] MockPowerShell_new))
       (\<lambda>result. json_index result ''domain'' = JString ''EncryptionConsulting.com'' \<and>
        json_index result ''reboot_required'' = JBool True)"

definition test_domain_join_rejects_injection_shaped_username :: bool where
  "test_domain_join_rejects_injection_shaped_username \<longleftrightarrow>
     invalid_param (test_run DomainJoin_execute ((domain_join_params)(''username'' \<mapsto>
         ''Administrator'; Remove-Item C:''))
       MockPowerShell_new)"

definition test_domain_join_rejects_dash_leading_password :: bool where
  "test_domain_join_rejects_dash_leading_password \<longleftrightarrow>
     invalid_param (test_run DomainJoin_execute ((domain_join_params)(''password'' \<mapsto>
         ''-StartsWithDash1!''))
       MockPowerShell_new)"

definition test_domain_join_propagates_bad_credential_failure :: bool where
  "test_domain_join_propagates_bad_credential_failure \<longleftrightarrow>
     shell_error (test_run DomainJoin_execute domain_join_params (push_failure 1
         ''The user name or password is incorrect.'' MockPowerShell_new))"

definition test_domain_verify_reports_joined_machine :: bool where
  "test_domain_verify_reports_joined_machine \<longleftrightarrow>
     unwrapped (test_json DomainVerify_execute
       ''{\"PartOfDomain\":true,\"Domain\":\"EncryptionConsulting.com\",\"DNSHostName\":\"ca02\"}''
       (JObject [(''DNSHostName'', JString ''ca02''), (''Domain'', JString
           ''EncryptionConsulting.com''), (''PartOfDomain'', JBool True)])
       Map.empty)
       (\<lambda>result. json_index result ''part_of_domain'' = JBool True \<and>
        json_index result ''domain'' = JString ''EncryptionConsulting.com'')"

definition test_domain_verify_reports_workgroup_machine_as_not_joined :: bool where
  "test_domain_verify_reports_workgroup_machine_as_not_joined \<longleftrightarrow>
     unwrapped (test_json DomainVerify_execute
       ''{\"PartOfDomain\":false,\"Domain\":\"WORKGROUP\",\"DNSHostName\":\"win11\"}''
       (JObject [(''DNSHostName'', JString ''win11''), (''Domain'', JString ''WORKGROUP''),
           (''PartOfDomain'', JBool False)])
       Map.empty)
       (\<lambda>result. json_index result ''part_of_domain'' = JBool False \<and>
        json_index result ''domain'' = JString ''WORKGROUP'')"

definition test_domain_verify_treats_unparseable_output_as_not_joined :: bool where
  "test_domain_verify_treats_unparseable_output_as_not_joined \<longleftrightarrow>
     unwrapped (test_run (DomainVerify_execute (\<lambda>_. None)) Map.empty
       (push_success ''garbage'' MockPowerShell_new))
       (\<lambda>result. json_index result ''part_of_domain'' = JBool False \<and>
        json_index result ''raw'' = JString ''garbage'')"

text \<open>The secret is in no script and not in the printed result.\<close>

lemma domain_DomainJoin_plain: "\<not> contains_str script_DomainJoin ''Sup3r-Secret-Pw!''"
  unfolding script_DomainJoin_def contains_concat by code_simp

definition test_domain_join_never_leaks_the_password :: bool where
  "test_domain_join_never_leaks_the_password \<longleftrightarrow>
     never_leaks ''Sup3r-Secret-Pw!''
       (prints (json_obj [(''domain'', JString ''EncryptionConsulting.com''), (''reboot_required'', JBool True)])
          (''{\"domain\":\"EncryptionConsulting.com\",\"reboot_required\":true}''))
       (test_run DomainJoin_execute domain_join_params (push_success [] MockPowerShell_new))"

lemma domain_join_never_leaks_the_password: "test_domain_join_never_leaks_the_password"
  by (simp add: test_domain_join_never_leaks_the_password_def never_leaks_def prints_def
      domain_join_params_def test_simps exec_defs domain_DomainJoin_plain cong: test_congs)

definition domain_tests :: "bool list" where
  "domain_tests = [
     test_domain_join_never_leaks_the_password,
     test_domain_join_reports_reboot_required,
     test_domain_join_rejects_injection_shaped_username,
     test_domain_join_rejects_dash_leading_password,
     test_domain_join_propagates_bad_credential_failure,
     test_domain_verify_reports_joined_machine,
     test_domain_verify_reports_workgroup_machine_as_not_joined,
     test_domain_verify_treats_unparseable_output_as_not_joined]"

lemmas domain_test_defs = domain_tests_def
  test_domain_join_reports_reboot_required_def
  test_domain_join_rejects_injection_shaped_username_def
  test_domain_join_rejects_dash_leading_password_def
  test_domain_join_propagates_bad_credential_failure_def
  test_domain_verify_reports_joined_machine_def
  test_domain_verify_reports_workgroup_machine_as_not_joined_def
  test_domain_verify_treats_unparseable_output_as_not_joined_def

lemma domain_tests_pass: "list_all (\<lambda>t. t) domain_tests"
  unfolding domain_test_defs list.pred_inject
  by (intro conjI TrueI domain_join_never_leaks_the_password) (simp_all add: domain_join_params_def test_simps exec_defs cong:
      test_congs)

section \<open>\<^verbatim>\<open>commands/dc.rs\<close>\<close>

definition dc_forest_params :: "string \<rightharpoonup> string" where
  "dc_forest_params = ctx_params [(''domainName'', ''EncryptionConsulting.com''),
     (''netbiosName'', ''ENCRYPTIONCONSU''),
     (''forestMode'', ''WinThreshold''),
     (''safeModePassword'', ''S0me-DSRM-secret!'')]"

definition test_dc_install_forest_reports_reboot_required :: bool where
  "test_dc_install_forest_reports_reboot_required \<longleftrightarrow>
     unwrapped (test_run DcInstallForest_execute dc_forest_params (push_success []
         MockPowerShell_new))
       (\<lambda>result. json_index result ''domain'' = JString ''EncryptionConsulting.com'' \<and>
        json_index result ''reboot_required'' = JBool True)"

definition test_dc_install_forest_rejects_undotted_domain :: bool where
  "test_dc_install_forest_rejects_undotted_domain \<longleftrightarrow>
     invalid_param (test_run DcInstallForest_execute ((dc_forest_params)(''domainName'' \<mapsto>
         ''corp''))
       MockPowerShell_new)"

definition test_dc_install_forest_rejects_overlong_netbios :: bool where
  "test_dc_install_forest_rejects_overlong_netbios \<longleftrightarrow>
     invalid_param (test_run DcInstallForest_execute ((dc_forest_params)(''netbiosName'' \<mapsto>
         ''EncryptionConsulting''))
       MockPowerShell_new)"

definition test_dc_install_forest_rejects_unknown_forest_mode :: bool where
  "test_dc_install_forest_rejects_unknown_forest_mode \<longleftrightarrow>
     invalid_param (test_run DcInstallForest_execute ((dc_forest_params)(''forestMode'' \<mapsto>
         ''Win2003''))
       MockPowerShell_new)"

definition test_dc_install_forest_rejects_dash_leading_password :: bool where
  "test_dc_install_forest_rejects_dash_leading_password \<longleftrightarrow>
     invalid_param (test_run DcInstallForest_execute ((dc_forest_params)(''safeModePassword''
         \<mapsto> ''-StartsWithDash1!''))
       MockPowerShell_new)"

definition test_dc_verify_parses_domain_facts :: bool where
  "test_dc_verify_parses_domain_facts \<longleftrightarrow>
     (let r = test_json DcVerify_execute
       ''{\"DNSRoot\":\"EncryptionConsulting.com\",\"NetBIOSName\":\"ENCRYPTIONCONSU\",\"DomainMode\":\"Windows2016Domain\"}''
       (JObject [(''DNSRoot'', JString ''EncryptionConsulting.com''), (''DomainMode'', JString
           ''Windows2016Domain''), (''NetBIOSName'', JString ''ENCRYPTIONCONSU'')])
       Map.empty in
       unwrapped r (\<lambda>result. json_index (json_index result ''domain'') ''DNSRoot'' = JString
           ''EncryptionConsulting.com'' \<and>
        json_index (json_index result ''domain'') ''NetBIOSName'' = JString ''ENCRYPTIONCONSU'')
            \<and>
       first_call r (\<lambda>script. contains_str script
           ''Get-ADDomain -Server $env:COMPUTERNAME''))"

definition test_dc_verify_fails_while_adws_is_still_down :: bool where
  "test_dc_verify_fails_while_adws_is_still_down \<longleftrightarrow>
     shell_error (test_run (DcVerify_execute (\<lambda>_. None)) Map.empty
       (push_failure 1
           ''Unable to contact the server. This may be because this server does not exist''
           MockPowerShell_new))"

definition test_dc_verify_keeps_raw_output_when_unparseable :: bool where
  "test_dc_verify_keeps_raw_output_when_unparseable \<longleftrightarrow>
     unwrapped (test_run (DcVerify_execute (\<lambda>_. None)) Map.empty
       (push_success ''not json'' MockPowerShell_new))
       (\<lambda>result. json_index result ''domain'' = JNull \<and>
        json_index result ''raw'' = JString ''not json'')"

text \<open>The assertions about script texts.\<close>

lemma dc_script_1: "contains_str script_DcVerify ''Get-ADDomain -Server $env:COMPUTERNAME''"
  unfolding script_DcVerify_def by (rule contains_nth [where n = 2]) code_simp+

lemmas dc_scripts = dc_script_1

text \<open>The secret is in no script and not in the printed result.\<close>

lemma dc_DcInstallForest_plain: "\<not> contains_str script_DcInstallForest ''S0me-DSRM-secret!''"
  unfolding script_DcInstallForest_def contains_concat by code_simp

definition test_dc_install_forest_never_leaks_the_dsrm_password :: bool where
  "test_dc_install_forest_never_leaks_the_dsrm_password \<longleftrightarrow>
     never_leaks ''S0me-DSRM-secret!''
       (prints (json_obj [(''domain'', JString ''EncryptionConsulting.com''), (''netbios'', JString ''ENCRYPTIONCONSU''),
          (''forest_mode'', JString ''WinThreshold''), (''reboot_required'', JBool True)])
          (''{\"domain\":\"EncryptionConsulting.com\",\"forest_mode\":\"WinThreshold\",\"netbios\":\"ENCRYPTIONCONSU\",\"reboot_required\":true}''))
       (test_run DcInstallForest_execute dc_forest_params (push_success [] MockPowerShell_new))"

lemma dc_install_forest_never_leaks_the_dsrm_password: "test_dc_install_forest_never_leaks_the_dsrm_password"
  by (simp add: test_dc_install_forest_never_leaks_the_dsrm_password_def never_leaks_def prints_def
      dc_forest_params_def test_simps exec_defs dc_DcInstallForest_plain cong: test_congs)

definition dc_tests :: "bool list" where
  "dc_tests = [
     test_dc_install_forest_never_leaks_the_dsrm_password,
     test_dc_install_forest_reports_reboot_required,
     test_dc_install_forest_rejects_undotted_domain,
     test_dc_install_forest_rejects_overlong_netbios,
     test_dc_install_forest_rejects_unknown_forest_mode,
     test_dc_install_forest_rejects_dash_leading_password,
     test_dc_verify_parses_domain_facts,
     test_dc_verify_fails_while_adws_is_still_down,
     test_dc_verify_keeps_raw_output_when_unparseable]"

lemmas dc_test_defs = dc_tests_def
  test_dc_install_forest_reports_reboot_required_def
  test_dc_install_forest_rejects_undotted_domain_def
  test_dc_install_forest_rejects_overlong_netbios_def
  test_dc_install_forest_rejects_unknown_forest_mode_def
  test_dc_install_forest_rejects_dash_leading_password_def
  test_dc_verify_parses_domain_facts_def
  test_dc_verify_fails_while_adws_is_still_down_def
  test_dc_verify_keeps_raw_output_when_unparseable_def

lemma dc_tests_pass: "list_all (\<lambda>t. t) dc_tests"
  unfolding dc_test_defs list.pred_inject
  by (intro conjI TrueI dc_install_forest_never_leaks_the_dsrm_password) (simp_all add: dc_forest_params_def test_simps exec_defs dc_scripts
      [simplified] cong: test_congs)

section \<open>\<^verbatim>\<open>commands/template.rs\<close>\<close>

definition template_grant_params :: "string \<rightharpoonup> string" where
  "template_grant_params = ctx_params [(''template'', ''OCSPResponseSigning''),
     (''computer'', ''SRV1''),
     (''username'', (''ENCRYPTIONCONSU'' @ backslash @ ''Administrator'')),
     (''password'', ''Sup3r-Secret-Pw!'')]"

definition test_template_grant_requires_template_and_computer :: bool where
  "test_template_grant_requires_template_and_computer \<longleftrightarrow>
     missing_param (test_run (TemplateGrantAccess_execute (\<lambda>_. None))
         ((template_grant_params)(''computer'' := None))
       MockPowerShell_new)"

definition test_template_grant_rejects_injection_shaped_template :: bool where
  "test_template_grant_rejects_injection_shaped_template \<longleftrightarrow>
     invalid_param (test_run (TemplateGrantAccess_execute (\<lambda>_. None))
         ((template_grant_params)(''template'' \<mapsto> ''OCSP,CN=elsewhere''))
       MockPowerShell_new)"

definition test_template_grant_rejects_overlong_computer_name :: bool where
  "test_template_grant_rejects_overlong_computer_name \<longleftrightarrow>
     invalid_param (test_run (TemplateGrantAccess_execute (\<lambda>_. None))
         ((template_grant_params)(''computer'' \<mapsto> ''a-name-way-past-netbios-limits''))
       MockPowerShell_new)"

definition test_template_grant_requires_credentials :: bool where
  "test_template_grant_requires_credentials \<longleftrightarrow>
     missing_param (test_run (TemplateGrantAccess_execute (\<lambda>_. None))
         ((template_grant_params)(''password'' := None))
       MockPowerShell_new)"

definition test_template_grant_binds_the_template_object_with_the_credential :: bool where
  "test_template_grant_binds_the_template_object_with_the_credential \<longleftrightarrow>
     (contains_str script_TemplateGrantAccess
         ''DirectoryEntry(\"LDAP://$dn\", $Username, $Password)'') \<and>
     (contains_str script_TemplateGrantAccess ''$entry.CommitChanges()'') \<and>
     (\<not> contains_str script_TemplateGrantAccess ''Set-Acl'')"

definition test_template_grant_reports_the_acl_readback :: bool where
  "test_template_grant_reports_the_acl_readback \<longleftrightarrow>
     unwrapped (test_json TemplateGrantAccess_execute
       (''[{\"identity\":\"ENCRYPTIONCONSU'' @ backslash @ backslash @
           ''SRV1$\",\"rights\":\"GenericRead\",\"objectType\":\"00000000-0000-0000-0000-000000000000\"},{\"identity\":\"ENCRYPTIONCONSU''
           @ backslash @ backslash @
           ''SRV1$\",\"rights\":\"ExtendedRight\",\"objectType\":\"0e10c968-78fb-11d2-90d4-00c04f79dc55\"}]'')
       (JArray [JObject [(''identity'', JString (''ENCRYPTIONCONSU'' @ backslash @ ''SRV1$'')),
           (''objectType'', JString ''00000000-0000-0000-0000-000000000000''), (''rights'', JString
           ''GenericRead'')], JObject [(''identity'', JString (''ENCRYPTIONCONSU'' @ backslash @
           ''SRV1$'')), (''objectType'', JString ''0e10c968-78fb-11d2-90d4-00c04f79dc55''),
           (''rights'', JString ''ExtendedRight'')]])
       template_grant_params)
       (\<lambda>result. json_index (json_nth (json_index result ''access'') 0) ''identity'' =
           JString (''ENCRYPTIONCONSU'' @ backslash @ ''SRV1$'') \<and>
        json_index (json_nth (json_index result ''access'') 1) ''objectType'' = JString
            ''0e10c968-78fb-11d2-90d4-00c04f79dc55'')"

text \<open>The assertions about script texts.\<close>

lemma template_script_1: "contains_str script_TemplateGrantAccess
    ''DirectoryEntry(\"LDAP://$dn\", $Username, $Password)''"
  unfolding script_TemplateGrantAccess_def by (rule contains_nth [where n = 7]) code_simp+

lemma template_script_2: "contains_str script_TemplateGrantAccess ''$entry.CommitChanges()''"
  unfolding script_TemplateGrantAccess_def by (rule contains_nth [where n = 14]) code_simp+

lemma template_script_3: "\<not> contains_str script_TemplateGrantAccess ''Set-Acl''"
  unfolding script_TemplateGrantAccess_def contains_concat by code_simp

lemmas template_scripts = template_script_1 template_script_2 template_script_3

text \<open>The secret is in no script and not in the printed result.\<close>

lemma template_TemplateGrantAccess_plain: "\<not> contains_str script_TemplateGrantAccess ''Sup3r-Secret-Pw!''"
  unfolding script_TemplateGrantAccess_def contains_concat by code_simp

definition test_template_grant_never_leaks_the_password :: bool where
  "test_template_grant_never_leaks_the_password \<longleftrightarrow>
     never_leaks ''Sup3r-Secret-Pw!''
       (prints (json_obj [(''template'', JString ''OCSPResponseSigning''), (''computer'', JString ''SRV1''),
          (''access'', JArray []), (''raw'', JString ''[]'')])
          (''{\"access\":[],\"computer\":\"SRV1\",\"raw\":\"[]\",\"template\":\"OCSPResponseSigning\"}''))
       (test_run (TemplateGrantAccess_execute (decodes ''[]'' (JArray []))) template_grant_params (push_success ''[]'' MockPowerShell_new))"

lemma template_grant_never_leaks_the_password: "test_template_grant_never_leaks_the_password"
  by (simp add: test_template_grant_never_leaks_the_password_def never_leaks_def prints_def
      template_grant_params_def test_simps exec_defs template_TemplateGrantAccess_plain cong: test_congs)

definition template_tests :: "bool list" where
  "template_tests = [
     test_template_grant_never_leaks_the_password,
     test_template_grant_requires_template_and_computer,
     test_template_grant_rejects_injection_shaped_template,
     test_template_grant_rejects_overlong_computer_name,
     test_template_grant_requires_credentials,
     test_template_grant_binds_the_template_object_with_the_credential,
     test_template_grant_reports_the_acl_readback]"

lemmas template_test_defs = template_tests_def
  test_template_grant_requires_template_and_computer_def
  test_template_grant_rejects_injection_shaped_template_def
  test_template_grant_rejects_overlong_computer_name_def
  test_template_grant_requires_credentials_def
  test_template_grant_binds_the_template_object_with_the_credential_def
  test_template_grant_reports_the_acl_readback_def

lemma template_tests_pass: "list_all (\<lambda>t. t) template_tests"
  unfolding template_test_defs list.pred_inject
  by (intro conjI TrueI template_grant_never_leaks_the_password) (simp_all add: template_grant_params_def test_simps exec_defs
      template_scripts [simplified] cong: test_congs)

end
