(* ===== verification/DnsTests.thy ===== *)
theory DnsTests
  imports Conformance
begin

text \<open>The test modules of the DNS commands, one proposition per test function.\<close>

section \<open>\<^verbatim>\<open>commands/dns.rs\<close>\<close>

definition planned_records_json :: string where
  "planned_records_json =
     ''[{\"id\":\"dns:a:dc:web\",\"kind\":\"A\",\"zone\":\"encon.pki\",\"name\":\"srv1\",\"value\":\"192.168.1.92\"},''
         @
     ''{\"id\":\"dns:ptr:dc:web\",\"kind\":\"PTR\",\"zone\":\"1.168.192.in-addr.arpa\",\"name\":\"192.168.1.92\",\"value\":\"srv1.encon.pki.\"},''
         @
     ''{\"id\":\"dns:cname:dc:pki\",\"kind\":\"CNAME\",\"zone\":\"encon.pki\",\"name\":\"pki\",\"value\":\"srv1.encon.pki.\"}]''"

text \<open>What \<^verbatim>\<open>serde_json\<close> makes of that text.\<close>

definition planned_records :: "PlannedDnsRecord list" where
  "planned_records =
     [\<lparr>rec_id = ''dns:a:dc:web'', rec_kind = KindA, rec_zone = ''encon.pki'', rec_name =
         ''srv1'', rec_value = ''192.168.1.92''\<rparr>,
       \<lparr>rec_id = ''dns:ptr:dc:web'', rec_kind = KindPtr, rec_zone =
           ''1.168.192.in-addr.arpa'', rec_name = ''192.168.1.92'', rec_value =
           ''srv1.encon.pki.''\<rparr>,
       \<lparr>rec_id = ''dns:cname:dc:pki'', rec_kind = KindCname, rec_zone = ''encon.pki'',
           rec_name = ''pki'', rec_value = ''srv1.encon.pki.''\<rparr>]"

lemma planned_records_length: "\<not> 32768 < length planned_records_json"
  by (simp add: planned_records_json_def)

lemma planned_records_checked:
  "check_records planned_records = None" "planned_records \<noteq> []" "length planned_records = 3"
  by code_simp+

definition captured_script ::
  "((string \<Rightarrow> Value option) \<Rightarrow> (string \<Rightarrow> PlannedDnsRecord list
      option) \<Rightarrow>
      mock CommandContext \<Rightarrow> (mock, Value) cmd) \<times> string \<times> Value
          \<Rightarrow> (string \<Rightarrow> bool) \<Rightarrow> bool" where
  "captured_script h P = (case h of (execute, txt, v) \<Rightarrow>
     (let r = test_json (\<lambda>from_str. execute from_str (decodes planned_records_json
         planned_records))
        txt v (ctx_params [(''records'', planned_records_json), (''server'', ''192.168.1.90'')])
      in unwrapped r (\<lambda>_. True) \<and> first_call r P))"

definition test_dns_set_client_requires_servers :: bool where
  "test_dns_set_client_requires_servers \<longleftrightarrow>
     missing_param (test_run DnsSetClient_execute Map.empty MockPowerShell_new)"

definition test_dns_set_client_rejects_malformed_server :: bool where
  "test_dns_set_client_rejects_malformed_server \<longleftrightarrow>
     invalid_param (test_run DnsSetClient_execute (ctx_params [(''servers'',
         ''192.168.1.90,not-an-ip'')])
       MockPowerShell_new)"

definition test_dns_set_client_rejects_empty_list :: bool where
  "test_dns_set_client_rejects_empty_list \<longleftrightarrow>
     invalid_param (test_run DnsSetClient_execute (ctx_params [(''servers'', '' , '')])
       MockPowerShell_new)"

definition test_dns_set_client_applies_and_echoes_readback :: bool where
  "test_dns_set_client_applies_and_echoes_readback \<longleftrightarrow>
     unwrapped (test_run DnsSetClient_execute (ctx_params [(''servers'',
         ''192.168.1.90, 192.168.1.91'')])
       (push_success ''192.168.1.90,192.168.1.91'' MockPowerShell_new))
       (\<lambda>result. json_nth (json_index result ''servers'') 0 = JString ''192.168.1.90''
           \<and>
        json_nth (json_index result ''servers'') 1 = JString ''192.168.1.91'' \<and>
        json_index result ''applied'' = JString ''192.168.1.90,192.168.1.91'' \<and>
        json_index result ''interface'' = JNull)"

definition test_dns_create_record_requires_all_params :: bool where
  "test_dns_create_record_requires_all_params \<longleftrightarrow>
     missing_param (test_run DnsCreateRecord_execute (ctx_params [(''zone'',
         ''EncryptionConsulting.com'')])
       MockPowerShell_new)"

definition test_dns_create_record_rejects_dotted_name :: bool where
  "test_dns_create_record_rejects_dotted_name \<longleftrightarrow>
     invalid_param (test_run DnsCreateRecord_execute (ctx_params [(''zone'',
         ''EncryptionConsulting.com''), (''name'', ''pki.extra''), (''target'',
         ''srv1.EncryptionConsulting.com.'')])
       MockPowerShell_new)"

definition test_dns_create_record_rejects_injection_shaped_target :: bool where
  "test_dns_create_record_rejects_injection_shaped_target \<longleftrightarrow>
     invalid_param (test_run DnsCreateRecord_execute (ctx_params [(''zone'',
         ''EncryptionConsulting.com''), (''name'', ''pki''), (''target'',
         (''srv1; Remove-Item -Recurse C:'' @ backslash))])
       MockPowerShell_new)"

definition test_dns_create_record_echoes_the_applied_alias :: bool where
  "test_dns_create_record_echoes_the_applied_alias \<longleftrightarrow>
     unwrapped (test_run DnsCreateRecord_execute (ctx_params [(''zone'',
         ''EncryptionConsulting.com''), (''name'', ''pki''), (''target'',
         ''srv1.EncryptionConsulting.com.'')])
       (push_success ''srv1.EncryptionConsulting.com.'' MockPowerShell_new))
       (\<lambda>result. json_index result ''name'' = JString ''pki'' \<and>
        json_index result ''applied'' = JString ''srv1.EncryptionConsulting.com.'')"

definition test_dns_apply_resources_validates_and_reports_readback :: bool where
  "test_dns_apply_resources_validates_and_reports_readback \<longleftrightarrow>
     (let r = test_json (\<lambda>from_str. DnsApplyResources_execute from_str (decodes
         planned_records_json planned_records))
       ''{\"applied\":3,\"records\":[{\"id\":\"dns:a:dc:web\",\"status\":\"created\"}]}''
       (JObject [(''applied'', json_nat 3), (''records'', JArray [JObject [(''id'', JString
           ''dns:a:dc:web''), (''status'', JString ''created'')]])])
       (ctx_params [(''records'', planned_records_json)]) in
       unwrapped r (\<lambda>result. json_index result ''applied'' = json_nat 3 \<and>
        json_index (json_index result ''readback'') ''applied'' = json_nat 3) \<and>
       first_call r (\<lambda>script. contains_str script ''DNS conflict for PTR ${name}:'' \<and>
        contains_str script ''DNS conflict for A $name.${zone}:'' \<and>
        contains_str script ''DNS conflict for CNAME $name.${zone}:''))"

definition test_dns_apply_resources_rejects_invalid_ptr_zone :: bool where
  "test_dns_apply_resources_rejects_invalid_ptr_zone \<longleftrightarrow>
     invalid_param (test_run (DnsApplyResources_execute (\<lambda>_. None) (decodes
         ''[{\"id\":\"dns:ptr:dc:web\",\"kind\":\"PTR\",\"zone\":\"encon.pki\",\"name\":\"192.168.1.92\",\"value\":\"srv1.encon.pki.\"}]''
         [\<lparr>rec_id = ''dns:ptr:dc:web'', rec_kind = KindPtr, rec_zone = ''encon.pki'',
         rec_name = ''192.168.1.92'', rec_value = ''srv1.encon.pki.''\<rparr>])) (ctx_params
         [(''records'',
         ''[{\"id\":\"dns:ptr:dc:web\",\"kind\":\"PTR\",\"zone\":\"encon.pki\",\"name\":\"192.168.1.92\",\"value\":\"srv1.encon.pki.\"}]'')])
       MockPowerShell_new)"

definition test_dns_verify_accepts_srv_and_http_checks :: bool where
  "test_dns_verify_accepts_srv_and_http_checks \<longleftrightarrow>
     unwrapped (test_json (\<lambda>from_str. DnsVerify_execute from_str (decodes
         planned_records_json planned_records))
       ''{\"all_verified\":true,\"ad_srv_ok\":true,\"http_ok\":true}''
       (JObject [(''ad_srv_ok'', JBool True), (''all_verified'', JBool True), (''http_ok'', JBool
           True)])
       (ctx_params [(''records'', planned_records_json), (''server'', ''192.168.1.90''),
           (''requireAdSrv'', ''true''), (''domain'', ''encon.pki''), (''httpUrl'',
           ''http://pki.encon.pki/CertEnroll/'')]))
       (\<lambda>result. json_index result ''all_verified'' = JBool True \<and>
        json_index result ''ad_srv_ok'' = JBool True \<and>
        json_index result ''http_ok'' = JBool True)"

definition test_dns_verify_rejects_unsafe_http_url :: bool where
  "test_dns_verify_rejects_unsafe_http_url \<longleftrightarrow>
     invalid_param (test_run (DnsVerify_execute (\<lambda>_. None) (decodes planned_records_json
         planned_records)) (ctx_params [(''records'', planned_records_json), (''server'',
         ''192.168.1.90''), (''httpUrl'', ''http://pki.encon.pki/;Remove-Item'')])
       MockPowerShell_new)"

definition test_dns_both_scripts_decode_the_records_array_without_nesting_it :: bool where
  "test_dns_both_scripts_decode_the_records_array_without_nesting_it \<longleftrightarrow>
     list_all (\<lambda>r. captured_script r (\<lambda>script.
           \<not> contains_str script ''| ConvertFrom-Json)'' \<and>
           contains_str script ''$records = $RecordsJson | ConvertFrom-Json'' \<and>
           contains_str script ''$records = @($records)''))
       [(DnsApplyResources_execute, ''{\"applied\":3,\"records\":[]}'',
           JObject [(''applied'', json_nat 3), (''records'', JArray [])]),
        (DnsVerify_execute, ''{\"all_verified\":true}'', JObject [(''all_verified'', JBool True)])]"

text \<open>The assertions about script texts.\<close>

lemma dns_script_1: "contains_str script_DnsApplyResources ''DNS conflict for PTR ${name}:''"
  unfolding script_DnsApplyResources_def by (rule contains_nth [where n = 68]) code_simp+

lemma dns_script_2: "contains_str script_DnsApplyResources ''DNS conflict for A $name.${zone}:''"
  unfolding script_DnsApplyResources_def by (rule contains_nth [where n = 89]) code_simp+

lemma dns_script_3: "contains_str script_DnsApplyResources
    ''DNS conflict for CNAME $name.${zone}:''"
  unfolding script_DnsApplyResources_def by (rule contains_nth [where n = 112]) code_simp+

lemma dns_script_4: "\<not> contains_str script_DnsApplyResources ''| ConvertFrom-Json)''"
  unfolding script_DnsApplyResources_def contains_concat by code_simp

lemma dns_script_5: "contains_str script_DnsApplyResources
    ''$records = $RecordsJson | ConvertFrom-Json''"
  unfolding script_DnsApplyResources_def by (rule contains_nth [where n = 13]) code_simp+

lemma dns_script_6: "contains_str script_DnsApplyResources ''$records = @($records)''"
  unfolding script_DnsApplyResources_def by (rule contains_nth [where n = 15]) code_simp+

lemma dns_script_7: "\<not> contains_str script_DnsVerify ''| ConvertFrom-Json)''"
  unfolding script_DnsVerify_def contains_concat by code_simp

lemma dns_script_8: "contains_str script_DnsVerify ''$records = $RecordsJson | ConvertFrom-Json''"
  unfolding script_DnsVerify_def by (rule contains_nth [where n = 9]) code_simp+

lemma dns_script_9: "contains_str script_DnsVerify ''$records = @($records)''"
  unfolding script_DnsVerify_def by (rule contains_nth [where n = 11]) code_simp+

lemmas dns_scripts = dns_script_1 dns_script_2 dns_script_3 dns_script_4 dns_script_5 dns_script_6
    dns_script_7 dns_script_8 dns_script_9

lemma dns_pieces:
  "split_trimmed (CHR '','') ''192.168.1.90,not-an-ip'' =
     [''192.168.1.90'', ''not-an-ip'']"
  "split_trimmed (CHR '','') '' , '' =
     []"
  "split_trimmed (CHR '','') ''192.168.1.90, 192.168.1.91'' =
     [''192.168.1.90'', ''192.168.1.91'']"
  by code_simp+

definition dns_tests :: "bool list" where
  "dns_tests = [
     test_dns_set_client_requires_servers,
     test_dns_set_client_rejects_malformed_server,
     test_dns_set_client_rejects_empty_list,
     test_dns_set_client_applies_and_echoes_readback,
     test_dns_create_record_requires_all_params,
     test_dns_create_record_rejects_dotted_name,
     test_dns_create_record_rejects_injection_shaped_target,
     test_dns_create_record_echoes_the_applied_alias,
     test_dns_apply_resources_validates_and_reports_readback,
     test_dns_apply_resources_rejects_invalid_ptr_zone,
     test_dns_verify_accepts_srv_and_http_checks,
     test_dns_verify_rejects_unsafe_http_url,
     test_dns_both_scripts_decode_the_records_array_without_nesting_it]"

lemmas dns_test_defs = dns_tests_def
  test_dns_set_client_requires_servers_def
  test_dns_set_client_rejects_malformed_server_def
  test_dns_set_client_rejects_empty_list_def
  test_dns_set_client_applies_and_echoes_readback_def
  test_dns_create_record_requires_all_params_def
  test_dns_create_record_rejects_dotted_name_def
  test_dns_create_record_rejects_injection_shaped_target_def
  test_dns_create_record_echoes_the_applied_alias_def
  test_dns_apply_resources_validates_and_reports_readback_def
  test_dns_apply_resources_rejects_invalid_ptr_zone_def
  test_dns_verify_accepts_srv_and_http_checks_def
  test_dns_verify_rejects_unsafe_http_url_def
  test_dns_both_scripts_decode_the_records_array_without_nesting_it_def

lemma dns_tests_pass: "list_all (\<lambda>t. t) dns_tests"
  unfolding dns_test_defs list.pred_inject
  by (intro conjI TrueI) (simp_all add: captured_script_def planned_records_checked test_simps
      exec_defs planned_records_length dns_scripts [simplified] dns_pieces [simplified] cong:
      test_congs)

end
