(* ===== verification/CertTests.thy ===== *)
theory CertTests
  imports Conformance
begin

text \<open>The test modules of the certificate commands, one proposition per test function.\<close>

section \<open>\<^verbatim>\<open>commands/cert_store.rs\<close>\<close>

definition test_cert_store_addstore_rejects_unknown_store :: bool where
  "test_cert_store_addstore_rejects_unknown_store \<longleftrightarrow>
     invalid_param (test_run CertAddStore_execute (ctx_params [(''store'', ''disallowed''),
         (''path'', (''C:'' @ backslash @ ''Transfer'' @ backslash @ ''EC-Root-CA.crt''))])
       MockPowerShell_new)"

definition test_cert_store_addstore_rejects_relative_path :: bool where
  "test_cert_store_addstore_rejects_relative_path \<longleftrightarrow>
     invalid_param (test_run CertAddStore_execute (ctx_params [(''store'', ''root''), (''path'',
         (''..'' @ backslash @ ''evil.crt''))])
       MockPowerShell_new)"

definition test_cert_store_addstore_reports_thumbprint :: bool where
  "test_cert_store_addstore_reports_thumbprint \<longleftrightarrow>
     unwrapped (test_run CertAddStore_execute (ctx_params [(''store'', ''root''), (''path'', (''C:''
         @ backslash @ ''Transfer'' @ backslash @ ''EC-Root-CA.crt''))])
       (push_success (''AB12CD34EF56'' @ newline) MockPowerShell_new))
       (\<lambda>result. json_index result ''thumbprint'' = JString ''AB12CD34EF56'' \<and>
        json_index result ''store'' = JString ''root'' \<and>
        json_index result ''kind'' = JString ''cert'')"

definition test_cert_store_addstore_rejects_unknown_kind :: bool where
  "test_cert_store_addstore_rejects_unknown_kind \<longleftrightarrow>
     invalid_param (test_run CertAddStore_execute (ctx_params [(''store'', ''ca''), (''path'',
         (''C:'' @ backslash @ ''Transfer'' @ backslash @ ''EC-Root-CA.crl'')), (''kind'',
         ''ctl'')])
       MockPowerShell_new)"

definition test_cert_store_addstore_skips_the_thumbprint_readback_for_a_crl :: bool where
  "test_cert_store_addstore_skips_the_thumbprint_readback_for_a_crl \<longleftrightarrow>
     (let r = test_run CertAddStore_execute (ctx_params [(''store'', ''ca''), (''path'', (''C:'' @
         backslash @ ''Transfer'' @ backslash @ ''EC-Root-CA.crl'')), (''kind'', ''crl'')])
       (push_success newline MockPowerShell_new) in
       unwrapped r (\<lambda>result. json_index result ''kind'' = JString ''crl'' \<and>
        json_index result ''thumbprint'' = JNull) \<and>
       first_call r (\<lambda>script. contains_str script (''if ($Kind -eq 'crl') { '' @ squote @
           squote @ '' }'')))"

definition test_cert_store_dspublish_requires_attribute :: bool where
  "test_cert_store_dspublish_requires_attribute \<longleftrightarrow>
     missing_param (test_run CertDsPublish_execute (ctx_params [(''path'', (''C:'' @ backslash @
         ''Transfer'' @ backslash @ ''EC-Root-CA.crt''))])
       MockPowerShell_new)"

definition test_cert_store_dspublish_rejects_injection_shaped_attribute :: bool where
  "test_cert_store_dspublish_rejects_injection_shaped_attribute \<longleftrightarrow>
     invalid_param (test_run CertDsPublish_execute (ctx_params [(''path'', (''C:'' @ backslash @
         ''Transfer'' @ backslash @ ''EC-Root-CA.crl'')), (''attribute'', ''CA01; format C:'')])
       MockPowerShell_new)"

definition test_cert_store_dspublish_succeeds_for_root_cert_and_crl_forms :: bool where
  "test_cert_store_dspublish_succeeds_for_root_cert_and_crl_forms \<longleftrightarrow>
     list_all (\<lambda>attribute. unwrapped (test_run CertDsPublish_execute (ctx_params [(''path'',
         (''C:'' @ backslash @ ''Transfer'' @ backslash @ ''EC-Root-CA.crt'')), (''attribute'',
         attribute)])
       (push_success ''Certificate added to DS store.'' MockPowerShell_new))
       (\<lambda>result. json_index result ''attribute'' = JString attribute))
       [''RootCA'',
        ''guest-abc12-ca01'']"

definition test_cert_store_dspublish_propagates_certutil_failure :: bool where
  "test_cert_store_dspublish_propagates_certutil_failure \<longleftrightarrow>
     shell_error (test_run CertDsPublish_execute (ctx_params [(''path'', (''C:'' @ backslash @
         ''Transfer'' @ backslash @ ''EC-Root-CA.crt'')), (''attribute'', ''RootCA'')])
       (push_failure 1 ''CertUtil: -dsPublish command FAILED'' MockPowerShell_new))"

text \<open>The assertions about script texts.\<close>

lemma cert_store_script_1: "contains_str script_CertAddStore (''if ($Kind -eq 'crl') { '' @ squote @
    squote @ '' }'')"
  unfolding script_CertAddStore_def contains_concat by code_simp

lemmas cert_store_scripts = cert_store_script_1

definition cert_store_tests :: "bool list" where
  "cert_store_tests = [
     test_cert_store_addstore_rejects_unknown_store,
     test_cert_store_addstore_rejects_relative_path,
     test_cert_store_addstore_reports_thumbprint,
     test_cert_store_addstore_rejects_unknown_kind,
     test_cert_store_addstore_skips_the_thumbprint_readback_for_a_crl,
     test_cert_store_dspublish_requires_attribute,
     test_cert_store_dspublish_rejects_injection_shaped_attribute,
     test_cert_store_dspublish_succeeds_for_root_cert_and_crl_forms,
     test_cert_store_dspublish_propagates_certutil_failure]"

lemmas cert_store_test_defs = cert_store_tests_def
  test_cert_store_addstore_rejects_unknown_store_def
  test_cert_store_addstore_rejects_relative_path_def
  test_cert_store_addstore_reports_thumbprint_def
  test_cert_store_addstore_rejects_unknown_kind_def
  test_cert_store_addstore_skips_the_thumbprint_readback_for_a_crl_def
  test_cert_store_dspublish_requires_attribute_def
  test_cert_store_dspublish_rejects_injection_shaped_attribute_def
  test_cert_store_dspublish_succeeds_for_root_cert_and_crl_forms_def
  test_cert_store_dspublish_propagates_certutil_failure_def

lemma cert_store_tests_pass: "list_all (\<lambda>t. t) cert_store_tests"
  unfolding cert_store_test_defs list.pred_inject
  by (intro conjI TrueI) (simp_all add: test_simps exec_defs cert_store_scripts [simplified] cong:
      test_congs)

section \<open>\<^verbatim>\<open>commands/cert_enroll.rs\<close>\<close>

definition test_cert_enroll_enroll_requires_template :: bool where
  "test_cert_enroll_enroll_requires_template \<longleftrightarrow>
     missing_param (test_run (CertEnroll_execute (\<lambda>_. None)) Map.empty
       MockPowerShell_new)"

definition test_cert_enroll_enroll_reports_the_issued_cert :: bool where
  "test_cert_enroll_enroll_reports_the_issued_cert \<longleftrightarrow>
     unwrapped (test_json CertEnroll_execute
       ''{\"thumbprint\":\"AB12CD34\",\"subject\":\"CN=win11.EncryptionConsulting.com\"}''
       (JObject [(''subject'', JString ''CN=win11.EncryptionConsulting.com''), (''thumbprint'',
           JString ''AB12CD34'')])
       (ctx_params [(''template'', ''Workstation''), (''exportPath'', (''C:'' @ backslash @
           ''win11.cer'')), (''refreshPolicy'', ''true'')]))
       (\<lambda>result. json_index result ''thumbprint'' = JString ''AB12CD34'' \<and>
        json_index result ''export_path'' = JString (''C:'' @ backslash @ ''win11.cer''))"

definition test_cert_enroll_enroll_rejects_bad_refresh_flag :: bool where
  "test_cert_enroll_enroll_rejects_bad_refresh_flag \<longleftrightarrow>
     invalid_param (test_run (CertEnroll_execute (\<lambda>_. None)) (ctx_params [(''template'',
         ''Workstation''), (''refreshPolicy'', ''yes please'')])
       MockPowerShell_new)"

definition test_cert_enroll_enroll_fails_when_not_issued :: bool where
  "test_cert_enroll_enroll_fails_when_not_issued \<longleftrightarrow>
     shell_error (test_run (CertEnroll_execute (\<lambda>_. None)) (ctx_params [(''template'',
         ''OCSPResponseSigning'')])
       (push_failure 1 ''enrollment status: Pending'' MockPowerShell_new))"

definition cert_enroll_tests :: "bool list" where
  "cert_enroll_tests = [
     test_cert_enroll_enroll_requires_template,
     test_cert_enroll_enroll_reports_the_issued_cert,
     test_cert_enroll_enroll_rejects_bad_refresh_flag,
     test_cert_enroll_enroll_fails_when_not_issued]"

lemmas cert_enroll_test_defs = cert_enroll_tests_def
  test_cert_enroll_enroll_requires_template_def
  test_cert_enroll_enroll_reports_the_issued_cert_def
  test_cert_enroll_enroll_rejects_bad_refresh_flag_def
  test_cert_enroll_enroll_fails_when_not_issued_def

lemma cert_enroll_tests_pass: "list_all (\<lambda>t. t) cert_enroll_tests"
  unfolding cert_enroll_test_defs list.pred_inject
  by (intro conjI TrueI) (simp_all add: test_simps exec_defs cong: test_congs)

section \<open>\<^verbatim>\<open>commands/cert_verify.rs\<close>\<close>

definition test_cert_verify_reports_structured_pki_health :: bool where
  "test_cert_verify_reports_structured_pki_health \<longleftrightarrow>
     unwrapped (test_json CertVerify_execute
       ''{\"aia\":{\"ok\":true,\"verified_certificates\":2},\"cdp\":{\"ok\":true,\"verified_base_crls\":2,\"verified_delta_crls\":1},\"certificates\":[],\"chain\":{\"ok\":true},\"chain_ok\":true,\"healthy\":true,\"ml_dsa\":{\"expected_oid\":\"2.16.840.1.101.3.4.3.19\",\"ok\":true},\"ocsp\":{\"ok\":true,\"verified_responses\":1},\"raw\":\"CertUtil: -verify command completed successfully.\",\"revocation_freshness\":{\"ok\":true},\"urls\":[],\"validity\":{\"ok\":true}}''
       (JObject [(''aia'', JObject [(''ok'', JBool True), (''verified_certificates'', json_nat 2)]),
           (''cdp'', JObject [(''ok'', JBool True), (''verified_base_crls'', json_nat 2),
           (''verified_delta_crls'', json_nat 1)]), (''certificates'', JArray []), (''chain'',
           JObject [(''ok'', JBool True)]), (''chain_ok'', JBool True), (''healthy'', JBool True),
           (''ml_dsa'', JObject [(''expected_oid'', JString ML_DSA_87_OID), (''ok'', JBool True)]),
           (''ocsp'', JObject [(''ok'', JBool True), (''verified_responses'', json_nat 1)]),
           (''raw'', JString ''CertUtil: -verify command completed successfully.''),
           (''revocation_freshness'', JObject [(''ok'', JBool True)]), (''urls'', JArray []),
           (''validity'', JObject [(''ok'', JBool True)])])
       (ctx_params [(''path'', (''C:'' @ backslash @ ''Transfer'' @ backslash @
           ''lab-health.cer'')), (''rootPath'', (''C:'' @ backslash @ ''CertEnroll'' @ backslash @
           ''root.crt'')), (''issuingPath'', (''C:'' @ backslash @ ''CertEnroll'' @ backslash @
           ''issuing.crt''))]))
       (\<lambda>result. json_index result ''healthy'' = JBool True \<and>
        json_index (json_index result ''aia'') ''verified_certificates'' = json_nat 2 \<and>
        json_index (json_index result ''ml_dsa'') ''expected_oid'' = JString ML_DSA_87_OID)"

definition test_cert_verify_rejects_invalid_certificate_path :: bool where
  "test_cert_verify_rejects_invalid_certificate_path \<longleftrightarrow>
     invalid_param (test_run (CertVerify_execute (\<lambda>_. None)) (ctx_params [(''path'',
         ''relative.cer'')])
       MockPowerShell_new)"

definition test_cert_verify_missing_path_param_is_reported :: bool where
  "test_cert_verify_missing_path_param_is_reported \<longleftrightarrow>
     missing_param (test_run (CertVerify_execute (\<lambda>_. None)) Map.empty
       MockPowerShell_new)"

definition cert_verify_tests :: "bool list" where
  "cert_verify_tests = [
     test_cert_verify_reports_structured_pki_health,
     test_cert_verify_rejects_invalid_certificate_path,
     test_cert_verify_missing_path_param_is_reported]"

lemmas cert_verify_test_defs = cert_verify_tests_def
  test_cert_verify_reports_structured_pki_health_def
  test_cert_verify_rejects_invalid_certificate_path_def
  test_cert_verify_missing_path_param_is_reported_def

lemma cert_verify_tests_pass: "list_all (\<lambda>t. t) cert_verify_tests"
  unfolding cert_verify_test_defs list.pred_inject
  by (intro conjI TrueI) (simp_all add: test_simps exec_defs cong: test_congs)

section \<open>\<^verbatim>\<open>commands/pki_verify.rs\<close>\<close>

definition pki_verify_params :: "string \<rightharpoonup> string" where
  "pki_verify_params = ctx_params [(''rootCaCommonName'', ''EC-Root-CA''),
     (''issuingCaCommonName'', ''EC-Issuing-CA''),
     (''templates'', ''OCSPResponseSigning,Workstation''),
     (''httpUrls'', ''[\"http://pki.encon.test/CertEnroll/root.crt\"]'')]"

definition test_pki_verify_reports_enterprise_pki_health :: bool where
  "test_pki_verify_reports_enterprise_pki_health \<longleftrightarrow>
     unwrapped (test_json (\<lambda>from_str. PkiVerify_execute from_str (decodes
         ''[\"http://pki.encon.test/CertEnroll/root.crt\"]''
         [''http://pki.encon.test/CertEnroll/root.crt'']))
       ''{\"containers\":{\"aia\":true,\"cdp\":true,\"certification_authorities\":true,\"enrollment_services\":true,\"nt_auth\":true},\"healthy\":true,\"http_artifacts\":{\"ok\":true,\"results\":[]},\"templates\":{\"missing\":[],\"ok\":true,\"required\":[]}}''
       (JObject [(''containers'', JObject [(''aia'', JBool True), (''cdp'', JBool True),
           (''certification_authorities'', JBool True), (''enrollment_services'', JBool True),
           (''nt_auth'', JBool True)]), (''healthy'', JBool True), (''http_artifacts'', JObject
           [(''ok'', JBool True), (''results'', JArray [])]), (''templates'', JObject [(''missing'',
           JArray []), (''ok'', JBool True), (''required'', JArray [])])])
       pki_verify_params)
       (\<lambda>result. json_index result ''healthy'' = JBool True \<and>
        json_index (json_index result ''containers'') ''nt_auth'' = JBool True)"

definition test_pki_verify_script_decodes_the_url_array_without_nesting_it :: bool where
  "test_pki_verify_script_decodes_the_url_array_without_nesting_it \<longleftrightarrow>
     (let r = test_json (\<lambda>from_str. PkiVerify_execute from_str (decodes
         ''[\"http://pki.encon.test/CertEnroll/root.crt\"]''
         [''http://pki.encon.test/CertEnroll/root.crt'']))
       ''{\"healthy\":true}''
       (JObject [(''healthy'', JBool True)])
       pki_verify_params in
       unwrapped r (\<lambda>result. True) \<and>
       first_call r (\<lambda>script. \<not> contains_str script ''| ConvertFrom-Json)'' \<and>
        contains_str script ''$publicationUrls = $HttpUrls | ConvertFrom-Json'' \<and>
        contains_str script ''foreach ($url in @($publicationUrls))''))"

definition test_pki_verify_rejects_non_http_artifact_url :: bool where
  "test_pki_verify_rejects_non_http_artifact_url \<longleftrightarrow>
     invalid_param (test_run (PkiVerify_execute (\<lambda>_. None) (decodes ''[\"file:///secret\"]''
         [''file:///secret''])) ((pki_verify_params)(''httpUrls'' \<mapsto>
         ''[\"file:///secret\"]''))
       MockPowerShell_new)"

text \<open>The assertions about script texts.\<close>

lemma pki_verify_script_1: "\<not> contains_str script_PkiVerify ''| ConvertFrom-Json)''"
  unfolding script_PkiVerify_def contains_concat by code_simp

lemma pki_verify_script_2: "contains_str script_PkiVerify
    ''$publicationUrls = $HttpUrls | ConvertFrom-Json''"
  unfolding script_PkiVerify_def by (rule contains_nth [where n = 20]) code_simp+

lemma pki_verify_script_3: "contains_str script_PkiVerify ''foreach ($url in @($publicationUrls))''"
  unfolding script_PkiVerify_def by (rule contains_nth [where n = 21]) code_simp+

lemmas pki_verify_scripts = pki_verify_script_1 pki_verify_script_2 pki_verify_script_3

definition pki_verify_tests :: "bool list" where
  "pki_verify_tests = [
     test_pki_verify_reports_enterprise_pki_health,
     test_pki_verify_script_decodes_the_url_array_without_nesting_it,
     test_pki_verify_rejects_non_http_artifact_url]"

lemmas pki_verify_test_defs = pki_verify_tests_def
  test_pki_verify_reports_enterprise_pki_health_def
  test_pki_verify_script_decodes_the_url_array_without_nesting_it_def
  test_pki_verify_rejects_non_http_artifact_url_def

lemma pki_verify_tests_pass: "list_all (\<lambda>t. t) pki_verify_tests"
  unfolding pki_verify_test_defs list.pred_inject
  by (intro conjI TrueI) (simp_all add: pki_verify_params_def test_simps exec_defs
      pki_verify_scripts [simplified] cong: test_congs)

end
