(* ===== verification/WebTests.thy ===== *)
theory WebTests
  imports Conformance
begin

unbundle bit_operations_syntax

text \<open>The test modules of the web enrollment and OCSP commands, one proposition per test function.\<close>

section \<open>\<^verbatim>\<open>commands/iis.rs\<close>\<close>

definition test_iis_setup_requires_netbios_for_the_share_half :: bool where
  "test_iis_setup_requires_netbios_for_the_share_half \<longleftrightarrow>
     list_all (\<lambda>scope. missing_param (test_run IisSetupCertEnroll_execute (ctx_params
         [(''scope'', scope)])
       MockPowerShell_new))
       [''share'',
        ''all'']"

definition test_iis_setup_web_half_needs_no_netbios :: bool where
  "test_iis_setup_web_half_needs_no_netbios \<longleftrightarrow>
     unwrapped (test_run IisSetupCertEnroll_execute (ctx_params [(''scope'', ''web'')])
       (push_success [] MockPowerShell_new))
       (\<lambda>result. json_index result ''share_configured'' = JBool False \<and>
        json_index result ''web_configured'' = JBool True \<and>
        json_index result ''path'' = JString (''C:'' @ backslash @ ''CertEnroll''))"

definition test_iis_setup_rejects_unknown_scope :: bool where
  "test_iis_setup_rejects_unknown_scope \<longleftrightarrow>
     invalid_param (test_run IisSetupCertEnroll_execute (ctx_params [(''scope'', ''everything''),
         (''netbiosName'', ''ENCRYPTIONCONSU'')])
       MockPowerShell_new)"

definition test_iis_setup_all_reports_both_halves :: bool where
  "test_iis_setup_all_reports_both_halves \<longleftrightarrow>
     unwrapped (test_run IisSetupCertEnroll_execute (ctx_params [(''netbiosName'',
         ''ENCRYPTIONCONSU''), (''path'', (''C:'' @ backslash @ ''CertEnroll''))])
       (push_success [] MockPowerShell_new))
       (\<lambda>result. json_index result ''share_configured'' = JBool True \<and>
        json_index result ''web_configured'' = JBool True)"

definition iis_tests :: "bool list" where
  "iis_tests = [
     test_iis_setup_requires_netbios_for_the_share_half,
     test_iis_setup_web_half_needs_no_netbios,
     test_iis_setup_rejects_unknown_scope,
     test_iis_setup_all_reports_both_halves]"

lemmas iis_test_defs = iis_tests_def
  test_iis_setup_requires_netbios_for_the_share_half_def
  test_iis_setup_web_half_needs_no_netbios_def
  test_iis_setup_rejects_unknown_scope_def
  test_iis_setup_all_reports_both_halves_def

lemma iis_tests_pass: "list_all (\<lambda>t. t) iis_tests"
  unfolding iis_test_defs list.pred_inject
  by (intro conjI TrueI) (simp_all add: test_simps exec_defs cong: test_congs)

section \<open>\<^verbatim>\<open>commands/ocsp.rs\<close>\<close>

definition ocsp_revocation_params :: "string \<rightharpoonup> string" where
  "ocsp_revocation_params = ctx_params [(''name'', ''EC-Issuing-CA''),
     (''caConfig'', (''ca02.EncryptionConsulting.com'' @ backslash @
         ''EncryptionConsulting Issuing CA'')),
     (''caCertPath'', (''C:'' @ backslash @ ''CertEnroll'' @ backslash @
         ''ca02.EncryptionConsulting.com_EncryptionConsulting Issuing CA.crt'')),
     (''baseCrlUrls'',
         ''http://pki.EncryptionConsulting.com/CertEnroll/EncryptionConsulting%20Issuing%20CA.crl''),
     (''deltaCrlUrls'',
         ''http://pki.EncryptionConsulting.com/CertEnroll/EncryptionConsulting%20Issuing%20CA+.crl''),
     (''refreshMinutes'', ''15'')]"

definition test_ocsp_configure_requires_name_ca_config_cert_path_and_base_crls :: bool where
  "test_ocsp_configure_requires_name_ca_config_cert_path_and_base_crls \<longleftrightarrow>
     list_all (\<lambda>missing. missing_param (test_run OcspConfigureRevocation_execute
         ((ocsp_revocation_params)(missing := None))
       MockPowerShell_new))
       [''name'',
        ''caConfig'',
        ''caCertPath'',
        ''baseCrlUrls'']"

definition test_ocsp_configure_rejects_config_string_without_ca_name :: bool where
  "test_ocsp_configure_rejects_config_string_without_ca_name \<longleftrightarrow>
     invalid_param (test_run OcspConfigureRevocation_execute ((ocsp_revocation_params)(''caConfig''
         \<mapsto> ''ca02.EncryptionConsulting.com''))
       MockPowerShell_new)"

definition test_ocsp_configure_rejects_relative_ca_certificate_path :: bool where
  "test_ocsp_configure_rejects_relative_ca_certificate_path \<longleftrightarrow>
     invalid_param_named ''caCertPath'' (test_run OcspConfigureRevocation_execute
         ((ocsp_revocation_params)(''caCertPath'' \<mapsto> ''issuing.crt''))
       MockPowerShell_new)"

definition test_ocsp_configure_rejects_non_http_crl_url :: bool where
  "test_ocsp_configure_rejects_non_http_crl_url \<longleftrightarrow>
     invalid_param (test_run OcspConfigureRevocation_execute
         ((ocsp_revocation_params)(''baseCrlUrls'' \<mapsto> ''ftp://pki.example/x.crl''))
       MockPowerShell_new)"

definition test_ocsp_configure_rejects_out_of_range_refresh :: bool where
  "test_ocsp_configure_rejects_out_of_range_refresh \<longleftrightarrow>
     invalid_param (test_run OcspConfigureRevocation_execute
         ((ocsp_revocation_params)(''refreshMinutes'' \<mapsto> ''0''))
       MockPowerShell_new)"

definition test_ocsp_configure_reports_the_applied_config :: bool where
  "test_ocsp_configure_reports_the_applied_config \<longleftrightarrow>
     unwrapped (test_run OcspConfigureRevocation_execute ocsp_revocation_params
       (push_success (''EC-Issuing-CA'' @ newline) MockPowerShell_new))
       (\<lambda>result. json_index result ''name'' = JString ''EC-Issuing-CA'' \<and>
        json_index result ''template'' = JString ''OCSPResponseSigning'' \<and>
        json_index result ''refresh_minutes'' = JString ''15'')"

definition test_ocsp_configure_reads_the_ca_certificate_off_disk :: bool where
  "test_ocsp_configure_reads_the_ca_certificate_off_disk \<longleftrightarrow>
     (let r = test_run OcspConfigureRevocation_execute ocsp_revocation_params
       (push_success (''EC-Issuing-CA'' @ newline) MockPowerShell_new) in
       unwrapped r (\<lambda>result. True) \<and>
       first_call r (\<lambda>script. \<not> contains_str script ''certutil'' \<and>
        contains_str script ''[System.IO.File]::ReadAllBytes($CaCertPath)''))"

definition test_ocsp_configure_labels_the_com_stage_it_throws_in :: bool where
  "test_ocsp_configure_labels_the_com_stage_it_throws_in \<longleftrightarrow>
     (let r = test_run OcspConfigureRevocation_execute ocsp_revocation_params
       (push_success (''EC-Issuing-CA'' @ newline) MockPowerShell_new) in
       unwrapped r (\<lambda>result. True) \<and>
       first_call r (\<lambda>script. contains_str script ''catch { throw \"$stage failed:'' \<and>
        list_all (\<lambda>stage. contains_str script stage)
            [''opening the responder configuration'', ''creating the revocation configuration'',
            ''setting revocation configuration properties'',
            ''saving the responder configuration'']))"

definition test_ocsp_verify_reports_configured_responder :: bool where
  "test_ocsp_verify_reports_configured_responder \<longleftrightarrow>
     unwrapped (test_json OcspVerify_execute
       (''{\"configurations\":[{\"identifier\":\"EC-Issuing-CA\",\"caConfig\":\"ca02'' @ backslash @
           backslash @
           ''EC Issuing CA\",\"template\":\"OCSPResponseSigning\",\"hashAlgorithm\":\"SHA256\",\"errorCode\":0,\"signingCertificate\":true}]}'')
       (JObject [(''configurations'', JArray [JObject [(''caConfig'', JString (''ca02'' @ backslash
           @ ''EC Issuing CA'')), (''errorCode'', json_nat 0), (''hashAlgorithm'', JString
           ''SHA256''), (''identifier'', JString ''EC-Issuing-CA''), (''signingCertificate'', JBool
           True), (''template'', JString ''OCSPResponseSigning'')]])])
       Map.empty)
       (\<lambda>result. json_index result ''configured'' = JBool True \<and>
        json_index (json_nth (json_index result ''configurations'') 0) ''errorCode'' = json_nat 0
            \<and>
        json_index (json_nth (json_index result ''configurations'') 0) ''signingCertificate'' =
            JBool True \<and>
        json_get result ''http_status'' = None)"

definition test_ocsp_verify_reports_unconfigured_responder_without_erroring :: bool where
  "test_ocsp_verify_reports_unconfigured_responder_without_erroring \<longleftrightarrow>
     unwrapped (test_json OcspVerify_execute
       ''{\"configurations\":[]}''
       (JObject [(''configurations'', JArray [])])
       Map.empty)
       (\<lambda>result. json_index result ''configured'' = JBool False)"

definition test_ocsp_install_reports_service_status :: bool where
  "test_ocsp_install_reports_service_status \<longleftrightarrow>
     unwrapped (test_run OcspInstall_execute Map.empty (push_success (''Running'' @ newline)
         MockPowerShell_new))
       (\<lambda>result. json_index result ''installed'' = JBool True \<and>
        json_index result ''service'' = JString ''Running'')"

definition test_ocsp_install_propagates_role_failure :: bool where
  "test_ocsp_install_propagates_role_failure \<longleftrightarrow>
     shell_error (test_run OcspInstall_execute Map.empty (push_failure 1
         ''Install-WindowsFeature failed'' MockPowerShell_new))"

definition test_ocsp_signing_flags_pick_exactly_one_certificate_source :: bool where
  "test_ocsp_signing_flags_pick_exactly_one_certificate_source \<longleftrightarrow>
     length (filter (\<lambda>flag. OCSP_SIGNING_FLAGS AND flag \<noteq> 0)
       [OCSP_SF_USE_CACERT, OCSP_SF_AUTODISCOVER_SIGNINGCERT,
        OCSP_SF_MANUAL_ASSIGN_SIGNINGCERT]) = 1 \<and>
     OCSP_SIGNING_FLAGS AND OCSP_SF_AUTODISCOVER_SIGNINGCERT = OCSP_SF_AUTODISCOVER_SIGNINGCERT"

definition test_ocsp_signing_cert_autoenrollment_implies_autodiscovery :: bool where
  "test_ocsp_signing_cert_autoenrollment_implies_autodiscovery \<longleftrightarrow>
     (if OCSP_SIGNING_FLAGS AND OCSP_SF_ALLOW_SIGNINGCERT_AUTOENROLLMENT \<noteq> 0
      then OCSP_SIGNING_FLAGS AND OCSP_SF_AUTODISCOVER_SIGNINGCERT \<noteq> 0 else True)"

definition test_ocsp_signing_flags_compose_to_the_documented_default :: bool where
  "test_ocsp_signing_flags_compose_to_the_documented_default \<longleftrightarrow>
     OCSP_SIGNING_FLAGS = 0x25D"

text \<open>The assertions about script texts.\<close>

lemma ocsp_script_1: "\<not> contains_str script_OcspConfigureRevocation ''certutil''"
  unfolding script_OcspConfigureRevocation_def contains_concat by code_simp

lemma ocsp_script_2: "contains_str script_OcspConfigureRevocation
    ''[System.IO.File]::ReadAllBytes($CaCertPath)''"
  unfolding script_OcspConfigureRevocation_def by (rule contains_nth [where n = 3]) code_simp+

lemma ocsp_script_3: "contains_str script_OcspConfigureRevocation
    ''catch { throw \"$stage failed:''"
  unfolding script_OcspConfigureRevocation_def by (rule contains_nth [where n = 25]) code_simp+

lemma ocsp_script_4: "contains_str script_OcspConfigureRevocation
    ''opening the responder configuration''"
  unfolding script_OcspConfigureRevocation_def by (rule contains_nth [where n = 4]) code_simp+

lemma ocsp_script_5: "contains_str script_OcspConfigureRevocation
    ''creating the revocation configuration''"
  unfolding script_OcspConfigureRevocation_def by (rule contains_nth [where n = 8]) code_simp+

lemma ocsp_script_6: "contains_str script_OcspConfigureRevocation
    ''setting revocation configuration properties''"
  unfolding script_OcspConfigureRevocation_def by (rule contains_nth [where n = 12]) code_simp+

lemma ocsp_script_7: "contains_str script_OcspConfigureRevocation
    ''saving the responder configuration''"
  unfolding script_OcspConfigureRevocation_def by (rule contains_nth [where n = 23]) code_simp+

lemmas ocsp_scripts = ocsp_script_1 ocsp_script_2 ocsp_script_3 ocsp_script_4 ocsp_script_5
    ocsp_script_6 ocsp_script_7

definition ocsp_tests :: "bool list" where
  "ocsp_tests = [
     test_ocsp_configure_requires_name_ca_config_cert_path_and_base_crls,
     test_ocsp_configure_rejects_config_string_without_ca_name,
     test_ocsp_configure_rejects_relative_ca_certificate_path,
     test_ocsp_configure_rejects_non_http_crl_url,
     test_ocsp_configure_rejects_out_of_range_refresh,
     test_ocsp_configure_reports_the_applied_config,
     test_ocsp_configure_reads_the_ca_certificate_off_disk,
     test_ocsp_configure_labels_the_com_stage_it_throws_in,
     test_ocsp_verify_reports_configured_responder,
     test_ocsp_verify_reports_unconfigured_responder_without_erroring,
     test_ocsp_install_reports_service_status,
     test_ocsp_install_propagates_role_failure,
     test_ocsp_signing_flags_pick_exactly_one_certificate_source,
     test_ocsp_signing_cert_autoenrollment_implies_autodiscovery,
     test_ocsp_signing_flags_compose_to_the_documented_default]"

lemmas ocsp_test_defs = ocsp_tests_def
  test_ocsp_configure_requires_name_ca_config_cert_path_and_base_crls_def
  test_ocsp_configure_rejects_config_string_without_ca_name_def
  test_ocsp_configure_rejects_relative_ca_certificate_path_def
  test_ocsp_configure_rejects_non_http_crl_url_def
  test_ocsp_configure_rejects_out_of_range_refresh_def
  test_ocsp_configure_reports_the_applied_config_def
  test_ocsp_configure_reads_the_ca_certificate_off_disk_def
  test_ocsp_configure_labels_the_com_stage_it_throws_in_def
  test_ocsp_verify_reports_configured_responder_def
  test_ocsp_verify_reports_unconfigured_responder_without_erroring_def
  test_ocsp_install_reports_service_status_def
  test_ocsp_install_propagates_role_failure_def
  test_ocsp_signing_flags_pick_exactly_one_certificate_source_def
  test_ocsp_signing_cert_autoenrollment_implies_autodiscovery_def
  test_ocsp_signing_flags_compose_to_the_documented_default_def

lemma ocsp_tests_pass: "list_all (\<lambda>t. t) ocsp_tests"
  unfolding ocsp_test_defs list.pred_inject
  by (intro conjI TrueI) (simp_all add: ocsp_revocation_params_def test_simps exec_defs
      ocsp_flag_defs ocsp_scripts [simplified] cong: test_congs)

end
