(* ===== verification/CaTests.thy ===== *)
theory CaTests
  imports Conformance
begin

text \<open>The test modules of the CA commands, one proposition per test function.\<close>

section \<open>\<^verbatim>\<open>commands/ca.rs\<close>\<close>

definition ca_issuing_params :: "string \<rightharpoonup> string" where
  "ca_issuing_params = ctx_params [(''caType'', ''Issuing''),
     (''commonName'', ''EncryptionConsulting Issuing CA''),
     (''cpsUrl'', ''http://pki.EncryptionConsulting.com/cps.txt''),
     (''csrPath'', (''C:'' @ backslash @ ''Transfer'' @ backslash @ ''IssuingCA.req'')),
     (''username'', (''ENCRYPTIONCONSU'' @ backslash @ ''Administrator'')),
     (''password'', ''Sup3r-Secret-Pw!'')]"

definition ca_install_cert_params :: "string \<rightharpoonup> string" where
  "ca_install_cert_params = ctx_params [(''certPath'', (''C:'' @ backslash @ ''Transfer'' @
      backslash @ ''IssuingCA.crt'')),
     (''username'', (''ENCRYPTIONCONSU'' @ backslash @ ''Administrator'')),
     (''password'', ''Sup3r-Secret-Pw!'')]"

definition test_ca_install_requires_common_name :: bool where
  "test_ca_install_requires_common_name \<longleftrightarrow>
     missing_param (test_run CaInstall_execute Map.empty MockPowerShell_new)"

definition test_ca_install_rejects_bad_common_name :: bool where
  "test_ca_install_rejects_bad_common_name \<longleftrightarrow>
     invalid_param (test_run CaInstall_execute (ctx_params [(''commonName'', (''bad;name'' @ [CHR
         0x60] @ ''$injection''))])
       MockPowerShell_new)"

definition test_ca_install_rejects_unknown_algorithm :: bool where
  "test_ca_install_rejects_unknown_algorithm \<longleftrightarrow>
     invalid_param (test_run CaInstall_execute (ctx_params [(''commonName'', ''EC-Root-CA''),
         (''keyAlgorithm'', ''Dilithium'')])
       MockPowerShell_new)"

definition test_ca_install_rejects_bad_key_length_for_rsa :: bool where
  "test_ca_install_rejects_bad_key_length_for_rsa \<longleftrightarrow>
     invalid_param (test_run CaInstall_execute (ctx_params [(''commonName'', ''EC-Root-CA''),
         (''keyAlgorithm'', ''RSA''), (''keyLength'', ''1024'')])
       MockPowerShell_new)"

definition test_ca_install_rejects_out_of_range_validity :: bool where
  "test_ca_install_rejects_out_of_range_validity \<longleftrightarrow>
     invalid_param (test_run CaInstall_execute (ctx_params [(''commonName'', ''EC-Root-CA''),
         (''validityYears'', ''99'')])
       MockPowerShell_new)"

definition test_ca_install_succeeds_and_reports_rsa_defaults :: bool where
  "test_ca_install_succeeds_and_reports_rsa_defaults \<longleftrightarrow>
     unwrapped (test_run CaInstall_execute (ctx_params [(''commonName'', ''EC-Root-CA''),
         (''validityYears'', ''20'')])
       (push_success [] MockPowerShell_new))
       (\<lambda>result. json_index result ''commonName'' = JString ''EC-Root-CA'' \<and>
        json_index result ''keyAlgorithm'' = JString ''RSA'' \<and>
        json_index result ''keyLength'' = JString ''4096'' \<and>
        json_index result ''hashAlgorithm'' = JString ''SHA256'' \<and>
        json_index result ''validityYears'' = JString ''20'')"

definition test_ca_install_pqc_uses_fixed_key_length_and_nohash :: bool where
  "test_ca_install_pqc_uses_fixed_key_length_and_nohash \<longleftrightarrow>
     unwrapped (test_run CaInstall_execute (ctx_params [(''commonName'', ''EC-PQC-Root''),
         (''keyAlgorithm'', ''ML-DSA-87''), (''keyLength'', ''2048''), (''hashAlgorithm'',
         ''SHA256'')])
       (push_success [] MockPowerShell_new))
       (\<lambda>result. json_index result ''keyAlgorithm'' = JString ''ML-DSA-87'' \<and>
        json_index result ''keyLength'' = JString ''20736'' \<and>
        json_index result ''hashAlgorithm'' = JString ''NoHash'')"

definition test_ca_mldsa_provider_string_is_colon_delimited :: bool where
  "test_ca_mldsa_provider_string_is_colon_delimited \<longleftrightarrow>
     cng_provider ''ML-DSA-87'' = ''ML-DSA:87#Microsoft Software Key Storage Provider''"

definition test_ca_install_uses_ecdsa_provider_without_key_length :: bool where
  "test_ca_install_uses_ecdsa_provider_without_key_length \<longleftrightarrow>
     unwrapped (test_run CaInstall_execute (ctx_params [(''commonName'', ''EC-ECDSA-Root''),
         (''keyAlgorithm'', ''ECDSA'')])
       (push_success [] MockPowerShell_new))
       (\<lambda>result. json_index result ''keyAlgorithm'' = JString ''ECDSA'' \<and>
        json_index result ''keyLength'' = JNull)"

definition test_ca_install_issuing_requires_credentials :: bool where
  "test_ca_install_issuing_requires_credentials \<longleftrightarrow>
     missing_param (test_run CaInstall_execute ((ca_issuing_params)(''password'' := None))
       MockPowerShell_new)"

definition test_ca_install_issuing_reports_csr_path :: bool where
  "test_ca_install_issuing_reports_csr_path \<longleftrightarrow>
     unwrapped (test_run CaInstall_execute ca_issuing_params (push_success (''C:'' @ backslash @
         ''Transfer'' @ backslash @ ''IssuingCA.req'' @ newline) MockPowerShell_new))
       (\<lambda>result. json_index result ''caType'' = JString ''EnterpriseSubordinateCA'' \<and>
        json_index result ''csr_path'' = JString (''C:'' @ backslash @ ''Transfer'' @ backslash @
            ''IssuingCA.req''))"

definition test_ca_install_issuing_rejects_bad_cps_url :: bool where
  "test_ca_install_issuing_rejects_bad_cps_url \<longleftrightarrow>
     invalid_param (test_run CaInstall_execute ((ca_issuing_params)(''cpsUrl'' \<mapsto>
         ''javascript:alert(1)''))
       MockPowerShell_new)"

definition test_ca_install_issuing_rejects_bad_cps_oid :: bool where
  "test_ca_install_issuing_rejects_bad_cps_oid \<longleftrightarrow>
     invalid_param (test_run CaInstall_execute ((ca_issuing_params)(''cpsOid'' \<mapsto>
         ''not-an-oid''))
       MockPowerShell_new)"

definition test_ca_configure_settings_requires_at_least_one_setting :: bool where
  "test_ca_configure_settings_requires_at_least_one_setting \<longleftrightarrow>
     missing_param (test_run CaConfigureSettings_execute Map.empty MockPowerShell_new)"

definition test_ca_configure_settings_rejects_bad_period :: bool where
  "test_ca_configure_settings_rejects_bad_period \<longleftrightarrow>
     invalid_param (test_run CaConfigureSettings_execute (ctx_params [(''crlPeriodUnits'', ''52''),
         (''crlPeriod'', ''Fortnights'')])
       MockPowerShell_new)"

definition test_ca_configure_settings_rejects_bad_ds_config_dn :: bool where
  "test_ca_configure_settings_rejects_bad_ds_config_dn \<longleftrightarrow>
     invalid_param (test_run CaConfigureSettings_execute (ctx_params [(''dsConfigDn'',
         ''CN=Configuration'; drop --'')])
       MockPowerShell_new)"

definition test_ca_configure_settings_echoes_applied_subset :: bool where
  "test_ca_configure_settings_echoes_applied_subset \<longleftrightarrow>
     unwrapped (test_run CaConfigureSettings_execute (ctx_params [(''dsConfigDn'',
         ''CN=Configuration,DC=EncryptionConsulting,DC=com''), (''crlPeriodUnits'', ''52''),
         (''crlPeriod'', ''Weeks''), (''crlDeltaPeriodUnits'', ''0''), (''auditFilter'', ''127'')])
       (push_success [] MockPowerShell_new))
       (\<lambda>result. json_index (json_index result ''applied'') ''crlPeriodUnits'' = JString
           ''52'' \<and>
        json_index (json_index result ''applied'') ''crlDeltaPeriodUnits'' = JString ''0'' \<and>
        json_index (json_index result ''applied'') ''auditFilter'' = JString ''127'' \<and>
        json_index (json_index result ''applied'') ''validityPeriodUnits'' = JNull)"

definition test_ca_configure_cdp_aia_requires_at_least_one_array :: bool where
  "test_ca_configure_cdp_aia_requires_at_least_one_array \<longleftrightarrow>
     missing_param (test_run CaConfigureCdpAia_execute Map.empty MockPowerShell_new)"

definition test_ca_configure_cdp_aia_rejects_unprefixed_entry :: bool where
  "test_ca_configure_cdp_aia_rejects_unprefixed_entry \<longleftrightarrow>
     invalid_param (test_run CaConfigureCdpAia_execute (ctx_params [(''cdpUrls'',
         ''http://pki.example/root.crl'')])
       MockPowerShell_new)"

definition test_ca_configure_cdp_aia_rejects_injection_shaped_entry :: bool where
  "test_ca_configure_cdp_aia_rejects_injection_shaped_entry \<longleftrightarrow>
     invalid_param (test_run CaConfigureCdpAia_execute (ctx_params [(''cdpUrls'',
         ''2:http://pki.example/x.crl'; rm'')])
       MockPowerShell_new)"

definition test_ca_configure_cdp_aia_accepts_the_labs_full_issuing_arrays :: bool where
  "test_ca_configure_cdp_aia_accepts_the_labs_full_issuing_arrays \<longleftrightarrow>
     unwrapped (test_run CaConfigureCdpAia_execute (ctx_params [(''aiaUrls'', (''1:C:'' @ backslash
         @ ''Windows'' @ backslash @ ''system32'' @ backslash @ ''CertSrv'' @ backslash @
         ''CertEnroll'' @ backslash @ ''%1_%3%4.crt'' @ newline @
         ''2:ldap:///CN=%7,CN=AIA,CN=Public Key Services,CN=Services,%6%11'' @ newline @
         ''2:http://pki.EncryptionConsulting.com/CertEnroll/%1_%3%4.crt'' @ newline @
         ''32:http://srv1.EncryptionConsulting.com/ocsp'')), (''cdpUrls'', (''65:C:'' @ backslash @
         ''Windows'' @ backslash @ ''system32'' @ backslash @ ''CertSrv'' @ backslash @
         ''CertEnroll'' @ backslash @ ''%3%8%9.crl'' @ newline @
         ''79:ldap:///CN=%7%8,CN=%2,CN=CDP,CN=Public Key Services,CN=Services,%6%10'' @ newline @
         ''6:http://pki.EncryptionConsulting.com/CertEnroll/%3%8%9.crl'' @ newline @ ''65:'' @
         backslash @ backslash @ ''srv1.EncryptionConsulting.com'' @ backslash @ ''CertEnroll'' @
         backslash @ ''%3%8%9.crl''))])
       (push_success [] MockPowerShell_new))
       (\<lambda>result. map_option length (json_as_array (json_index result ''aia_urls'')) = Some 4
           \<and>
        map_option length (json_as_array (json_index result ''cdp_urls'')) = Some 4)"

definition test_ca_publish_crl_reports_published :: bool where
  "test_ca_publish_crl_reports_published \<longleftrightarrow>
     (let r = test_json CaPublishCrl_execute
       ''{\"certificateFileName\":\"CA01_Example Root CA.crt\",\"baseCrlFileName\":\"Example Root CA.crl\",\"deltaCrlFileName\":null,\"certificateContentB64\":\"Y2VydA==\",\"baseCrlContentB64\":\"Y3Js\"}''
       (JObject [(''baseCrlContentB64'', JString ''Y3Js''), (''baseCrlFileName'', JString
           ''Example Root CA.crl''), (''certificateContentB64'', JString ''Y2VydA==''),
           (''certificateFileName'', JString ''CA01_Example Root CA.crt''), (''deltaCrlFileName'',
           JNull)])
       (ctx_params [(''certEnrollPath'', (''D:'' @ backslash @ ''PKI'' @ backslash @
           ''Published''))]) in
       unwrapped r (\<lambda>result. json_index result ''published'' = JBool True \<and>
        json_index result ''certificateFileName'' = JString ''CA01_Example Root CA.crt'' \<and>
        json_index result ''baseCrlFileName'' = JString ''Example Root CA.crl'' \<and>
        json_index result ''deltaCrlFileName'' = JNull \<and>
        json_index result ''certificateContentB64'' = JString ''Y2VydA=='' \<and>
        json_index result ''baseCrlContentB64'' = JString ''Y3Js'') \<and>
       first_call r (\<lambda>script. starts_with script ''param([string]$CertEnroll)'' \<and>
        \<not> contains_str script ''Join-Path $env:SystemRoot 'System32''))"

definition test_ca_publish_crl_rejects_relative_publication_directory :: bool where
  "test_ca_publish_crl_rejects_relative_publication_directory \<longleftrightarrow>
     invalid_param_named ''certEnrollPath'' (test_run (CaPublishCrl_execute (\<lambda>_. None))
         (ctx_params [(''certEnrollPath'', ''Published'')])
       MockPowerShell_new)"

definition test_ca_publish_crl_propagates_failure :: bool where
  "test_ca_publish_crl_propagates_failure \<longleftrightarrow>
     shell_error (test_run (CaPublishCrl_execute (\<lambda>_. None)) Map.empty
       (push_failure 1 ''CertUtil: The service has not been started.'' MockPowerShell_new))"

definition test_ca_sign_request_parses_the_request_id :: bool where
  "test_ca_sign_request_parses_the_request_id \<longleftrightarrow>
     unwrapped (test_run CaSignRequest_execute (ctx_params [(''csrPath'', (''C:'' @ backslash @
         ''Transfer'' @ backslash @ ''IssuingCA.req'')), (''certPath'', (''C:'' @ backslash @
         ''Transfer'' @ backslash @ ''IssuingCA.crt''))])
       (push_success (''2'' @ newline) MockPowerShell_new))
       (\<lambda>result. json_index result ''request_id'' = JString ''2'' \<and>
        json_index result ''cert_path'' = JString (''C:'' @ backslash @ ''Transfer'' @ backslash @
            ''IssuingCA.crt''))"

definition test_ca_sign_request_rejects_non_numeric_request_id_output :: bool where
  "test_ca_sign_request_rejects_non_numeric_request_id_output \<longleftrightarrow>
     invalid_param (test_run CaSignRequest_execute (ctx_params [(''csrPath'', (''C:'' @ backslash @
         ''Transfer'' @ backslash @ ''IssuingCA.req'')), (''certPath'', (''C:'' @ backslash @
         ''Transfer'' @ backslash @ ''IssuingCA.crt''))])
       (push_success ''unexpected chatter'' MockPowerShell_new))"

definition test_ca_sign_request_propagates_submit_failure :: bool where
  "test_ca_sign_request_propagates_submit_failure \<longleftrightarrow>
     shell_error (test_run CaSignRequest_execute (ctx_params [(''csrPath'', (''C:'' @ backslash @
         ''Transfer'' @ backslash @ ''IssuingCA.req'')), (''certPath'', (''C:'' @ backslash @
         ''Transfer'' @ backslash @ ''IssuingCA.crt''))])
       (push_failure 1 ''certreq -submit did not return a RequestId: denied'' MockPowerShell_new))"

definition test_ca_install_cert_reports_service_status :: bool where
  "test_ca_install_cert_reports_service_status \<longleftrightarrow>
     unwrapped (test_run CaInstallCert_execute ca_install_cert_params (push_success (''Running'' @
         newline) MockPowerShell_new))
       (\<lambda>result. json_index result ''service'' = JString ''Running'')"

definition test_ca_install_cert_requires_credentials :: bool where
  "test_ca_install_cert_requires_credentials \<longleftrightarrow>
     missing_param (test_run CaInstallCert_execute ((ca_install_cert_params)(''password'' := None))
       MockPowerShell_new)"

definition test_ca_install_cert_runs_certutil_through_a_scheduled_task :: bool where
  "test_ca_install_cert_runs_certutil_through_a_scheduled_task \<longleftrightarrow>
     (contains_str script_CaInstallCert ''Register-ScheduledTask'') \<and>
     (contains_str script_CaInstallCert ''-User $Username -Password $Password'') \<and>
     (contains_str script_CaInstallCert ''-RunLevel Highest'') \<and>
     (contains_str script_CaInstallCert ''Unregister-ScheduledTask'')"

definition test_ca_publish_template_rejects_injection_shaped_names :: bool where
  "test_ca_publish_template_rejects_injection_shaped_names \<longleftrightarrow>
     invalid_param (test_run CaPublishTemplate_execute (ctx_params [(''templates'',
         ''OCSPResponseSigning,$(evil)'')])
       MockPowerShell_new)"

definition test_ca_publish_template_reports_the_ca_readback :: bool where
  "test_ca_publish_template_reports_the_ca_readback \<longleftrightarrow>
     unwrapped (test_run CaPublishTemplate_execute (ctx_params [(''templates'',
         ''OCSPResponseSigning, Workstation'')])
       (push_success ''OCSPResponseSigning,Workstation'' MockPowerShell_new))
       (\<lambda>result. json_nth (json_index result ''templates'') 0 = JString
           ''OCSPResponseSigning'' \<and>
        json_nth (json_index result ''templates'') 1 = JString ''Workstation'' \<and>
        json_index result ''on_ca'' = JString ''OCSPResponseSigning,Workstation'')"

definition test_ca_verify_reports_running_service_and_live_interface :: bool where
  "test_ca_verify_reports_running_service_and_live_interface \<longleftrightarrow>
     unwrapped (test_json CaVerify_execute
       (''{\"service\":\"Running\",\"pingOk\":true,\"ping\":\"Cert Server '' @ backslash @
           ''\"EC-Root-CA'' @ backslash @ ''\" is alive\"}'')
       (JObject [(''ping'', JString ''Cert Server \"EC-Root-CA\" is alive''), (''pingOk'', JBool
           True), (''service'', JString ''Running'')])
       Map.empty)
       (\<lambda>result. json_index result ''service'' = JString ''Running'' \<and>
        json_index result ''ping_ok'' = JBool True)"

definition test_ca_verify_reports_stopped_service_without_erroring :: bool where
  "test_ca_verify_reports_stopped_service_without_erroring \<longleftrightarrow>
     unwrapped (test_json CaVerify_execute
       ''{\"service\":\"Stopped\",\"pingOk\":false,\"ping\":\"CertUtil: The service has not been started.\"}''
       (JObject [(''ping'', JString ''CertUtil: The service has not been started.''), (''pingOk'',
           JBool False), (''service'', JString ''Stopped'')])
       Map.empty)
       (\<lambda>result. json_index result ''service'' = JString ''Stopped'' \<and>
        json_index result ''ping_ok'' = JBool False)"

text \<open>The assertions about script texts.\<close>

lemma ca_script_1: "starts_with script_CaPublishCrl ''param([string]$CertEnroll)''"
  unfolding script_CaPublishCrl_def by (rule starts_with_concat) code_simp

lemma ca_script_2: "\<not> contains_str script_CaPublishCrl ''Join-Path $env:SystemRoot 'System32''"
  unfolding script_CaPublishCrl_def contains_concat by code_simp

lemma ca_script_3: "contains_str script_CaInstallCert ''Register-ScheduledTask''"
  unfolding script_CaInstallCert_def by (rule contains_nth [where n = 18]) code_simp+

lemma ca_script_4: "contains_str script_CaInstallCert ''-User $Username -Password $Password''"
  unfolding script_CaInstallCert_def by (rule contains_nth [where n = 18]) code_simp+

lemma ca_script_5: "contains_str script_CaInstallCert ''-RunLevel Highest''"
  unfolding script_CaInstallCert_def by (rule contains_nth [where n = 18]) code_simp+

lemma ca_script_6: "contains_str script_CaInstallCert ''Unregister-ScheduledTask''"
  unfolding script_CaInstallCert_def by (rule contains_nth [where n = 31]) code_simp+

lemmas ca_scripts = ca_script_1 ca_script_2 ca_script_3 ca_script_4 ca_script_5 ca_script_6

lemma ca_pieces:
  "split_trimmed (CHR '','') ''OCSPResponseSigning,$(evil)'' =
     [''OCSPResponseSigning'', ''$(evil)'']"
  "split_trimmed (CHR '','') ''OCSPResponseSigning, Workstation'' =
     [''OCSPResponseSigning'', ''Workstation'']"
  "split_trimmed (CHR 0x0A) ''http://pki.example/root.crl'' =
     [''http://pki.example/root.crl'']"
  "split_trimmed (CHR 0x0A) ''2:http://pki.example/x.crl'; rm'' =
     [''2:http://pki.example/x.crl'; rm'']"
  "split_trimmed (CHR 0x0A) (''1:C:'' @ backslash @ ''Windows'' @ backslash @ ''system32'' @
      backslash @ ''CertSrv'' @ backslash @ ''CertEnroll'' @ backslash @ ''%1_%3%4.crt'' @ newline @
      ''2:ldap:///CN=%7,CN=AIA,CN=Public Key Services,CN=Services,%6%11'' @ newline @
      ''2:http://pki.EncryptionConsulting.com/CertEnroll/%1_%3%4.crt'' @ newline @
      ''32:http://srv1.EncryptionConsulting.com/ocsp'') =
     [(''1:C:'' @ backslash @ ''Windows'' @ backslash @ ''system32'' @ backslash @ ''CertSrv'' @
         backslash @ ''CertEnroll'' @ backslash @ ''%1_%3%4.crt''),
         ''2:ldap:///CN=%7,CN=AIA,CN=Public Key Services,CN=Services,%6%11'',
         ''2:http://pki.EncryptionConsulting.com/CertEnroll/%1_%3%4.crt'',
         ''32:http://srv1.EncryptionConsulting.com/ocsp'']"
  "split_trimmed (CHR 0x0A) (''65:C:'' @ backslash @ ''Windows'' @ backslash @ ''system32'' @
      backslash @ ''CertSrv'' @ backslash @ ''CertEnroll'' @ backslash @ ''%3%8%9.crl'' @ newline @
      ''79:ldap:///CN=%7%8,CN=%2,CN=CDP,CN=Public Key Services,CN=Services,%6%10'' @ newline @
      ''6:http://pki.EncryptionConsulting.com/CertEnroll/%3%8%9.crl'' @ newline @ ''65:'' @
      backslash @ backslash @ ''srv1.EncryptionConsulting.com'' @ backslash @ ''CertEnroll'' @
      backslash @ ''%3%8%9.crl'') =
     [(''65:C:'' @ backslash @ ''Windows'' @ backslash @ ''system32'' @ backslash @ ''CertSrv'' @
         backslash @ ''CertEnroll'' @ backslash @ ''%3%8%9.crl''),
         ''79:ldap:///CN=%7%8,CN=%2,CN=CDP,CN=Public Key Services,CN=Services,%6%10'',
         ''6:http://pki.EncryptionConsulting.com/CertEnroll/%3%8%9.crl'', (''65:'' @ backslash @
         backslash @ ''srv1.EncryptionConsulting.com'' @ backslash @ ''CertEnroll'' @ backslash @
         ''%3%8%9.crl'')]"
  by code_simp+

text \<open>The secret is in no script and not in the printed result.\<close>

lemma ca_CaInstall_issuing_plain: "\<not> contains_str script_CaInstall_issuing ''Sup3r-Secret-Pw!''"
  unfolding script_CaInstall_issuing_def contains_concat by code_simp

definition test_ca_install_issuing_never_leaks_the_password :: bool where
  "test_ca_install_issuing_never_leaks_the_password \<longleftrightarrow>
     never_leaks ''Sup3r-Secret-Pw!''
       (prints (json_obj [(''caType'', JString ''EnterpriseSubordinateCA''),
          (''commonName'', JString ''EncryptionConsulting Issuing CA''), (''keyAlgorithm'', JString ''RSA''),
          (''keyLength'', JString ''4096''), (''hashAlgorithm'', JString ''SHA256''),
          (''csr_path'', JString (''C:'' @ backslash @ ''Transfer'' @ backslash @ ''IssuingCA.req'')),
          (''cpsUrl'', JString ''http://pki.EncryptionConsulting.com/cps.txt'')])
          (''{\"caType\":\"EnterpriseSubordinateCA\",\"commonName\":\"EncryptionConsulting Issuing CA\",\"cpsUrl\":\"http://pki.EncryptionConsulting.com/cps.txt\",\"csr_path\":\"C:''
           @ backslash @ backslash @ ''Transfer'' @ backslash @ backslash
           @ ''IssuingCA.req\",\"hashAlgorithm\":\"SHA256\",\"keyAlgorithm\":\"RSA\",\"keyLength\":\"4096\"}''))
       (test_run CaInstall_execute ca_issuing_params (push_success [] MockPowerShell_new))"

lemma ca_install_issuing_never_leaks_the_password: "test_ca_install_issuing_never_leaks_the_password"
  by (simp add: test_ca_install_issuing_never_leaks_the_password_def never_leaks_def prints_def
      ca_issuing_params_def test_simps exec_defs ca_CaInstall_issuing_plain cong: test_congs)

text \<open>The secret is in no script and not in the printed result.\<close>

lemma ca_CaInstallCert_plain: "\<not> contains_str script_CaInstallCert ''Sup3r-Secret-Pw!''"
  unfolding script_CaInstallCert_def contains_concat by code_simp

definition test_ca_install_cert_never_leaks_the_password :: bool where
  "test_ca_install_cert_never_leaks_the_password \<longleftrightarrow>
     never_leaks ''Sup3r-Secret-Pw!''
       (prints (json_obj [(''cert_path'', JString (''C:'' @ backslash @ ''Transfer'' @ backslash @ ''IssuingCA.crt'')),
          (''service'', JString ''Running'')])
          (''{\"cert_path\":\"C:'' @ backslash @ backslash @ ''Transfer'' @ backslash @ backslash
           @ ''IssuingCA.crt\",\"service\":\"Running\"}''))
       (test_run CaInstallCert_execute ca_install_cert_params (push_success (''Running'' @ newline) MockPowerShell_new))"

lemma ca_install_cert_never_leaks_the_password: "test_ca_install_cert_never_leaks_the_password"
  by (simp add: test_ca_install_cert_never_leaks_the_password_def never_leaks_def prints_def
      ca_install_cert_params_def test_simps exec_defs ca_CaInstallCert_plain cong: test_congs)

definition ca_tests :: "bool list" where
  "ca_tests = [
     test_ca_install_cert_never_leaks_the_password,
     test_ca_install_issuing_never_leaks_the_password,
     test_ca_install_requires_common_name,
     test_ca_install_rejects_bad_common_name,
     test_ca_install_rejects_unknown_algorithm,
     test_ca_install_rejects_bad_key_length_for_rsa,
     test_ca_install_rejects_out_of_range_validity,
     test_ca_install_succeeds_and_reports_rsa_defaults,
     test_ca_install_pqc_uses_fixed_key_length_and_nohash,
     test_ca_mldsa_provider_string_is_colon_delimited,
     test_ca_install_uses_ecdsa_provider_without_key_length,
     test_ca_install_issuing_requires_credentials,
     test_ca_install_issuing_reports_csr_path,
     test_ca_install_issuing_rejects_bad_cps_url,
     test_ca_install_issuing_rejects_bad_cps_oid,
     test_ca_configure_settings_requires_at_least_one_setting,
     test_ca_configure_settings_rejects_bad_period,
     test_ca_configure_settings_rejects_bad_ds_config_dn,
     test_ca_configure_settings_echoes_applied_subset,
     test_ca_configure_cdp_aia_requires_at_least_one_array,
     test_ca_configure_cdp_aia_rejects_unprefixed_entry,
     test_ca_configure_cdp_aia_rejects_injection_shaped_entry,
     test_ca_configure_cdp_aia_accepts_the_labs_full_issuing_arrays,
     test_ca_publish_crl_reports_published,
     test_ca_publish_crl_rejects_relative_publication_directory,
     test_ca_publish_crl_propagates_failure,
     test_ca_sign_request_parses_the_request_id,
     test_ca_sign_request_rejects_non_numeric_request_id_output,
     test_ca_sign_request_propagates_submit_failure,
     test_ca_install_cert_reports_service_status,
     test_ca_install_cert_requires_credentials,
     test_ca_install_cert_runs_certutil_through_a_scheduled_task,
     test_ca_publish_template_rejects_injection_shaped_names,
     test_ca_publish_template_reports_the_ca_readback,
     test_ca_verify_reports_running_service_and_live_interface,
     test_ca_verify_reports_stopped_service_without_erroring]"

lemmas ca_test_defs = ca_tests_def
  test_ca_install_requires_common_name_def
  test_ca_install_rejects_bad_common_name_def
  test_ca_install_rejects_unknown_algorithm_def
  test_ca_install_rejects_bad_key_length_for_rsa_def
  test_ca_install_rejects_out_of_range_validity_def
  test_ca_install_succeeds_and_reports_rsa_defaults_def
  test_ca_install_pqc_uses_fixed_key_length_and_nohash_def
  test_ca_mldsa_provider_string_is_colon_delimited_def
  test_ca_install_uses_ecdsa_provider_without_key_length_def
  test_ca_install_issuing_requires_credentials_def
  test_ca_install_issuing_reports_csr_path_def
  test_ca_install_issuing_rejects_bad_cps_url_def
  test_ca_install_issuing_rejects_bad_cps_oid_def
  test_ca_configure_settings_requires_at_least_one_setting_def
  test_ca_configure_settings_rejects_bad_period_def
  test_ca_configure_settings_rejects_bad_ds_config_dn_def
  test_ca_configure_settings_echoes_applied_subset_def
  test_ca_configure_cdp_aia_requires_at_least_one_array_def
  test_ca_configure_cdp_aia_rejects_unprefixed_entry_def
  test_ca_configure_cdp_aia_rejects_injection_shaped_entry_def
  test_ca_configure_cdp_aia_accepts_the_labs_full_issuing_arrays_def
  test_ca_publish_crl_reports_published_def
  test_ca_publish_crl_rejects_relative_publication_directory_def
  test_ca_publish_crl_propagates_failure_def
  test_ca_sign_request_parses_the_request_id_def
  test_ca_sign_request_rejects_non_numeric_request_id_output_def
  test_ca_sign_request_propagates_submit_failure_def
  test_ca_install_cert_reports_service_status_def
  test_ca_install_cert_requires_credentials_def
  test_ca_install_cert_runs_certutil_through_a_scheduled_task_def
  test_ca_publish_template_rejects_injection_shaped_names_def
  test_ca_publish_template_reports_the_ca_readback_def
  test_ca_verify_reports_running_service_and_live_interface_def
  test_ca_verify_reports_stopped_service_without_erroring_def

lemma ca_tests_pass: "list_all (\<lambda>t. t) ca_tests"
  unfolding ca_test_defs list.pred_inject
  by (intro conjI TrueI ca_install_cert_never_leaks_the_password ca_install_issuing_never_leaks_the_password) (simp_all add: ca_issuing_params_def ca_install_cert_params_def test_simps
      exec_defs ca_scripts [simplified] ca_pieces [simplified] cong: test_congs)

end
