(* ===== verification/CertSecureTests.thy ===== *)
theory CertSecureTests
  imports Conformance
begin

text \<open>The test modules of the CertSecure product commands, one proposition per test function.\<close>

section \<open>\<^verbatim>\<open>commands/certsecure.rs\<close>\<close>

definition test_certsecure_hosts_entries_reject_anything_that_is_not_ip_plus_names :: bool where
  "test_certsecure_hosts_entries_reject_anything_that_is_not_ip_plus_names \<longleftrightarrow>
     list_all (\<lambda>raw. isl (parse_hosts_entries raw))
       [''not-an-ip certsecure.encon.pki'', ''10.0.181.5'', ''10.0.181.5 bad_name'',
        ''999.1.1.1 certsecure'', []]"

definition test_certsecure_hosts_entries_normalize_whitespace :: bool where
  "test_certsecure_hosts_entries_normalize_whitespace \<longleftrightarrow>
     parse_hosts_entries (''  10.0.181.5   certsecure  certsecure-api '' @ newline @ newline)
       = Inr ''10.0.181.5 certsecure certsecure-api''"

definition test_certsecure_make_cert_requires_paths_inside_the_product_tree :: bool where
  "test_certsecure_make_cert_requires_paths_inside_the_product_tree \<longleftrightarrow>
     invalid_param (test_run (CertSecureMakeCert_execute (\<lambda>_. None)) (ctx_params
         [(''names'', ''certsecure.encon.pki''), (''certPath'', ''/etc/ssl/private/cert.pem''),
         (''keyPath'', ''/opt/certsecure-manager/conf/key.pem'')])
       (push_success [] MockPowerShell_new))"

definition test_certsecure_make_cert_returns_the_der_under_the_relay_key :: bool where
  "test_certsecure_make_cert_returns_the_der_under_the_relay_key \<longleftrightarrow>
     unwrapped (test_json CertSecureMakeCert_execute
       ''{\"contentB64\":\"MIIB\",\"sha256\":\"ff\",\"notAfter\":\"Dec  4 00:00:00 2028 GMT\"}''
       (JObject [(''contentB64'', JString ''MIIB''), (''notAfter'', JString
           ''Dec  4 00:00:00 2028 GMT''), (''sha256'', JString ''ff'')])
       (ctx_params [(''names'', ''certsecure.encon.pki,certsecure-api.encon.pki''), (''ip'',
           ''10.0.181.5''), (''certPath'', ''/opt/certsecure-manager/conf/cert.pem''), (''keyPath'',
           ''/opt/certsecure-manager/conf/key.pem'')]))
       (\<lambda>result. json_index result ''contentB64'' = JString ''MIIB'' \<and>
        json_index result ''sans'' = JArray [JString ''DNS:certsecure.encon.pki'', JString
            ''DNS:certsecure-api.encon.pki'', JString ''IP:10.0.181.5''])"

definition test_certsecure_install_rejects_a_realm_keycloak_would_reject :: bool where
  "test_certsecure_install_rejects_a_realm_keycloak_would_reject \<longleftrightarrow>
     invalid_param (test_run CertSecureInstall_execute (ctx_params [(''frontendHost'',
         ''certsecure.encon.pki''), (''backendHost'', ''certsecure-api.encon.pki''),
         (''keycloakHost'', ''kc.encon.pki''), (''keycloakRealm'', ''encon pki''), (''certPath'',
         ''/opt/certsecure-manager/conf/cert.pem''), (''keyPath'',
         ''/opt/certsecure-manager/conf/key.pem'')])
       (push_success [] MockPowerShell_new))"

definition test_certsecure_install_pipes_six_answers_in_read_inputs_order :: bool where
  "test_certsecure_install_pipes_six_answers_in_read_inputs_order \<longleftrightarrow>
     (let r = test_run CertSecureInstall_execute (ctx_params [(''frontendHost'',
         ''certsecure.encon.pki''), (''backendHost'', ''certsecure-api.encon.pki''),
         (''keycloakHost'', ''kc.encon.pki''), (''keycloakRealm'', ''encon.pki''), (''certPath'',
         ''/opt/certsecure-manager/conf/cert.pem''), (''keyPath'',
         ''/opt/certsecure-manager/conf/key.pem'')])
       (push_success ''===== Installation Completed Successfully ====='' MockPowerShell_new) in
       unwrapped r (\<lambda>result. json_index result ''frontendUrl'' = JString
           ''https://certsecure.encon.pki/'') \<and>
       first_call r (\<lambda>script. contains_str script
           ''\"$2\" \"$3\" \"$4\" \"$5\" \"$6\" \"$7\"''))"

definition test_certsecure_verify_treats_a_redirect_as_healthy :: bool where
  "test_certsecure_verify_treats_a_redirect_as_healthy \<longleftrightarrow>
     unwrapped (test_json CertSecureVerify_execute
       ''{\"frontendStatus\":\"302\",\"keycloakStatus\":\"200\"}''
       (JObject [(''frontendStatus'', JString ''302''), (''keycloakStatus'', JString ''200'')])
       (ctx_params [(''frontendUrl'', ''https://certsecure.encon.pki/''), (''keycloakUrl'',
           ''https://kc.encon.pki/'')]))
       (\<lambda>result. json_index result ''frontendOk'' = JBool True \<and>
        json_index result ''keycloakOk'' = JBool True)"

definition test_certsecure_verify_reports_no_answer_without_failing_the_step :: bool where
  "test_certsecure_verify_reports_no_answer_without_failing_the_step \<longleftrightarrow>
     unwrapped (test_json CertSecureVerify_execute
       ''{\"frontendStatus\":\"000\",\"keycloakStatus\":\"0\"}''
       (JObject [(''frontendStatus'', JString ''000''), (''keycloakStatus'', JString ''0'')])
       (ctx_params [(''frontendUrl'', ''https://certsecure.encon.pki/'')]))
       (\<lambda>result. json_index result ''frontendOk'' = JBool False \<and>
        json_index result ''keycloakOk'' = JBool True)"

definition test_certsecure_harden_reports_only_the_files_that_existed :: bool where
  "test_certsecure_harden_reports_only_the_files_that_existed \<longleftrightarrow>
     unwrapped (test_run CertSecureHarden_execute Map.empty (push_success ''conf/key.pem conf.ini ''
         MockPowerShell_new))
       (\<lambda>result. json_index result ''hardened'' = JArray [JString ''conf/key.pem'', JString
           ''conf.ini''])"

text \<open>The assertions about script texts.\<close>

lemma certsecure_script_1: "contains_str script_CertSecureInstall
    ''\"$2\" \"$3\" \"$4\" \"$5\" \"$6\" \"$7\"''"
  unfolding script_CertSecureInstall_def by (rule contains_nth [where n = 24]) code_simp+

lemmas certsecure_scripts = certsecure_script_1

lemma certsecure_pieces:
  "split_trimmed (CHR '','') ''certsecure.encon.pki'' =
     [''certsecure.encon.pki'']"
  "split_trimmed (CHR '','') ''certsecure.encon.pki,certsecure-api.encon.pki'' =
     [''certsecure.encon.pki'', ''certsecure-api.encon.pki'']"
  by code_simp+

definition certsecure_tests :: "bool list" where
  "certsecure_tests = [
     test_certsecure_hosts_entries_reject_anything_that_is_not_ip_plus_names,
     test_certsecure_hosts_entries_normalize_whitespace,
     test_certsecure_make_cert_requires_paths_inside_the_product_tree,
     test_certsecure_make_cert_returns_the_der_under_the_relay_key,
     test_certsecure_install_rejects_a_realm_keycloak_would_reject,
     test_certsecure_install_pipes_six_answers_in_read_inputs_order,
     test_certsecure_verify_treats_a_redirect_as_healthy,
     test_certsecure_verify_reports_no_answer_without_failing_the_step,
     test_certsecure_harden_reports_only_the_files_that_existed]"

lemmas certsecure_test_defs = certsecure_tests_def
  test_certsecure_hosts_entries_reject_anything_that_is_not_ip_plus_names_def
  test_certsecure_hosts_entries_normalize_whitespace_def
  test_certsecure_make_cert_requires_paths_inside_the_product_tree_def
  test_certsecure_make_cert_returns_the_der_under_the_relay_key_def
  test_certsecure_install_rejects_a_realm_keycloak_would_reject_def
  test_certsecure_install_pipes_six_answers_in_read_inputs_order_def
  test_certsecure_verify_treats_a_redirect_as_healthy_def
  test_certsecure_verify_reports_no_answer_without_failing_the_step_def
  test_certsecure_harden_reports_only_the_files_that_existed_def

lemma certsecure_tests_pass: "list_all (\<lambda>t. t) certsecure_tests"
  unfolding certsecure_test_defs list.pred_inject
  by (intro conjI TrueI) (simp_all add: test_simps exec_defs certsecure_scripts [simplified]
      certsecure_pieces [simplified] cong: test_congs)

end
