(* ===== verification/AgentTests.thy ===== *)
theory AgentTests
  imports Conformance Phonehome
begin

text \<open>
  The test modules of \<^verbatim>\<open>authz.rs\<close>, \<^verbatim>\<open>report.rs\<close>, \<^verbatim>\<open>powershell.rs\<close> (the mock) and
  \<^verbatim>\<open>phonehome.rs\<close>, one proposition per test function. The tests of
      \<^verbatim>\<open>phonehome.rs\<close> use the
  default registry of the platform they run on; here \<open>unix\<close> says which.
\<close>

section \<open>The registry in a test\<close>

text \<open>The environment of a test: one text the JSON decoder knows, and a machine up for 5 s.\<close>

definition test_env :: "string \<Rightarrow> Value \<Rightarrow> host_env" where
  "test_env txt v = \<lparr>json_from_str = decodes txt v, json_strings = (\<lambda>_. None),
     json_records = (\<lambda>_. None), fs_exists = (\<lambda>_. False),
     boot_probe = \<lparr>tick_ms = (\<lambda>_. 5000), tasks_dir = ''T''\<rparr>, linux_uptime_ms =
         (\<lambda>_. 5000)\<rparr>"

lemmas registry_simps = lookup_default unix_handlers_def common_handlers_def handler_defs
  dispatch_def test_env_def role_has_def

section \<open>\<^verbatim>\<open>authz.rs\<close>\<close>

definition test_authz_guest_cannot_exec_arbitrary :: bool where
  "test_authz_guest_cannot_exec_arbitrary \<longleftrightarrow> \<not> role_has Guest
      VmExecArbitrary"

definition test_authz_operator_has_every_capability :: bool where
  "test_authz_operator_has_every_capability \<longleftrightarrow> list_all (role_has Operator)
      Capability_ALL"

definition test_authz_guest_capability_set_matches_backend_allowlist :: bool where
  "test_authz_guest_capability_set_matches_backend_allowlist \<longleftrightarrow>
     list_all (\<lambda>cap. role_has Guest cap)
       [VmList, VmRead, VmClone, VmDelete, VmProvision, Deploy] \<and>
     list_all (\<lambda>cap. \<not> role_has Guest cap)
       [VmUpdate, VmPower, ConfigGenerate, VmExecArbitrary]"

definition test_authz_wire_values_match_backend_verbatim :: bool where
  "test_authz_wire_values_match_backend_verbatim \<longleftrightarrow>
     wire_value VmList = ''vm:list'' \<and>
     wire_value VmRead = ''vm:read'' \<and>
     wire_value VmClone = ''vm:clone'' \<and>
     wire_value VmUpdate = ''vm:update'' \<and>
     wire_value VmPower = ''vm:power'' \<and>
     wire_value VmDelete = ''vm:delete'' \<and>
     wire_value VmProvision = ''vm:provision'' \<and>
     wire_value ConfigGenerate = ''config:generate'' \<and>
     wire_value VmExecArbitrary = ''vm:exec-arbitrary'' \<and>
     wire_value Deploy = ''deploy''"

text \<open>What the derived serializers hand to the JSON printer.\<close>

definition test_authz_serde_round_trip_uses_wire_values :: bool where
  "test_authz_serde_round_trip_uses_wire_values \<longleftrightarrow>
     Capability_serde_name VmExecArbitrary = ''vm:exec-arbitrary'' \<and>
     Role_serde_name Guest = ''guest''"

definition authz_tests :: "bool list" where
  "authz_tests = [
     test_authz_guest_cannot_exec_arbitrary,
     test_authz_operator_has_every_capability,
     test_authz_guest_capability_set_matches_backend_allowlist,
     test_authz_wire_values_match_backend_verbatim,
     test_authz_serde_round_trip_uses_wire_values]"

lemmas authz_test_defs = authz_tests_def test_authz_guest_cannot_exec_arbitrary_def
  test_authz_operator_has_every_capability_def
  test_authz_guest_capability_set_matches_backend_allowlist_def
  test_authz_wire_values_match_backend_verbatim_def
  test_authz_serde_round_trip_uses_wire_values_def

lemma authz_tests_pass: "list_all (\<lambda>t. t) authz_tests"
  unfolding authz_test_defs by code_simp

section \<open>\<^verbatim>\<open>report.rs\<close>\<close>

definition test_report_serializes_without_null_fields :: bool where
  "test_report_serializes_without_null_fields \<longleftrightarrow>
     (let json = OpRunState_to_value (OpRunState_done (json_obj [(''ok'', JBool True)])) in
       json_index json ''status'' = JString ''done'' \<and>
       json_index json ''percent'' = JNumber (Float 100) \<and>
       json_get json ''phase'' = None)"

definition test_report_recording_sink_preserves_order :: bool where
  "test_report_recording_sink_preserves_order \<longleftrightarrow>
     (let sink = foldl RecordingProgressSink_report \<lparr>states = []\<rparr>
        [OpRunState_running ''first'' 10, OpRunState_running ''second'' 50] in
       length (states sink) = 2 \<and>
       phase (states sink ! 0) = Some ''first'' \<and>
       phase (states sink ! 1) = Some ''second'')"

definition report_tests :: "bool list" where
  "report_tests = [
     test_report_serializes_without_null_fields,
     test_report_recording_sink_preserves_order]"

lemmas report_test_defs = report_tests_def test_report_serializes_without_null_fields_def
  test_report_recording_sink_preserves_order_def

lemma report_tests_pass: "list_all (\<lambda>t. t) report_tests"
  by (simp add: report_test_defs OpRunState_to_value_def json_index_obj json_get_obj
      RecordingProgressSink_report_def Let_def)

section \<open>\<^verbatim>\<open>powershell.rs\<close>\<close>

definition test_powershell_mock_returns_queued_responses_in_order :: bool where
  "test_powershell_mock_returns_queued_responses_in_order \<longleftrightarrow>
     (case MockPowerShell_run ''script-a'' []
         (push_success ''second'' (push_success ''first'' MockPowerShell_new)) of
        (Inr first, m1) \<Rightarrow>
          (case MockPowerShell_run ''script-b'' [] m1 of
             (Inr second, m2) \<Rightarrow> stdout first = ''first'' \<and> stdout second =
                 ''second'' \<and>
               calls m2 = [''script-a'', ''script-b'']
           | (Inl _, _) \<Rightarrow> False)
      | (Inl _, _) \<Rightarrow> False)"

definition test_powershell_mock_defaults_to_empty_success_when_queue_drained :: bool where
  "test_powershell_mock_defaults_to_empty_success_when_queue_drained \<longleftrightarrow>
     (case MockPowerShell_run ''script'' [] MockPowerShell_new of
        (Inr output, _) \<Rightarrow> succeeded output \<and> stdout output = []
      | (Inl _, _) \<Rightarrow> False)"

text \<open>
  The tests that start an interpreter. The machine has files; a program reads the script it
  is given the path of (PowerShell after \<^verbatim>\<open>-File\<close>) and does with its text and the arguments
  after it what the interpreter does: \<open>interp\<close>, of which \<open>interpreter_laws\<close> states the
  documented behaviour on the four scripts.
\<close>

type_synonym interpreter = "string \<Rightarrow> string \<Rightarrow> string list \<Rightarrow> string \<times> string \<times> i32 option"

definition script_arguments :: "string list \<Rightarrow> string list" where
  "script_arguments args =
     (case args of [] \<Rightarrow> []
      | a # _ \<Rightarrow> if starts_with a ''-'' then drop 1 (dropWhile (\<lambda>b. b \<noteq> ''-File'') args) else args)"

definition test_os :: "interpreter \<Rightarrow> (string \<times> string) list os_ops" where
  "test_os interp = \<lparr>
     os_tempfile = (\<lambda>pre suf fs. (Inr (pre @ suf), (pre @ suf, []) # fs)),
     os_write_all = (\<lambda>path txt fs. (Inr (), AList.update path txt fs)),
     os_output = (\<lambda>binary args fs. (case script_arguments args of
         path # rest \<Rightarrow> (case map_of fs path of
             Some script \<Rightarrow> (Inr (interp binary script rest), fs)
           | None \<Rightarrow> (Inl ''no such file'', fs))
       | [] \<Rightarrow> (Inl ''no script'', fs))),
     os_remove = (\<lambda>path fs. AList.delete path fs)\<rparr>"

definition print_first :: string where
  "print_first = ''printf '' @ squote @ ''%s'' @ squote @ '' \"$1\"''"

definition interpreter_laws :: "interpreter \<Rightarrow> bool" where
  "interpreter_laws interp \<longleftrightarrow>
     interp ''/bin/sh'' print_first [''bound''] = (''bound'', [], Some 0)
     \<and> interp ''/bin/sh'' ''exit 7'' [] = ([], [], Some 7)
     \<and> snd (snd (interp ''powershell.exe'' ''$PSVersionTable.PSVersion.Major'' [])) = Some 0
     \<and> interp ''powershell.exe'' ''param([string]$X) Write-Output $X'' [''bound'']
         = (''bound'' @ [CHR 0x0D] @ newline, [], Some 0)"

definition ran_ok :: "(PowerShellError + PowerShellOutput) \<times> 'o \<Rightarrow> (PowerShellOutput \<Rightarrow> bool) \<Rightarrow> bool" where
  "ran_ok r P = (case fst r of Inr out \<Rightarrow> P out | Inl _ \<Rightarrow> False)"

definition test_powershell_real_powershell_can_invoke_the_actual_shell :: "interpreter \<Rightarrow> bool" where
  "test_powershell_real_powershell_can_invoke_the_actual_shell interp \<longleftrightarrow>
     ran_ok (RealPowerShell_run (test_os interp) ''powershell.exe''
       ''$PSVersionTable.PSVersion.Major'' [] []) succeeded"

definition test_powershell_real_posix_shell_runs_a_script_and_binds_positional_args ::
  "interpreter \<Rightarrow> bool" where
  "test_powershell_real_posix_shell_runs_a_script_and_binds_positional_args interp \<longleftrightarrow>
     ran_ok (RealPosixShell_run (test_os interp) ''/bin/sh'' print_first [''bound''] [])
       (\<lambda>output. succeeded output \<and> stdout output = ''bound'')"

definition test_powershell_real_posix_shell_reports_a_nonzero_exit :: "interpreter \<Rightarrow> bool" where
  "test_powershell_real_posix_shell_reports_a_nonzero_exit interp \<longleftrightarrow>
     ran_ok (RealPosixShell_run (test_os interp) ''/bin/sh'' ''exit 7'' [] [])
       (\<lambda>output. exit_code output = 7 \<and> \<not> succeeded output)"

definition test_powershell_real_powershell_binds_positional_args_to_param ::
  "interpreter \<Rightarrow> bool" where
  "test_powershell_real_powershell_binds_positional_args_to_param interp \<longleftrightarrow>
     ran_ok (RealPowerShell_run (test_os interp) ''powershell.exe''
         ''param([string]$X) Write-Output $X'' [''bound''] [])
       (\<lambda>output. succeeded output \<and> trim (stdout output) = ''bound'')"

definition interpreter_tests :: "interpreter \<Rightarrow> bool list" where
  "interpreter_tests interp = [
     test_powershell_real_powershell_can_invoke_the_actual_shell interp,
     test_powershell_real_posix_shell_runs_a_script_and_binds_positional_args interp,
     test_powershell_real_posix_shell_reports_a_nonzero_exit interp,
     test_powershell_real_powershell_binds_positional_args_to_param interp]"

lemmas interpreter_test_defs = interpreter_tests_def
  test_powershell_real_powershell_can_invoke_the_actual_shell_def
  test_powershell_real_posix_shell_runs_a_script_and_binds_positional_args_def
  test_powershell_real_posix_shell_reports_a_nonzero_exit_def
  test_powershell_real_powershell_binds_positional_args_to_param_def

lemma real_executors_on_files:
  "RealPosixShell_run (test_os interp) binary script args []
     = (Inr (output_of (interp binary script args)), [])"
  "RealPowerShell_run (test_os interp) binary script args []
     = (Inr (output_of (interp binary script args)), [])"
  by (simp_all add: RealPosixShell_run_def RealPowerShell_run_def test_os_def script_arguments_def
      starts_with_def)

lemma interpreter_tests_pass:
  assumes "interpreter_laws interp"
  shows "list_all (\<lambda>t. t) (interpreter_tests interp)"
proof -
  have b: "from_utf8_lossy ''bound'' = ''bound''"
    "from_utf8_lossy (''bound'' @ [CHR 0x0D] @ newline) = ''bound'' @ [CHR 0x0D] @ newline"
    by (rule from_utf8_lossy_ascii, code_simp)+
  have t: "trim (''bound'' @ [CHR 0x0D] @ newline) = ''bound''" by (simp add: test_simps)
  obtain out err where p: "interp ''powershell.exe'' ''$PSVersionTable.PSVersion.Major'' []
      = (out, err, Some 0)"
    using assms unfolding interpreter_laws_def by (metis prod.collapse)
  show ?thesis
    using assms
    by (simp add: interpreter_test_defs ran_ok_def real_executors_on_files interpreter_laws_def p
        output_of_def succeeded_def b [simplified] t [simplified])
qed

definition powershell_tests :: "bool list" where
  "powershell_tests = [
     test_powershell_mock_returns_queued_responses_in_order,
     test_powershell_mock_defaults_to_empty_success_when_queue_drained]"

lemmas powershell_test_defs = powershell_tests_def
  test_powershell_mock_returns_queued_responses_in_order_def
  test_powershell_mock_defaults_to_empty_success_when_queue_drained_def

lemma powershell_tests_pass: "list_all (\<lambda>t. t) powershell_tests"
  by (simp add: powershell_test_defs MockPowerShell_run_def MockPowerShell_new_def
      push_success_def push_response_def succeeded_def Let_def)

section \<open>\<^verbatim>\<open>phonehome.rs\<close>\<close>

definition test_phonehome_guest_forbidden_command_reports_a_terminal_error_frame :: "bool
    \<Rightarrow> bool" where
  "test_phonehome_guest_forbidden_command_reports_a_terminal_error_frame unix \<longleftrightarrow>
     (case handle_command (build_default_registry unix (test_env [] JNull)) MockPowerShell_run
         \<lparr>in_job_id = ''job-1'', command = ''powershell.exec_arbitrary'',
          in_params = ctx_params [(''script'', ''echo hi'')], in_role = Guest\<rparr>
         MockPowerShell_new of
        (frames, _) \<Rightarrow> length frames = 1 \<and> job_id (frames ! 0) = ''job-1'' \<and>
          status (state (frames ! 0)) = Error)"

definition chain_json :: string where
  "chain_json = ''{\"chain_ok\":true,\"healthy\":true}''"

definition chain_value :: Value where
  "chain_value = JObject [(''chain_ok'', JBool True), (''healthy'', JBool True)]"

definition test_phonehome_allowed_command_forwards_the_handlers_own_progress_and_done_frames ::
  "bool \<Rightarrow> bool" where
  "test_phonehome_allowed_command_forwards_the_handlers_own_progress_and_done_frames unix
      \<longleftrightarrow>
     (case handle_command (build_default_registry unix (test_env chain_json chain_value))
         MockPowerShell_run
         \<lparr>in_job_id = ''job-2'', command = ''cert.verify'',
          in_params = ctx_params [(''path'', ''C:'' @ backslash @ ''win11.cer'')], in_role =
              Guest\<rparr>
         (push_success chain_json MockPowerShell_new) of
        (frames, _) \<Rightarrow> list_all (\<lambda>f. job_id f = ''job-2'') frames \<and>
          list_ex (\<lambda>f. status (state f) = Running) frames \<and>
          (case find (\<lambda>f. status (state f) = Done) frames of
             None \<Rightarrow> False
           | Some done \<Rightarrow> (case op_result (state done) of
                None \<Rightarrow> False
              | Some v \<Rightarrow> json_index v ''chain_ok'' = JBool True)))"

definition test_phonehome_unknown_command_reports_a_terminal_error_frame :: "bool \<Rightarrow>
    bool" where
  "test_phonehome_unknown_command_reports_a_terminal_error_frame unix \<longleftrightarrow>
     (case handle_command (build_default_registry unix (test_env [] JNull)) MockPowerShell_run
         \<lparr>in_job_id = ''job-3'', command = ''does.not_exist'', in_params = Map.empty,
          in_role = Operator\<rparr>
         MockPowerShell_new of
        (frames, _) \<Rightarrow> length frames = 1 \<and> status (state (frames ! 0)) = Error
            \<and>
          detail (state (frames ! 0)) = Some (''unknown command '' @ squote @ ''does.not_exist'' @
              squote))"

text \<open>URLs as scheme, authority and path; the upgrade request has the printed URL.\<close>

definition test_urls :: "(string \<times> string \<times> string) url_ops" where
  "test_urls = \<lparr>
     url_parse = (\<lambda>str. case split_once (CHR '':'') str of
        Some (sch, rest) \<Rightarrow> Some (sch, drop 2 rest, ''/'') | None \<Rightarrow> None),
     url_scheme = (\<lambda>(sch, h, p). sch),
     url_set_scheme = (\<lambda>sch (_, h, p). Some (sch, h, p)),
     url_set_path = (\<lambda>p (sch, h, _). (sch, h, p)),
     url_as_str = (\<lambda>(sch, h, p). sch @ ''://'' @ h @ p)\<rparr>"

definition test_config :: "bool \<Rightarrow> string \<Rightarrow> string \<Rightarrow> string
    option \<Rightarrow> ExecutorConfig" where
  "test_config windows vm tok u =
     \<lparr>identity = \<lparr>vm_id = vm, agent_token = tok, role = Operator\<rparr>, backend =
         \<lparr>url = u\<rparr>,
      execution = ExecutionConfig_default windows, service = ServiceConfig_default\<rparr>"

definition test_phonehome_connect_url_rejects_missing_backend_url :: "bool \<Rightarrow> bool" where
  "test_phonehome_connect_url_rejects_missing_backend_url unix \<longleftrightarrow>
     isl (connect_url test_urls (test_config (\<not> unix) ''dev'' ''tok'' None))"

definition test_phonehome_connect_request_carries_identity_in_headers_not_query ::
  "bool \<Rightarrow> bool" where
  "test_phonehome_connect_request_carries_identity_in_headers_not_query unix \<longleftrightarrow>
     (case connect_request test_urls (\<lambda>str. Some \<lparr>req_uri = str, req_headers =
         []\<rparr>) (\<lambda>_. True)
         (test_config (\<not> unix) ''vm-42'' ''secret'' (Some ''http://127.0.0.1:8000'')) of
        Inl _ \<Rightarrow> False
      | Inr request \<Rightarrow>
          req_uri request = ''ws'' @ ''://127.0.0.1:8000'' @ ''/api/executor/connect'' @ [] \<and>
          map_of (req_headers request) ''x-executor-vm-id'' = Some ''vm-42'' \<and>
          map_of (req_headers request) ''x-executor-token'' = Some ''secret'')"

definition phonehome_tests :: "bool \<Rightarrow> bool list" where
  "phonehome_tests unix = [
     test_phonehome_guest_forbidden_command_reports_a_terminal_error_frame unix,
     test_phonehome_allowed_command_forwards_the_handlers_own_progress_and_done_frames unix,
     test_phonehome_unknown_command_reports_a_terminal_error_frame unix,
     test_phonehome_connect_url_rejects_missing_backend_url unix,
     test_phonehome_connect_request_carries_identity_in_headers_not_query unix]"

lemmas phonehome_test_defs = phonehome_tests_def
  test_phonehome_guest_forbidden_command_reports_a_terminal_error_frame_def
  test_phonehome_allowed_command_forwards_the_handlers_own_progress_and_done_frames_def
  test_phonehome_unknown_command_reports_a_terminal_error_frame_def
  test_phonehome_connect_url_rejects_missing_backend_url_def
  test_phonehome_connect_request_carries_identity_in_headers_not_query_def

lemmas handle_command_simps = handle_command_def tagged_frames CertVerify_execute_def

lemma phonehome_tests_pass: "list_all (\<lambda>t. t) (phonehome_tests unix)"
  unfolding phonehome_test_defs list.pred_inject
  by (intro conjI TrueI; cases unix)
    (simp_all add: handle_command_simps registry_simps capabilities.simps test_simps exec_defs
      chain_json_def chain_value_def test_config_def test_urls_def connect_url_def
      connect_request_def cong: test_congs)

end
