(* ===== verification/IntegrationTests.thy ===== *)
theory IntegrationTests
  imports AgentTests
begin

text \<open>
  The integration tests under \<^verbatim>\<open>tests/\<close>, one proposition per test function. Those that use the
  default registry are stated for both platforms (\<open>unix\<close>).
\<close>

section \<open>\<^verbatim>\<open>tests/registry_dispatch.rs\<close>\<close>

text \<open>The spy counts its calls; its count is the state the dispatch passes on.\<close>

definition SpyHandler :: "Capability \<Rightarrow> nat handler" where
  "SpyHandler cap = \<lparr>h_name = ''spy.command'', h_capability = cap,
     h_execute = (\<lambda>_ n. (Inr (json_obj [(''ok'', JBool True)]), [], n + 1))\<rparr>"

definition registry_with_spy :: "Capability \<Rightarrow> nat CommandRegistry" where
  "registry_with_spy cap = register registry_new (SpyHandler cap)"

definition spy_shell :: "nat executor" where
  "spy_shell script args n = (Inr \<lparr>stdout = [], stderr = [], exit_code = 0\<rparr>, n)"

definition is_forbidden :: "(DispatchError + Value) \<Rightarrow> bool" where
  "is_forbidden r = (case r of Inl (Forbidden _ _ _) \<Rightarrow> True | _ \<Rightarrow> False)"

definition is_unknown :: "(DispatchError + Value) \<Rightarrow> bool" where
  "is_unknown r = (case r of Inl (UnknownCommand _) \<Rightarrow> True | _ \<Rightarrow> False)"

definition test_registry_forbidden_role_never_reaches_handler :: bool where
  "test_registry_forbidden_role_never_reaches_handler \<longleftrightarrow>
     (case dispatch (registry_with_spy VmExecArbitrary) ''spy.command'' Guest Map.empty spy_shell 0
         of
        (r, _, spy_calls) \<Rightarrow> is_forbidden r \<and> spy_calls = 0)"

definition test_registry_allowed_role_reaches_handler :: bool where
  "test_registry_allowed_role_reaches_handler \<longleftrightarrow>
     (case dispatch (registry_with_spy VmRead) ''spy.command'' Guest Map.empty spy_shell 0 of
        (r, _, spy_calls) \<Rightarrow> \<not> isl r \<and> spy_calls = 1)"

definition test_registry_unknown_command_is_reported :: bool where
  "test_registry_unknown_command_is_reported \<longleftrightarrow>
     is_unknown (fst (dispatch registry_new ''does.not.exist'' Operator Map.empty
       MockPowerShell_run MockPowerShell_new))"

definition test_registry_guest_specifically_cannot_reach_exec_arbitrary_gate :: bool where
  "test_registry_guest_specifically_cannot_reach_exec_arbitrary_gate \<longleftrightarrow>
     (case dispatch (registry_with_spy VmExecArbitrary) ''spy.command'' Guest Map.empty spy_shell 0
         of
        (r, _, spy_calls) \<Rightarrow>
          (case r of Inl (Forbidden _ _ required_cap) \<Rightarrow> required_cap = VmExecArbitrary |
              _ \<Rightarrow> False)
          \<and> spy_calls = 0)"

definition registry_tests :: "bool list" where
  "registry_tests = [
     test_registry_forbidden_role_never_reaches_handler,
     test_registry_allowed_role_reaches_handler,
     test_registry_unknown_command_is_reported,
     test_registry_guest_specifically_cannot_reach_exec_arbitrary_gate]"

lemmas registry_test_defs = registry_tests_def
  test_registry_forbidden_role_never_reaches_handler_def
  test_registry_allowed_role_reaches_handler_def
  test_registry_unknown_command_is_reported_def
  test_registry_guest_specifically_cannot_reach_exec_arbitrary_gate_def

lemma registry_tests_pass: "list_all (\<lambda>t. t) registry_tests"
  by (simp add: registry_test_defs registry_with_spy_def SpyHandler_def spy_shell_def register_def
      registry_new_def dispatch_def role_has_def is_forbidden_def is_unknown_def)

section \<open>\<^verbatim>\<open>tests/config_parsing.rs\<close>\<close>

text \<open>
  A test writes one file and loads it; \<open>written_file\<close> is the file system after that, and \<open>toml\<close>
  what the \<^verbatim>\<open>toml\<close> crate makes of the text.
\<close>

definition written_file :: "string \<Rightarrow> string \<Rightarrow> string \<Rightarrow> string
    option" where
  "written_file path txt p = (if p = path then Some txt else None)"

definition identity_text :: "string \<Rightarrow> string" where
  "identity_text rl = newline @ ''        [identity]'' @ newline
     @ ''        vm_id = \"dev-local\"'' @ newline
     @ ''        role = \"'' @ rl @ ''\"'' @ newline @ ''        '' @ newline"

definition identity_toml :: "string \<Rightarrow> toml" where
  "identity_toml rl = TTable [(''identity'',
     TTable [(''vm_id'', TString ''dev-local''), (''role'', TString rl)])]"

definition test_config_parses_minimal_config :: "bool \<Rightarrow> bool" where
  "test_config_parses_minimal_config windows \<longleftrightarrow>
     (case load_from_file windows (written_file ''f'' (identity_text ''operator''))
         (decodes (identity_text ''operator'') (identity_toml ''operator'')) ''f'' of
        Inl _ \<Rightarrow> False
      | Inr config \<Rightarrow> vm_id (identity config) = ''dev-local'' \<and>
          role (identity config) = Operator \<and> url (backend config) = None)"

definition test_config_execution_defaults_apply_when_section_omitted :: "bool \<Rightarrow> bool"
    where
  "test_config_execution_defaults_apply_when_section_omitted windows \<longleftrightarrow>
     (case load_from_file windows (written_file ''f'' (identity_text ''guest''))
         (decodes (identity_text ''guest'') (identity_toml ''guest'')) ''f'' of
        Inl _ \<Rightarrow> False
      | Inr config \<Rightarrow>
          shell_binary (execution config) = (if windows then ''powershell.exe'' else ''/bin/bash'')
              \<and>
          script_timeout_secs (execution config) = 900 \<and> log_level (service config) =
              ''info'')"

definition test_config_missing_file_is_a_read_error :: "bool \<Rightarrow> bool" where
  "test_config_missing_file_is_a_read_error windows \<longleftrightarrow>
     (case load_from_file windows (\<lambda>_. None) (\<lambda>_. None)
         ''/nonexistent/executor.toml'' of
        Inl (ConfigRead _) \<Rightarrow> True | _ \<Rightarrow> False)"

definition test_config_malformed_toml_is_a_parse_error :: "bool \<Rightarrow> bool" where
  "test_config_malformed_toml_is_a_parse_error windows \<longleftrightarrow>
     (case load_from_file windows (written_file ''f'' (''not valid toml [[['' @ newline))
         (\<lambda>_. None) ''f'' of
        Inl (ConfigParse _) \<Rightarrow> True | _ \<Rightarrow> False)"

definition config_tests :: "bool \<Rightarrow> bool list" where
  "config_tests windows = [
     test_config_parses_minimal_config windows,
     test_config_execution_defaults_apply_when_section_omitted windows,
     test_config_missing_file_is_a_read_error windows,
     test_config_malformed_toml_is_a_parse_error windows]"

lemmas config_test_defs = config_tests_def test_config_parses_minimal_config_def
  test_config_execution_defaults_apply_when_section_omitted_def
  test_config_missing_file_is_a_read_error_def test_config_malformed_toml_is_a_parse_error_def

lemma config_tests_pass: "list_all (\<lambda>t. t) (config_tests windows)"
proof -
  have "ExecutorConfig_decode windows (identity_toml (Role_serde_name r)) = Some
      \<lparr>identity = \<lparr>vm_id = ''dev-local'', agent_token = [], role = r\<rparr>, backend
          = BackendConfig_default,
       execution = ExecutionConfig_default windows, service = ServiceConfig_default\<rparr>" for r
    unfolding identity_toml_def by (rule decode_minimal)
  from this [of Operator] this [of Guest] show ?thesis
    by (simp add: config_test_defs load_from_file_def written_file_def decodes_def
        BackendConfig_default_def ExecutionConfig_default_def ServiceConfig_default_def
        default_script_timeout_secs_def default_log_level_def default_shell_binary_def)
qed

section \<open>\<^verbatim>\<open>tests/command_catalog.rs\<close>\<close>

definition test_catalog_registry_matches_the_shared_catalog_fixture :: "bool \<Rightarrow> bool"
    where
  "test_catalog_registry_matches_the_shared_catalog_fixture unix \<longleftrightarrow>
     map (\<lambda>(name, cap). (name, wire_value cap))
       (commands (build_default_registry unix (test_env [] JNull) :: mock CommandRegistry)) =
           CATALOG"

lemma catalog_tests_pass: "test_catalog_registry_matches_the_shared_catalog_fixture unix"
  by (simp add: test_catalog_registry_matches_the_shared_catalog_fixture_def commands_surface
      surface_default catalog_sorts)

section \<open>\<^verbatim>\<open>tests/commands_with_mock_shell.rs\<close>\<close>

definition mock_dispatch ::
  "bool \<Rightarrow> host_env \<Rightarrow> string \<Rightarrow> Role \<Rightarrow> (string
      \<rightharpoonup> string) \<Rightarrow> mock \<Rightarrow>
     (DispatchError + Value) \<times> event list \<times> mock" where
  "mock_dispatch unix env name rl ps m =
     dispatch (build_default_registry unix env) name rl ps MockPowerShell_run m"

definition dispatch_unwrapped ::
  "(DispatchError + Value) \<times> event list \<times> mock \<Rightarrow> (Value \<Rightarrow>
      bool) \<Rightarrow> bool" where
  "dispatch_unwrapped r P = (case fst r of Inr v \<Rightarrow> P v | Inl _ \<Rightarrow> False)"

definition test_wiring_operator_can_rename_hostname :: "bool \<Rightarrow> bool" where
  "test_wiring_operator_can_rename_hostname unix \<longleftrightarrow>
     dispatch_unwrapped (mock_dispatch unix (test_env [] JNull) ''hostname.rename'' Operator
       (ctx_params [(''name'', ''CA02'')]) (push_success [] MockPowerShell_new)) (\<lambda>_. True)"

definition test_wiring_guest_cannot_rename_hostname :: "bool \<Rightarrow> bool" where
  "test_wiring_guest_cannot_rename_hostname unix \<longleftrightarrow>
     is_forbidden (fst (mock_dispatch unix (test_env [] JNull) ''hostname.rename'' Guest
       (ctx_params [(''name'', ''CA02'')]) MockPowerShell_new))"

definition test_wiring_guest_can_verify_cert :: "bool \<Rightarrow> bool" where
  "test_wiring_guest_can_verify_cert unix \<longleftrightarrow>
     dispatch_unwrapped (mock_dispatch unix (test_env chain_json chain_value) ''cert.verify'' Guest
       (ctx_params [(''path'', ''C:'' @ backslash @ ''win11.cer'')]) (push_success chain_json
           MockPowerShell_new))
       (\<lambda>result. json_index result ''chain_ok'' = JBool True)"

definition test_wiring_guest_can_verify_enterprise_pki :: "bool \<Rightarrow> bool" where
  "test_wiring_guest_can_verify_enterprise_pki unix \<longleftrightarrow>
     dispatch_unwrapped (mock_dispatch unix ((test_env ''{\"healthy\":true}'' (JObject
         [(''healthy'', JBool True)]))
         \<lparr>json_strings := decodes ''[\"http://pki.encon.test/CertEnroll/root.crt\"]''
            [''http://pki.encon.test/CertEnroll/root.crt'']\<rparr>) ''pki.verify'' Guest
       (ctx_params [(''rootCaCommonName'', ''EC-Root-CA''), (''issuingCaCommonName'',
           ''EC-Issuing-CA''),
          (''templates'', ''OCSPResponseSigning,Workstation''),
          (''httpUrls'', ''[\"http://pki.encon.test/CertEnroll/root.crt\"]'')]) (push_success
              ''{\"healthy\":true}'' MockPowerShell_new))
       (\<lambda>result. json_index result ''healthy'' = JBool True)"

definition test_wiring_guest_can_read_system_identity :: "bool \<Rightarrow> bool" where
  "test_wiring_guest_can_read_system_identity unix \<longleftrightarrow>
     dispatch_unwrapped (mock_dispatch unix (test_env
         ''{\"hostname\":\"DC01\",\"operating_system\":\"Microsoft Windows Server 2025 Standard\",\"server\":true}''
         (JObject [(''hostname'', JString ''DC01''),
         (''operating_system'', JString ''Microsoft Windows Server 2025 Standard''), (''server'',
             JBool True)])) ''system.identity'' Guest
       Map.empty (push_success
           ''{\"hostname\":\"DC01\",\"operating_system\":\"Microsoft Windows Server 2025 Standard\",\"server\":true}''
           MockPowerShell_new))
       (\<lambda>result. json_index result ''hostname'' = JString ''DC01'' \<and>
        json_index result ''server'' = JBool True)"

definition test_wiring_guest_can_read_hostname :: "bool \<Rightarrow> bool" where
  "test_wiring_guest_can_read_hostname unix \<longleftrightarrow>
     dispatch_unwrapped (mock_dispatch unix (test_env [] JNull) ''hostname.read'' Guest
       Map.empty (push_success (''CA02'' @ newline) MockPowerShell_new))
       (\<lambda>result. json_index result ''hostname'' = JString ''CA02'')"

definition test_wiring_guest_can_read_boot_info :: "bool \<Rightarrow> bool" where
  "test_wiring_guest_can_read_boot_info unix \<longleftrightarrow>
     (let r = mock_dispatch unix (test_env [] JNull) ''system.boot_info'' Guest Map.empty
         MockPowerShell_new in
       dispatch_unwrapped r (\<lambda>result.
         (case json_as_u64 (json_index result ''uptimeS'') of Some n \<Rightarrow> 0 < n | None
             \<Rightarrow> False) \<and>
         json_is_boolean (json_index result ''finalizePending'') \<and>
         json_index result ''finalizeRunning'' = JBool False) \<and>
       calls (snd (snd r)) = [])"

definition test_wiring_guest_can_read_ip :: "bool \<Rightarrow> bool" where
  "test_wiring_guest_can_read_ip unix \<longleftrightarrow>
     dispatch_unwrapped (mock_dispatch unix (test_env
         ''[{\"InterfaceAlias\":\"Ethernet0\",\"IPAddress\":\"10.0.0.5\",\"PrefixLength\":24}]''
         (JArray [JObject [(''IPAddress'', JString ''10.0.0.5''),
         (''InterfaceAlias'', JString ''Ethernet0''), (''PrefixLength'', json_nat 24)]]))
             ''ip.read'' Guest
       Map.empty (push_success
           ''[{\"InterfaceAlias\":\"Ethernet0\",\"IPAddress\":\"10.0.0.5\",\"PrefixLength\":24}]''
           MockPowerShell_new))
       (\<lambda>result. json_index (json_nth (json_index result ''addresses'') 0) ''IPAddress'' =
           JString ''10.0.0.5'')"

definition test_wiring_guest_cannot_write_ip :: "bool \<Rightarrow> bool" where
  "test_wiring_guest_cannot_write_ip unix \<longleftrightarrow>
     is_forbidden (fst (mock_dispatch unix (test_env [] JNull) ''ip.write'' Guest
       (ctx_params [(''address'', ''10.0.0.5'')]) MockPowerShell_new))"

definition test_wiring_operator_can_write_ip :: "bool \<Rightarrow> bool" where
  "test_wiring_operator_can_write_ip unix \<longleftrightarrow>
     dispatch_unwrapped (mock_dispatch unix (test_env [] JNull) ''ip.write'' Operator
       (ctx_params [(''address'', ''10.0.0.5''), (''prefixLength'', ''16'')]) (push_success []
           MockPowerShell_new))
       (\<lambda>result. json_index result ''prefix_length'' = JString ''16'')"

definition test_wiring_guest_cannot_exec_arbitrary_end_to_end :: "bool \<Rightarrow> bool" where
  "test_wiring_guest_cannot_exec_arbitrary_end_to_end unix \<longleftrightarrow>
     is_forbidden (fst (mock_dispatch unix (test_env [] JNull) ''powershell.exec_arbitrary'' Guest
       (ctx_params [(''script'', ''Remove-Item -Recurse C:'' @ backslash)]) MockPowerShell_new))"

definition test_wiring_operator_can_exec_arbitrary :: "bool \<Rightarrow> bool" where
  "test_wiring_operator_can_exec_arbitrary unix \<longleftrightarrow>
     dispatch_unwrapped (mock_dispatch unix (test_env [] JNull) ''powershell.exec_arbitrary''
         Operator
       (ctx_params [(''script'', ''echo hello'')]) (push_success ''hello'' MockPowerShell_new))
       (\<lambda>result. json_index result ''stdout'' = JString ''hello'')"

definition test_wiring_unknown_command_is_rejected_regardless_of_role :: "bool \<Rightarrow> bool"
    where
  "test_wiring_unknown_command_is_rejected_regardless_of_role unix \<longleftrightarrow>
     is_unknown (fst (mock_dispatch unix (test_env [] JNull) ''does.not.exist'' Operator Map.empty
       MockPowerShell_new))"

definition wiring_tests :: "bool \<Rightarrow> bool list" where
  "wiring_tests unix = [
     test_wiring_operator_can_rename_hostname unix,
     test_wiring_guest_cannot_rename_hostname unix,
     test_wiring_guest_can_verify_cert unix,
     test_wiring_guest_can_verify_enterprise_pki unix,
     test_wiring_guest_can_read_system_identity unix,
     test_wiring_guest_can_read_hostname unix,
     test_wiring_guest_can_read_boot_info unix,
     test_wiring_guest_can_read_ip unix,
     test_wiring_guest_cannot_write_ip unix,
     test_wiring_operator_can_write_ip unix,
     test_wiring_guest_cannot_exec_arbitrary_end_to_end unix,
     test_wiring_operator_can_exec_arbitrary unix,
     test_wiring_unknown_command_is_rejected_regardless_of_role unix]"

lemmas wiring_test_defs = wiring_tests_def
  test_wiring_operator_can_rename_hostname_def
  test_wiring_guest_cannot_rename_hostname_def
  test_wiring_guest_can_verify_cert_def
  test_wiring_guest_can_verify_enterprise_pki_def
  test_wiring_guest_can_read_system_identity_def
  test_wiring_guest_can_read_hostname_def
  test_wiring_guest_can_read_boot_info_def
  test_wiring_guest_can_read_ip_def
  test_wiring_guest_cannot_write_ip_def
  test_wiring_operator_can_write_ip_def
  test_wiring_guest_cannot_exec_arbitrary_end_to_end_def
  test_wiring_operator_can_exec_arbitrary_def
  test_wiring_unknown_command_is_rejected_regardless_of_role_def

lemma wiring_tests_pass: "list_all (\<lambda>t. t) (wiring_tests unix)"
  unfolding wiring_test_defs mock_dispatch_def list.pred_inject
  by (intro conjI TrueI; cases unix)
    (simp_all add: dispatch_unwrapped_def is_forbidden_def is_unknown_def registry_simps
        Capability_ALL_complete
      test_simps exec_defs chain_json_def chain_value_def path_join_def cong: test_congs)

end
