(* ===== verification/Spec2Isabelle.thy ===== *)
theory Spec2Isabelle
  imports Cli Transport Scm Arities Options Inputs FrontEnds HostTests FileTests DirectoryTests DnsTests CertTests
    WebTests CaTests CertSecureTests IntegrationTests
begin

text \<open>
  \<^bold>\<open>The program.\<close> \<^verbatim>\<open>pki-executor\<close> is an agent that runs inside a virtual machine. It keeps a
  WebSocket connection to a backend, which sends it named commands with string parameters
  and the role of the person who asked; it checks the role, validates the parameters, runs
  one fixed PowerShell or shell script per command and streams progress frames back. The
  same commands can be run once from the command line, and on Windows the agent is a
  service. The sources are under \<^verbatim>\<open>src/src/\<close>.

  \<^bold>\<open>Theories, bottom up.\<close>

  \<^item> \<open>Prelude\<close>: strings are byte lists (a \<open>char\<close> is a byte of the UTF-8 text, so \<open>length\<close>
    is \<^verbatim>\<open>str::len\<close>); the parts of the Rust standard library the validators use (character
    classes, \<^verbatim>\<open>split\<close>, \<^verbatim>\<open>split_once\<close>, \<^verbatim>\<open>trim\<close>, \<^verbatim>\<open>lines\<close>, \<^verbatim>\<open>parse\<close> of unsigned integers and of IPv4
    addresses) and the machine integer types as words.
  \<^item> \<open>Json\<close>: the \<^verbatim>\<open>serde_json::Value\<close> of results. \<open>Authz\<close> (\<^verbatim>\<open>authz.rs\<close>): capabilities and roles.
    \<open>Report\<close> (\<^verbatim>\<open>report.rs\<close>): progress states and sinks.
  \<^item> \<open>Shell\<close> (\<^verbatim>\<open>powershell.rs\<close>): the executor interface, the two real executors over a record
    of operating-system operations, the choice between them, and the mock.
  \<^item> \<open>Command\<close> and \<open>Registry\<close> (\<^verbatim>\<open>registry.rs\<close>): a handler is a function from a context to a
    state-passing computation that returns a value or an error and the list of events it
    caused (a report, or a script run with its arguments); its statements are the
    combinators \<open>tryE\<close>, \<open>reject\<close>, \<open>report\<close>, \<open>shell_run\<close> and \<open>finish\<close>. \<open>wp\<close> with its rules
    reduces a statement about a handler to its branches; the locale \<open>command_contract\<close> says
    what the rest of the program needs of a handler, and is interpreted on all 48.
  \<^item> \<open>Util\<close> (\<^verbatim>\<open>commands/util.rs\<close>) and the handlers, in the order of the code:
    \<open>HostCommands\<close> (\<^verbatim>\<open>hostname_*.rs\<close>, \<^verbatim>\<open>exec_arbitrary.rs\<close>, \<^verbatim>\<open>ip.rs\<close>, \<^verbatim>\<open>system*.rs\<close>),
    \<open>FileCommands\<close> (\<^verbatim>\<open>file.rs\<close> and the relay of \<^verbatim>\<open>linux.rs\<close>), \<open>LinuxCommands\<close> (the rest of
    \<^verbatim>\<open>linux.rs\<close>), \<open>DirectoryCommands\<close> (\<^verbatim>\<open>domain.rs\<close>, \<^verbatim>\<open>dc.rs\<close>), \<open>DnsCommands\<close>, \<open>CertCommands\<close>
    (\<^verbatim>\<open>cert_*.rs\<close>, \<^verbatim>\<open>pki_verify.rs\<close>, \<^verbatim>\<open>template.rs\<close>), \<open>WebCommands\<close> (\<^verbatim>\<open>iis.rs\<close>, \<^verbatim>\<open>ocsp.rs\<close>),
    \<open>CaCommands\<close> and \<open>CertSecureCommands\<close>. Each handler \<^verbatim>\<open>X\<close> is \<open>X_execute\<close> and the record
    \<open>X\<close> with its name and capability. \<open>Scripts\<close> has the script texts, byte for byte; what
    they do on the machine is not modelled. \<open>Arities\<close> reads off them how many arguments they
    take. \<open>Options\<close> has, per command, the arguments that may begin with a dash, \<open>Inputs\<close> the
    parameters it reads.
  \<^item> \<open>Catalog\<close> (\<^verbatim>\<open>commands/mod.rs\<close>): the registrations on both platforms and the catalog of
    \<^verbatim>\<open>tests/fixtures\<close>; \<open>default_registry\<close> interprets \<open>protocol_registry\<close> on it.
  \<^item> \<open>Config\<close> (\<^verbatim>\<open>config.rs\<close>) and \<open>Cli\<close> (\<^verbatim>\<open>cli.rs\<close>, the one-shot \<^verbatim>\<open>run\<close>).
  \<^item> \<open>Phonehome\<close> (\<^verbatim>\<open>phonehome.rs\<close>): frames, \<open>handle_command\<close>, the connect request, sending one
    frame, the backoff. \<open>Session\<close>: \<^verbatim>\<open>run_forever\<close> and \<^verbatim>\<open>connect_once\<close> as the function
    \<open>agent_step\<close> on a record of the loop's state; its events are what the network, the
    channel, the workers and the clock do, in any interleaving. \<open>Transport\<close>: the reliable
    queue the loop implements.
  \<^item> \<open>Service\<close> (\<^verbatim>\<open>service/console.rs\<close>): the instance lock, the run loop that holds it, and
    several processes on one machine. \<open>Scm\<close> (\<^verbatim>\<open>service/scm.rs\<close>, \<^verbatim>\<open>service/mod.rs\<close>, \<^verbatim>\<open>cli.rs\<close>):
    registering the service, its main function, and the subcommands. \<open>FrontEnds\<close> compares the
    agent with the one-shot \<^verbatim>\<open>run\<close>.
  \<^item> \<open>Conformance\<close> and the test modules of the repository, one proposition per test function
    under its name, evaluated in the model: \<open>HostTests\<close>, \<open>FileTests\<close>, \<open>DirectoryTests\<close>,
    \<open>DnsTests\<close>, \<open>CertTests\<close>, \<open>WebTests\<close>, \<open>CaTests\<close> and \<open>CertSecureTests\<close> (\<^verbatim>\<open>mod tests\<close> of
    the files of \<^verbatim>\<open>commands/\<close>), \<open>AgentTests\<close> (those of \<^verbatim>\<open>authz.rs\<close>, \<^verbatim>\<open>report.rs\<close>,
    \<^verbatim>\<open>powershell.rs\<close>, \<^verbatim>\<open>phonehome.rs\<close>) and \<open>IntegrationTests\<close> (\<^verbatim>\<open>tests/\<close>). What a decoder of
    JSON or TOML makes of the texts of a test, or a printer of its result, is written out in
    the test (\<open>decodes\<close>, \<open>prints\<close>).

  \<^bold>\<open>Parameters.\<close> Code that is not under \<^verbatim>\<open>src/\<close> is an argument of the definitions that use it:
  decoding JSON and TOML text, printing JSON, the \<^verbatim>\<open>url\<close> crate, building an upgrade request
  and judging a header value, temporary files and processes, the tick counter and
  \<^verbatim>\<open>/proc/uptime\<close>, file locks, and the service manager. Where a property relies on what such
  code documents, that is a named hypothesis (\<open>temp_laws\<close>, \<open>url_laws\<close>, \<open>lock_laws\<close>,
  \<open>interpreter_laws\<close>), and the witness of the property has a concrete instance of it.

  \<^bold>\<open>What the properties show.\<close> C1 to C4, C19 and C28 to C30: dispatch (the gate, the
  catalog, the fixed scripts, one terminal frame per job, a failing script fails its
  command). C5 to C9, C32 and C33: the connection (no frame is lost, doubled or reordered
  across reconnects; the loop refines a queue; draining ends; the backoff). C10 to C18, C20,
  C36 and C39, C40: what reaches the scripts (no options, confined paths, hidden passwords,
  validated records, consistent cryptography, as many arguments as the script takes, no
  parameter but the listed ones, and values the validators let through). C21: temporary
  files. C22: the one-shot \<^verbatim>\<open>run\<close> and the agent agree. C23: the connect request. C24 to C26:
  the command line and the configuration. C27: the model agrees with the repository's tests.
  C31: the registry refines a map. C34, C35, C37 and C38: the single instance and the
  service. Each property is proved from the lemmas of its component.

  \<^bold>\<open>Bounds.\<close> No definition uses fuel: every recursion is structural or has a decreasing length.
  The loop that never ends is a step function with its reachable states. Integers that can
  overflow are words (exit codes, ports, flags, the timeout); elapsed seconds and the
  attempt counter, which the code only compares and increments, are natural numbers.

  \<^bold>\<open>Not modelled.\<close> What the scripts do on the machine; log lines; the TLS connector; the
  argument parser; \<^verbatim>\<open>main.rs\<close>, which installs the log subscriber and calls \<^verbatim>\<open>cli::run\<close>; the
  scheduling of blocking tasks beyond their order of sends (a worker's frames are computed
  when its command is read, from a state of the machine given with the event). Of the
  service manager only registration and deletion are described (\<open>scm_laws\<close> in \<open>Scm\<close>, a
  deleted entry being marked until it can go), and no property rests on it.
\<close>

section \<open>Concrete inputs for the witnesses\<close>

definition sample_env :: host_env where
  "sample_env = \<lparr>json_from_str = (\<lambda>_. None), json_strings = (\<lambda>_. None),
     json_records = (\<lambda>_. None), fs_exists = (\<lambda>_. False),
     boot_probe = \<lparr>tick_ms = (\<lambda>_. 5000), tasks_dir = ''T''\<rparr>, linux_uptime_ms = (\<lambda>_. 5000)\<rparr>"

definition sample_registry :: "mock CommandRegistry" where
  "sample_registry = build_default_registry False sample_env"

text \<open>A guest writes three bytes below the transfer directory.\<close>

definition sample_write_params :: "string \<rightharpoonup> string" where
  "sample_write_params = [''path'' \<mapsto> ''C:'' @ backslash @ ''Transfer'' @ backslash @ ''a.req'',
     ''contentB64'' \<mapsto> ''QUJD'']"

lemma sample_lookup_write: "map_of sample_registry ''file.write'' = Some FileWrite"
  by (simp add: sample_registry_def lookup_common common_handlers_def handler_defs)

lemma sample_write_execute:
  "\<exists>st v. FileWrite_execute \<lparr>params = sample_write_params, shell = MockPowerShell_run\<rparr> MockPowerShell_new
     = (Inr v, [EReport st, EShell script_FileWrite
         [''C:'' @ backslash @ ''Transfer'' @ backslash @ ''a.req'', ''QUJD''], EReport (OpRunState_done v)],
        MockPowerShell_new\<lparr>calls := [script_FileWrite]\<rparr>)"
proof -
  have p: "relay_path_ok (''C:'' @ backslash @ ''Transfer'' @ backslash @ ''a.req'')" by code_simp
  have b: "b64_ok ''QUJD''" by code_simp
  show ?thesis
    using p b by (simp add: FileWrite_execute_def sample_write_params_def required_def param_def
      cmd_run_simps MockPowerShell_run_def MockPowerShell_new_def require_success_def succeeded_def
      RELAY_CAP_B64_def Let_def)
qed

lemma sample_write:
  "\<exists>v t. dispatch sample_registry ''file.write'' Guest sample_write_params MockPowerShell_run
       MockPowerShell_new = (Inr v, t, MockPowerShell_new\<lparr>calls := [script_FileWrite]\<rparr>)
     \<and> shell_runs t = [(script_FileWrite,
         [''C:'' @ backslash @ ''Transfer'' @ backslash @ ''a.req'', ''QUJD''])]"
proof -
  obtain st v where "FileWrite_execute \<lparr>params = sample_write_params, shell = MockPowerShell_run\<rparr>
      MockPowerShell_new
    = (Inr v, [EReport st, EShell script_FileWrite
         [''C:'' @ backslash @ ''Transfer'' @ backslash @ ''a.req'', ''QUJD''], EReport (OpRunState_done v)],
        MockPowerShell_new\<lparr>calls := [script_FileWrite]\<rparr>)"
    using sample_write_execute by blast
  then show ?thesis
    by (simp add: dispatch_def sample_lookup_write FileWrite_def guest_has_iff)
qed

section \<open>Dispatch\<close>

text \<open>
  C1: Every dispatched job, whatever the command, the role, the parameters and the answers
  of the shell, produces frames that carry its job id, of which exactly the last is
  terminal and every earlier one is running.
\<close>

theorem every_job_ends_once:
  "job_frames_ok (in_job_id cmd)
     (fst (handle_command (build_default_registry unix env) sh cmd s))"
  by (rule default_registry.handle_command_frames, rule prod.collapse [symmetric])

text \<open>
  C2: Nothing happens behind a closed gate: when a dispatch reports anything, runs anything
  or changes the executor's state, the command is in the shared catalog and the caller's
  role has the capability the catalog gives it.
\<close>

theorem dispatch_gate:
  assumes "dispatch (build_default_registry unix env :: 's CommandRegistry) name rl ps sh s
      = (r, t, s')"
    and "t \<noteq> [] \<or> s' \<noteq> s"
  shows "\<exists>c. (name, wire_value c) \<in> set CATALOG \<and> role_has rl c"
proof -
  from dispatch_event_gate [OF assms] obtain h
    where h: "map_of (build_default_registry unix env :: 's CommandRegistry) name = Some h"
      and c: "role_has rl (h_capability h)" by blast
  from default_in_catalog [OF h] have "(name, wire_value (h_capability h)) \<in> set CATALOG" .
  with c show ?thesis by blast
qed

theorem dispatch_gate_witness:
  "\<exists>c. (''file.write'', wire_value c) \<in> set CATALOG \<and> role_has Guest c"
proof -
  from sample_write obtain v t
    where "dispatch sample_registry ''file.write'' Guest sample_write_params MockPowerShell_run
       MockPowerShell_new = (Inr v, t, MockPowerShell_new\<lparr>calls := [script_FileWrite]\<rparr>)"
      and "t \<noteq> []" by force
  then show ?thesis
    unfolding sample_registry_def by (rule dispatch_gate [OF _ disjI1])
qed

text \<open>
  C3: A guest can only run the catalog's own scripts. Whatever a guest dispatches, every
  script that reaches the shell is the constant of that command with its fixed number of
  arguments, and the command is none of the three kept for operators.
\<close>

theorem guest_runs_fixed_scripts:
  assumes d: "dispatch (build_default_registry unix env :: 's CommandRegistry) name Guest ps sh s
      = (r, t, s')"
    and run: "(sc, args) \<in> set (shell_runs t)"
  shows "name \<notin> set OPERATOR_ONLY \<and> (sc, length args) \<in> set (script_table unix name)"
proof -
  from run have "t \<noteq> []" by auto
  from dispatch_event_gate [OF d disjI1 [OF this]] guest_blocked
  have n: "name \<notin> set OPERATOR_ONLY" by blast
  then have "name \<noteq> ''powershell.exec_arbitrary''" by (auto simp: OPERATOR_ONLY_def)
  with n dispatch_scripts [OF d _ run] show ?thesis by blast
qed

theorem guest_runs_fixed_scripts_witness:
  "(script_FileWrite, length [''C:'' @ backslash @ ''Transfer'' @ backslash @ ''a.req'', ''QUJD''])
     \<in> set (script_table False ''file.write'')"
proof -
  from sample_write obtain v t
    where d: "dispatch sample_registry ''file.write'' Guest sample_write_params MockPowerShell_run
       MockPowerShell_new = (Inr v, t, MockPowerShell_new\<lparr>calls := [script_FileWrite]\<rparr>)"
      and t: "shell_runs t = [(script_FileWrite,
         [''C:'' @ backslash @ ''Transfer'' @ backslash @ ''a.req'', ''QUJD''])]" by blast
  show ?thesis
    by (rule guest_runs_fixed_scripts [OF d [unfolded sample_registry_def], THEN conjunct2])
      (simp add: t)
qed

text \<open>
  C4: The registry is the shared catalog, on both platforms: the commands listed by name
  with the wire values of their capabilities are exactly the fixture.
\<close>

theorem registry_is_catalog:
  "map (\<lambda>(n, c). (n, wire_value c)) (commands (build_default_registry unix env)) = CATALOG"
  unfolding commands_surface surface_default by (rule catalog_sorts)

section \<open>The connection\<close>

definition sample_conf :: "unit agent_conf" where
  "sample_conf = \<lparr>cf_request = Inr \<lparr>req_uri = ''ws'', req_headers = []\<rparr>,
     cf_ser = (\<lambda>f. Some (job_id f)),
     cf_dec = (\<lambda>line. Some \<lparr>in_job_id = ''j1'', command = line, in_params = Map.empty,
       in_role = Guest\<rparr>),
     cf_registry = build_default_registry False sample_env,
     cf_shell = (\<lambda>_ _ s. (Inr \<lparr>stdout = [], stderr = [], exit_code = 0\<rparr>, s))\<rparr>"

definition sample_frame :: OutboundProgress where
  "sample_frame = \<lparr>job_id = ''j1'', state = OpRunState_error (''unknown command '' @ squote @ ''x'' @ squote)\<rparr>"

lemma sample_handle:
  "handle_command (cf_registry sample_conf) sh
     \<lparr>in_job_id = ''j1'', command = ''x'', in_params = Map.empty, in_role = rl\<rparr> s
   = ([sample_frame], s)"
proof -
  have "map_of (cf_registry sample_conf) ''x'' = None"
    by (simp add: sample_conf_def lookup_common common_handlers_def handler_defs)
  then show ?thesis
    by (simp add: handle_command_def dispatch_unknown sample_frame_def Let_def)
qed

text \<open>A command arrives, its frame fails to write, and the next connection delivers it.\<close>

definition sample_events :: "unit ev list" where
  "sample_events = [ConnectOk True, ReadText ''x'' (), Emit 0, RecvFrame False, Wake]"

definition sample_parked :: agent where
  "sample_parked = \<lparr>conn = Connecting, attempt = 1, elapsed = 0, pending = Some (0, sample_frame),
     chan = [], workers = [\<lparr>w_cmd = \<lparr>in_job_id = ''j1'', command = ''x'', in_params = Map.empty,
       in_role = Guest\<rparr>, w_frames = [sample_frame], w_rest = []\<rparr>],
     written = [], emitted = [(0, sample_frame)]\<rparr>"

lemma sample_spawn:
  "spawn sample_conf \<lparr>in_job_id = ''j1'', command = ''x'', in_params = Map.empty, in_role = Guest\<rparr> () a
     = a\<lparr>workers := workers a @ [\<lparr>w_cmd = \<lparr>in_job_id = ''j1'', command = ''x'',
         in_params = Map.empty, in_role = Guest\<rparr>, w_frames = [sample_frame],
         w_rest = [sample_frame]\<rparr>]\<rparr>"
  by (simp add: spawn_def sample_handle Let_def)

lemma sample_conf_fields:
  "cf_request sample_conf = Inr \<lparr>req_uri = ''ws'', req_headers = []\<rparr>"
  "cf_ser sample_conf f = Some (job_id f)"
  "cf_dec sample_conf line = Some \<lparr>in_job_id = ''j1'', command = line, in_params = Map.empty,
     in_role = Guest\<rparr>"
  "cf_registry sample_conf = build_default_registry False sample_env"
  by (simp_all add: sample_conf_def)

lemma sample_run: "run_agent sample_conf sample_events agent_init = Some sample_parked"
  by (simp add: sample_events_def agent_init_def sample_parked_def connect_ok_def on_live_def
      read_text_def sample_spawn emit_def recv_frame_def send_frame_def send_progress_def
      end_connection_def backoff_eq sample_conf_fields RECONNECT_DELAYS_SECS_def)

lemma sample_reach: "reach sample_conf sample_parked"
  using reach_run [OF reach_init sample_run] .

definition sample_done :: agent where
  "sample_done = sample_parked\<lparr>conn := Connected, pending := None,
     written := [(0, sample_frame)]\<rparr>"

lemma sample_done_step: "agent_step sample_conf (ConnectOk True) sample_parked = Some sample_done"
  by (simp add: sample_parked_def sample_done_def connect_ok_def send_frame_def send_progress_def
      sample_conf_fields)

lemma sample_done_reach: "reach sample_conf sample_done"
  by (rule reach_step [OF sample_reach sample_done_step])


text \<open>
  C5: No frame is lost, doubled or reordered across reconnects: at every moment the frames
  put into the channel, leaving out any that do not serialize, are what the sockets took so
  far, then the parked frame, then the channel; and on a live connection the parking place
  is empty, so parking a frame never overwrites another.
\<close>

theorem frames_conserved:
  assumes "reach cf a"
  shows "filter (sendable cf) (emitted a) = written a @ filter (sendable cf) (in_flight a)
    \<and> (conn a = Connected \<longrightarrow> pending a = None)"
  using reach_conserved [OF assms] by (simp add: conserved_def slot_free_def)

theorem frames_conserved_witness:
  "pending sample_parked = Some (0, sample_frame)
   \<and> filter (sendable sample_conf) (emitted sample_parked)
     = written sample_parked @ filter (sendable sample_conf) (in_flight sample_parked)"
  using frames_conserved [OF sample_reach] by (simp add: sample_parked_def)

text \<open>
  C6: What a backend has received of one command is always a prefix, in order, of the
  frames that command's run reports.
\<close>

theorem command_frames_in_order:
  assumes "reach cf a" and "i < length (workers a)"
  shows "\<exists>rest s. frames_of i (written a) @ rest
    = filter (\<lambda>f. cf_ser cf f \<noteq> None)
        (fst (handle_command (cf_registry cf) (cf_shell cf) (w_cmd (workers a ! i)) s))"
proof -
  obtain s where "w_frames (workers a ! i)
      = fst (handle_command (cf_registry cf) (cf_shell cf) (w_cmd (workers a ! i)) s)"
    using reach_workers [OF assms(1)] assms(2) unfolding workers_ok_def by blast
  with reach_prefix [OF assms] show ?thesis by metis
qed

theorem command_frames_in_order_witness:
  "0 < length (workers sample_done) \<and> (\<exists>rest s. frames_of 0 (written sample_done) @ rest
    = filter (\<lambda>f. cf_ser sample_conf f \<noteq> None)
        (fst (handle_command (cf_registry sample_conf) (cf_shell sample_conf)
           (w_cmd (workers sample_done ! 0)) s)))"
  using command_frames_in_order [OF sample_done_reach, of 0]
  by (simp add: sample_done_def sample_parked_def)



text \<open>
  C8: A dropped connection never makes delivery impossible: from every reachable state some
  further behaviour of the network and the workers gets every frame of every accepted
  command to the backend.
\<close>

theorem delivery_stays_possible:
  assumes r: "reach cf a" and req: "cf_request cf = Inr req"
  shows "\<exists>es a'. run_agent cf es a = Some a' \<and> settled a' \<and> length (workers a') = length (workers a)
    \<and> (\<forall>i < length (workers a'). frames_of i (written a')
         = filter (\<lambda>f. cf_ser cf f \<noteq> None) (w_frames (workers a' ! i)))"
proof -
  obtain es a' where a': "run_agent cf es a = Some a'" "settled a'"
    "length (workers a') = length (workers a)"
    using can_settle [OF r req] by blast
  with settled_delivered [OF reach_run [OF r a'(1)] a'(2)] show ?thesis by blast
qed

theorem delivery_stays_possible_witness:
  "pending sample_parked \<noteq> None \<and>
   (\<exists>es a'. run_agent sample_conf es sample_parked = Some a' \<and> settled a'
     \<and> length (workers a') = length (workers sample_parked))"
  using delivery_stays_possible [OF sample_reach sample_conf_fields(1)]
  by (auto simp: sample_parked_def)

text \<open>
  C9: The reconnect delays: after any history of connection ends, a supersede waits 300
  seconds, and any other end waits 1, 2, 5, 10 and from then on 30 seconds according to how
  many ends before it count. A supersede does not count and does not reset the count; a
  connection that lived for 60 seconds or more, the one that just ended included, resets it.
\<close>

theorem reconnect_delays:
  assumes "i < length ends"
  shows "length (backoff_run ends 0) = length ends
    \<and> backoff_run ends 0 ! i = (if fst (ends ! i) = Superseded then 300
        else [1, 2, 5, 10, 30] ! min (failures_before ends i) 4)"
  using backoff_run_failures [OF assms] by simp

theorem reconnect_delays_witness:
  "backoff_run [(Failed, 0), (Normal, 5), (Superseded, 3), (Failed, 1)] 0 ! 3 = 5"
proof -
  have "failures_before [(Failed, 0), (Normal, 5), (Superseded, 3), (Failed, 1)] 3 = 2"
    by code_simp
  with reconnect_delays [of 3 "[(Failed, 0), (Normal, 5), (Superseded, 3), (Failed, 1)]"]
  show ?thesis by simp
qed

section \<open>What reaches the shell\<close>

text \<open>Runs of single handlers against the mock, for the witnesses below.\<close>

definition sample_ctx :: "(string \<rightharpoonup> string) \<Rightarrow> mock CommandContext" where
  "sample_ctx ps = \<lparr>params = ps, shell = MockPowerShell_run\<rparr>"

lemmas sample_run_simps = sample_ctx_def required_def param_def param_or_def cmd_run_simps
  MockPowerShell_run_def MockPowerShell_new_def require_success_def succeeded_def Let_def

definition linux_sample_path :: string where
  "linux_sample_path = ''/var/lib/pki-executor/transfer/a.req''"

lemma sample_linux_write:
  "\<exists>v t s'. LinuxFileWrite_execute
       (sample_ctx [''path'' \<mapsto> linux_sample_path, ''contentB64'' \<mapsto> ''QUJD''])
       MockPowerShell_new = (Inr v, t, s')
     \<and> shell_runs t = [(script_LinuxFileWrite, [linux_sample_path, ''QUJD''])]"
proof -
  have "linux_relay_path_ok linux_sample_path" by code_simp
  moreover have "list_all (\<lambda>c. is_ascii_alphanumeric c \<or> c \<in> set ''+/='') ''QUJD''" by code_simp
  ultimately show ?thesis
    by (simp add: LinuxFileWrite_execute_def sample_run_simps finish_def linux_RELAY_CAP_B64_def
        linux_RELAY_CAP_BYTES_def)
qed

text \<open>
  C11: On Linux the file relay stays inside its allowlist: whatever path a caller gives, a
  path that reaches the read or the write script resolves, dot segments included, to
  something below one of the two allowed directories.
\<close>

theorem linux_relay_stays_inside:
  assumes "LinuxFileWrite_execute ctx s = (r, t, s') \<or> LinuxFileRead_execute from_str ctx s = (r, t, s')"
    and "(sc, args) \<in> set (shell_runs t)"
  shows "\<exists>prefix rest. prefix \<in> set linux_ALLOWED_PREFIXES
    \<and> resolve (CHR ''/'') (args ! 0) = resolve (CHR ''/'') prefix @ rest"
  using assms(1)
proof
  assume "LinuxFileWrite_execute ctx s = (r, t, s')"
  from runs_onlyD [OF LinuxFileWrite_runs this assms(2)] show ?thesis
    by (intro linux_relay_confined) blast
next
  assume "LinuxFileRead_execute from_str ctx s = (r, t, s')"
  from runs_onlyD [OF LinuxFileRead_runs this assms(2)] show ?thesis
    by (intro linux_relay_confined) blast
qed

theorem linux_relay_stays_inside_witness:
  "\<exists>prefix rest. prefix \<in> set linux_ALLOWED_PREFIXES
    \<and> resolve (CHR ''/'') linux_sample_path = resolve (CHR ''/'') prefix @ rest"
proof -
  obtain v t s' where w: "LinuxFileWrite_execute
       (sample_ctx [''path'' \<mapsto> linux_sample_path, ''contentB64'' \<mapsto> ''QUJD''])
       MockPowerShell_new = (Inr v, t, s')"
    and t: "shell_runs t = [(script_LinuxFileWrite, [linux_sample_path, ''QUJD''])]"
    using sample_linux_write by blast
  from linux_relay_stays_inside [OF disjI1 [OF w], of script_LinuxFileWrite
      "[linux_sample_path, ''QUJD'']"]
  show ?thesis by (simp add: t)
qed

definition windows_sample_path :: string where
  "windows_sample_path = ''C:'' @ backslash @ ''Transfer'' @ backslash @ ''a.req''"

lemma sample_windows_write:
  "\<exists>v t s'. FileWrite_execute
       (sample_ctx [''path'' \<mapsto> windows_sample_path, ''contentB64'' \<mapsto> ''QUJD''])
       MockPowerShell_new = (Inr v, t, s')
     \<and> shell_runs t = [(script_FileWrite, [windows_sample_path, ''QUJD''])]"
proof -
  have "relay_path_ok windows_sample_path" by code_simp
  moreover have "b64_ok ''QUJD''" by code_simp
  ultimately show ?thesis
    by (simp add: FileWrite_execute_def sample_run_simps finish_def RELAY_CAP_B64_def)
qed

text \<open>
  C12: On Windows the same, up to letter case, which the file system ignores, and with the
  backslash as the separator (no accepted path has a slash).
\<close>

theorem windows_relay_stays_inside:
  assumes "FileWrite_execute ctx s = (r, t, s') \<or> FileRead_execute from_str ctx s = (r, t, s')"
    and "(sc, args) \<in> set (shell_runs t)"
  shows "CHR ''/'' \<notin> set (args ! 0) \<and> (\<exists>prefix rest. prefix \<in> set ALLOWED_PREFIXES
    \<and> resolve (CHR 0x5C) (to_ascii_lowercase (args ! 0))
        = resolve (CHR 0x5C) (to_ascii_lowercase prefix) @ rest)"
proof -
  have ok: "relay_path_ok (args ! 0)"
    using assms(1)
  proof
    assume "FileWrite_execute ctx s = (r, t, s')"
    from runs_onlyD [OF FileWrite_runs this assms(2)] show ?thesis by blast
  next
    assume "FileRead_execute from_str ctx s = (r, t, s')"
    from runs_onlyD [OF FileRead_runs this assms(2)] show ?thesis by blast
  qed
  then have "valid_windows_path (args ! 0)" by (simp add: relay_path_ok_def)
  then have "CHR ''/'' \<notin> set (args ! 0)"
    by (elim valid_windows_path_cases) (auto simp: char_class_defs)
  with windows_relay_confined [OF ok] show ?thesis by blast
qed

theorem windows_relay_stays_inside_witness:
  "\<exists>prefix rest. prefix \<in> set ALLOWED_PREFIXES
    \<and> resolve (CHR 0x5C) (to_ascii_lowercase windows_sample_path)
        = resolve (CHR 0x5C) (to_ascii_lowercase prefix) @ rest"
proof -
  obtain v t s' where w: "FileWrite_execute
       (sample_ctx [''path'' \<mapsto> windows_sample_path, ''contentB64'' \<mapsto> ''QUJD''])
       MockPowerShell_new = (Inr v, t, s')"
    and t: "shell_runs t = [(script_FileWrite, [windows_sample_path, ''QUJD''])]"
    using sample_windows_write by blast
  from windows_relay_stays_inside [OF disjI1 [OF w], of script_FileWrite
      "[windows_sample_path, ''QUJD'']"]
  show ?thesis by (simp add: t)
qed

definition sample_answer :: "PowerShellError + PowerShellOutput" where
  "sample_answer = Inr \<lparr>stdout = ''HasSucceeded : True'', stderr = [], exit_code = 0\<rparr>"

text \<open>
  C13: Secrets do not leak to the backend: for each of the five commands that take a
  password and a given answer of the shell, the frames of the job, its progress, result or
  error, are the same whichever of two acceptable passwords was given; and so with two
  unacceptable ones.
\<close>

theorem secrets_stay_out_of_frames:
  assumes "(command cmd, key) \<in> set SECRET_PARAMETERS"
    and "valid_secret x = valid_secret y"
  shows "fst (handle_command (build_default_registry unix env :: 's CommandRegistry) (answering a)
        (cmd\<lparr>in_params := ps(key \<mapsto> x)\<rparr>) s)
    = fst (handle_command (build_default_registry unix env) (answering a)
        (cmd\<lparr>in_params := ps(key \<mapsto> y)\<rparr>) s)"
proof -
  obtain h where h: "map_of (build_default_registry unix env :: 's CommandRegistry) (command cmd) = Some h"
    and hid: "hides valid_secret key (h_execute h)"
    using secret_handlers assms(1) unfolding list_all_iff by blast
  show ?thesis by (rule hidden_in_frames [OF hid h assms(2)])
qed

theorem secrets_stay_out_of_frames_witness:
  "fst (handle_command (build_default_registry False sample_env) (answering sample_answer)
     \<lparr>in_job_id = ''j1'', command = ''domain.join'', in_params = [''username'' \<mapsto> ''admin'',
       ''domainName'' \<mapsto> ''encon.pki'', ''password'' \<mapsto> ''Passw0rd''], in_role = Operator\<rparr> MockPowerShell_new)
   = fst (handle_command (build_default_registry False sample_env) (answering sample_answer)
     \<lparr>in_job_id = ''j1'', command = ''domain.join'', in_params = [''username'' \<mapsto> ''admin'',
       ''domainName'' \<mapsto> ''encon.pki'', ''password'' \<mapsto> ''An0ther!''], in_role = Operator\<rparr> MockPowerShell_new)"
proof -
  have "valid_secret ''Passw0rd'' = valid_secret ''An0ther!''" by code_simp
  from secrets_stay_out_of_frames [of "\<lparr>in_job_id = ''j1'', command = ''domain.join'',
      in_params = Map.empty, in_role = Operator\<rparr>" "''password''", OF _ this]
  show ?thesis by (simp add: SECRET_PARAMETERS_def)
qed

text \<open>
  C14: The managed block of \<^verbatim>\<open>/etc/hosts\<close>: an accepted block is the input without its blank
  lines, line for line and in order, the words of each line one space apart; every line,
  read back, is an address and valid host names and nothing else; neither of the two block
  markers can occur in it.
\<close>

theorem hosts_block:
  assumes "parse_hosts_entries raw = Inr block"
  shows "lines_of block = map hosts_entry (filter (\<lambda>line. trim line \<noteq> []) (lines_of raw))
    \<and> lines_of block \<noteq> [] \<and> list_all hosts_line_ok (lines_of block)
    \<and> HOSTS_BEGIN \<notin> set (lines_of block) \<and> HOSTS_END \<notin> set (lines_of block)"
  using parse_hosts_entries_lines [OF assms] hosts_markers_absent hosts_lines_entries
  by (fastforce simp: list_all_iff)

definition sample_entry :: string where
  "sample_entry = ''10.0.0.5 app.lab.test''"

lemma sample_hosts: "parse_hosts_entries (sample_entry @ newline) = Inr sample_entry"
proof -
  have l: "lines_of (sample_entry @ newline) = [sample_entry]" by code_simp
  have "ws_prefix sample_entry = 0" "ws_suffix sample_entry = 0" by code_simp+
  then have t: "trim sample_entry = sample_entry"
    by (simp add: trim_def trim_start_noop trim_end_noop)
  have w: "split_whitespace sample_entry = [''10.0.0.5'', ''app.lab.test'']" by code_simp
  have i: "valid_ipv4 ''10.0.0.5''"
    by (simp add: valid_ipv4_def parse_uint_def digits_val_def char_class_defs)
  have n: "valid_dns_name ''app.lab.test''" by code_simp
  have j: "''10.0.0.5'' @ '' '' @ join '' '' [''app.lab.test''] = sample_entry"
    by (simp add: sample_entry_def)
  have "sample_entry \<noteq> []" by (simp add: sample_entry_def)
  with i n j t w show ?thesis
    by (simp add: parse_hosts_entries_def l Let_def)
qed

theorem hosts_block_witness: "list_all hosts_line_ok (lines_of sample_entry)"
  using hosts_block [OF sample_hosts] by blast

text \<open>
  C15: The cryptography a CA is installed with is consistent, for either tier: the provider,
  the key length and the hash handed to the script belong to the requested algorithm, and
  for ML-DSA-87 they are its provider, 20736 bits and no hash, whatever else was asked.
\<close>

theorem ca_crypto_consistent:
  assumes "CaInstall_execute ctx s = (r, t, s')" and "(sc, args) \<in> set (shell_runs t)"
  shows "crypto_args_ok ctx args
    \<and> (param_or ctx ''keyAlgorithm'' ''RSA'' = ''ML-DSA-87'' \<longrightarrow>
         args ! 1 = MLDSA_PROVIDER \<and> args ! 2 = MLDSA_KEY_LENGTH_BITS \<and> args ! 3 = ''NoHash'')"
proof -
  have ok: "crypto_args_ok ctx args" using runs_onlyD [OF CaInstall_runs assms] by blast
  then show ?thesis
    by (auto simp: crypto_args_ok_def crypto_consistent_def unwrap_or_default_def)
qed

lemma sample_ca_install:
  "\<exists>v t s'. CaInstall_execute
       (sample_ctx [''commonName'' \<mapsto> ''Root CA'', ''keyAlgorithm'' \<mapsto> ''ML-DSA-87'',
          ''keyLength'' \<mapsto> ''4096''])
       MockPowerShell_new = (Inr v, t, s')
     \<and> shell_runs t = [(script_CaInstall_root,
          [''Root CA'', MLDSA_PROVIDER, MLDSA_KEY_LENGTH_BITS, ''NoHash'', ''20''])]"
proof -
  have "valid_common_name ''Root CA''" by code_simp
  moreover have "years_ok ''20''"
    by (simp add: years_ok_def parse_uint_def digits_val_def char_class_defs)
  ultimately show ?thesis
    by (simp add: CaInstall_execute_def CaInstall_execute_root_def sample_run_simps finish_def
        CA_TYPES_def crypto_params_def crypto_key_length_def crypto_hash_def KEY_ALGORITHMS_def
        cng_provider_def unwrap_or_default_def)
qed

theorem ca_crypto_consistent_witness:
  "crypto_args_ok (sample_ctx [''commonName'' \<mapsto> ''Root CA'', ''keyAlgorithm'' \<mapsto> ''ML-DSA-87'',
       ''keyLength'' \<mapsto> ''4096''])
     [''Root CA'', MLDSA_PROVIDER, MLDSA_KEY_LENGTH_BITS, ''NoHash'', ''20'']"
proof -
  let ?ctx = "sample_ctx [''commonName'' \<mapsto> ''Root CA'', ''keyAlgorithm'' \<mapsto> ''ML-DSA-87'',
       ''keyLength'' \<mapsto> ''4096'']"
  obtain v t s' where w: "CaInstall_execute ?ctx MockPowerShell_new = (Inr v, t, s')"
    and t: "shell_runs t = [(script_CaInstall_root,
          [''Root CA'', MLDSA_PROVIDER, MLDSA_KEY_LENGTH_BITS, ''NoHash'', ''20''])]"
    using sample_ca_install by blast
  from ca_crypto_consistent [OF w, of script_CaInstall_root
      "[''Root CA'', MLDSA_PROVIDER, MLDSA_KEY_LENGTH_BITS, ''NoHash'', ''20'']"]
  show ?thesis by (simp add: t)
qed

text \<open>
  C16: \<^verbatim>\<open>ca.configure_settings\<close> reports what it applied and nothing else: the result's
  object has, for each of the ten settings, the given value when one was given and not
  empty, no other key, and is never empty.
\<close>

theorem settings_applied_exactly:
  assumes "CaConfigureSettings_execute ctx s = (Inr v, t, s')"
  shows "\<exists>applied. v = json_obj [(''applied'', JObject applied)] \<and> applied \<noteq> []
    \<and> (\<forall>k. map_of applied k =
         (if k \<in> set SETTING_KEYS \<and> param_or ctx k [] \<noteq> []
          then Some (JString (param_or ctx k [])) else None))"
proof -
  obtain applied where a: "v = json_obj [(''applied'', JObject applied)]" "applied \<noteq> []"
    "applied_exactly ctx applied"
    using wp_run [OF CaConfigureSettings_applied assms] by blast
  have "distinct SETTING_KEYS" by (simp add: SETTING_KEYS_def)
  then have "map_of applied k = (if k \<in> set SETTING_KEYS \<and> param_or ctx k [] \<noteq> []
      then Some (JString (param_or ctx k [])) else None)" for k
    using a(3) by (simp add: applied_exactly_def add_settings)
  with a show ?thesis by blast
qed

theorem settings_applied_exactly_witness:
  "\<exists>v t s' applied. CaConfigureSettings_execute
       (sample_ctx [''crlPeriod'' \<mapsto> ''Weeks'']) MockPowerShell_new = (Inr v, t, s')
     \<and> v = json_obj [(''applied'', JObject applied)]
     \<and> map_of applied ''crlPeriod'' = Some (JString ''Weeks'')
     \<and> map_of applied ''validityPeriod'' = None"
proof -
  let ?ctx = "sample_ctx [''crlPeriod'' \<mapsto> ''Weeks'']"
  have "\<exists>v t s'. CaConfigureSettings_execute ?ctx MockPowerShell_new = (Inr v, t, s')"
    by (simp add: CaConfigureSettings_execute_def sample_run_simps finish_def unit_of_def
        period_of_def PERIODS_def)
  then obtain v t s' where w: "CaConfigureSettings_execute ?ctx MockPowerShell_new = (Inr v, t, s')"
    by blast
  from settings_applied_exactly [OF this] obtain applied
    where a: "v = json_obj [(''applied'', JObject applied)]"
      and m: "\<forall>k. map_of applied k =
         (if k \<in> set SETTING_KEYS \<and> param_or ?ctx k [] \<noteq> []
          then Some (JString (param_or ?ctx k [])) else None)"
    by blast
  have "map_of applied ''crlPeriod'' = Some (JString ''Weeks'')"
    "map_of applied ''validityPeriod'' = None"
    using m by (simp_all add: SETTING_KEYS_def sample_ctx_def param_or_def param_def)
  with w a show ?thesis by blast
qed

text \<open>
  C17: The records \<^verbatim>\<open>dns.apply_resources\<close> hands to its script are the text that was
  validated, byte for byte: it decodes to between 1 and 32 records, each well formed for its
  kind.
\<close>

theorem dns_records_validated:
  assumes "DnsApplyResources_execute from_str dec ctx s = (r, t, s')"
    and "(sc, args) \<in> set (shell_runs t)"
  shows "\<exists>raw rs. args = [raw] \<and> dec raw = Some rs \<and> rs \<noteq> [] \<and> length rs \<le> 32
    \<and> list_all well_formed_record rs"
proof -
  from runs_onlyD [OF DnsApplyResources_runs assms] have "length args = 1"
    and "\<exists>rs. dec (args ! 0) = Some rs \<and> rs \<noteq> [] \<and> length rs \<le> MAX_DNS_RESOURCES
        \<and> list_all well_formed_record rs"
    by auto
  then show ?thesis by (cases args) (auto simp: MAX_DNS_RESOURCES_def)
qed

definition sample_record :: PlannedDnsRecord where
  "sample_record = \<lparr>rec_id = ''r1'', rec_kind = KindCname, rec_zone = ''lab.test'',
     rec_name = ''pki'', rec_value = ''srv1.lab.test''\<rparr>"

theorem dns_records_validated_witness:
  "\<exists>t s'. (\<exists>v. DnsApplyResources_execute (\<lambda>_. None) (\<lambda>_. Some [sample_record])
       (sample_ctx [''records'' \<mapsto> ''R'']) MockPowerShell_new = (Inr v, t, s'))
     \<and> shell_runs t = [(script_DnsApplyResources, [''R''])]
     \<and> list_all well_formed_record [sample_record]"
proof -
  have c: "check_records [sample_record] = None"
  proof -
    have "valid_dns_name ''lab.test''" "valid_single_label ''pki''"
      "valid_dns_name ''srv1.lab.test''"
      "list_all (\<lambda>c. is_ascii_alphanumeric c \<or> c \<in> set '':_-'') ''r1''"
      by code_simp+
    then show ?thesis by (simp add: check_record_def sample_record_def)
  qed
  have "\<exists>v t s'. DnsApplyResources_execute (\<lambda>_. None) (\<lambda>_. Some [sample_record])
       (sample_ctx [''records'' \<mapsto> ''R'']) MockPowerShell_new = (Inr v, t, s')
     \<and> shell_runs t = [(script_DnsApplyResources, [''R''])]"
    using c by (simp add: DnsApplyResources_execute_def parse_planned_records_def sample_run_simps
        finish_def MAX_DNS_RESOURCES_def del: check_records.simps)
  then obtain v t s' where w: "DnsApplyResources_execute (\<lambda>_. None) (\<lambda>_. Some [sample_record])
       (sample_ctx [''records'' \<mapsto> ''R'']) MockPowerShell_new = (Inr v, t, s')"
    and t: "shell_runs t = [(script_DnsApplyResources, [''R''])]" by blast
  from dns_records_validated [OF w, of script_DnsApplyResources "[''R'']"] w t
  show ?thesis by auto
qed

text \<open>
  C18: The responder's signing flags satisfy the two documented constraints: exactly one
  source of the signing certificate is selected, and auto-enrollment comes with
  auto-discovery; the script gets their value as text.
\<close>

theorem ocsp_flags_valid:
  "filter (\<lambda>flag. and OCSP_SIGNING_FLAGS flag \<noteq> 0)
     [OCSP_SF_USE_CACERT, OCSP_SF_AUTODISCOVER_SIGNINGCERT, OCSP_SF_MANUAL_ASSIGN_SIGNINGCERT]
       = [OCSP_SF_AUTODISCOVER_SIGNINGCERT]
   \<and> and OCSP_SIGNING_FLAGS OCSP_SF_ALLOW_SIGNINGCERT_AUTOENROLLMENT \<noteq> 0
   \<and> runs_only [(script_OcspConfigureRevocation, 9)]
       (\<lambda>args. parse_uint 32 (args ! 7) = Some (unat OCSP_SIGNING_FLAGS))
       (OcspConfigureRevocation_execute ctx)"
proof (intro conjI)
  show "runs_only [(script_OcspConfigureRevocation, 9)]
       (\<lambda>args. parse_uint 32 (args ! 7) = Some (unat OCSP_SIGNING_FLAGS))
       (OcspConfigureRevocation_execute ctx)"
    by (rule runs_only_mono [OF OcspConfigureRevocation_runs]) auto
  show "and OCSP_SIGNING_FLAGS OCSP_SF_ALLOW_SIGNINGCERT_AUTOENROLLMENT \<noteq> 0"
    by (simp add: ocsp_flag_defs)
qed (rule signing_flags_sources)

text \<open>
  C19: Every command but the arbitrary one runs only its own constant scripts, for every
  role, and gives each the fixed number of arguments.
\<close>

theorem scripts_are_fixed:
  assumes "dispatch (build_default_registry unix env :: 's CommandRegistry) name rl ps sh s
      = (r, t, s')"
    and "name \<noteq> ''powershell.exec_arbitrary''"
  shows "set (map (\<lambda>(sc, args). (sc, length args)) (shell_runs t)) \<subseteq> set (script_table unix name)"
  using dispatch_scripts [OF assms] by auto

theorem scripts_are_fixed_witness:
  "\<exists>t. shell_runs t \<noteq> [] \<and>
     set (map (\<lambda>(sc, args). (sc, length args)) (shell_runs t)) \<subseteq> set (script_table False ''file.write'')"
proof -
  from sample_write obtain v t
    where d: "dispatch sample_registry ''file.write'' Guest sample_write_params MockPowerShell_run
       MockPowerShell_new = (Inr v, t, MockPowerShell_new\<lparr>calls := [script_FileWrite]\<rparr>)"
      and t: "shell_runs t \<noteq> []" by force
  from scripts_are_fixed [OF d [unfolded sample_registry_def]] t show ?thesis by auto
qed

text \<open>
  C20: The arguments of a call are the parameters of its script: whatever is dispatched (the
  arbitrary command apart), by whom and on which platform, a script that reaches the shell
  gets exactly as many arguments as its text takes, a PowerShell script by its \<^verbatim>\<open>param()\<close>
  block, a POSIX script by its positional parameters.
\<close>

theorem script_arguments_fit:
  assumes "dispatch (build_default_registry unix env :: 's CommandRegistry) name rl ps sh s
      = (r, t, s')"
    and "name \<noteq> ''powershell.exec_arbitrary''"
    and "(sc, args) \<in> set (shell_runs t)"
  shows "script_takes sc (length args)"
  by (rule table_takes, rule dispatch_scripts [OF assms])

theorem script_arguments_fit_witness:
  "script_takes script_FileWrite
     (length [''C:'' @ backslash @ ''Transfer'' @ backslash @ ''a.req'', ''QUJD''])"
proof -
  from sample_write obtain v t
    where d: "dispatch sample_registry ''file.write'' Guest sample_write_params MockPowerShell_run
       MockPowerShell_new = (Inr v, t, MockPowerShell_new\<lparr>calls := [script_FileWrite]\<rparr>)"
      and t: "shell_runs t = [(script_FileWrite,
         [''C:'' @ backslash @ ''Transfer'' @ backslash @ ''a.req'', ''QUJD''])]" by blast
  show ?thesis
    by (rule script_arguments_fit [OF d [unfolded sample_registry_def]]) (simp_all add: t)
qed

text \<open>
  C10: No argument of a script can be taken for an option. The executor passes arguments
  after \<^verbatim>\<open>-File\<close>, where PowerShell reads one that begins with a dash as a parameter name;
  whatever is dispatched (the arbitrary command apart), by whom and with what parameters,
  an argument begins with a dash only at the few positions \<open>dash_positions\<close> lists for the
  command. None of them holds a password.
\<close>

theorem arguments_are_not_options:
  assumes "dispatch (build_default_registry unix env :: 's CommandRegistry) name rl ps sh s
      = (r, t, s')"
    and "name \<noteq> ''powershell.exec_arbitrary''"
    and "(sc, args) \<in> set (shell_runs t)" and "i < length args"
    and "i \<notin> set (dash_positions name)"
  shows "no_dash (args ! i)"
  using assms by (rule dispatch_dash_free)

theorem arguments_are_not_options_witness:
  "no_dash ([''C:'' @ backslash @ ''Transfer'' @ backslash @ ''a.req'', ''QUJD''] ! 1)"
proof -
  let ?args = "[''C:'' @ backslash @ ''Transfer'' @ backslash @ ''a.req'', ''QUJD'']"
  from sample_write obtain v t
    where d: "dispatch sample_registry ''file.write'' Guest sample_write_params MockPowerShell_run
       MockPowerShell_new = (Inr v, t, MockPowerShell_new\<lparr>calls := [script_FileWrite]\<rparr>)"
      and t: "shell_runs t = [(script_FileWrite, ?args)]" by blast
  have "(script_FileWrite, ?args) \<in> set (shell_runs t)" by (simp add: t)
  moreover have "1 \<notin> set (dash_positions ''file.write'')"
    by (simp add: dash_positions_def open_positions_def)
  ultimately show ?thesis
    using arguments_are_not_options [OF d [unfolded sample_registry_def]] by simp
qed

section \<open>The executors\<close>

text \<open>
  C36: A command's parameters are its listed ones: whoever dispatches it, on either platform,
  two parameter maps that agree on the keys of its handler have the same outcome, the same
  events and the same effect, whatever else they hold.
\<close>

theorem only_listed_parameters_matter:
  assumes "\<forall>k \<in> set (command_parameters name). ps k = ps' k"
  shows "dispatch (build_default_registry unix env) name rl ps sh s
    = dispatch (build_default_registry unix env) name rl ps' sh s"
proof -
  have "only (command_parameters name) ps = only (command_parameters name) ps'"
    using assms by (auto simp: only_def)
  then show ?thesis
    using dispatch_reads [of unix env name rl ps sh s] dispatch_reads [of unix env name rl ps' sh s]
    by simp
qed

theorem only_listed_parameters_matter_witness:
  "dispatch sample_registry ''hostname.rename'' Operator [''name'' \<mapsto> ''CA02''] MockPowerShell_run
     MockPowerShell_new
   = dispatch sample_registry ''hostname.rename'' Operator [''name'' \<mapsto> ''CA02'', ''Name'' \<mapsto> ''x'']
     MockPowerShell_run MockPowerShell_new"
  unfolding sample_registry_def
  by (rule only_listed_parameters_matter) (simp add: command_parameters_def PARAMETERS_def)

text \<open>
  C21: No temporary script is left behind: whichever interpreter is chosen and whatever
  fails, the temporary files after a run are those before it.
\<close>

theorem no_script_left_behind:
  assumes "temp_laws os files"
  shows "files (snd (build_shell windows os binary script args s)) = files s"
  using assms by (rule build_shell_files)

text \<open>A machine whose state is the list of its temporary files.\<close>

definition sample_os :: "string list os_ops" where
  "sample_os = \<lparr>
     os_tempfile = (\<lambda>pre suf s. (Inr (concat s @ pre @ suf @ ''x''), (concat s @ pre @ suf @ ''x'') # s)),
     os_write_all = (\<lambda>path txt s. (Inr (), s)),
     os_output = (\<lambda>binary args s. (Inl ''no such program'', s)),
     os_remove = (\<lambda>path s. filter (\<lambda>p. p \<noteq> path) s)\<rparr>"

lemma length_concat_member: "p \<in> set s \<Longrightarrow> length p \<le> length (concat s)"
  by (induction s) auto

lemma sample_os_laws: "temp_laws sample_os set"
proof -
  have "concat s @ pre @ suf @ ''x'' \<notin> set s" for s :: "string list" and pre suf
    using length_concat_member [of "concat s @ pre @ suf @ ''x''" s] by auto
  then show ?thesis by (auto simp: temp_laws_def sample_os_def)
qed

theorem no_script_left_behind_witness:
  "set (snd (build_shell False sample_os ''/bin/bash'' ''ls'' [] [''kept''])) = {''kept''}"
  using no_script_left_behind [OF sample_os_laws, of False "''/bin/bash''" "''ls''" "[]" "[''kept'']"]
  by simp

section \<open>The connect request\<close>

text \<open>
  What the \<^verbatim>\<open>url\<close> crate documents of the two calls the agent makes, with the host and the path
  as observers: a scheme is set to \<^verbatim>\<open>ws\<close> or \<^verbatim>\<open>wss\<close> or not at all; these are special schemes, so
  the URL has a host and a path, and a path of unreserved characters that begins with a
  slash is set as it is.
\<close>

definition url_laws :: "'u url_ops \<Rightarrow> ('u \<Rightarrow> string) \<Rightarrow> ('u \<Rightarrow> string) \<Rightarrow> bool" where
  "url_laws ops host path \<longleftrightarrow>
     (\<forall>u u'. \<forall>sch \<in> {''ws'', ''wss''}. url_set_scheme ops sch u = Some u' \<longrightarrow>
        url_scheme ops u' = sch \<and> host u' = host u)
   \<and> (\<forall>u. url_scheme ops u \<in> {''ws'', ''wss''} \<longrightarrow>
        (let u' = url_set_path ops ''/api/executor/connect'' u in
         path u' = ''/api/executor/connect'' \<and> host u' = host u
         \<and> url_scheme ops u' = url_scheme ops u))"

text \<open>
  C23: The agent connects to its backend's host, at the fixed path, with its identity in the
  headers; the connection is encrypted exactly when the configured URL is \<^verbatim>\<open>https\<close>. In
  particular a base URL that already says \<^verbatim>\<open>wss\<close> is connected to in the clear. (The README
  still says that the identity is in the query string; the code and its comment say
  headers.)
\<close>

theorem connect_request_target:
  assumes "connect_request ops icr hok config = Inr request" and "url_laws ops host path"
  shows "\<exists>base u0 u. url (backend config) = Some base \<and> url_parse ops base = Some u0
    \<and> url_scheme ops u = (if url_scheme ops u0 = ''https'' then ''wss'' else ''ws'')
    \<and> host u = host u0 \<and> path u = ''/api/executor/connect''
    \<and> (\<exists>raw. icr (url_as_str ops u) = Some raw \<and> req_uri request = req_uri raw)
    \<and> map_of (req_headers request) ''x-executor-vm-id'' = Some (vm_id (identity config))
    \<and> map_of (req_headers request) ''x-executor-token'' = Some (agent_token (identity config))"
proof -
  obtain u raw where u: "connect_url ops config = Inr u"
    and raw: "icr (url_as_str ops u) = Some raw" "req_uri request = req_uri raw"
    using connect_request_headers(3) [OF assms(1)] by blast
  from u obtain base u0 u1 where b: "url (backend config) = Some base"
    "url_parse ops base = Some u0"
    "url_set_scheme ops (if url_scheme ops u0 = ''https'' then ''wss'' else ''ws'') u0 = Some u1"
    "u = url_set_path ops ''/api/executor/connect'' u1"
    by (auto simp: connect_url_Inr)
  have "url_scheme ops u = (if url_scheme ops u0 = ''https'' then ''wss'' else ''ws'')
      \<and> host u = host u0 \<and> path u = ''/api/executor/connect''"
    using assms(2) b(3,4) by (auto simp: url_laws_def Let_def split: if_splits)
  with b raw connect_request_headers(1,2) [OF assms(1)] show ?thesis by blast
qed

text \<open>URLs as scheme, host and path.\<close>

definition sample_urls :: "(string \<times> string \<times> string) url_ops" where
  "sample_urls = \<lparr>
     url_parse = (\<lambda>str. case split_once (CHR '':'') str of
        Some (sch, rest) \<Rightarrow> Some (sch, drop 2 rest, ''/'') | None \<Rightarrow> None),
     url_scheme = (\<lambda>(sch, h, p). sch),
     url_set_scheme = (\<lambda>sch (_, h, p). Some (sch, h, p)),
     url_set_path = (\<lambda>p (sch, h, _). (sch, h, p)),
     url_as_str = (\<lambda>(sch, h, p). sch @ ''://'' @ h @ p)\<rparr>"

definition sample_config :: ExecutorConfig where
  "sample_config = \<lparr>identity = \<lparr>vm_id = ''vm1'', agent_token = ''t0k'', role = Guest\<rparr>,
     backend = \<lparr>url = Some ''wss://host''\<rparr>, execution = ExecutionConfig_default False,
     service = ServiceConfig_default\<rparr>"

theorem connect_request_target_witness:
  "\<exists>request. connect_request sample_urls (\<lambda>str. Some \<lparr>req_uri = str, req_headers = []\<rparr>)
       (\<lambda>_. True) sample_config = Inr request
     \<and> map_of (req_headers request) ''x-executor-token'' = Some ''t0k''
     \<and> req_uri request = ''ws://host/api/executor/connect''"
proof -
  have "\<exists>request. connect_request sample_urls (\<lambda>str. Some \<lparr>req_uri = str, req_headers = []\<rparr>)
       (\<lambda>_. True) sample_config = Inr request
     \<and> req_uri request = ''ws://host/api/executor/connect''"
    by (simp add: connect_request_def connect_url_def sample_urls_def sample_config_def Let_def)
  then obtain request where r: "connect_request sample_urls
      (\<lambda>str. Some \<lparr>req_uri = str, req_headers = []\<rparr>) (\<lambda>_. True) sample_config = Inr request"
    and uri: "req_uri request = ''ws://host/api/executor/connect''" by blast
  have "url_laws sample_urls (\<lambda>(sch, h, p). h) (\<lambda>(sch, h, p). p)"
    by (auto simp: url_laws_def sample_urls_def Let_def)
  from connect_request_target [OF r this] r uri show ?thesis
    by (auto simp: sample_config_def)
qed

section \<open>The command line and the configuration\<close>

text \<open>
  C24: Parameters survive the command line: a list of keys without an equals sign and any
  values, written as \<^verbatim>\<open>key=value\<close> arguments, is read back as that map, a later entry for a key
  winning.
\<close>

theorem params_roundtrip:
  assumes "\<forall>(k, v) \<in> set kvs. CHR ''='' \<notin> set k"
  shows "parse_params (show_params kvs) Map.empty = Inr (map_of (rev kvs))"
  using parse_show_params [OF assms, of Map.empty] by simp

theorem params_roundtrip_witness:
  "\<exists>m. parse_params [''dn=CN=a'', ''dn=CN=b'', ''x=''] Map.empty = Inr m
     \<and> m ''dn'' = Some ''CN=b'' \<and> m ''x'' = Some ''''"
proof -
  have "parse_params (show_params [(''dn'', ''CN=a''), (''dn'', ''CN=b''), (''x'', '''')]) Map.empty
      = Inr (map_of (rev [(''dn'', ''CN=a''), (''dn'', ''CN=b''), (''x'', '''')]))"
    by (rule params_roundtrip) simp
  then show ?thesis by (simp add: show_params_def)
qed



text \<open>
  C26: A configuration survives being written out and loaded again, defaults and optional
  fields included, when its timeout is a TOML integer.
\<close>

theorem config_roundtrip:
  assumes "uint (script_timeout_secs (execution c)) < 2 ^ 63"
    and "rd path = Some txt" and "tp txt = Some (ExecutorConfig_encode c)"
  shows "load_from_file windows rd tp path = Inr c"
  using decode_encode [OF assms(1)] assms(2,3) by (auto simp: load_from_file_Inr)

theorem config_roundtrip_witness:
  "load_from_file True (\<lambda>_. Some ''t'') (\<lambda>_. Some (ExecutorConfig_encode sample_config)) ''p''
     = Inr sample_config"
  by (rule config_roundtrip)
    (simp_all add: sample_config_def ExecutionConfig_default_def default_script_timeout_secs_def)

text \<open>
  C22: The two ways to run a command agree: for one configuration and one machine, the
  one-shot \<^verbatim>\<open>run\<close> leaves the machine as the agent does when it is sent the same command with
  the configured role. When the agent's last frame is a result, \<^verbatim>\<open>run\<close> prints the states of
  all frames and then that result; when it is an error, \<^verbatim>\<open>run\<close> prints the states before it and
  fails with the error that frame displays.
\<close>

theorem front_ends_agree:
  assumes c: "load_from_file windows rd tp path = Inr config"
    and p: "parse_params raw Map.empty = Inr ps"
    and o: "run_once windows env os rd tp ts tsp path name raw s = (r, out, s')"
    and f: "handle_command (cf_registry (loop_conf windows env os ops icr hok ser dec config))
        (cf_shell (loop_conf windows env os ops icr hok ser dec config))
        \<lparr>in_job_id = j, command = name, in_params = ps, in_role = role (identity config)\<rparr> s
      = (fs, s1)"
  shows "s' = s1
    \<and> (case op_result (state (last fs)) of
        Some v \<Rightarrow> status (state (last fs)) = Done
          \<and> r = (if tsp v = None then Inl PrintFailed else Inr ())
          \<and> out = frame_lines ts fs @ (case tsp v of Some txt \<Rightarrow> [txt] | None \<Rightarrow> [])
      | None \<Rightarrow> \<exists>e. r = Inl (DispatchFailed e)
          \<and> state (last fs) = OpRunState_error (DispatchError_display e)
          \<and> out = frame_lines ts (butlast fs))"
proof -
  let ?sh = "build_shell windows os (shell_binary (execution config))"
  obtain r0 t s0 where d: "dispatch (build_default_registry (\<not> windows) env) name
      (role (identity config)) ps ?sh s = (r0, t, s0)"
    by (metis prod_cases3)
  have fs: "fs = map (\<lambda>st. \<lparr>job_id = j, state = st\<rparr>) (reports t @ (case r0 of
      Inl e \<Rightarrow> [OpRunState_error (DispatchError_display e)] | Inr v \<Rightarrow> []))" and s1: "s1 = s0"
    using f same_command [OF d, of j] by (simp_all add: loop_conf_def)
  note keep = default_registry.dispatch_protocol [OF d]
  show ?thesis
  proof (cases r0)
    case (Inl e)
    then show ?thesis
      using o by (auto simp: run_once_def c p d fs s1 Let_def stdout_lines frame_lines_map
          OpRunState_error_def)
  next
    case (Inr v)
    with keep obtain st where t: "reports t = [st, OpRunState_done v]"
      by (auto simp: keeps_protocol_Inr)
    show ?thesis
      using o Inr by (auto simp: run_once_def c p d fs s1 t Let_def stdout_lines frame_lines_def
          map_filter_simps OpRunState_done_def split: option.splits)
  qed
qed

theorem front_ends_agree_witness:
  "\<exists>r out s' fs. run_once False sample_env sample_os (\<lambda>_. Some ''t'')
      (\<lambda>_. Some (ExecutorConfig_encode sample_config)) (\<lambda>_. Some ''p'') (\<lambda>_. Some ''v'') ''c''
      ''hostname.read'' [''a=b''] [''kept''] = (r, out, s')
    \<and> handle_command (cf_registry (loop_conf False sample_env sample_os sample_urls (\<lambda>_. None)
          (\<lambda>_. True) (\<lambda>_. None) (\<lambda>_. None) sample_config))
        (cf_shell (loop_conf False sample_env sample_os sample_urls (\<lambda>_. None)
          (\<lambda>_. True) (\<lambda>_. None) (\<lambda>_. None) sample_config))
        \<lparr>in_job_id = ''j'', command = ''hostname.read'', in_params = [''a'' \<mapsto> ''b''],
         in_role = role (identity sample_config)\<rparr> [''kept''] = (fs, s')"
proof -
  obtain r out s' where o: "run_once False sample_env sample_os (\<lambda>_. Some ''t'')
      (\<lambda>_. Some (ExecutorConfig_encode sample_config)) (\<lambda>_. Some ''p'') (\<lambda>_. Some ''v'') ''c''
      ''hostname.read'' [''a=b''] [''kept''] = (r, out, s')" by (metis prod_cases3)
  obtain fs s1 where f: "handle_command
      (cf_registry (loop_conf False sample_env sample_os sample_urls (\<lambda>_. None)
          (\<lambda>_. True) (\<lambda>_. None) (\<lambda>_. None) sample_config))
      (cf_shell (loop_conf False sample_env sample_os sample_urls (\<lambda>_. None)
          (\<lambda>_. True) (\<lambda>_. None) (\<lambda>_. None) sample_config))
      \<lparr>in_job_id = ''j'', command = ''hostname.read'', in_params = [''a'' \<mapsto> ''b''],
       in_role = role (identity sample_config)\<rparr> [''kept''] = (fs, s1)" by (metis surj_pair)
  have c: "load_from_file False (\<lambda>_. Some ''t'') (\<lambda>_. Some (ExecutorConfig_encode sample_config)) ''c''
      = Inr sample_config"
    using decode_encode [of sample_config]
    by (simp add: load_from_file_Inr sample_config_def ExecutionConfig_default_def
        default_script_timeout_secs_def)
  have p: "parse_params [''a=b''] Map.empty = Inr [''a'' \<mapsto> ''b'']" by simp
  from front_ends_agree [OF c p o f] o f show ?thesis by blast
qed






text \<open>
  C28: A closed gate gets one frame: when the command is not in the catalog, or is and the
  role lacks its capability, the job is the one error frame that says which, nothing runs
  and the state is as it was.
\<close>

theorem closed_gate_frame:
  assumes "\<nexists>c. (command cmd, wire_value c) \<in> set CATALOG \<and> role_has (in_role cmd) c"
  shows "\<exists>e. handle_command (build_default_registry unix env) sh cmd s =
      ([\<lparr>job_id = in_job_id cmd, state = OpRunState_error (DispatchError_display e)\<rparr>], s)
    \<and> (if command cmd \<in> fst ` set CATALOG
       then \<exists>c. (command cmd, wire_value c) \<in> set CATALOG
            \<and> e = Forbidden (command cmd) (in_role cmd) c
       else e = UnknownCommand (command cmd))"
proof (cases "map_of (build_default_registry unix env :: 'a CommandRegistry) (command cmd)")
  case None
  then have "command cmd \<notin> fst ` set CATALOG"
    by (metis catalog_in_default imageE option.distinct(1) prod.collapse)
  then show ?thesis by (simp add: handle_command_def dispatch_unknown [OF None] Let_def)
next
  case (Some h)
  from default_in_catalog [OF this]
  have c: "(command cmd, wire_value (h_capability h)) \<in> set CATALOG" .
  with assms have "\<not> role_has (in_role cmd) (h_capability h)" by blast
  with c show ?thesis
    by (force simp: handle_command_def dispatch_forbidden [OF Some] Let_def)
qed

theorem closed_gate_frame_witness:
  "\<exists>e. fst (handle_command (build_default_registry True sample_env) MockPowerShell_run
     \<lparr>in_job_id = ''j1'', command = ''hostname.rename'', in_params = Map.empty, in_role = Guest\<rparr>
     MockPowerShell_new) = [\<lparr>job_id = ''j1'', state = OpRunState_error (DispatchError_display e)\<rparr>]
   \<and> (\<exists>c. e = Forbidden ''hostname.rename'' Guest c)"
proof -
  have n: "\<nexists>c. (''hostname.rename'', wire_value c) \<in> set CATALOG \<and> role_has Guest c"
    by (intro notI, elim exE conjE, rename_tac c, case_tac c)
      (simp_all add: CATALOG_def guest_has_iff)
  have m: "''hostname.rename'' \<in> fst ` set CATALOG"
    by (simp add: CATALOG_def)
  note closed_gate_frame [of "\<lparr>in_job_id = ''j1'', command = ''hostname.rename'',
    in_params = Map.empty, in_role = Guest\<rparr>" True sample_env MockPowerShell_run MockPowerShell_new,
    unfolded InboundCommand.select_convs if_P [OF m], OF n]
  then show ?thesis by (metis fst_conv)
qed

text \<open>
  C29: A dispatch runs at most one script and makes at most two reports. When it returns a
  value it has reported that value as done, last, after one running state; when it fails it
  has reported nothing terminal, and when the gate was closed nothing at all.
\<close>

theorem dispatch_reports:
  assumes "dispatch (build_default_registry unix env) name rl ps sh s = (r, t, s')"
  shows "length (shell_runs t) \<le> 1 \<and> length (reports t) \<le> 2
    \<and> (case r of
        Inr v \<Rightarrow> \<exists>st. reports t = [st, OpRunState_done v] \<and> status st = Running
      | Inl e \<Rightarrow> (\<forall>st \<in> set (reports t). status st = Running)
          \<and> ((\<forall>ce. e \<noteq> CommandFailed ce) \<longrightarrow> t = []))"
proof -
  note p = default_registry.dispatch_protocol [OF assms]
  show ?thesis
  proof (cases r)
    case (Inl e)
    with p show ?thesis by (cases e) (auto simp: keeps_protocol_Inl)
  next
    case (Inr v)
    with p show ?thesis by (auto simp: keeps_protocol_Inr)
  qed
qed

theorem dispatch_reports_witness:
  "\<exists>v t st. reports t = [st, OpRunState_done v] \<and> status st = Running \<and> shell_runs t \<noteq> []"
proof -
  from sample_write obtain v t
    where d: "dispatch sample_registry ''file.write'' Guest sample_write_params MockPowerShell_run
       MockPowerShell_new = (Inr v, t, MockPowerShell_new\<lparr>calls := [script_FileWrite]\<rparr>)"
      and t: "shell_runs t \<noteq> []" by force
  from dispatch_reports [OF d [unfolded sample_registry_def]] t show ?thesis by auto
qed

text \<open>
  C30: No command reports success when its script failed: whichever of the commands it was, a
  script that could not be run, or that exits with another code than 0, makes the dispatch
  fail with that error, the exit code and the error text included; and nothing else is run
  after it.
\<close>

theorem failed_script_fails_command:
  assumes "dispatch (build_default_registry unix env) name rl ps sh s = (r, t, s')"
    and "(script, args) \<in> set (shell_runs t)"
  shows "case sh script args s of (a, s1) \<Rightarrow> s' = s1 \<and>
    (case a of
       Inl e \<Rightarrow> r = Inl (CommandFailed (ShellError e))
     | Inr out \<Rightarrow> exit_code out \<noteq> 0 \<longrightarrow>
         r = Inl (CommandFailed (ShellError (NonZeroExit (exit_code out) (stderr out)))))"
  using default_registry.dispatch_failed_script [OF assms] unfolding succeeded_def .

theorem failed_script_fails_command_witness:
  "\<exists>t s'. dispatch (build_default_registry False sample_env) ''ip.read'' Guest Map.empty
       (answering (Inr \<lparr>stdout = [], stderr = ''no adapter'', exit_code = 3\<rparr>)) ()
     = (Inl (CommandFailed (ShellError (NonZeroExit 3 ''no adapter''))), t, s')
     \<and> shell_runs t = [(script_IpRead, [])]"
proof -
  let ?sh = "answering (Inr \<lparr>stdout = [], stderr = ''no adapter'', exit_code = 3\<rparr>) :: unit executor"
  have l: "map_of (build_default_registry False sample_env :: unit CommandRegistry) ''ip.read''
      = Some (IpRead (json_from_str sample_env))"
    by (simp add: lookup_common common_handlers_def handler_defs)
  obtain r t s' where d: "dispatch (build_default_registry False sample_env) ''ip.read'' Guest Map.empty
      ?sh () = (r, t, s')" by (metis prod_cases3)
  then have t: "shell_runs t = [(script_IpRead, [])]"
    by (simp add: dispatch_def l IpRead_def guest_has_iff IpRead_execute_def cmd_run_simps
        answering_def succeeded_def)
      (auto split: if_splits)
  from failed_script_fails_command [OF d, of script_IpRead "[]"] t
  have "r = Inl (CommandFailed (ShellError (NonZeroExit 3 ''no adapter'')))"
    by (simp add: answering_def)
  with d t show ?thesis by blast
qed

section \<open>Refinement\<close>

text \<open>
  C31: The registry is the map its users see: after any registrations in any order, looking a
  name up finds the handler registered last under it; the length counts the names; and the
  listing has each of them once, in order.
\<close>

theorem registry_refines_map:
  "map_of (foldl register registry_new hs) name = map_of (rev (map (\<lambda>h. (h_name h, h)) hs)) name
   \<and> registry_len (foldl register registry_new hs) = card (h_name ` set hs)
   \<and> sorted (map fst (commands (foldl register registry_new hs)))
   \<and> distinct (map fst (commands (foldl register registry_new hs)))
   \<and> set (map fst (commands (foldl register registry_new hs))) = h_name ` set hs"
proof -
  let ?reg = "foldl register registry_new hs"
  have keyed: "well_keyed ?reg" by (rule well_keyed_foldl) simp
  have lookup: "map_of ?reg n = map_of (rev (map (\<lambda>h. (h_name h, h)) hs)) n" for n
    by (induction hs rule: rev_induct) (simp_all add: lookup_register registry_new_def)
  have dom: "fst ` set ?reg = h_name ` set hs"
  proof -
    have "fst ` set ?reg = dom (map_of ?reg)" by (simp add: dom_map_of_conv_image_fst)
    also have "\<dots> = dom (map_of (rev (map (\<lambda>h. (h_name h, h)) hs)))"
      using lookup by (auto simp: dom_def)
    finally show ?thesis by (simp add: dom_map_of_conv_image_fst image_image)
  qed
  have names: "map fst (map (\<lambda>(k, h). (h_name h, h_capability h)) ?reg) = map fst ?reg"
    using keyed by (auto simp: well_keyed_def)
  have "mset (map fst (commands ?reg))
      = mset (map fst (map (\<lambda>(k, h). (h_name h, h_capability h)) ?reg))"
    using commands_perm [of ?reg] by (simp only: mset_map)
  then have m: "mset (map fst (commands ?reg)) = mset (map fst ?reg)"
    unfolding names .
  have keys: "distinct (map fst ?reg)" using keyed by (simp add: well_keyed_def)
  have "distinct (map fst (commands ?reg))"
    using mset_eq_imp_distinct_iff [OF m] keys by simp
  moreover have "set (map fst (commands ?reg)) = h_name ` set hs"
    using mset_eq_setD [OF m] dom by simp
  moreover have "registry_len ?reg = card (h_name ` set hs)"
    using distinct_card [OF keys] dom by (simp add: registry_len_def)
  ultimately show ?thesis using lookup commands_sorted by blast
qed

text \<open>
  C32: The connection loop implements a reliable queue: it starts empty, and whatever the
  network, the workers and the clock do, each step of the loop leaves the queue of sendable
  frames alone, puts a frame a worker sent at its end, or moves its first frame to what was
  delivered; the last only when a socket took the frame.
\<close>

theorem agent_refines_queue:
  assumes "reach cf a" and "agent_step cf e a = Some a'"
  shows "queue_of cf agent_init = \<lparr>waiting = [], delivered = []\<rparr>
    \<and> (\<exists>act. fifo_step (queue_of cf a) act (queue_of cf a')
        \<and> (\<forall>f. act = Enq f \<longrightarrow> (\<exists>i. e = Emit i))
        \<and> (act = Deq \<longrightarrow> e \<in> {ConnectOk True, RecvFrame True}))"
  using queue_step [OF assms] by (simp add: queue_of_def agent_init_def in_flight_def)

theorem agent_refines_queue_witness:
  "fifo_step (queue_of sample_conf sample_parked) Deq (queue_of sample_conf sample_done)"
proof -
  from agent_refines_queue [OF sample_reach sample_done_step] obtain act
    where act: "fifo_step (queue_of sample_conf sample_parked) act (queue_of sample_conf sample_done)"
      and enq: "\<forall>f. act \<noteq> Enq f" by auto
  have "queue_of sample_conf sample_parked \<noteq> queue_of sample_conf sample_done"
    by (simp add: queue_of_def sample_done_def sample_parked_def)
  with act enq show ?thesis by (cases act) (auto simp: fifo_step_simps)
qed





section \<open>The service\<close>

text \<open>
  C34: One agent per machine: however many processes are started, end and fail, at most one
  of them is in the loop at any time, it holds the lock, and its loop is in one of the
  states of a single agent.
\<close>

theorem single_instance:
  assumes "lock_laws windows ops holder handles" and "holder m0 = None"
    and "host_reach windows ops urls rt configs
      (\<lambda>i. loop_conf windows env os urls icr hok ser dec (configs i)) m0 st"
    and "procs st i = Serving h a" and "procs st j = Serving k b"
  shows "i = j \<and> h = k \<and> holder (machine st) = Some h
    \<and> reach (loop_conf windows env os urls icr hok ser dec (configs i)) a"
proof -
  have ok: "host_ok holder handles
      (\<lambda>i. loop_conf windows env os urls icr hok ser dec (configs i)) st"
    by (rule host_reach_ok [OF assms(1-3)])
  with assms(4,5) have "i = j" unfolding host_ok_def by blast
  moreover from ok assms(4) have "holder (machine st) = Some h
      \<and> reach (loop_conf windows env os urls icr hok ser dec (configs i)) a"
    unfolding host_ok_def by blast
  ultimately show ?thesis using assms(4,5) by simp
qed

text \<open>A machine with one lock file: who holds it and the open handles.\<close>

definition sample_lock :: "(nat, nat option \<times> nat list) lock_ops" where
  "sample_lock = \<lparr>
     lk_create_dir_all = (\<lambda>d m. (Inr (), m)),
     lk_open = (\<lambda>p (k, hs). (Inr (Suc (sum_list hs)), (k, Suc (sum_list hs) # hs))),
     lk_open_exclusive = (\<lambda>p (k, hs). case k of
        None \<Rightarrow> (Inr (Suc (sum_list hs)), (Some (Suc (sum_list hs)), Suc (sum_list hs) # hs))
      | Some _ \<Rightarrow> (Inl ''in use'', (k, hs))),
     lk_flock = (\<lambda>h (k, hs). if k = None \<or> k = Some h then (0, (Some h, hs)) else (- 1, (k, hs))),
     lk_drop = (\<lambda>h (k, hs). (if k = Some h then None else k, removeAll h hs))\<rparr>"

lemma sample_lock_laws: "lock_laws windows sample_lock fst (set \<circ> snd)"
proof -
  have "Suc (sum_list hs) \<notin> set hs" for hs :: "nat list"
    using member_le_sum_list [of "Suc (sum_list hs)" hs] by auto
  then show ?thesis
    by (auto simp: lock_laws_def sample_lock_def split: option.splits)
qed

definition sample_https :: ExecutorConfig where
  "sample_https = sample_config\<lparr>backend := \<lparr>url = Some ''https://host''\<rparr>\<rparr>"

lemma sample_start:
  "run_loop_start False sample_lock sample_urls (Inr ()) sample_https (None, [])
     = (Inr (1, agent_init), (Some 1, [1]))"
  by (simp add: run_loop_start_def acquire_instance_lock_def sample_lock_def run_forever_start_def
      connect_url_def sample_urls_def sample_https_def sample_config_def Let_def)

definition sample_host :: "(nat, nat option \<times> nat list) host" where
  "sample_host = \<lparr>machine = (Some 1, [1]), procs = (\<lambda>_. Off)(7 := Serving 1 agent_init)\<rparr>"

theorem single_instance_witness:
  "procs sample_host 7 = Serving 1 agent_init \<and> fst (machine sample_host) = Some 1"
proof -
  let ?cfs = "\<lambda>i. loop_conf False sample_env sample_os sample_urls (\<lambda>_. None) (\<lambda>_. True)
    (\<lambda>_. None) (\<lambda>_. None) ((\<lambda>_. sample_https) i)"
  have step: "host_step False sample_lock sample_urls (\<lambda>_. Inr ()) (\<lambda>_. sample_https) ?cfs
      (ProcStart 7) \<lparr>machine = (None, []), procs = (\<lambda>_. Off)\<rparr> = Some sample_host"
    by (simp add: sample_start sample_host_def)
  have r: "host_reach False sample_lock sample_urls (\<lambda>_. Inr ()) (\<lambda>_. sample_https) ?cfs (None, []) sample_host"
    by (rule host_next [OF host_init step])
  have s: "procs sample_host 7 = Serving 1 agent_init" by (simp add: sample_host_def)
  from single_instance [where configs = "\<lambda>_. sample_https", OF sample_lock_laws _ r s s] s
  show ?thesis by simp
qed

text \<open>
  C35: A start that fails leaves no lock behind, and while the lock is held every start
  fails; a start that succeeds holds the lock and has a target to connect to.
\<close>

theorem failed_start_keeps_lock:
  assumes "lock_laws windows ops holder handles"
    and "\<forall>h. holder m = Some h \<longrightarrow> h \<in> handles m"
    and "run_loop_start windows ops urls runtime config m = (r, m')"
  shows "(case r of
      Inl e \<Rightarrow> holder m' = holder m \<and> handles m' = handles m
    | Inr (h, a) \<Rightarrow> holder m' = Some h \<and> a = agent_init \<and> (\<exists>u. connect_url urls config = Inr u))
    \<and> (holder m \<noteq> None \<longrightarrow> (\<exists>e. r = Inl e))"
proof (cases r)
  case (Inl e)
  with run_loop_start_spec [OF assms] show ?thesis by simp
next
  case (Inr ha)
  obtain h a where ha: "ha = (h, a)" by (cases ha)
  have "\<exists>u. connect_url urls config = Inr u"
    using assms(3) Inr
    by (auto simp: run_loop_start_def run_forever_start_def split: prod.splits sum.splits)
  with run_loop_start_spec [OF assms] Inr ha show ?thesis by auto
qed

theorem failed_start_keeps_lock_witness:
  "\<exists>e m'. run_loop_start False sample_lock sample_urls (Inr ()) sample_https (Some 4, [4]) = (Inl e, m')
     \<and> fst m' = Some 4 \<and> set (snd m') = {4}"
proof -
  obtain r m' where r: "run_loop_start False sample_lock sample_urls (Inr ()) sample_https (Some 4, [4])
      = (r, m')" by (metis surj_pair)
  have "\<forall>h. fst (Some 4, [4 :: nat]) = Some h \<longrightarrow> h \<in> (set \<circ> snd) (Some 4, [4])" by simp
  from failed_start_keeps_lock [OF sample_lock_laws this r] r show ?thesis by auto
qed

text \<open>
  C37: A waiting service obeys a stop or shutdown request: the request is accepted, the main
  function takes the signal and returns without an error, and the service manager has been
  told running and then stopped, nothing else, each once.
\<close>

theorem service_stops_on_request:
  assumes "run_svc es (run_service_start registered told config) = Some v"
    and "svc_result v = None" and "c \<in> {Stop, Shutdown}"
  shows "fst (control_handler c) = NoError
    \<and> (\<exists>v2. run_svc [Control c, TakeSignal (Inr ())] v = Some v2 \<and> svc_result v2 = Some (Inr ())
        \<and> svc_statuses v2 = [status_running, status_stopped])"
proof -
  from run_svc_waiting [OF assms(1,2)] have "svc_statuses v = [status_running]"
    by (simp add: run_service_start_waiting)
  moreover have "control_handler c = (NoError, True)" using assms(3) by auto
  ultimately show ?thesis using assms(2) by simp
qed

theorem service_stops_on_request_witness:
  "\<exists>v2. run_svc [Control Stop, TakeSignal (Inr ())]
       (run_service_start (Inr ()) (Inr ()) (Inr sample_config)) = Some v2
     \<and> svc_statuses v2 = [status_running, status_stopped]"
  using service_stops_on_request
    [of "[]" "Inr ()" "Inr ()" "Inr sample_config"
      "run_service_start (Inr ()) (Inr ()) (Inr sample_config)" Stop]
  by (simp add: run_service_start_def)

text \<open>
  C38: Until it is asked to stop, a service that has once reported running is never reported
  as anything else: not when its configuration does not load and the main function returns
  with an error, and not when the thread of the loop has ended.
\<close>

theorem service_stays_running:
  assumes "run_svc es (run_service_start (Inr ()) (Inr ()) config) = Some v"
    and "\<not> list_ex stop_request es"
  shows "svc_statuses v = [status_running]
    \<and> svc_result v = (case config of Inl ce \<Rightarrow> Some (Inl (ServiceConfigFailed ce)) | Inr c \<Rightarrow> None)"
proof -
  have "svc_signals (run_service_start (Inr ()) (Inr ()) config) = 0"
    by (simp add: run_service_start_def split: sum.splits)
  from run_svc_unasked [OF assms this] show ?thesis
    by (simp add: run_service_start_def split: sum.splits)
qed

theorem service_stays_running_witness:
  "\<exists>v. run_svc [LoopExits, Control Interrogate]
       (run_service_start (Inr ()) (Inr ()) (Inr sample_config)) = Some v
     \<and> svc_loop v = LoopExited \<and> svc_statuses v = [status_running]"
proof -
  have "\<exists>v. run_svc [LoopExits, Control Interrogate]
       (run_service_start (Inr ()) (Inr ()) (Inr sample_config)) = Some v \<and> svc_loop v = LoopExited"
    by (simp add: run_service_start_def)
  then obtain v where v: "run_svc [LoopExits, Control Interrogate]
       (run_service_start (Inr ()) (Inr ()) (Inr sample_config)) = Some v" "svc_loop v = LoopExited"
    by blast
  from service_stays_running [OF v(1)] v show ?thesis by (simp add: stop_request_def)
qed

section \<open>What the validators let through\<close>

text \<open>
  C39: The argument \<^verbatim>\<open>ca.configure_cdp_aia\<close> hands over does not determine its entries: two
  accepted entries joined by the literal backslash and \<^verbatim>\<open>n\<close> are, as long as they are short
  enough, one accepted entry.
\<close>

theorem joined_entries_ambiguous:
  assumes v1: "valid_publication_entry e1" and v2: "valid_publication_entry e2"
    and len: "length e1 + 2 + length e2 \<le> 300"
  shows "valid_publication_entry (join (backslash @ ''n'') [e1, e2])"
proof -
  let ?bad = "set (''\"'' @ squote @ ''`;$'' @ newline @ carriage_return)"
  let ?e = "e1 @ backslash @ ''n'' @ e2"
  obtain f1 l1 where s1: "split_once (CHR '':'') e1 = Some (f1, l1)"
    using publication_entry_splits [OF v1] .
  obtain f2 l2 where s2: "split_once (CHR '':'') e2 = Some (f2, l2)"
    using publication_entry_splits [OF v2] .
  have e2: "e2 = f2 @ CHR '':'' # l2" using s2 by (simp add: split_once_Some)
  have s: "split_once (CHR '':'') ?e = Some (f1, l1 @ backslash @ ''n'' @ e2)"
    using s1 by (simp add: split_once_Some)
  note p1 = v1 [unfolded publication_entry_parts [OF s1]]
  note p2 = v2 [unfolded publication_entry_parts [OF s2]]
  have "is_ascii_digit c \<Longrightarrow> c \<notin> ?bad" for c by (auto simp: char_class_defs)
  then have f2: "\<forall>c \<in> set f2. c \<notin> ?bad" using p2 unfolding list_all_iff by blast
  have sep: "\<forall>c \<in> set (backslash @ ''n''). c \<notin> ?bad" "CHR '':'' \<notin> ?bad" by simp_all
  have clean: "\<forall>c \<in> set (l1 @ backslash @ ''n'' @ e2). c \<notin> ?bad"
  proof
    fix c assume "c \<in> set (l1 @ backslash @ ''n'' @ e2)"
    then have "c \<in> set l1 \<or> c \<in> set (backslash @ ''n'') \<or> c \<in> set f2 \<or> c = CHR '':'' \<or> c \<in> set l2"
      unfolding e2 by auto
    then show "c \<notin> ?bad" using p1 p2 f2 sep by blast
  qed
  have "length l1 \<le> length e1" using s1 by (auto simp: split_once_Some)
  then have "length (l1 @ backslash @ ''n'' @ e2) \<le> 300" using len by simp
  moreover have "anchored_location (l1 @ backslash @ ''n'' @ e2)"
    using p1 by (intro anchored_append) blast
  ultimately have "valid_publication_entry ?e"
    unfolding publication_entry_parts [OF s] using p1 clean by blast
  then show ?thesis by simp
qed

theorem joined_entries_ambiguous_witness:
  "valid_publication_entry (join (backslash @ ''n'') [''1:http://a/b.crl'', ''2:http://c/d.crl''])"
proof -
  have e: "valid_publication_entry ''1:http://a/b.crl''" "valid_publication_entry ''2:http://c/d.crl''"
    by (simp_all add: valid_publication_entry_def parse_uint_def digits_val_def char_class_defs
        starts_with_def anchored_location_def)
  show ?thesis by (rule joined_entries_ambiguous [OF e]) simp
qed

text \<open>
  C40: Three values that a validator accepts and a script gets although the code means to
  refuse them: a certificate path that resolves to a file outside the product directory, an
  empty certificate path, and a host name that begins with a dash.
\<close>

definition escape_path :: string where
  "escape_path = INSTALL_DIR @ ''/../../etc/shadow''"

definition escape_params :: "string \<rightharpoonup> string" where
  "escape_params = [''frontendHost'' \<mapsto> ''a'', ''backendHost'' \<mapsto> ''b'', ''keycloakHost'' \<mapsto> ''c'',
     ''keycloakRealm'' \<mapsto> ''r'', ''certPath'' \<mapsto> escape_path, ''keyPath'' \<mapsto> escape_path]"

lemma escape_path_accepted: "\<not> bad_product_path escape_path"
  by (simp add: escape_path_def bad_product_path_def INSTALL_DIR_def valid_posix_path_def
      char_class_defs starts_with_def)

theorem unsafe_values_accepted:
  "(\<exists>r t s' sc args. CertSecureInstall_execute (sample_ctx escape_params) MockPowerShell_new = (r, t, s')
      \<and> shell_runs t = [(sc, args)] \<and> escape_path \<in> set args
      \<and> resolve (CHR ''/'') escape_path = [''etc'', ''shadow''])
   \<and> (\<exists>r t s'. CertVerify_execute from_str (sample_ctx [''path'' \<mapsto> '''']) MockPowerShell_new = (r, t, s')
      \<and> shell_runs t = [(script_CertVerify, ['''', '''', '''', ML_DSA_87_OID])])
   \<and> (\<exists>v t s'. HostnameRename_execute (sample_ctx [''name'' \<mapsto> ''-Restart'']) MockPowerShell_new
        = (Inr v, t, s')
      \<and> shell_runs t = [(script_HostnameRename, [''-Restart''])])"
proof (intro conjI)
  have "valid_dns_name ''a''" "valid_dns_name ''b''" "valid_dns_name ''c''" "realm_ok ''r''"
    by code_simp+
  moreover have "resolve (CHR ''/'') escape_path = [''etc'', ''shadow'']"
    by (simp add: escape_path_def INSTALL_DIR_def resolve_def)
  ultimately show "\<exists>r t s' sc args. CertSecureInstall_execute (sample_ctx escape_params) MockPowerShell_new = (r, t, s')
      \<and> shell_runs t = [(sc, args)] \<and> escape_path \<in> set args
      \<and> resolve (CHR ''/'') escape_path = [''etc'', ''shadow'']"
    using escape_path_accepted
    by (simp add: CertSecureInstall_execute_def escape_params_def sample_run_simps finish_def
        reject_each_def)
next
  have "valid_oid ML_DSA_87_OID" by code_simp
  then show "\<exists>r t s'. CertVerify_execute from_str (sample_ctx [''path'' \<mapsto> '''']) MockPowerShell_new = (r, t, s')
      \<and> shell_runs t = [(script_CertVerify, ['''', '''', '''', ML_DSA_87_OID])]"
    by (simp add: CertVerify_execute_def sample_run_simps reject_each_def)
next
  show "\<exists>v t s'. HostnameRename_execute (sample_ctx [''name'' \<mapsto> ''-Restart'']) MockPowerShell_new
        = (Inr v, t, s')
      \<and> shell_runs t = [(script_HostnameRename, [''-Restart''])]"
    by (simp add: HostnameRename_execute_def sample_run_simps finish_def char_class_defs)
qed

end
